(* ===== verification/Prelude.thy ===== *)
theory Prelude
  imports Main "HOL-Library.Char_ord" "HOL-Library.List_Lexorder"
begin

text \<open>
  Shared vocabulary of the development.

  \<^item> \<open>err\<close> is Go's \<open>error\<close>: \<open>Err fmt args\<close> is \<open>fmt.Errorf(fmt, args...)\<close> (or
    \<open>errors.New\<close>), \<open>Wrap fmt args e\<close> is a format with \<open>%w\<close>; the format text is kept
    verbatim, the rendering of \<open>%q\<close> and \<open>%d\<close> is not modelled. A Go function returning
    \<open>(T, error)\<close> has result type \<open>err + T\<close>.
  \<^item> Go strings are byte strings, so they are HOL's \<open>string\<close> (a list of 8-bit characters).
  \<^item> \<open>time.Time\<close> is the signed number of nanoseconds since the Unix epoch (instants only:
    zones and monotonic readings are not modelled); \<open>zero_time\<close> is Go's zero value.
  \<^item> Helpers from the packages \<open>strings\<close> and \<open>path/filepath\<close> that the code uses.
\<close>

named_theorems go_simps \<open>unfolding rules of the modelled library functions\<close>

subsection \<open>Errors\<close>

datatype err = Err string "string list" | Wrap string "string list" err

text \<open>\<open>errors.Is\<close>: the chain of wrapped errors is searched for the target.\<close>

fun errors_is :: "err \<Rightarrow> err \<Rightarrow> bool" where
  "errors_is (Err f as) t = (Err f as = t)"
| "errors_is (Wrap f as e) t = (Wrap f as e = t \<or> errors_is e t)"

definition ctx_canceled :: err where
  "ctx_canceled = Err ''context canceled'' []"

lemma errors_is_refl [simp]: "errors_is e e"
  by (cases e) simp_all

lemma errors_is_Wrap [simp]: "errors_is e t \<Longrightarrow> errors_is (Wrap f as e) t"
  by simp

subsection \<open>Time\<close>

type_synonym time = int

definition zero_time :: time where
  "zero_time = - 62135596800 * 1000000000"

definition time_is_zero :: "time \<Rightarrow> bool" where
  "time_is_zero t = (t = zero_time)"

text \<open>\<open>time.Unix(int64(sec), 0)\<close>\<close>

definition time_unix :: "int \<Rightarrow> time" where
  "time_unix sec = sec * 1000000000"

lemma time_is_zero_zero [simp]: "time_is_zero zero_time"
  by (simp add: time_is_zero_def)

lemma time_unix_nonzero [simp]: "0 \<le> sec \<Longrightarrow> \<not> time_is_zero (time_unix sec)"
  by (simp add: time_unix_def time_is_zero_def zero_time_def)

lemma time_unix_mono: "a \<le> b \<Longrightarrow> time_unix a \<le> time_unix b"
  by (simp add: time_unix_def)

subsection \<open>Strings\<close>

fun has_prefix :: "string \<Rightarrow> string \<Rightarrow> bool" where
  "has_prefix s [] = True"
| "has_prefix [] (p # ps) = False"
| "has_prefix (c # s) (p # ps) = (c = p \<and> has_prefix s ps)"

definition has_suffix :: "string \<Rightarrow> string \<Rightarrow> bool" where
  "has_suffix s suf = has_prefix (rev s) (rev suf)"

definition trim_suffix :: "string \<Rightarrow> string \<Rightarrow> string" where
  "trim_suffix s suf = (if has_suffix s suf then take (length s - length suf) s else s)"

text \<open>\<open>strings.Contains\<close>\<close>

fun str_contains :: "string \<Rightarrow> string \<Rightarrow> bool" where
  "str_contains [] p = (p = [])"
| "str_contains (c # s) p = (has_prefix (c # s) p \<or> str_contains s p)"

text \<open>\<open>strings.Join\<close>\<close>

fun str_join :: "string list \<Rightarrow> string \<Rightarrow> string" where
  "str_join [] sep = []"
| "str_join [x] sep = x"
| "str_join (x # y # ys) sep = x @ sep @ str_join (y # ys) sep"

text \<open>\<open>strings.LastIndex(s, c)\<close> for a one-byte separator; \<open>None\<close> is Go's \<open>-1\<close>.\<close>

fun last_index :: "string \<Rightarrow> char \<Rightarrow> nat option" where
  "last_index [] c = None"
| "last_index (x # xs) c =
     (case last_index xs c of
        Some i \<Rightarrow> Some (Suc i)
      | None \<Rightarrow> if x = c then Some 0 else None)"

text \<open>\<open>strings.ReplaceAll(s, c, r)\<close> for a one-byte pattern.\<close>

fun replace_char :: "char \<Rightarrow> string \<Rightarrow> string \<Rightarrow> string" where
  "replace_char c r [] = []"
| "replace_char c r (x # xs) = (if x = c then r @ replace_char c r xs else x # replace_char c r xs)"

definition is_digit :: "char \<Rightarrow> bool" where
  "is_digit c = (CHR ''0'' \<le> c \<and> c \<le> CHR ''9'')"

text \<open>Decimal rendering (\<open>%d\<close>) of naturals and integers.\<close>

definition digit_char :: "nat \<Rightarrow> char" where
  "digit_char d = ''0123456789abcdef'' ! d"

fun show_nat :: "nat \<Rightarrow> string" where
  "show_nat n = (if n < 10 then [digit_char n] else show_nat (n div 10) @ [digit_char (n mod 10)])"

declare show_nat.simps [simp del]

definition show_int :: "int \<Rightarrow> string" where
  "show_int i = (if i < 0 then CHR ''-'' # show_nat (nat (- i)) else show_nat (nat i))"

text \<open>\<open>filepath.Join(dir, name)\<close> for a clean directory and a plain file name.\<close>

definition path_join :: "string \<Rightarrow> string \<Rightarrow> string" where
  "path_join dir name = dir @ ''/'' @ name"

text \<open>
  The separators of a path are \<open>/\<close>; \<open>filepath.Base\<close> of a name is its last element
  after trailing separators are removed, \<open>.\<close> for the empty path and \<open>/\<close> for a path
  of separators only.
\<close>

fun strip_slashes :: "string \<Rightarrow> string" where
  "strip_slashes [] = []"
| "strip_slashes (c # s) = (if c = CHR ''/'' then strip_slashes s else c # s)"

definition path_base :: "string \<Rightarrow> string" where
  "path_base p =
     (if p = [] then ''.''
      else let q = rev (strip_slashes (rev p))
           in if q = [] then ''/''
              else (case last_index q CHR ''/'' of None \<Rightarrow> q | Some i \<Rightarrow> drop (Suc i) q))"

lemma has_prefix_append [simp]: "has_prefix (p @ s) p"
  by (induction p) auto

lemma has_prefix_iff: "has_prefix s p \<longleftrightarrow> (\<exists>t. s = p @ t)"
  by (induction s p rule: has_prefix.induct) auto

lemma has_suffix_iff: "has_suffix s p \<longleftrightarrow> (\<exists>t. s = t @ p)"
proof
  assume "has_suffix s p"
  then obtain t where "rev s = rev p @ t" by (auto simp: has_suffix_def has_prefix_iff)
  then have "s = rev t @ p" by (metis rev_append rev_rev_ident)
  then show "\<exists>t. s = t @ p" by blast
qed (auto simp: has_suffix_def)

lemma has_suffix_append [simp]: "has_suffix (s @ p) p"
  by (auto simp: has_suffix_iff)

lemma trim_suffix_append [simp]: "trim_suffix (s @ p) p = s"
  by (simp add: trim_suffix_def)

lemma last_index_None: "last_index s c = None \<longleftrightarrow> c \<notin> set s"
  by (induction s) (auto split: option.splits)

lemma last_index_Some_less: "last_index s c = Some i \<Longrightarrow> i < length s \<and> s ! i = c \<and> c \<notin> set (drop (Suc i) s)"
proof (induction s arbitrary: i)
  case (Cons x xs)
  show ?case
  proof (cases "last_index xs c")
    case None
    with Cons.prems show ?thesis by (auto simp: last_index_None split: if_splits)
  next
    case (Some j)
    with Cons.prems Cons.IH[OF Some] show ?thesis by auto
  qed
qed simp

lemma replace_char_append [simp]: "replace_char c r (xs @ ys) = replace_char c r xs @ replace_char c r ys"
  by (induction xs) auto

lemma replace_char_id [simp]: "c \<notin> set s \<Longrightarrow> replace_char c r s = s"
  by (induction s) auto

subsection \<open>Generic facts\<close>

lemma list_all_filter_id: "(\<And>x. x \<in> set xs \<Longrightarrow> P x) \<Longrightarrow> filter P xs = xs"
  by (simp add: filter_id_conv)

lemma map_of_update_same: "(m(k \<mapsto> v)) k = Some v"
  by simp

lemma distinct_map_fst_filter: "distinct (map f xs) \<Longrightarrow> distinct (map f (filter P xs))"
  by (induction xs) auto

text \<open>First-occurrence index (Go's hand-written \<open>indexOf\<close> loops); \<open>None\<close> is \<open>-1\<close>.\<close>

fun index_of :: "'a list \<Rightarrow> 'a \<Rightarrow> nat option" where
  "index_of [] t = None"
| "index_of (n # ns) t = (if n = t then Some 0 else map_option Suc (index_of ns t))"

lemma index_of_None: "index_of xs t = None \<longleftrightarrow> t \<notin> set xs"
  by (induction xs) auto

lemma index_of_Some: "index_of xs t = Some i \<Longrightarrow> i < length xs \<and> xs ! i = t"
  by (induction xs arbitrary: i) (auto split: if_splits)

lemma index_of_in: "t \<in> set xs \<Longrightarrow> \<exists>i. index_of xs t = Some i"
  by (metis index_of_None not_None_eq)

lemma find_append: "List.find Q (xs @ ys) = (case List.find Q xs of None \<Rightarrow> List.find Q ys | Some x \<Rightarrow> Some x)"
  by (induction xs) auto

text \<open>The first element with a given key (a row of a table, an entry of a registry).\<close>

definition find_key :: "('r \<Rightarrow> 'k) \<Rightarrow> 'k \<Rightarrow> 'r list \<Rightarrow> 'r option" where
  "find_key key k t = List.find (\<lambda>r. key r = k) t"

lemma find_key_simps [simp]:
  "find_key key k [] = None" "find_key key k (r # t) = (if key r = k then Some r else find_key key k t)"
  by (simp_all add: find_key_def)

lemma find_key_append [simp]:
  "find_key key k (xs @ ys) = (case find_key key k xs of None \<Rightarrow> find_key key k ys | Some x \<Rightarrow> Some x)"
  unfolding find_key_def by (rule find_append)

lemma find_key_None: "find_key key k t = None \<longleftrightarrow> k \<notin> key ` set t"
  by (induction t) auto

lemma find_key_Some: "find_key key k t = Some r \<Longrightarrow> key r = k \<and> r \<in> set t"
  by (induction t) (auto split: if_splits)

lemma find_key_delete: "find_key key k (filter (\<lambda>r. key r \<noteq> j) t) = (if k = j then None else find_key key k t)"
  by (induction t) auto

lemma find_key_delete_other:
  "(\<forall>r\<in>set t. key r = k \<longrightarrow> P r) \<Longrightarrow> find_key key k (filter P t) = find_key key k t"
  by (induction t) auto

lemma find_key_map: "(\<And>r. key (g r) = key r) \<Longrightarrow> find_key key k (map g t) = map_option g (find_key key k t)"
  by (induction t) auto

end
