(* ===== verification/Binlog_Types.thy ===== *)
theory Binlog_Types
  imports Prelude
begin

text \<open>
  Data of \<open>internal/binlog\<close> (\<open>transaction.go\<close>, \<open>gtid.go\<close>, \<open>schema_fetcher.go\<close>) and
  the construction of transactions and of their identifiers.

  The values of a row image (Go's \<open>interface{}\<close>) are \<open>gval\<close>. A float is represented by
  the text \<open>strconv.FormatFloat(x, 'f', -1, w)\<close> gives it, a \<open>decimal.Decimal\<close> (third party)
  by its \<open>String()\<close>, any other dynamic type by its \<open>%v\<close> text.

  GTID sets belong to the go-mysql library: a set is represented by its flavour and canonical
  text, and the library's parser and inclusion test are the record \<open>gtid_lib\<close>, an argument
  of every definition that uses them.
\<close>

subsection \<open>Row images and transactions\<close>

datatype gval =
    VNil
  | VInt int
  | VFloat string
  | VDecimal string
  | VTime time
  | VBytes string
  | VString string
  | VBool bool
  | VOther string

datatype RowAction = ActionInsert | ActionUpdate | ActionDelete | ActionUnknown int

record TableRef =
  tr_Schema :: string
  tr_Table :: string

record TimeRange =
  tr_Start :: time
  tr_End :: time

record RowChange =
  rc_Schema :: string
  rc_Table :: string
  rc_Action :: RowAction
  rc_Before :: "gval list"
  rc_After :: "gval list"
  rc_ColumnNames :: "string list"

record Transaction =
  tx_TxID :: string
  tx_GTID :: string
  tx_XID :: nat
  tx_CommitTime :: time
  tx_Schema :: string
  tx_Statements :: "RowChange list"
  tx_Truncated :: bool

record Position =
  pos_Name :: string
  pos_Pos :: nat

datatype gtid_set = MysqlSet string | MariadbSet string

record Filter =
  f_BinlogDir :: string
  f_Tables :: "TableRef list"
  f_TimeRange :: "TimeRange option"
  f_GTIDSet :: "gtid_set option"
  f_StartPos :: Position
  f_EndPos :: Position
  f_MaxRowsPerTx :: int
  f_SelectedTxIDs :: "string list"

definition zero_pos :: Position where
  "zero_pos = \<lparr>pos_Name = [], pos_Pos = 0\<rparr>"

subsection \<open>Schemas\<close>

record ColumnDef =
  col_Name :: string
  col_Type :: string
  col_Nullable :: bool
  col_IsAutoInc :: bool

record TableSchema =
  ts_Schema :: string
  ts_Table :: string
  ts_Columns :: "ColumnDef list"
  ts_PrimaryKey :: "string list"

text \<open>\<open>StaticSchemaFetcher\<close>: a map keyed by \<open>schema.table\<close>.\<close>

definition schema_key :: "string \<Rightarrow> string \<Rightarrow> string" where
  "schema_key schema table = schema @ ''.'' @ table"

definition FetchSchema_static :: "(string \<rightharpoonup> TableSchema) \<Rightarrow> string \<Rightarrow> string \<Rightarrow> err + TableSchema" where
  "FetchSchema_static s schema table =
     (case s (schema_key schema table) of
        None \<Rightarrow> Inl (Err ''binlog: schema %q not found in static fetcher'' [schema_key schema table])
      | Some sch \<Rightarrow> Inr sch)"

subsection \<open>Transactions\<close>

text \<open>
  \<open>NewTransaction\<close>. The identifier is the GTID, else \<open>xid-<n>\<close>, else a random one; \<open>rnd\<close> is
  what \<open>randomID(8)\<close> returns (sixteen hexadecimal digits of \<open>crypto/rand\<close> bytes).
\<close>

definition NewTransaction :: "string \<Rightarrow> string \<Rightarrow> nat \<Rightarrow> time \<Rightarrow> string \<Rightarrow> err + Transaction" where
  "NewTransaction rnd gtid xid commitTime schema =
     (if time_is_zero commitTime then Inl (Err ''binlog: commit time must be non-zero'' [])
      else Inr \<lparr>tx_TxID = (if gtid \<noteq> [] then gtid
                          else if xid \<noteq> 0 then ''xid-'' @ show_nat xid
                          else ''tx-'' @ rnd),
                tx_GTID = gtid, tx_XID = xid, tx_CommitTime = commitTime,
                tx_Schema = schema, tx_Statements = [], tx_Truncated = False\<rparr>)"

definition AppendRow :: "Transaction \<Rightarrow> RowChange \<Rightarrow> Transaction" where
  "AppendRow t rc = t\<lparr>tx_Statements := tx_Statements t @ [rc]\<rparr>"

definition MarkTruncated :: "Transaction \<Rightarrow> Transaction" where
  "MarkTruncated t = t\<lparr>tx_Truncated := True\<rparr>"

definition RowCount :: "Transaction \<Rightarrow> nat" where
  "RowCount t = length (tx_Statements t)"

subsection \<open>Identifiers of anonymous transactions\<close>

definition maxSigRows :: nat where
  "maxSigRows = 256"

text \<open>\<open>appendImagePrefix\<close>; \<open>fmtv\<close> is the \<open>%v\<close> rendering of package \<open>fmt\<close>.\<close>

fun appendImagePrefix :: "(gval \<Rightarrow> string) \<Rightarrow> string \<Rightarrow> gval \<Rightarrow> string" where
  "appendImagePrefix fmtv buf (VBytes x) = buf @ take 64 x"
| "appendImagePrefix fmtv buf (VString x) = buf @ take 64 x"
| "appendImagePrefix fmtv buf v = buf @ fmtv v"

text \<open>\<open>byte(rc.Action)\<close>: the iota value of the action, reduced to a byte.\<close>

fun action_byte :: "RowAction \<Rightarrow> char" where
  "action_byte ActionInsert = CHR 0x00"
| "action_byte ActionUpdate = CHR 0x01"
| "action_byte ActionDelete = CHR 0x02"
| "action_byte (ActionUnknown n) = char_of (nat (n mod 256))"

fun rowSignature_rows :: "(gval \<Rightarrow> string) \<Rightarrow> string \<Rightarrow> RowChange list \<Rightarrow> string" where
  "rowSignature_rows fmtv buf [] = buf"
| "rowSignature_rows fmtv buf (rc # rcs) =
     (let b0 = buf @ rc_Schema rc @ ''.'' @ rc_Table rc @ [action_byte (rc_Action rc)];
          b1 = foldl (appendImagePrefix fmtv) b0 (rc_Before rc);
          b2 = foldl (appendImagePrefix fmtv) b1 (rc_After rc)
      in rowSignature_rows fmtv b2 rcs)"

definition rowSignature :: "(gval \<Rightarrow> string) \<Rightarrow> RowChange list \<Rightarrow> string" where
  "rowSignature fmtv rows = rowSignature_rows fmtv [] (take maxSigRows rows)"

text \<open>\<open>binary.LittleEndian.PutUint64\<close> of \<open>uint64(t.UnixNano())\<close>: two's complement, low byte first.\<close>

fun le_bytes :: "nat \<Rightarrow> nat \<Rightarrow> string" where
  "le_bytes 0 n = []"
| "le_bytes (Suc k) n = char_of (n mod 256) # le_bytes k (n div 256)"

definition le_uint64 :: "int \<Rightarrow> string" where
  "le_uint64 t = le_bytes 8 (nat (t mod 2 ^ 64))"

fun hex_encode :: "string \<Rightarrow> string" where
  "hex_encode [] = []"
| "hex_encode (c # s) =
     (let n = of_char c :: nat in digit_char (n div 16) # digit_char (n mod 16) # hex_encode s)"

text \<open>\<open>anonymousTxID\<close>; \<open>sha\<close> is \<open>sha256.Sum256\<close> (a function of the bytes written).\<close>

definition anonymousTxID ::
  "(string \<Rightarrow> string) \<Rightarrow> (gval \<Rightarrow> string) \<Rightarrow> time \<Rightarrow> RowChange list \<Rightarrow> string" where
  "anonymousTxID sha fmtv commitTs rows =
     ''tx-'' @ hex_encode (sha (le_uint64 commitTs @ rowSignature fmtv rows))"

subsection \<open>GTIDs\<close>

record gtid_lib =
  parse_mysql :: "string \<Rightarrow> string option"
  parse_mariadb :: "string \<Rightarrow> string option"
  set_contain :: "gtid_set \<Rightarrow> gtid_set \<Rightarrow> bool"

text \<open>\<open>mysql.ParseGTIDSet(flavor, s)\<close> of the library, by flavour.\<close>

definition lib_ParseGTIDSet :: "gtid_lib \<Rightarrow> string \<Rightarrow> string \<Rightarrow> gtid_set option" where
  "lib_ParseGTIDSet L flavor s =
     (if flavor = ''mysql'' then map_option MysqlSet (parse_mysql L s)
      else if flavor = ''mariadb'' then map_option MariadbSet (parse_mariadb L s)
      else None)"

fun gtid_text :: "gtid_set \<Rightarrow> string" where
  "gtid_text (MysqlSet s) = s"
| "gtid_text (MariadbSet s) = s"

text \<open>\<open>strings.TrimSpace\<close> (ASCII white space).\<close>

definition is_space :: "char \<Rightarrow> bool" where
  "is_space c = (c = CHR '' '' \<or> (9 \<le> (of_char c :: nat) \<and> (of_char c :: nat) \<le> 13))"

definition trim_space :: "string \<Rightarrow> string" where
  "trim_space s = rev (dropWhile is_space (rev (dropWhile is_space s)))"

definition ParseGTIDSet :: "gtid_lib \<Rightarrow> string \<Rightarrow> string \<Rightarrow> err + gtid_set" where
  "ParseGTIDSet L flavor raw0 =
     (let raw = trim_space raw0 in
      if raw = [] then Inl (Err ''binlog: empty GTID set'' [])
      else if flavor \<noteq> ''mysql'' \<and> flavor \<noteq> ''mariadb''
      then Inl (Err ''binlog: unsupported flavor %q (want mysql or mariadb)'' [flavor])
      else (case lib_ParseGTIDSet L flavor raw of
              None \<Rightarrow> Inl (Err ''binlog: parse GTID set %q: %w'' [raw])
            | Some s \<Rightarrow> Inr s))"

text \<open>\<open>strings.SplitN(s, sep, 2)\<close> for a one-byte separator that occurs: the parts around its first occurrence.\<close>

fun split_first :: "char \<Rightarrow> string \<Rightarrow> (string \<times> string) option" where
  "split_first c [] = None"
| "split_first c (x # xs) =
     (if x = c then Some ([], xs) else map_option (\<lambda>(a, b). (x # a, b)) (split_first c xs))"

definition MatchGTID :: "gtid_lib \<Rightarrow> gtid_set option \<Rightarrow> string \<Rightarrow> bool" where
  "MatchGTID L gset gtid =
     (case gset of
        None \<Rightarrow> False
      | Some g \<Rightarrow>
          (if gtid = [] then False
           else (case split_first (CHR '':'') gtid of
                   None \<Rightarrow> False
                 | Some (sid, seqno) \<Rightarrow>
                     (let singleRange = sid @ '':'' @ seqno @ ''-'' @ seqno;
                          sub = (case g of
                                   MariadbSet _ \<Rightarrow> map_option MariadbSet (parse_mariadb L singleRange)
                                 | MysqlSet _ \<Rightarrow> map_option MysqlSet (parse_mysql L singleRange))
                      in (case sub of None \<Rightarrow> False | Some s \<Rightarrow> set_contain L g s)))))"

subsection \<open>Facts\<close>

lemma NewTransaction_Inr:
  "NewTransaction rnd g x ct sch = Inr t \<Longrightarrow>
     tx_GTID t = g \<and> tx_XID t = x \<and> tx_CommitTime t = ct \<and> tx_Schema t = sch \<and>
     tx_Statements t = [] \<and> \<not> tx_Truncated t \<and> \<not> time_is_zero ct"
  by (auto simp: NewTransaction_def split: if_splits)

lemma NewTransaction_TxID:
  "NewTransaction rnd g x ct sch = Inr t \<Longrightarrow>
     tx_TxID t = (if g \<noteq> [] then g else if x \<noteq> 0 then ''xid-'' @ show_nat x else ''tx-'' @ rnd)"
  by (auto simp: NewTransaction_def split: if_splits)

lemma length_le_bytes [simp]: "length (le_bytes k n) = k"
  by (induction k arbitrary: n) auto

lemma length_hex_encode [simp]: "length (hex_encode s) = 2 * length s"
  by (induction s) (auto simp: Let_def)

end
