(* ===== verification/Binlog_Reader.thy ===== *)
theory Binlog_Reader
  imports Binlog_Types
begin

text \<open>
  \<open>internal/binlog/reader.go\<close>: which files of a directory are binlogs and which of them a
  scan from \<open>startPos\<close> to \<open>endPos\<close> reads, in file-name order. The directory is what
  \<open>os.ReadDir\<close> returns: its entries (name, is a directory), or an error.
\<close>

definition isBinlogFile :: "string \<Rightarrow> bool" where
  "isBinlogFile name =
     (case last_index name (CHR ''.'') of
        None \<Rightarrow> False
      | Some i \<Rightarrow>
          (if i = length name - 1 then False
           else (let suffix = drop (Suc i) name in
                 list_all is_digit suffix \<and> suffix \<noteq> [])))"

definition EnumerateBinlogFiles ::
  "string \<Rightarrow> (err + (string \<times> bool) list) \<Rightarrow> Position \<Rightarrow> Position \<Rightarrow> err + string list" where
  "EnumerateBinlogFiles dir readdir startPos endPos =
     (case readdir of
        Inl e \<Rightarrow> Inl (Wrap ''binlog: read dir %q: %w'' [dir] e)
      | Inr entries \<Rightarrow>
          (let names0 = map fst (filter (\<lambda>(n, isdir). \<not> isdir \<and> isBinlogFile n) entries) in
           if names0 = [] then Inl (Err ''binlog: no binlog files in %q'' [dir])
           else
             (let names = sort names0;
                  startName = pos_Name startPos;
                  endName = pos_Name endPos;
                  lo = (if startName = [] then Some 0 else index_of names startName);
                  hi = (if endName = [] then Some (length names - 1) else index_of names endName)
              in case lo of
                   None \<Rightarrow> Inl (Err ''binlog: start file %q not found'' [startName])
                 | Some l \<Rightarrow>
                     (case hi of
                        None \<Rightarrow> Inl (Err ''binlog: end file %q not found'' [endName])
                      | Some h \<Rightarrow>
                          (if l > h
                           then Inl (Err ''binlog: start file after end (start %q, end %q)'' [startName, endName])
                           else Inr (map (path_join dir) (take (h + 1 - l) (drop l names))))))))"

definition binlog_names :: "(string \<times> bool) list \<Rightarrow> string list" where
  "binlog_names entries = map fst (filter (\<lambda>(n, isdir). \<not> isdir \<and> isBinlogFile n) entries)"

lemma in_binlog_names: "n \<in> set (binlog_names es) \<longleftrightarrow> (n, False) \<in> set es \<and> isBinlogFile n"
  by (force simp: binlog_names_def)

lemma Enumerate_ok_slice:
  assumes "EnumerateBinlogFiles dir (Inr es) sp ep = Inr fs"
  shows "\<exists>l h. l \<le> h \<and> h < length (binlog_names es) \<and>
    fs = map (path_join dir) (take (h + 1 - l) (drop l (sort (binlog_names es)))) \<and>
    (pos_Name sp \<noteq> [] \<longrightarrow> sort (binlog_names es) ! l = pos_Name sp) \<and>
    (pos_Name sp = [] \<longrightarrow> l = 0) \<and>
    (pos_Name ep \<noteq> [] \<longrightarrow> sort (binlog_names es) ! h = pos_Name ep) \<and>
    (pos_Name ep = [] \<longrightarrow> h = length (binlog_names es) - 1)"
  using assms
  by (auto simp: EnumerateBinlogFiles_def binlog_names_def[symmetric] Let_def
      split: if_splits option.splits dest!: index_of_Some) (metis linorder_not_less)+

lemma sorted_slice: "sorted xs \<Longrightarrow> sorted (take n (drop m xs))"
  by simp

lemma slice_bounds:
  fixes xs :: "'a::linorder list"
  assumes s: "sorted xs" and lh: "l \<le> h" "h < length xs" and x: "x \<in> set (take (h + 1 - l) (drop l xs))"
  shows "xs ! l \<le> x \<and> x \<le> xs ! h"
proof -
  from x obtain i where i: "i < h + 1 - l" "l + i < length xs" "x = xs ! (l + i)"
    by (auto simp: in_set_conv_nth)
  have "xs ! l \<le> xs ! (l + i)" by (rule sorted_nth_mono[OF s]) (use i in auto)
  moreover have "xs ! (l + i) \<le> xs ! h" by (rule sorted_nth_mono[OF s]) (use i lh in auto)
  ultimately show ?thesis using i by simp
qed

end
