(* ===== verification/Binlog_Engine.thy ===== *)
theory Binlog_Engine
  imports Binlog_Reader
begin

text \<open>
  \<open>internal/binlog/engine.go\<close> and \<open>source.go\<close>: the scanner that turns binlog events into
  transactions.

  \<^item> Events are go-mysql's \<open>replication.BinlogEvent\<close>: an optional header, a decoded body and
    the raw bytes. The decoder is third party: \<open>OpenFileSource\<close> takes it as the argument
    \<open>dec\<close>, from the bytes at the start offset to what the source then delivers.
  \<^item> What the parse loop observes at each iteration is a \<open>delivery\<close>: the context was cancelled,
    \<open>Next\<close> failed, or \<open>Next\<close> gave an event; the end of the list is \<open>io.EOF\<close>.
  \<^item> \<open>engine\<close> holds the scanner's option and what the code takes from outside (GTID library,
    SHA-256, \<open>%v\<close> rendering, random identifiers, the clock).
  \<^item> The channel \<open>s.txs\<close> is the list \<open>sc_out\<close> of the transactions sent, in order, for a consumer
    that drains it (the drop of transactions after \<open>Close\<close> is not modelled).
\<close>

subsection \<open>Events\<close>

datatype event_type =
    ROTATE_EVENT | FORMAT_DESCRIPTION_EVENT
  | WRITE_ROWS_EVENTv1 | WRITE_ROWS_EVENTv2
  | UPDATE_ROWS_EVENTv1 | UPDATE_ROWS_EVENTv2
  | DELETE_ROWS_EVENTv1 | DELETE_ROWS_EVENTv2
  | OTHER_EVENT nat

datatype event_body =
    FormatDescriptionEvent
  | RotateEvent string
  | TableMapEvent nat string string
  | RowsEvent nat "gval list list"
  | QueryEvent string string
  | XIDEvent nat
  | GTIDEvent string int
  | MariadbGTIDEvent
  | OtherBody

record event_header =
  eh_EventType :: event_type
  eh_Timestamp :: nat
  eh_LogPos :: nat

record binlog_event =
  ev_Header :: "event_header option"
  ev_Body :: event_body
  ev_RawData :: string

datatype delivery = DlvCanceled err | DlvErr err | DlvEvent binlog_event

record engine =
  en_lib :: gtid_lib
  en_sha :: "string \<Rightarrow> string"
  en_fmtv :: "gval \<Rightarrow> string"
  en_rand :: string
  en_now :: "nat \<Rightarrow> time"
  en_maxRowsPerTx :: int

subsection \<open>The scanner's state\<close>

record pendingTx =
  p_schema :: string
  p_rows :: "RowChange list"
  p_xid :: nat
  p_gtid :: string
  p_gtidSet :: "gtid_set option"
  p_commitTs :: time

definition new_pending :: pendingTx where
  "new_pending = \<lparr>p_schema = [], p_rows = [], p_xid = 0, p_gtid = [], p_gtidSet = None,
                   p_commitTs = zero_time\<rparr>"

record scan_state =
  sc_pending :: "pendingTx option"
  sc_tmaps :: "nat \<rightharpoonup> string \<times> string"
  sc_out :: "Transaction list"
  sc_tick :: nat

definition file_state :: "Transaction list \<Rightarrow> nat \<Rightarrow> scan_state" where
  "file_state out tick = \<lparr>sc_pending = None, sc_tmaps = Map.empty, sc_out = out, sc_tick = tick\<rparr>"

subsection \<open>Small helpers\<close>

definition eventTime :: "event_header \<Rightarrow> time" where
  "eventTime h = time_unix (int (eh_Timestamp h))"

definition formatGTID :: "string \<Rightarrow> int \<Rightarrow> string" where
  "formatGTID sid gno =
     (if length sid \<noteq> 16 then []
      else hex_encode (take 4 sid) @ ''-'' @ hex_encode (take 2 (drop 4 sid)) @ ''-'' @
           hex_encode (take 2 (drop 6 sid)) @ ''-'' @ hex_encode (take 2 (drop 8 sid)) @ ''-'' @
           hex_encode (drop 10 sid) @ '':'' @ show_int gno)"

definition isZeroSID :: "string \<Rightarrow> bool" where
  "isZeroSID sid = list_all (\<lambda>b. b = CHR 0x00) sid"

text \<open>\<open>interfaceSlice\<close> copies a row image; lists are values here.\<close>

definition interfaceSlice :: "gval list \<Rightarrow> gval list" where
  "interfaceSlice row = row"

text \<open>Row images of an update event come in (before, after) pairs; a last odd image is not read.\<close>

fun update_pairs :: "gval list list \<Rightarrow> (gval list \<times> gval list) list" where
  "update_pairs (b # a # rest) = (b, a) # update_pairs rest"
| "update_pairs _ = []"

definition rowChangeFromEvent ::
  "nat \<Rightarrow> gval list list \<Rightarrow> event_type \<Rightarrow> (nat \<rightharpoonup> string \<times> string) \<Rightarrow> err + RowChange list" where
  "rowChangeFromEvent tid rows et tmaps =
     (case tmaps tid of
        None \<Rightarrow> Inl (Err ''table map not found for table_id %d'' [show_nat tid])
      | Some (schema, table) \<Rightarrow>
          (let mk = (\<lambda>act b a. \<lparr>rc_Schema = schema, rc_Table = table, rc_Action = act,
                                rc_Before = interfaceSlice b, rc_After = interfaceSlice a,
                                rc_ColumnNames = []\<rparr>)
           in if et = WRITE_ROWS_EVENTv1 \<or> et = WRITE_ROWS_EVENTv2
              then Inr (map (\<lambda>row. mk ActionInsert [] row) rows)
              else if et = UPDATE_ROWS_EVENTv1 \<or> et = UPDATE_ROWS_EVENTv2
              then Inr (map (\<lambda>(b, a). mk ActionUpdate b a) (update_pairs rows))
              else if et = DELETE_ROWS_EVENTv1 \<or> et = DELETE_ROWS_EVENTv2
              then Inr (map (\<lambda>row. mk ActionDelete row []) rows)
              else Inl (Err ''unsupported rows event type %v'' [])))"

definition matchesFilter :: "engine \<Rightarrow> Transaction \<Rightarrow> Filter \<Rightarrow> bool" where
  "matchesFilter E tx f =
     (if (case f_TimeRange f of
            Some tr \<Rightarrow> tx_CommitTime tx < tr_Start tr \<or> tx_CommitTime tx > tr_End tr
          | None \<Rightarrow> False) then False
      else if f_GTIDSet f \<noteq> None \<and> tx_GTID tx \<noteq> [] \<and> \<not> MatchGTID (en_lib E) (f_GTIDSet f) (tx_GTID tx)
      then False
      else if f_SelectedTxIDs f \<noteq> [] \<and> \<not> list_ex (\<lambda>i. i = tx_TxID tx) (f_SelectedTxIDs f) then False
      else if f_Tables f \<noteq> [] \<and>
              \<not> list_ex (\<lambda>want. list_ex (\<lambda>rc. rc_Schema rc = tr_Schema want \<and> rc_Table rc = tr_Table want)
                                 (tx_Statements tx)) (f_Tables f)
      then False
      else True)"

subsection \<open>emit\<close>

text \<open>The row limit: \<open>Filter.MaxRowsPerTx\<close>, else the scanner's option; not positive is unlimited.\<close>

definition row_limit :: "engine \<Rightarrow> Filter \<Rightarrow> int" where
  "row_limit E f = (if f_MaxRowsPerTx f = 0 then en_maxRowsPerTx E else f_MaxRowsPerTx f)"

definition truncate_tx :: "int \<Rightarrow> Transaction \<Rightarrow> Transaction" where
  "truncate_tx limit tx =
     (if limit > 0 \<and> int (length (tx_Statements tx)) > limit
      then MarkTruncated (tx\<lparr>tx_Statements := take (nat limit) (tx_Statements tx)\<rparr>)
      else tx)"

text \<open>
  \<open>emit\<close>: the transaction sent for a pending one (\<open>None\<close>: nothing is sent). An empty
  transaction, or one the filter rejects, sends nothing; a missing commit time is replaced
  by the clock.
\<close>

definition pending_tx :: "engine \<Rightarrow> nat \<Rightarrow> pendingTx \<Rightarrow> err + Transaction" where
  "pending_tx E tick p =
     (let ct = (if time_is_zero (p_commitTs p) then en_now E tick else p_commitTs p) in
      case NewTransaction (en_rand E) (p_gtid p) (p_xid p) ct (p_schema p) of
        Inl e \<Rightarrow> Inl e
      | Inr tx0 \<Rightarrow>
          (let tx1 = tx0\<lparr>tx_Statements := p_rows p\<rparr> in
           Inr (if tx_GTID tx1 = [] \<and> tx_XID tx1 = 0
                then tx1\<lparr>tx_TxID := anonymousTxID (en_sha E) (en_fmtv E)
                                      (tx_CommitTime tx1) (tx_Statements tx1)\<rparr>
                else tx1)))"

definition emit :: "engine \<Rightarrow> nat \<Rightarrow> pendingTx \<Rightarrow> Filter \<Rightarrow> err + Transaction option" where
  "emit E tick p f =
     (if p_rows p = [] then Inr None
      else (case pending_tx E tick p of
              Inl e \<Rightarrow> Inl e
            | Inr tx \<Rightarrow>
                (if \<not> matchesFilter E tx f then Inr None
                 else Inr (Some (truncate_tx (row_limit E f) tx)))))"

text \<open>Emit the pending transaction, send it and forget it.\<close>

definition emit_pending :: "engine \<Rightarrow> scan_state \<Rightarrow> pendingTx \<Rightarrow> Filter \<Rightarrow> err + scan_state" where
  "emit_pending E s p f =
     (case emit E (sc_tick s) p f of
        Inl e \<Rightarrow> Inl e
      | Inr None \<Rightarrow> Inr (s\<lparr>sc_pending := None\<rparr>)
      | Inr (Some tx) \<Rightarrow> Inr (s\<lparr>sc_pending := None, sc_out := sc_out s @ [tx]\<rparr>))"

definition get_pending :: "scan_state \<Rightarrow> pendingTx" where
  "get_pending s = (case sc_pending s of None \<Rightarrow> new_pending | Some p \<Rightarrow> p)"

subsection \<open>handleEvent\<close>

definition handle_body :: "engine \<Rightarrow> event_header \<Rightarrow> event_body \<Rightarrow> Filter \<Rightarrow> scan_state \<Rightarrow> err + scan_state" where
  "handle_body E h b f s =
     (case b of
        FormatDescriptionEvent \<Rightarrow> Inr s
      | RotateEvent _ \<Rightarrow> Inr s
      | TableMapEvent tid sch tab \<Rightarrow> Inr (s\<lparr>sc_tmaps := (sc_tmaps s)(tid \<mapsto> (sch, tab))\<rparr>)
      | RowsEvent tid rows \<Rightarrow>
          (case rowChangeFromEvent tid rows (eh_EventType h) (sc_tmaps s) of
             Inl _ \<Rightarrow> Inr s
           | Inr rcs \<Rightarrow>
               (let p = get_pending s in
                Inr (s\<lparr>sc_pending := Some (p\<lparr>p_rows := p_rows p @ rcs\<rparr>)\<rparr>)))
      | QueryEvent q schema \<Rightarrow>
          (if q = ''BEGIN'' then Inr (s\<lparr>sc_pending := Some ((get_pending s)\<lparr>p_schema := schema\<rparr>)\<rparr>)
           else if q = ''COMMIT''
           then (case sc_pending s of
                   None \<Rightarrow> Inr s
                 | Some p \<Rightarrow> emit_pending E s (p\<lparr>p_commitTs := eventTime h\<rparr>) f)
           else (case sc_pending s of
                   None \<Rightarrow> Inr s
                 | Some p \<Rightarrow> emit_pending E s p f))
      | XIDEvent xid \<Rightarrow>
          (case sc_pending s of
             None \<Rightarrow> Inr s
           | Some p \<Rightarrow> emit_pending E s (p\<lparr>p_xid := xid, p_commitTs := eventTime h\<rparr>) f)
      | GTIDEvent sid gno \<Rightarrow>
          (let p = get_pending s in
           if \<not> isZeroSID sid
           then (let gtid = formatGTID sid gno in
                 case lib_ParseGTIDSet (en_lib E) ''mysql'' gtid of
                   Some gs \<Rightarrow> Inr (s\<lparr>sc_pending := Some (p\<lparr>p_gtidSet := Some gs, p_gtid := gtid\<rparr>)\<rparr>)
                 | None \<Rightarrow> Inr (s\<lparr>sc_pending := Some p\<rparr>))
           else Inr (s\<lparr>sc_pending := Some p\<rparr>))
      | MariadbGTIDEvent \<Rightarrow> Inr (s\<lparr>sc_pending := Some (get_pending s)\<rparr>)
      | OtherBody \<Rightarrow> Inr s)"

text \<open>Go's nil dereference of a missing header is the error \<open>nil_deref\<close>.\<close>

definition nil_deref :: err where
  "nil_deref = Err ''runtime error: invalid memory address or nil pointer dereference'' []"

definition handleEvent :: "engine \<Rightarrow> Filter \<Rightarrow> binlog_event \<Rightarrow> scan_state \<Rightarrow> err + scan_state" where
  "handleEvent E f ev s =
     (case ev_Header ev of
        None \<Rightarrow> Inl nil_deref
      | Some h \<Rightarrow> handle_body E h (ev_Body ev) f (s\<lparr>sc_tick := Suc (sc_tick s)\<rparr>))"

subsection \<open>parseFile and runParseLoop\<close>

definition errPastTimeEnd :: err where
  "errPastTimeEnd = Err ''binlog: event timestamp past filter TimeRange.End'' []"

definition past_end_pos :: "Filter \<Rightarrow> string \<Rightarrow> event_header \<Rightarrow> bool" where
  "past_end_pos f base h =
     (pos_Name (f_EndPos f) \<noteq> [] \<and> base = pos_Name (f_EndPos f) \<and> eh_LogPos h > pos_Pos (f_EndPos f))"

definition past_time_end :: "Filter \<Rightarrow> event_header \<Rightarrow> bool" where
  "past_time_end f h =
     (case f_TimeRange f of
        None \<Rightarrow> False
      | Some tr \<Rightarrow> eh_Timestamp h > 0 \<and> time_unix (int (eh_Timestamp h)) > tr_End tr)"

text \<open>
  The event loop of \<open>parseFile\<close>: the error the file ends with (\<open>None\<close>: the file was read to
  its end or to \<open>EndPos\<close>) and the state reached.
\<close>

fun parse_loop :: "engine \<Rightarrow> Filter \<Rightarrow> string \<Rightarrow> delivery list \<Rightarrow> scan_state \<Rightarrow> err option \<times> scan_state" where
  "parse_loop E f path [] s = (None, s)"
| "parse_loop E f path (DlvCanceled e # ds) s = (Some e, s)"
| "parse_loop E f path (DlvErr e # ds) s = (Some (Wrap ''binlog: parse events in %s: %w'' [path] e), s)"
| "parse_loop E f path (DlvEvent ev # ds) s =
     (case ev_Header ev of
        None \<Rightarrow> (Some nil_deref, s)
      | Some h \<Rightarrow>
          (if past_end_pos f (path_base path) h then (None, s)
           else if past_time_end f h then (Some errPastTimeEnd, s)
           else (case handleEvent E f ev s of
                   Inl e \<Rightarrow> (Some e, s)
                 | Inr s' \<Rightarrow> parse_loop E f path ds s')))"

definition binlogMagic :: string where
  "binlogMagic = [CHR 0xFE, CHR 0x62, CHR 0x69, CHR 0x6E]"

text \<open>
  \<open>OpenFileSource\<close>: the file is opened, its magic checked and the start offset normalised;
  past the first event the format description is read again first (\<open>fde_err\<close> is the decoder's
  error on it). \<open>files\<close> maps a path to the bytes of the file.
\<close>

definition OpenFileSource ::
  "(string \<rightharpoonup> string) \<Rightarrow> (string \<Rightarrow> err option) \<Rightarrow> (string \<Rightarrow> delivery list) \<Rightarrow> string \<Rightarrow> nat \<Rightarrow> err + delivery list" where
  "OpenFileSource files fde_err dec path offset =
     (case files path of
        None \<Rightarrow> Inl (Wrap ''binlog: open %s: %w'' [path] (Err ''no such file or directory'' []))
      | Some bytes \<Rightarrow>
          (if length bytes < 4
           then Inl (Wrap ''binlog: read magic %s: %w'' [path] (Err ''unexpected EOF'' []))
           else if take 4 bytes \<noteq> binlogMagic then Inl (Err ''binlog: bad magic in %s'' [path])
           else (let off = (if offset < 4 then 4 else offset) in
                 if off > 4
                 then (case fde_err (drop 4 bytes) of
                         Some e \<Rightarrow> Inl (Wrap ''binlog: re-parse FDE %s: %w'' [path] e)
                       | None \<Rightarrow> Inr (dec (drop off bytes)))
                 else Inr (dec (drop off bytes)))))"

record reader_env =
  re_files :: "string \<rightharpoonup> string"
  re_fde_err :: "string \<Rightarrow> err option"
  re_dec :: "string \<Rightarrow> delivery list"

definition start_offset :: "Filter \<Rightarrow> string \<Rightarrow> nat" where
  "start_offset f path =
     (if pos_Name (f_StartPos f) \<noteq> [] \<and> path_base path = pos_Name (f_StartPos f)
      then pos_Pos (f_StartPos f) else 0)"

definition parseFile ::
  "engine \<Rightarrow> reader_env \<Rightarrow> Filter \<Rightarrow> string \<Rightarrow> Transaction list \<times> nat \<Rightarrow> err option \<times> Transaction list \<times> nat" where
  "parseFile E R f path ot =
     (case OpenFileSource (re_files R) (re_fde_err R) (re_dec R) path (start_offset f path) of
        Inl e \<Rightarrow> (Some e, ot)
      | Inr ds \<Rightarrow>
          (case parse_loop E f path ds (file_state (fst ot) (snd ot)) of
             (r, s) \<Rightarrow> (r, sc_out s, sc_tick s)))"

text \<open>
  \<open>runParseLoop\<close>: the files in order; passing the end of the time range is a normal end of
  the whole scan. The result is the error left in \<open>s.errs\<close> and the transactions sent.
\<close>

fun runParseLoop ::
  "engine \<Rightarrow> reader_env \<Rightarrow> Filter \<Rightarrow> string list \<Rightarrow> Transaction list \<times> nat \<Rightarrow> err option \<times> Transaction list \<times> nat" where
  "runParseLoop E R f [] ot = (None, ot)"
| "runParseLoop E R f (file # files) ot =
     (case parseFile E R f file ot of
        (None, ot') \<Rightarrow> runParseLoop E R f files ot'
      | (Some e, ot') \<Rightarrow> (if errors_is e errPastTimeEnd then (None, ot') else (Some e, ot')))"

text \<open>\<open>Scan\<close> on a fresh scanner, with everything \<open>Next\<close> then returns: the transactions and the final error.\<close>

definition Scan ::
  "engine \<Rightarrow> reader_env \<Rightarrow> (err + (string \<times> bool) list) \<Rightarrow> Filter \<Rightarrow> err + (err option \<times> Transaction list)" where
  "Scan E R readdir f =
     (if f_BinlogDir f = [] then Inl (Err ''binlog: Filter.BinlogDir is required'' [])
      else (case EnumerateBinlogFiles (f_BinlogDir f) readdir (f_StartPos f) (f_EndPos f) of
              Inl e \<Rightarrow> Inl (Wrap ''binlog: enumerate files: %w'' [] e)
            | Inr files \<Rightarrow>
                (case runParseLoop E R f files ([], 0) of (r, txs, _) \<Rightarrow> Inr (r, txs))))"


subsection \<open>What is sent was emitted\<close>

definition emitted_by :: "engine \<Rightarrow> Filter \<Rightarrow> Transaction \<Rightarrow> bool" where
  "emitted_by E f tx \<longleftrightarrow> (\<exists>tick p. emit E tick p f = Inr (Some tx))"

definition extends_out :: "engine \<Rightarrow> Filter \<Rightarrow> Transaction list \<Rightarrow> Transaction list \<Rightarrow> bool" where
  "extends_out E f out out' \<longleftrightarrow> (\<exists>ts. out' = out @ ts \<and> (\<forall>t \<in> set ts. emitted_by E f t))"

lemma extends_out_refl [simp]: "extends_out E f out out"
  by (simp add: extends_out_def)

lemma extends_out_trans: "extends_out E f a b \<Longrightarrow> extends_out E f b c \<Longrightarrow> extends_out E f a c"
  by (force simp: extends_out_def)

lemma emit_pending_out:
  "emit_pending E s p f = Inr s' \<Longrightarrow> extends_out E f (sc_out s) (sc_out s')"
  by (auto simp: emit_pending_def extends_out_def emitted_by_def split: sum.splits option.splits; blast)

lemma emit_pending_clears: "emit_pending E s p f = Inr s' \<Longrightarrow> sc_pending s' = None"
  by (auto simp: emit_pending_def split: sum.splits option.splits)

lemma handle_body_out:
  "handle_body E h b f s = Inr s' \<Longrightarrow> extends_out E f (sc_out s) (sc_out s')"
  by (auto simp: handle_body_def Let_def dest: emit_pending_out
      split: event_body.splits if_splits option.splits sum.splits)

lemma handleEvent_out:
  "handleEvent E f ev s = Inr s' \<Longrightarrow> extends_out E f (sc_out s) (sc_out s')"
  by (auto simp: handleEvent_def dest: handle_body_out split: option.splits)

lemma parse_loop_out: "extends_out E f (sc_out s) (sc_out (snd (parse_loop E f path ds s)))"
proof (induction E f path ds s rule: parse_loop.induct)
  case (4 E f path ev ds s)
  then show ?case
    by (auto split: option.splits sum.splits dest: handleEvent_out intro: extends_out_trans)
qed simp_all

lemma parseFile_out: "extends_out E f (fst ot) (fst (snd (parseFile E R f path ot)))"
proof (cases "OpenFileSource (re_files R) (re_fde_err R) (re_dec R) path (start_offset f path)")
  case (Inr ds)
  then show ?thesis
    using parse_loop_out[of E f "file_state (fst ot) (snd ot)" path ds]
    by (auto simp: parseFile_def file_state_def split: prod.splits)
qed (simp add: parseFile_def)

lemma runParseLoop_out: "extends_out E f (fst ot) (fst (snd (runParseLoop E R f files ot)))"
proof (induction files arbitrary: ot)
  case (Cons fl files)
  show ?case
    using parseFile_out[of E f ot R fl] Cons.IH
    by (auto split: prod.splits option.splits) (metis extends_out_trans fst_conv snd_conv)+
qed simp

lemma Scan_emitted:
  assumes "Scan E R rd f = Inr (r, txs)" and "tx \<in> set txs"
  shows "emitted_by E f tx"
proof -
  from assms(1) obtain files tk where "runParseLoop E R f files ([], 0) = (r, txs, tk)"
    by (auto simp: Scan_def split: if_splits sum.splits prod.splits)
  then have "extends_out E f [] txs" using runParseLoop_out[of E f "([], 0)" R files] by simp
  with assms(2) show ?thesis by (auto simp: extends_out_def)
qed

subsection \<open>What an emitted transaction satisfies\<close>

lemma length_truncate:
  "0 < l \<Longrightarrow> int (length (tx_Statements (truncate_tx l tx))) \<le> l"
  by (auto simp: truncate_tx_def MarkTruncated_def)

lemma truncate_keeps [simp]:
  "tx_TxID (truncate_tx l tx) = tx_TxID tx" "tx_GTID (truncate_tx l tx) = tx_GTID tx"
  "tx_XID (truncate_tx l tx) = tx_XID tx" "tx_CommitTime (truncate_tx l tx) = tx_CommitTime tx"
  by (auto simp: truncate_tx_def MarkTruncated_def)

lemma truncate_Truncated:
  "tx_Truncated (truncate_tx l tx) \<longleftrightarrow>
     tx_Truncated tx \<or> (0 < l \<and> l < int (length (tx_Statements tx)))"
  by (auto simp: truncate_tx_def MarkTruncated_def)

lemma truncate_prefix:
  "\<exists>rest. tx_Statements tx = tx_Statements (truncate_tx l tx) @ rest"
  by (auto simp: truncate_tx_def MarkTruncated_def intro: exI[of _ "drop (nat l) (tx_Statements tx)"])

lemma pending_tx_Inr:
  "pending_tx E tick p = Inr tx \<Longrightarrow>
     tx_Statements tx = p_rows p \<and> \<not> tx_Truncated tx \<and>
     tx_GTID tx = p_gtid p \<and> tx_XID tx = p_xid p \<and> tx_Schema tx = p_schema p \<and>
     tx_CommitTime tx = (if time_is_zero (p_commitTs p) then en_now E tick else p_commitTs p) \<and>
     tx_TxID tx = (if p_gtid p \<noteq> [] then p_gtid p
                   else if p_xid p \<noteq> 0 then ''xid-'' @ show_nat (p_xid p)
                   else anonymousTxID (en_sha E) (en_fmtv E) (tx_CommitTime tx) (p_rows p))"
  by (auto simp: pending_tx_def NewTransaction_def Let_def split: if_splits)

lemma emit_Some:
  assumes "emit E tick p f = Inr (Some tx)"
  shows "\<exists>tx0. tx = truncate_tx (row_limit E f) tx0 \<and> matchesFilter E tx0 f \<and>
           pending_tx E tick p = Inr tx0 \<and> p_rows p \<noteq> []"
  using assms by (auto simp: emit_def split: if_splits sum.splits)

definition in_time_range :: "Filter \<Rightarrow> time \<Rightarrow> bool" where
  "in_time_range f t =
     (case f_TimeRange f of None \<Rightarrow> True | Some tr \<Rightarrow> tr_Start tr \<le> t \<and> t \<le> tr_End tr)"

lemma matchesFilter_time: "matchesFilter E tx f \<Longrightarrow> in_time_range f (tx_CommitTime tx)"
  by (auto simp: matchesFilter_def in_time_range_def split: option.splits if_splits)

lemma matchesFilter_selected:
  "matchesFilter E tx f \<Longrightarrow> f_SelectedTxIDs f \<noteq> [] \<Longrightarrow> tx_TxID tx \<in> set (f_SelectedTxIDs f)"
  by (auto simp: matchesFilter_def list_ex_iff split: if_splits)

lemma matchesFilter_gtid:
  "matchesFilter E tx f \<Longrightarrow> f_GTIDSet f \<noteq> None \<Longrightarrow> tx_GTID tx \<noteq> [] \<Longrightarrow>
     MatchGTID (en_lib E) (f_GTIDSet f) (tx_GTID tx)"
  by (auto simp: matchesFilter_def split: if_splits)

lemma matchesFilter_tables:
  "matchesFilter E tx f \<Longrightarrow> f_Tables f \<noteq> [] \<Longrightarrow>
     \<exists>rc \<in> set (tx_Statements tx). \<lparr>tr_Schema = rc_Schema rc, tr_Table = rc_Table rc\<rparr> \<in> set (f_Tables f)"
  by (auto simp: matchesFilter_def list_ex_iff TableRef.splits split: if_splits)

end
