(* ===== verification/Binlog_Engine_Props.thy ===== *)
theory Binlog_Engine_Props
  imports Binlog_Engine
begin

text \<open>
  Properties of the scanner: what a scan sends satisfies the filter and the row limit; a file
  made of GTID transactions is aggregated into exactly those transactions; stopping at the end
  of the time range loses nothing; identifiers are reproducible; and where a statement inside a
  transaction is logged as a query event, the transaction is cut in two.
\<close>

subsection \<open>Everything a scan sends satisfies the filter\<close>

lemma scan_tx_facts:
  assumes "Scan E R rd f = Inr (r, txs)" and "tx \<in> set txs" and "0 < row_limit E f"
  shows "tx_Statements tx \<noteq> [] \<and> int (length (tx_Statements tx)) \<le> row_limit E f \<and>
    (tx_Truncated tx \<longrightarrow> int (length (tx_Statements tx)) = row_limit E f) \<and>
    in_time_range f (tx_CommitTime tx) \<and>
    (f_GTIDSet f \<noteq> None \<and> tx_GTID tx \<noteq> [] \<longrightarrow> MatchGTID (en_lib E) (f_GTIDSet f) (tx_GTID tx)) \<and>
    (f_Tables f \<noteq> [] \<and> \<not> tx_Truncated tx \<longrightarrow>
       (\<exists>rc \<in> set (tx_Statements tx). \<lparr>tr_Schema = rc_Schema rc, tr_Table = rc_Table rc\<rparr> \<in> set (f_Tables f))) \<and>
    (f_SelectedTxIDs f \<noteq> [] \<longrightarrow> tx_TxID tx \<in> set (f_SelectedTxIDs f))"
proof -
  from Scan_emitted[OF assms(1,2)] obtain tick p where "emit E tick p f = Inr (Some tx)"
    by (auto simp: emitted_by_def)
  from emit_Some[OF this] obtain tx0
    where t: "tx = truncate_tx (row_limit E f) tx0" and m: "matchesFilter E tx0 f"
      and ne: "tx_Statements tx0 \<noteq> []" and nt: "\<not> tx_Truncated tx0"
    by (auto dest: pending_tx_Inr)
  have "tx_Statements tx \<noteq> [] \<and> (tx_Truncated tx \<longrightarrow> int (length (tx_Statements tx)) = row_limit E f)"
    using ne nt assms(3) t by (auto simp: truncate_tx_def MarkTruncated_def)
  moreover have "int (length (tx_Statements tx)) \<le> row_limit E f"
    using length_truncate[OF assms(3)] t by simp
  moreover have "f_Tables f \<noteq> [] \<and> \<not> tx_Truncated tx \<longrightarrow>
      (\<exists>rc \<in> set (tx_Statements tx). \<lparr>tr_Schema = rc_Schema rc, tr_Table = rc_Table rc\<rparr> \<in> set (f_Tables f))"
    using matchesFilter_tables[OF m] t by (auto simp: truncate_tx_def MarkTruncated_def split: if_splits)
  ultimately show ?thesis
    using matchesFilter_time[OF m] matchesFilter_gtid[OF m] matchesFilter_selected[OF m] by (simp add: t)
qed

text \<open>
  C1. Every transaction a scan delivers has between one row and \<open>MaxRowsPerTx\<close> rows (the
  filter's limit, else the scanner's), is marked truncated only at the limit, has its commit
  time in the requested range, a GTID (when it has one) of the requested set, a row of one of the
  requested tables (when it was not cut) and, in a directed scan, one of the selected identifiers.
\<close>

theorem scan_respects_filter:
  assumes "Scan E R rd f = Inr (r, txs)" and "tx \<in> set txs" and "0 < row_limit E f"
  shows "tx_Statements tx \<noteq> [] \<and> int (length (tx_Statements tx)) \<le> row_limit E f \<and>
    (tx_Truncated tx \<longrightarrow> int (length (tx_Statements tx)) = row_limit E f) \<and>
    in_time_range f (tx_CommitTime tx) \<and>
    (f_GTIDSet f \<noteq> None \<and> tx_GTID tx \<noteq> [] \<longrightarrow> MatchGTID (en_lib E) (f_GTIDSet f) (tx_GTID tx)) \<and>
    (f_Tables f \<noteq> [] \<and> \<not> tx_Truncated tx \<longrightarrow>
       (\<exists>rc \<in> set (tx_Statements tx). \<lparr>tr_Schema = rc_Schema rc, tr_Table = rc_Table rc\<rparr> \<in> set (f_Tables f))) \<and>
    (f_SelectedTxIDs f \<noteq> [] \<longrightarrow> tx_TxID tx \<in> set (f_SelectedTxIDs f))"
  by (rule scan_tx_facts[OF assms])

subsection \<open>Aggregation of a well-formed transaction\<close>

definition readable :: "Filter \<Rightarrow> string \<Rightarrow> binlog_event \<Rightarrow> bool" where
  "readable f path ev =
     (case ev_Header ev of None \<Rightarrow> False
      | Some h \<Rightarrow> \<not> past_end_pos f (path_base path) h \<and> \<not> past_time_end f h)"

fun is_row_body :: "event_body \<Rightarrow> bool" where
  "is_row_body (TableMapEvent t s n) = True"
| "is_row_body (RowsEvent t rows) = True"
| "is_row_body _ = False"

text \<open>The table maps and row changes a run of table-map and rows events contributes.\<close>

fun body_tmaps :: "(nat \<rightharpoonup> string \<times> string) \<Rightarrow> binlog_event list \<Rightarrow> (nat \<rightharpoonup> string \<times> string)" where
  "body_tmaps tm [] = tm"
| "body_tmaps tm (ev # evs) =
     body_tmaps (case ev_Body ev of TableMapEvent tid s t \<Rightarrow> tm(tid \<mapsto> (s, t)) | _ \<Rightarrow> tm) evs"

definition event_rows :: "(nat \<rightharpoonup> string \<times> string) \<Rightarrow> binlog_event \<Rightarrow> RowChange list" where
  "event_rows tm ev =
     (case ev_Body ev of
        RowsEvent tid rows \<Rightarrow>
          (case ev_Header ev of None \<Rightarrow> []
           | Some h \<Rightarrow> (case rowChangeFromEvent tid rows (eh_EventType h) tm of Inl _ \<Rightarrow> [] | Inr rcs \<Rightarrow> rcs))
      | _ \<Rightarrow> [])"

fun body_rows :: "(nat \<rightharpoonup> string \<times> string) \<Rightarrow> binlog_event list \<Rightarrow> RowChange list" where
  "body_rows tm [] = []"
| "body_rows tm (ev # evs) =
     event_rows tm ev @
     body_rows (case ev_Body ev of TableMapEvent tid s t \<Rightarrow> tm(tid \<mapsto> (s, t)) | _ \<Rightarrow> tm) evs"

lemma parse_loop_step:
  assumes "readable f path ev" and "handleEvent E f ev s = Inr s'"
  shows "parse_loop E f path (DlvEvent ev # ds) s = parse_loop E f path ds s'"
  using assms by (auto simp: readable_def split: option.splits)

declare parse_loop.simps(4) [simp del]

lemma handleEvent_row:
  assumes "readable f path ev" and "is_row_body (ev_Body ev)" and "sc_pending s = Some p"
  shows "handleEvent E f ev s =
    Inr (s\<lparr>sc_pending := Some (p\<lparr>p_rows := p_rows p @ event_rows (sc_tmaps s) ev\<rparr>),
           sc_tmaps := body_tmaps (sc_tmaps s) [ev], sc_tick := Suc (sc_tick s)\<rparr>)"
  using assms
  by (cases "ev_Body ev")
    (auto simp: handleEvent_def handle_body_def readable_def event_rows_def get_pending_def Let_def
      split: option.splits sum.splits)

lemma parse_loop_body:
  assumes "\<forall>ev \<in> set evs. readable f path ev \<and> is_row_body (ev_Body ev)" and "sc_pending s = Some p"
  shows "parse_loop E f path (map DlvEvent evs @ ds) s =
    parse_loop E f path ds
      (s\<lparr>sc_pending := Some (p\<lparr>p_rows := p_rows p @ body_rows (sc_tmaps s) evs\<rparr>),
         sc_tmaps := body_tmaps (sc_tmaps s) evs, sc_tick := sc_tick s + length evs\<rparr>)"
  using assms
proof (induction evs arbitrary: s p)
  case (Cons ev evs)
  let ?s1 = "s\<lparr>sc_pending := Some (p\<lparr>p_rows := p_rows p @ event_rows (sc_tmaps s) ev\<rparr>),
               sc_tmaps := body_tmaps (sc_tmaps s) [ev], sc_tick := Suc (sc_tick s)\<rparr>"
  have rd: "readable f path ev" and b: "is_row_body (ev_Body ev)" using Cons.prems(1) by simp_all
  have "parse_loop E f path (map DlvEvent (ev # evs) @ ds) s =
        parse_loop E f path (map DlvEvent evs @ ds) ?s1"
    unfolding list.map append_Cons
    by (rule parse_loop_step[OF rd handleEvent_row[OF rd b Cons.prems(2)]])
  also have "\<dots> = parse_loop E f path ds
      (?s1\<lparr>sc_pending := Some (p\<lparr>p_rows := (p_rows p @ event_rows (sc_tmaps s) ev) @
                                   body_rows (sc_tmaps ?s1) evs\<rparr>),
         sc_tmaps := body_tmaps (sc_tmaps ?s1) evs, sc_tick := sc_tick ?s1 + length evs\<rparr>)"
    using Cons.prems Cons.IH[of ?s1 "p\<lparr>p_rows := p_rows p @ event_rows (sc_tmaps s) ev\<rparr>"] by simp
  finally show ?case by simp
next
  case Nil
  then show ?case by (cases s) simp
qed

record txn_block =
  tb_gtid :: binlog_event
  tb_begin :: binlog_event
  tb_body :: "binlog_event list"
  tb_commit :: binlog_event

definition block_events :: "txn_block \<Rightarrow> binlog_event list" where
  "block_events b = tb_gtid b # tb_begin b # tb_body b @ [tb_commit b]"

definition block_gtid :: "txn_block \<Rightarrow> string" where
  "block_gtid b = (case ev_Body (tb_gtid b) of GTIDEvent sid gno \<Rightarrow> formatGTID sid gno | _ \<Rightarrow> [])"

definition wf_block :: "engine \<Rightarrow> Filter \<Rightarrow> string \<Rightarrow> txn_block \<Rightarrow> bool" where
  "wf_block E f path b \<longleftrightarrow>
     list_all (readable f path) (block_events b) \<and>
     (case ev_Body (tb_gtid b) of GTIDEvent sid gno \<Rightarrow> \<not> isZeroSID sid | _ \<Rightarrow> False) \<and>
     block_gtid b \<noteq> [] \<and> lib_ParseGTIDSet (en_lib E) ''mysql'' (block_gtid b) \<noteq> None \<and>
     (case ev_Body (tb_begin b) of QueryEvent q sch \<Rightarrow> q = ''BEGIN'' | _ \<Rightarrow> False) \<and>
     list_all (\<lambda>ev. is_row_body (ev_Body ev)) (tb_body b) \<and>
     (case ev_Body (tb_commit b) of XIDEvent x \<Rightarrow> True | _ \<Rightarrow> False)"

text \<open>The transaction a block stands for, given the table maps read before it.\<close>

definition block_tx :: "(nat \<rightharpoonup> string \<times> string) \<Rightarrow> txn_block \<Rightarrow> Transaction" where
  "block_tx tm b =
     \<lparr>tx_TxID = block_gtid b, tx_GTID = block_gtid b,
      tx_XID = (case ev_Body (tb_commit b) of XIDEvent x \<Rightarrow> x | _ \<Rightarrow> 0),
      tx_CommitTime = (case ev_Header (tb_commit b) of Some h \<Rightarrow> eventTime h | None \<Rightarrow> zero_time),
      tx_Schema = (case ev_Body (tb_begin b) of QueryEvent q sch \<Rightarrow> sch | _ \<Rightarrow> []),
      tx_Statements = body_rows tm (tb_body b), tx_Truncated = False\<rparr>"

definition delivered :: "engine \<Rightarrow> Filter \<Rightarrow> Transaction \<Rightarrow> Transaction list" where
  "delivered E f tx =
     (if tx_Statements tx \<noteq> [] \<and> matchesFilter E tx f then [truncate_tx (row_limit E f) tx] else [])"

fun blocks_txs :: "(nat \<rightharpoonup> string \<times> string) \<Rightarrow> txn_block list \<Rightarrow> Transaction list" where
  "blocks_txs tm [] = []"
| "blocks_txs tm (b # bs) = block_tx tm b # blocks_txs (body_tmaps tm (tb_body b)) bs"

lemma eventTime_nonzero [simp]: "\<not> time_is_zero (eventTime h)"
  by (simp add: eventTime_def)

lemma emit_complete:
  assumes "p_gtid p \<noteq> []" and "\<not> time_is_zero (p_commitTs p)"
  shows "emit E tick p f =
    Inr (let tx = \<lparr>tx_TxID = p_gtid p, tx_GTID = p_gtid p, tx_XID = p_xid p, tx_CommitTime = p_commitTs p,
                   tx_Schema = p_schema p, tx_Statements = p_rows p, tx_Truncated = False\<rparr>
         in if p_rows p \<noteq> [] \<and> matchesFilter E tx f then Some (truncate_tx (row_limit E f) tx) else None)"
  using assms by (simp add: emit_def pending_tx_def NewTransaction_def Let_def)

lemma emit_pending_complete:
  assumes "p_gtid p \<noteq> []" and "\<not> time_is_zero (p_commitTs p)"
  shows "emit_pending E s p f =
    Inr (s\<lparr>sc_pending := None,
           sc_out := sc_out s @ delivered E f
             \<lparr>tx_TxID = p_gtid p, tx_GTID = p_gtid p, tx_XID = p_xid p, tx_CommitTime = p_commitTs p,
              tx_Schema = p_schema p, tx_Statements = p_rows p, tx_Truncated = False\<rparr>\<rparr>)"
  by (simp add: emit_pending_def emit_complete[OF assms] Let_def delivered_def)

lemma parse_loop_block:
  assumes wf: "wf_block E f path b" and s: "sc_pending s = None"
  shows "parse_loop E f path (map DlvEvent (block_events b) @ ds) s =
    parse_loop E f path ds
      (s\<lparr>sc_out := sc_out s @ delivered E f (block_tx (sc_tmaps s) b),
         sc_tmaps := body_tmaps (sc_tmaps s) (tb_body b),
         sc_tick := sc_tick s + length (block_events b)\<rparr>)"
proof -
  obtain sid gno where g: "ev_Body (tb_gtid b) = GTIDEvent sid gno" and nz: "\<not> isZeroSID sid"
    using wf by (auto simp: wf_block_def split: event_body.splits)
  obtain sch where bg: "ev_Body (tb_begin b) = QueryEvent ''BEGIN'' sch"
    using wf by (auto simp: wf_block_def split: event_body.splits)
  obtain x where cm: "ev_Body (tb_commit b) = XIDEvent x"
    using wf by (auto simp: wf_block_def split: event_body.splits)
  have gt: "block_gtid b = formatGTID sid gno" using g by (simp add: block_gtid_def)
  obtain gs where gs: "lib_ParseGTIDSet (en_lib E) ''mysql'' (formatGTID sid gno) = Some gs"
    and gne: "formatGTID sid gno \<noteq> []"
    using wf gt by (auto simp: wf_block_def)
  have rd: "readable f path (tb_gtid b)" "readable f path (tb_begin b)" "readable f path (tb_commit b)"
    "\<forall>ev \<in> set (tb_body b). readable f path ev \<and> is_row_body (ev_Body ev)"
    using wf by (auto simp: wf_block_def block_events_def list_all_iff)
  obtain h where h: "ev_Header (tb_commit b) = Some h" using rd(3) by (auto simp: readable_def split: option.splits)
  let ?p1 = "new_pending\<lparr>p_gtidSet := Some gs, p_gtid := formatGTID sid gno\<rparr>"
  let ?s1 = "s\<lparr>sc_pending := Some ?p1, sc_tick := Suc (sc_tick s)\<rparr>"
  let ?p2 = "?p1\<lparr>p_schema := sch\<rparr>"
  let ?s2 = "?s1\<lparr>sc_pending := Some ?p2, sc_tick := Suc (Suc (sc_tick s))\<rparr>"
  let ?p3 = "?p2\<lparr>p_rows := body_rows (sc_tmaps s) (tb_body b)\<rparr>"
  let ?s3 = "?s2\<lparr>sc_pending := Some ?p3, sc_tmaps := body_tmaps (sc_tmaps s) (tb_body b),
                 sc_tick := Suc (Suc (sc_tick s)) + length (tb_body b)\<rparr>"
  have e1: "handleEvent E f (tb_gtid b) s = Inr ?s1"
    using rd(1) g nz gs s
    by (auto simp: handleEvent_def handle_body_def readable_def get_pending_def Let_def split: option.splits)
  have e2: "handleEvent E f (tb_begin b) ?s1 = Inr ?s2"
    using rd(2) bg by (auto simp: handleEvent_def handle_body_def readable_def get_pending_def split: option.splits)
  have e3: "parse_loop E f path (map DlvEvent (tb_body b) @ DlvEvent (tb_commit b) # ds) ?s2 =
            parse_loop E f path (DlvEvent (tb_commit b) # ds) ?s3"
    using parse_loop_body[OF rd(4), of ?s2 ?p2 E "DlvEvent (tb_commit b) # ds"] by (simp add: new_pending_def)
  have e4: "handleEvent E f (tb_commit b) ?s3 =
    Inr (?s3\<lparr>sc_tick := Suc (sc_tick ?s3), sc_pending := None,
             sc_out := sc_out s @ delivered E f (block_tx (sc_tmaps s) b)\<rparr>)"
    using h cm gne bg
    by (simp add: handleEvent_def handle_body_def emit_pending_complete block_tx_def gt new_pending_def)
  have "parse_loop E f path (map DlvEvent (block_events b) @ ds) s =
    parse_loop E f path (DlvEvent (tb_gtid b) # DlvEvent (tb_begin b) #
      (map DlvEvent (tb_body b) @ DlvEvent (tb_commit b) # ds)) s"
    by (simp add: block_events_def)
  also note parse_loop_step[OF rd(1) e1]
  also note parse_loop_step[OF rd(2) e2]
  also note e3
  also note parse_loop_step[OF rd(3) e4]
  finally show ?thesis using s by (cases s) (simp add: block_events_def)
qed

lemma parse_loop_blocks:
  assumes "\<forall>b \<in> set bs. wf_block E f path b" and "sc_pending s = None"
  shows "\<exists>s'. parse_loop E f path (map DlvEvent (concat (map block_events bs)) @ ds) s =
            parse_loop E f path ds s' \<and> sc_pending s' = None \<and>
            sc_out s' = sc_out s @ concat (map (delivered E f) (blocks_txs (sc_tmaps s) bs))"
  using assms
proof (induction bs arbitrary: s)
  case (Cons b bs)
  let ?s1 = "s\<lparr>sc_out := sc_out s @ delivered E f (block_tx (sc_tmaps s) b),
         sc_tmaps := body_tmaps (sc_tmaps s) (tb_body b),
         sc_tick := sc_tick s + length (block_events b)\<rparr>"
  from Cons.prems obtain s' where
    "parse_loop E f path (map DlvEvent (concat (map block_events bs)) @ ds) ?s1 = parse_loop E f path ds s'"
    "sc_pending s' = None"
    "sc_out s' = sc_out ?s1 @ concat (map (delivered E f) (blocks_txs (sc_tmaps ?s1) bs))"
    using Cons.IH[of ?s1] by auto
  moreover have "parse_loop E f path (map DlvEvent (concat (map block_events (b # bs))) @ ds) s =
      parse_loop E f path (map DlvEvent (concat (map block_events bs)) @ ds) ?s1"
    using parse_loop_block[of E f path b s] Cons.prems by simp
  ultimately show ?case by auto
qed auto


definition block_file :: "txn_block list \<Rightarrow> delivery list" where
  "block_file bs = map DlvEvent (concat (map block_events bs))"

text \<open>
  C2. A binlog file that holds well-formed GTID transactions, one after the other, is
  aggregated into exactly these transactions: in file order, each with all its row changes in
  event order, named by its GTID and stamped with the time of its commit event. Those the
  filter rejects are left out and longer ones are cut at the row limit.
\<close>

theorem file_of_transactions_aggregated:
  assumes "\<forall>b \<in> set bs. wf_block E f path b"
  shows "\<exists>s'. parse_loop E f path (block_file bs) (file_state out tick) = (None, s') \<and>
    sc_pending s' = None \<and>
    sc_out s' = out @ concat (map (delivered E f) (blocks_txs Map.empty bs))"
  using parse_loop_blocks[OF assms, of "file_state out tick" "[]"]
  by (auto simp: block_file_def file_state_def)

definition lib_all :: gtid_lib where
  "lib_all = \<lparr>parse_mysql = Some, parse_mariadb = (\<lambda>_. None), set_contain = (\<lambda>a b. a = b)\<rparr>"

definition engine0 :: engine where
  "engine0 = \<lparr>en_lib = lib_all, en_sha = (\<lambda>s. s), en_fmtv = (\<lambda>_. []), en_rand = ''r'',
              en_now = (\<lambda>_. 0), en_maxRowsPerTx = 1000000\<rparr>"

definition filter0 :: Filter where
  "filter0 = \<lparr>f_BinlogDir = ''d'', f_Tables = [], f_TimeRange = None, f_GTIDSet = None,
     f_StartPos = zero_pos, f_EndPos = zero_pos, f_MaxRowsPerTx = 0, f_SelectedTxIDs = []\<rparr>"

definition mk_event :: "event_type \<Rightarrow> nat \<Rightarrow> event_body \<Rightarrow> binlog_event" where
  "mk_event et ts b = \<lparr>ev_Header = Some \<lparr>eh_EventType = et, eh_Timestamp = ts, eh_LogPos = 0\<rparr>,
                       ev_Body = b, ev_RawData = []\<rparr>"

definition gtid_ev :: binlog_event where
  "gtid_ev = mk_event (OTHER_EVENT 33) 10 (GTIDEvent ''abcdefghijklmnop'' 5)"

definition begin_ev :: binlog_event where
  "begin_ev = mk_event (OTHER_EVENT 2) 10 (QueryEvent ''BEGIN'' ''shop'')"

definition map_ev :: binlog_event where
  "map_ev = mk_event (OTHER_EVENT 19) 10 (TableMapEvent 7 ''shop'' ''orders'')"

definition row_ev :: "int \<Rightarrow> binlog_event" where
  "row_ev n = mk_event DELETE_ROWS_EVENTv2 10 (RowsEvent 7 [[VInt n]])"

definition xid_ev :: binlog_event where
  "xid_ev = mk_event (OTHER_EVENT 16) 10 (XIDEvent 99)"

definition block0 :: txn_block where
  "block0 = \<lparr>tb_gtid = gtid_ev, tb_begin = begin_ev, tb_body = [map_ev, row_ev 1, row_ev 2], tb_commit = xid_ev\<rparr>"

lemmas example_defs = lib_all_def engine0_def filter0_def mk_event_def gtid_ev_def begin_ev_def map_ev_def
  row_ev_def xid_ev_def zero_pos_def

lemma wf_block0: "wf_block engine0 filter0 p block0"
  by (simp add: wf_block_def block0_def block_events_def block_gtid_def example_defs readable_def
      past_end_pos_def past_time_end_def isZeroSID_def formatGTID_def lib_ParseGTIDSet_def)

theorem file_of_transactions_aggregated_witness:
  "\<exists>s'. parse_loop engine0 filter0 ''f'' (block_file [block0]) (file_state [] 0) = (None, s') \<and>
    sc_pending s' = None \<and>
    sc_out s' = [] @ concat (map (delivered engine0 filter0) (blocks_txs Map.empty [block0]))"
  by (rule file_of_transactions_aggregated) (simp add: wf_block0)

text \<open>The file of the witness really delivers its transaction, with both rows.\<close>

lemma block0_delivered:
  "map (\<lambda>t. length (tx_Statements t))
     (concat (map (delivered engine0 filter0) (blocks_txs Map.empty [block0]))) = [2]"
  by (simp add: delivered_def block_tx_def block0_def example_defs event_rows_def rowChangeFromEvent_def
      matchesFilter_def truncate_tx_def row_limit_def Let_def)

definition reader0 :: reader_env where
  "reader0 = \<lparr>re_files = [''d/b.1'' \<mapsto> binlogMagic], re_fde_err = (\<lambda>_. None),
              re_dec = (\<lambda>_. block_file [block0])\<rparr>"

lemma scan0: "Scan engine0 reader0 (Inr [(''b.1'', False)]) filter0 =
  Inr (None, delivered engine0 filter0 (block_tx Map.empty block0))"
proof -
  have fs: "EnumerateBinlogFiles ''d'' (Inr [(''b.1'', False)]) zero_pos zero_pos = Inr [''d/b.1'']"
    by (simp add: EnumerateBinlogFiles_def isBinlogFile_def zero_pos_def is_digit_def path_join_def less_eq_char_def)
  have op: "OpenFileSource (re_files reader0) (re_fde_err reader0) (re_dec reader0) ''d/b.1'' 0 =
      Inr (block_file [block0])"
    by (simp add: OpenFileSource_def reader0_def binlogMagic_def)
  obtain s' where "parse_loop engine0 filter0 ''d/b.1'' (block_file [block0]) (file_state [] 0) = (None, s')"
    "sc_out s' = delivered engine0 filter0 (block_tx Map.empty block0)"
    using parse_loop_blocks[of "[block0]" engine0 filter0 "''d/b.1''" "file_state [] 0" "[]"] wf_block0
    by (auto simp: block_file_def file_state_def)
  then show ?thesis
    using fs op by (simp add: Scan_def parseFile_def start_offset_def filter0_def zero_pos_def)
qed

theorem scan_respects_filter_witness:
  "\<exists>tx. delivered engine0 filter0 (block_tx Map.empty block0) = [tx] \<and> tx_Statements tx \<noteq> [] \<and>
     int (length (tx_Statements tx)) \<le> row_limit engine0 filter0"
proof -
  obtain tx where tx: "delivered engine0 filter0 (block_tx Map.empty block0) = [tx]"
    using block0_delivered by (auto simp: block_tx_def map_eq_Cons_conv)
  have "0 < row_limit engine0 filter0" by (simp add: row_limit_def engine0_def filter0_def)
  then show ?thesis using scan_respects_filter[OF scan0, of tx] tx by simp
qed

subsection \<open>Stopping at the end of the time range\<close>

text \<open>All the remaining events handled without the early stop.\<close>

fun handle_all :: "engine \<Rightarrow> Filter \<Rightarrow> binlog_event list \<Rightarrow> scan_state \<Rightarrow> err + scan_state" where
  "handle_all E f [] s = Inr s"
| "handle_all E f (ev # evs) s =
     (case handleEvent E f ev s of Inl e \<Rightarrow> Inl e | Inr s' \<Rightarrow> handle_all E f evs s')"

definition late :: "Filter \<Rightarrow> binlog_event \<Rightarrow> bool" where
  "late f ev =
     (case ev_Header ev of None \<Rightarrow> False
      | Some h \<Rightarrow> (case f_TimeRange f of None \<Rightarrow> False | Some tr \<Rightarrow> eventTime h > tr_End tr))"

definition boundary_query_only :: "binlog_event \<Rightarrow> bool" where
  "boundary_query_only ev =
     (case ev_Body ev of QueryEvent q sch \<Rightarrow> q = ''BEGIN'' \<or> q = ''COMMIT'' | _ \<Rightarrow> True)"

lemma emit_late:
  assumes "\<not> in_time_range f (p_commitTs p)" and "\<not> time_is_zero (p_commitTs p)"
    and "emit E tick p f = Inr r"
  shows "r = None"
proof (cases r)
  case (Some tx)
  with assms(3) emit_Some[of E tick p f tx] obtain tx0
    where "matchesFilter E tx0 f" and "tx_CommitTime tx0 = p_commitTs p"
    using assms(2) by (auto dest: pending_tx_Inr)
  with assms(1) show ?thesis by (auto dest: matchesFilter_time)
qed

lemma emit_pending_late:
  assumes "emit_pending E s p f = Inr s'" and "\<not> in_time_range f (p_commitTs p)" and "\<not> time_is_zero (p_commitTs p)"
  shows "sc_out s' = sc_out s"
  using assms(1) emit_late[OF assms(2,3)] by (auto simp: emit_pending_def split: sum.splits option.splits)

lemma handleEvent_late:
  assumes "late f ev" and "boundary_query_only ev" and "handleEvent E f ev s = Inr s'"
  shows "sc_out s' = sc_out s"
proof -
  obtain h where h: "ev_Header ev = Some h" using assms(1) by (auto simp: late_def split: option.splits)
  then have out: "\<not> in_time_range f (eventTime h)"
    using assms(1) by (auto simp: late_def in_time_range_def split: option.splits)
  show ?thesis
  proof (cases "ev_Body ev")
    case (QueryEvent q sch)
    then show ?thesis using assms(2,3) h out
      by (auto simp: handleEvent_def handle_body_def boundary_query_only_def
          split: option.splits if_splits dest!: emit_pending_late)
  next
    case (XIDEvent x)
    then show ?thesis using assms(3) h out
      by (auto simp: handleEvent_def handle_body_def split: option.splits dest!: emit_pending_late)
  qed (use assms(3) h in \<open>auto simp: handleEvent_def handle_body_def Let_def
         split: option.splits sum.splits if_splits\<close>)
qed

text \<open>
  Stopping the scan at the first event past \<open>TimeRange.End\<close> loses no transaction: when the
  events from there on are all later than the end (binlog time stamps do not decrease) and
  their query events are only transaction boundaries, handling every one of them would send
  nothing more.
\<close>

theorem early_stop_loses_nothing:
  assumes "list_all (late f) evs" and "list_all boundary_query_only evs"
    and "handle_all E f evs s = Inr s'"
  shows "sc_out s' = sc_out s"
  using assms
proof (induction evs arbitrary: s)
  case (Cons ev evs)
  then obtain s1 where s1: "handleEvent E f ev s = Inr s1" and r: "handle_all E f evs s1 = Inr s'"
    by (auto split: sum.splits)
  have "sc_out s1 = sc_out s" using handleEvent_late[OF _ _ s1] Cons.prems by simp
  with Cons.IH[OF _ _ r] Cons.prems show ?case by simp
qed simp

definition filter_until5 :: Filter where
  "filter_until5 = filter0\<lparr>f_TimeRange := Some \<lparr>tr_Start = zero_time, tr_End = time_unix 5\<rparr>\<rparr>"

theorem early_stop_loses_nothing_witness:
  "\<exists>s'. handle_all engine0 filter_until5 (block_events block0) (file_state [] 0) = Inr s' \<and> sc_out s' = []"
proof -
  have l: "list_all (late filter_until5) (block_events block0)"
    by (simp add: late_def filter_until5_def block_events_def block0_def example_defs eventTime_def time_unix_def)
  have b: "list_all boundary_query_only (block_events block0)"
    by (simp add: boundary_query_only_def block_events_def block0_def example_defs)
  have "\<not> isl (handle_all engine0 filter_until5 (block_events block0) (file_state [] 0))"
    by code_simp
  then obtain s' where h: "handle_all engine0 filter_until5 (block_events block0) (file_state [] 0) = Inr s'"
    by (cases "handle_all engine0 filter_until5 (block_events block0) (file_state [] 0)") auto
  from early_stop_loses_nothing[OF l b h] h show ?thesis by (simp add: file_state_def)
qed

subsection \<open>Identifiers\<close>

lemma pending_tx_rand: "pending_tx (E\<lparr>en_rand := r1\<rparr>) tick p = pending_tx (E\<lparr>en_rand := r2\<rparr>) tick p"
  by (auto simp: pending_tx_def NewTransaction_def Let_def)

lemma matchesFilter_rand [simp]: "matchesFilter (E\<lparr>en_rand := r\<rparr>) tx f = matchesFilter E tx f"
  by (simp add: matchesFilter_def)

lemma row_limit_rand [simp]: "row_limit (E\<lparr>en_rand := r\<rparr>) f = row_limit E f"
  by (simp add: row_limit_def)

lemma pending_tx_tick:
  "\<not> time_is_zero (p_commitTs p) \<Longrightarrow> pending_tx E t1 p = pending_tx E t2 p"
  by (simp add: pending_tx_def)

text \<open>
  Transaction identifiers are reproducible: the random placeholder of \<open>NewTransaction\<close>
  never reaches a delivered transaction, and once the commit time is known neither does the
  clock, so a second scan of the same events gives the same transactions.
\<close>

theorem emitted_transactions_reproducible:
  "emit (E\<lparr>en_rand := r1\<rparr>) t1 (p\<lparr>p_commitTs := eventTime h\<rparr>) f =
   emit (E\<lparr>en_rand := r2\<rparr>) t2 (p\<lparr>p_commitTs := eventTime h\<rparr>) f"
  using pending_tx_tick[of "p\<lparr>p_commitTs := eventTime h\<rparr>" "E\<lparr>en_rand := r1\<rparr>" t1 t2]
    pending_tx_rand[of r1 E t2 "p\<lparr>p_commitTs := eventTime h\<rparr>" r2]
  by (simp add: emit_def split: sum.splits)

subsection \<open>A query event inside a transaction\<close>

definition savepoint_ev :: binlog_event where
  "savepoint_ev = mk_event (OTHER_EVENT 2) 10 (QueryEvent ''SAVEPOINT `s`'' ''shop'')"

definition savepoint_run :: "err option \<times> scan_state" where
  "savepoint_run = parse_loop engine0 filter0 ''f''
     (map DlvEvent [gtid_ev, begin_ev, map_ev, row_ev 1, savepoint_ev, row_ev 2, xid_ev]) (file_state [] 0)"

text \<open>
  A query event that is neither \<open>BEGIN\<close> nor \<open>COMMIT\<close> sends the pending transaction as if it
  had committed. One MySQL transaction with a \<open>SAVEPOINT\<close> between two rows is delivered as two
  transactions: the first half stamped with the clock, the second half without its GTID.
\<close>

theorem query_event_splits_transaction:
  "map (\<lambda>t. (tx_TxID t, tx_GTID t, tx_CommitTime t, length (tx_Statements t))) (sc_out (snd savepoint_run)) =
    [(formatGTID ''abcdefghijklmnop'' 5, formatGTID ''abcdefghijklmnop'' 5, en_now engine0 5, 1),
     (''xid-99'', [], time_unix 10, 1)]"
  by code_simp

end
