(* ===== verification/Reverse.thy ===== *)
theory Reverse
  imports Binlog_Types
begin

text \<open>
  \<open>internal/reverse\<close>: the generator of reverse SQL. A statement is text, built by the same
  string operations as the code; \<open>Options.IgnoreAutoIncrement\<close> is read nowhere and left out.
  Warnings are their format and arguments, like errors.
\<close>

subsection \<open>Types\<close>

record Statement =
  st_SQL :: string
  st_TxID :: string
  st_TxOrder :: nat
  st_SourceRow :: "RowChange option"
  st_Warnings :: "err list"

definition DefaultMaxStatementSize :: int where
  "DefaultMaxStatementSize = 16 * 1024"

subsection \<open>Values as SQL literals\<close>

definition quoteIdent :: "string \<Rightarrow> string" where
  "quoteIdent s = ''`'' @ replace_char (CHR ''`'') ''``'' s @ ''`''"

definition joinQuoted :: "string list \<Rightarrow> string" where
  "joinQuoted cols = str_join (map quoteIdent cols) '', ''"

text \<open>
  \<open>x.UTC().Format("2006-01-02 15:04:05.000000")\<close>: the proleptic Gregorian date of a day number,
  two- and four-digit fields, and the nanoseconds cut to six digits.
\<close>

definition civil_from_days :: "int \<Rightarrow> int \<times> int \<times> int" where
  "civil_from_days z0 =
     (let z = z0 + 719468;
          era = z div 146097;
          doe = z mod 146097;
          yoe = (doe - doe div 1460 + doe div 36524 - doe div 146096) div 365;
          doy = doe - (365 * yoe + yoe div 4 - yoe div 100);
          mp = (5 * doy + 2) div 153;
          d = doy - (153 * mp + 2) div 5 + 1;
          m = (if mp < 10 then mp + 3 else mp - 9)
      in (yoe + era * 400 + (if m \<le> 2 then 1 else 0), m, d))"

fun pad_digits :: "nat \<Rightarrow> nat \<Rightarrow> string" where
  "pad_digits 0 n = []"
| "pad_digits (Suc k) n = pad_digits k (n div 10) @ [digit_char (n mod 10)]"

definition format_datetime6 :: "time \<Rightarrow> string" where
  "format_datetime6 t =
     (let secs = t div 1000000000; nanos = t mod 1000000000;
          days = secs div 86400; sod = secs mod 86400
      in case civil_from_days days of (y, m, d) \<Rightarrow>
           pad_digits 4 (nat y) @ ''-'' @ pad_digits 2 (nat m) @ ''-'' @ pad_digits 2 (nat d) @ '' '' @
           pad_digits 2 (nat (sod div 3600)) @ '':'' @ pad_digits 2 (nat (sod div 60 mod 60)) @ '':'' @
           pad_digits 2 (nat (sod mod 60)) @ ''.'' @ pad_digits 6 (nat (nanos div 1000)))"

definition trim_right :: "char \<Rightarrow> string \<Rightarrow> string" where
  "trim_right c s = rev (dropWhile (\<lambda>x. x = c) (rev s))"

definition escape_string :: "string \<Rightarrow> string" where
  "escape_string x = replace_char (CHR 0x27) [CHR 0x27, CHR 0x27] (replace_char (CHR 0x5C) [CHR 0x5C, CHR 0x5C] x)"

definition sq :: string where
  "sq = [CHR 0x27]"

fun formatValue :: "gval \<Rightarrow> string" where
  "formatValue VNil = ''NULL''"
| "formatValue (VInt x) = show_int x"
| "formatValue (VFloat txt) = txt"
| "formatValue (VDecimal txt) = txt"
| "formatValue (VTime x) = sq @ trim_right (CHR ''.'') (trim_right (CHR ''0'') (format_datetime6 x)) @ sq"
| "formatValue (VBytes x) = ''X'' @ sq @ hex_encode x @ sq"
| "formatValue (VString x) = sq @ escape_string x @ sq"
| "formatValue (VBool x) = (if x then ''1'' else ''0'')"
| "formatValue (VOther txt) = sq @ txt @ sq"

definition joinValues :: "gval list \<Rightarrow> string" where
  "joinValues vs = str_join (map formatValue vs) '', ''"

definition valueAt :: "gval list \<Rightarrow> nat \<Rightarrow> string" where
  "valueAt values i = (if i < length values then formatValue (values ! i) else ''NULL'')"

subsection \<open>The WHERE predicate\<close>

text \<open>\<open>resolvePKIndices\<close>; \<open>index_of\<close> of the prelude is the code's \<open>indexOf\<close>.\<close>

fun resolvePKIndices :: "string list \<Rightarrow> string list \<Rightarrow> nat list \<times> err list" where
  "resolvePKIndices cols [] = ([], [])"
| "resolvePKIndices cols (p # pk) =
     (case resolvePKIndices cols pk of (idx, warns) \<Rightarrow>
        (case index_of cols p of
           Some i \<Rightarrow> (i # idx, warns)
         | None \<Rightarrow> (idx, Err ''primary key column %q not found in row columns; skipped in WHERE'' [p] # warns)))"

definition where_part :: "string list \<Rightarrow> gval list \<Rightarrow> nat \<Rightarrow> string" where
  "where_part cols values i =
     (if i < length values \<and> values ! i \<noteq> VNil
      then quoteIdent (cols ! i) @ '' = '' @ formatValue (values ! i)
      else quoteIdent (cols ! i) @ '' IS NULL'')"

definition buildWhereCols :: "string list \<Rightarrow> gval list \<Rightarrow> string" where
  "buildWhereCols cols values = str_join (map (where_part cols values) [0..<length cols]) '' AND ''"

definition buildWhereColsAt :: "string list \<Rightarrow> nat list \<Rightarrow> gval list \<Rightarrow> string" where
  "buildWhereColsAt cols idxs values = str_join (map (where_part cols values) idxs) '' AND ''"

text \<open>The loop over the primary-key indices: the usable ones, a warning for each of the others.\<close>

fun usable_pk :: "string list \<Rightarrow> gval list \<Rightarrow> nat list \<Rightarrow> nat list \<times> err list" where
  "usable_pk cols after [] = ([], [])"
| "usable_pk cols after (i # is) =
     (case usable_pk cols after is of (u, w) \<Rightarrow>
        (if i \<ge> length after \<or> after ! i = VNil
         then (u, Err ''primary key column %q has no value in row image; skipped in WHERE'' [cols ! i] # w)
         else (i # u, w)))"

definition buildWhere :: "RowChange \<Rightarrow> string list \<Rightarrow> string list \<Rightarrow> string \<times> err list" where
  "buildWhere rc cols pk =
     (if pk \<noteq> []
      then (case resolvePKIndices cols pk of (idxs, w) \<Rightarrow>
             (case usable_pk cols (rc_After rc) idxs of (usable, w') \<Rightarrow>
                (if usable \<noteq> [] then (buildWhereColsAt cols usable (rc_After rc), w @ w')
                 else (buildWhereCols cols (rc_After rc), w @ w'))))
      else (buildWhereCols cols (rc_After rc), []))"

subsection \<open>Statements\<close>

definition image_warning :: "string \<Rightarrow> nat \<Rightarrow> nat \<Rightarrow> err list" where
  "image_warning which n c =
     (if n \<noteq> c then [Err (which @ '' image has %d values but schema has %d columns'') [show_nat n, show_nat c]]
      else [])"

definition table_name :: "RowChange \<Rightarrow> string" where
  "table_name rc = quoteIdent (rc_Schema rc) @ ''.'' @ quoteIdent (rc_Table rc)"

definition set_part :: "string list \<Rightarrow> gval list \<Rightarrow> nat \<Rightarrow> string" where
  "set_part cols before i = quoteIdent (cols ! i) @ '' = '' @ valueAt before i"

definition buildReverseSQL :: "RowChange \<Rightarrow> string list \<Rightarrow> string list \<Rightarrow> string \<times> err list" where
  "buildReverseSQL rc cols pk =
     (case rc_Action rc of
        ActionDelete \<Rightarrow>
          (''INSERT INTO '' @ table_name rc @ '' ('' @ joinQuoted cols @ '') VALUES ('' @
             joinValues (rc_Before rc) @ '')'',
           image_warning ''before'' (length (rc_Before rc)) (length cols))
      | ActionInsert \<Rightarrow>
          (case buildWhere rc cols pk of (wh, w) \<Rightarrow>
            (''DELETE FROM '' @ table_name rc @ '' WHERE '' @ wh,
             image_warning ''after'' (length (rc_After rc)) (length cols) @ w))
      | ActionUpdate \<Rightarrow>
          (case buildWhere rc cols pk of (wh, w) \<Rightarrow>
            (''UPDATE '' @ table_name rc @ '' SET '' @
               str_join (map (set_part cols (rc_Before rc)) [0..<length cols]) '', '' @ '' WHERE '' @ wh,
             image_warning ''before'' (length (rc_Before rc)) (length cols) @
             image_warning ''after'' (length (rc_After rc)) (length cols) @ w))
      | ActionUnknown n \<Rightarrow> ([], [Err ''unknown action %d'' [show_int n]]))"

definition columnNames :: "RowChange \<Rightarrow> TableSchema \<Rightarrow> string list" where
  "columnNames rc sch = (if rc_ColumnNames rc \<noteq> [] then rc_ColumnNames rc else map col_Name (ts_Columns sch))"

subsection \<open>Generate\<close>

text \<open>The body of the loop for the statement at index \<open>i\<close> of \<open>n\<close>.\<close>

definition gen_one ::
  "string \<Rightarrow> nat \<Rightarrow> (string \<rightharpoonup> TableSchema) \<Rightarrow> int \<Rightarrow> nat \<Rightarrow> RowChange \<Rightarrow> Statement" where
  "gen_one txid n schema maxsize i rc =
     (let key = schema_key (rc_Schema rc) (rc_Table rc);
          out = (\<lambda>sql warns. \<lparr>st_SQL = sql, st_TxID = txid, st_TxOrder = n - 1 - i,
                              st_SourceRow = Some rc, st_Warnings = warns\<rparr>)
      in case schema key of
           None \<Rightarrow> out [] [Err ''schema not found for '' [key]]
         | Some sch \<Rightarrow>
             (let cols = columnNames rc sch in
              if cols = [] then out [] [Err ''no column names available for '' [key]]
              else (case buildReverseSQL rc cols (ts_PrimaryKey sch) of (sql, warn) \<Rightarrow>
                     (if sql = [] then out [] warn
                      else if int (length sql) > maxsize
                      then out [] [Err ''SQL exceeds MaxStatementSize %d'' [show_int maxsize]]
                      else out sql warn))))"

text \<open>\<open>Generate\<close>; a nil transaction is \<open>None\<close>. The loop runs from the last statement to the first.\<close>

definition Generate ::
  "Transaction option \<Rightarrow> (string \<rightharpoonup> TableSchema) \<Rightarrow> int \<Rightarrow> err + Statement list" where
  "Generate txo schema maxStatementSize =
     (case txo of
        None \<Rightarrow> Inl (Err ''reverse: nil transaction'' [])
      | Some tx \<Rightarrow>
          (if tx_TxID tx = [] then Inl (Err ''reverse: transaction.TxID is required'' [])
           else (let maxsize = (if maxStatementSize = 0 then DefaultMaxStatementSize else maxStatementSize);
                     n = length (tx_Statements tx)
                 in Inr (map (\<lambda>i. gen_one (tx_TxID tx) n schema maxsize i (tx_Statements tx ! i))
                             (rev [0..<n])))))"

subsection \<open>Order and size of the generated statements\<close>

lemma gen_one_fields [simp]:
  "st_TxID (gen_one t n s m i rc) = t"
  "st_TxOrder (gen_one t n s m i rc) = n - 1 - i"
  "st_SourceRow (gen_one t n s m i rc) = Some rc"
  by (auto simp: gen_one_def Let_def split: option.splits prod.splits)

lemma gen_one_size: "0 \<le> m \<Longrightarrow> int (length (st_SQL (gen_one t n s m i rc))) \<le> m"
  by (auto simp: gen_one_def Let_def split: option.splits prod.splits)

lemma Generate_Inr:
  "Generate txo schema ms = Inr out \<Longrightarrow>
     \<exists>tx. txo = Some tx \<and> tx_TxID tx \<noteq> [] \<and>
       out = map (\<lambda>i. gen_one (tx_TxID tx) (length (tx_Statements tx)) schema
                       (if ms = 0 then DefaultMaxStatementSize else ms) i (tx_Statements tx ! i))
               (rev [0..<length (tx_Statements tx)])"
  by (auto simp: Generate_def Let_def split: option.splits if_splits)

text \<open>
  \<open>Generate\<close> yields exactly one statement per row change, last change first: the sources are
  the row changes reversed, the orders count up from 0, all carry the transaction's identifier,
  and no SQL text is longer than the size limit.
\<close>

theorem Generate_lifo:
  assumes "Generate (Some tx) schema ms = Inr out" and "0 \<le> ms"
  shows "map st_SourceRow out = map Some (rev (tx_Statements tx)) \<and>
    map st_TxOrder out = [0..<length (tx_Statements tx)] \<and>
    (\<forall>s \<in> set out. st_TxID s = tx_TxID tx \<and>
       int (length (st_SQL s)) \<le> (if ms = 0 then DefaultMaxStatementSize else ms))"
proof -
  let ?n = "length (tx_Statements tx)"
  from Generate_Inr[OF assms(1)] have out:
    "out = map (\<lambda>i. gen_one (tx_TxID tx) ?n schema (if ms = 0 then DefaultMaxStatementSize else ms) i
                 (tx_Statements tx ! i)) (rev [0..<?n])" by auto
  have "map (\<lambda>i. Some (tx_Statements tx ! i)) (rev [0..<?n]) = map Some (rev (map ((!) (tx_Statements tx)) [0..<?n]))"
    by (simp add: rev_map)
  then have 1: "map st_SourceRow out = map Some (rev (tx_Statements tx))"
    by (simp add: out comp_def map_nth)
  have 2: "map (\<lambda>i. ?n - 1 - i) (rev [0..<?n]) = [0..<?n]"
    by (rule nth_equalityI) (auto simp: rev_nth)
  have 3: "0 \<le> (if ms = 0 then DefaultMaxStatementSize else ms)"
    using assms(2) by (simp add: DefaultMaxStatementSize_def)
  show ?thesis
    using 1 2 gen_one_size[OF 3] by (auto simp: out comp_def)
qed

definition tx_ex :: Transaction where
  "tx_ex = \<lparr>tx_TxID = ''g:1'', tx_GTID = ''g:1'', tx_XID = 1, tx_CommitTime = 0, tx_Schema = ''s'',
     tx_Statements = [\<lparr>rc_Schema = ''s'', rc_Table = ''t'', rc_Action = ActionInsert, rc_Before = [],
                       rc_After = [VInt 1], rc_ColumnNames = []\<rparr>],
     tx_Truncated = False\<rparr>"

definition schema_ex :: "string \<rightharpoonup> TableSchema" where
  "schema_ex = [''s.t'' \<mapsto> \<lparr>ts_Schema = ''s'', ts_Table = ''t'',
     ts_Columns = [\<lparr>col_Name = ''id'', col_Type = ''int'', col_Nullable = False, col_IsAutoInc = False\<rparr>],
     ts_PrimaryKey = [''id'']\<rparr>]"

lemma Generate_ex:
  "Generate (Some tx_ex) schema_ex 0 = Inr
     [\<lparr>st_SQL = ''DELETE FROM `s`.`t` WHERE `id` = 1'', st_TxID = ''g:1'', st_TxOrder = 0,
       st_SourceRow = Some (hd (tx_Statements tx_ex)), st_Warnings = []\<rparr>]"
  by (simp add: Generate_def tx_ex_def schema_ex_def gen_one_def schema_key_def columnNames_def
      buildReverseSQL_def buildWhere_def buildWhereColsAt_def where_part_def table_name_def quoteIdent_def
      image_warning_def show_int_def show_nat.simps digit_char_def DefaultMaxStatementSize_def)

theorem Generate_lifo_witness:
  "map st_TxOrder [\<lparr>st_SQL = ''DELETE FROM `s`.`t` WHERE `id` = 1'', st_TxID = ''g:1'', st_TxOrder = 0,
       st_SourceRow = Some (hd (tx_Statements tx_ex)), st_Warnings = []\<rparr>] = [0..<length (tx_Statements tx_ex)]"
  using Generate_lifo[OF Generate_ex] by simp

end
