(* ===== verification/Scan.thy ===== *)
theory Scan
  imports Binlog_Engine_Props Reverse
begin

text \<open>
  \<open>internal/scan\<close>: a scan of the archive as a stream of results. The results sent on the channel
  are a list; \<open>ctx i\<close> is the context's error when the \<open>i\<close>-th result is sent (\<open>None\<close>: the send
  succeeds), and the second component is what is left in the error channel.
\<close>

datatype Mode = ModeMetaOnly | ModeWithSQL | ModeSelectedSQL

record TxMeta =
  tm_TxID :: string
  tm_GTID :: string
  tm_XID :: nat
  tm_CommitTime :: time
  tm_Schema :: string
  tm_Tables :: "TableRef list"
  tm_RowCount :: nat
  tm_Truncated :: bool

record Result =
  r_Meta :: TxMeta
  r_SQL :: "Statement list"

type_synonym schema_fetcher = "string \<Rightarrow> string \<Rightarrow> err + TableSchema"

record scan_config =
  sg_ArchiveDir :: string
  sg_Filter :: Filter
  sg_Mode :: Mode
  sg_MaxPreview :: int
  sg_SchemaFetcher :: schema_fetcher
  sg_MaxRowsPerTx :: int

definition containsRef :: "TableRef list \<Rightarrow> TableRef \<Rightarrow> bool" where
  "containsRef tables ref = list_ex (\<lambda>t. t = ref) tables"

text \<open>The tables of a transaction, each once, in order of first change.\<close>

fun collect_tables :: "TableRef list \<Rightarrow> RowChange list \<Rightarrow> TableRef list" where
  "collect_tables ts [] = ts"
| "collect_tables ts (rc # rcs) =
     (let ref = \<lparr>tr_Schema = rc_Schema rc, tr_Table = rc_Table rc\<rparr>
      in collect_tables (if containsRef ts ref then ts else ts @ [ref]) rcs)"

definition tx_meta :: "Transaction \<Rightarrow> TxMeta" where
  "tx_meta tx = \<lparr>tm_TxID = tx_TxID tx, tm_GTID = tx_GTID tx, tm_XID = tx_XID tx,
     tm_CommitTime = tx_CommitTime tx, tm_Schema = tx_Schema tx,
     tm_Tables = collect_tables [] (tx_Statements tx), tm_RowCount = RowCount tx,
     tm_Truncated = tx_Truncated tx\<rparr>"

text \<open>\<open>generateSQL\<close>: the schemas still missing are fetched into the cache, then the SQL is generated.\<close>

fun fill_cache :: "schema_fetcher \<Rightarrow> (string \<rightharpoonup> TableSchema) \<Rightarrow> RowChange list \<Rightarrow> (string \<rightharpoonup> TableSchema)" where
  "fill_cache sf cache [] = cache"
| "fill_cache sf cache (rc # rcs) =
     (let key = schema_key (rc_Schema rc) (rc_Table rc) in
      if cache key \<noteq> None then fill_cache sf cache rcs
      else (case sf (rc_Schema rc) (rc_Table rc) of
              Inl _ \<Rightarrow> fill_cache sf cache rcs
            | Inr sch \<Rightarrow> fill_cache sf (cache(key \<mapsto> sch)) rcs))"

definition warning_only :: "string \<Rightarrow> err \<Rightarrow> Statement" where
  "warning_only txid w =
     \<lparr>st_SQL = [], st_TxID = txid, st_TxOrder = 0, st_SourceRow = None, st_Warnings = [w]\<rparr>"

definition generateSQL ::
  "schema_fetcher \<Rightarrow> (string \<rightharpoonup> TableSchema) \<Rightarrow> Transaction \<Rightarrow> Statement list \<times> (string \<rightharpoonup> TableSchema)" where
  "generateSQL sf cache tx =
     (if tx_Truncated tx
      then ([warning_only (tx_TxID tx) (Err ''transaction truncated, cannot generate full reverse SQL'' [])], cache)
      else (let cache' = fill_cache sf cache (tx_Statements tx) in
            case Generate (Some tx) cache' 0 of
              Inl e \<Rightarrow> ([warning_only (tx_TxID tx) (Wrap ''reverse generate failed: '' [] e)], cache')
            | Inr stmts \<Rightarrow> (stmts, cache')))"

definition max_preview :: "int \<Rightarrow> nat" where
  "max_preview m = (if m \<le> 0 then 500 else nat m)"

text \<open>The loop of \<open>Stream\<close> over what the scanner's \<open>Next\<close> returns: its transactions, then its final error or EOF.\<close>

fun stream_loop ::
  "Mode \<Rightarrow> schema_fetcher \<Rightarrow> nat \<Rightarrow> (nat \<Rightarrow> err option) \<Rightarrow> err option \<Rightarrow> Transaction list \<Rightarrow>
     (string \<rightharpoonup> TableSchema) \<Rightarrow> nat \<Rightarrow> Result list \<times> err option" where
  "stream_loop mode sf mp ctx final [] cache sent = ([], final)"
| "stream_loop mode sf mp ctx final (tx # txs) cache sent =
     (case (if mode \<noteq> ModeMetaOnly then generateSQL sf cache tx else ([], cache)) of
        (sql, cache') \<Rightarrow>
          (case ctx sent of
             Some e \<Rightarrow> ([], Some e)
           | None \<Rightarrow>
               (let r = \<lparr>r_Meta = tx_meta tx, r_SQL = sql\<rparr> in
                if Suc sent \<ge> mp then ([r], None)
                else (case stream_loop mode sf mp ctx final txs cache' (Suc sent) of
                        (rs, e) \<Rightarrow> (r # rs, e)))))"

definition stream_filter :: "scan_config \<Rightarrow> Filter" where
  "stream_filter cfg =
     (let f = (sg_Filter cfg)\<lparr>f_BinlogDir := sg_ArchiveDir cfg\<rparr>
      in if sg_MaxRowsPerTx cfg > 0 then f\<lparr>f_MaxRowsPerTx := sg_MaxRowsPerTx cfg\<rparr> else f)"

definition Stream ::
  "engine \<Rightarrow> reader_env \<Rightarrow> (err + (string \<times> bool) list) \<Rightarrow> (nat \<Rightarrow> err option) \<Rightarrow> scan_config \<Rightarrow>
     Result list \<times> err option" where
  "Stream E R readdir ctx cfg =
     (case Binlog_Engine.Scan E R readdir (stream_filter cfg) of
        Inl e \<Rightarrow> ([], Some e)
      | Inr (final, txs) \<Rightarrow>
          stream_loop (sg_Mode cfg) (sg_SchemaFetcher cfg) (max_preview (sg_MaxPreview cfg)) ctx final txs
            Map.empty 0)"

subsection \<open>Facts\<close>

lemma containsRef_iff [simp]: "containsRef ts ref \<longleftrightarrow> ref \<in> set ts"
  by (auto simp: containsRef_def list_ex_iff)

lemma set_collect_tables:
  "set (collect_tables ts rcs) = set ts \<union> (\<lambda>rc. \<lparr>tr_Schema = rc_Schema rc, tr_Table = rc_Table rc\<rparr>) ` set rcs"
  by (induction rcs arbitrary: ts) (auto simp: Let_def)

lemma distinct_collect_tables: "distinct ts \<Longrightarrow> distinct (collect_tables ts rcs)"
  by (induction rcs arbitrary: ts) (auto simp: Let_def)

lemma max_preview_pos: "0 < max_preview m"
  by (simp add: max_preview_def)

lemma stream_loop_prefix:
  "stream_loop mode sf mp ctx final txs cache sent = (rs, e) \<Longrightarrow>
     length rs \<le> length txs \<and> map r_Meta rs = map tx_meta (take (length rs) txs)"
  by (induction mode sf mp ctx final txs cache sent arbitrary: rs e rule: stream_loop.induct)
    (auto simp: Let_def split: prod.splits option.splits if_splits)

lemma stream_loop_bound:
  "stream_loop mode sf mp ctx final txs cache sent = (rs, e) \<Longrightarrow> sent < mp \<Longrightarrow> sent + length rs \<le> mp"
  by (induction mode sf mp ctx final txs cache sent arbitrary: rs e rule: stream_loop.induct)
    (fastforce simp: Let_def split: prod.splits option.splits if_splits)+

lemma stream_loop_meta_only:
  "stream_loop ModeMetaOnly sf mp ctx final txs cache sent = (rs, e) \<Longrightarrow> r \<in> set rs \<Longrightarrow> r_SQL r = []"
  by (induction ModeMetaOnly sf mp ctx final txs cache sent arbitrary: rs e rule: stream_loop.induct)
    (auto simp: Let_def split: prod.splits option.splits if_splits)

lemma generateSQL_truncated:
  "tx_Truncated tx \<Longrightarrow> s \<in> set (fst (generateSQL sf cache tx)) \<Longrightarrow> st_SQL s = []"
  by (auto simp: generateSQL_def warning_only_def)

lemma stream_loop_truncated:
  "stream_loop mode sf mp ctx final txs cache sent = (rs, e) \<Longrightarrow> r \<in> set rs \<Longrightarrow> tm_Truncated (r_Meta r) \<Longrightarrow>
     s \<in> set (r_SQL r) \<Longrightarrow> st_SQL s = []"
proof (induction mode sf mp ctx final txs cache sent arbitrary: rs e rule: stream_loop.induct)
  case (2 mode sf mp ctx final tx txs cache sent)
  obtain sql c' where g: "(if mode \<noteq> ModeMetaOnly then generateSQL sf cache tx else ([], cache)) = (sql, c')"
    by (cases "if mode \<noteq> ModeMetaOnly then generateSQL sf cache tx else ([], cache)") auto
  then have sql: "tx_Truncated tx \<Longrightarrow> s \<in> set sql \<Longrightarrow> st_SQL s = []"
    using generateSQL_truncated[of tx s sf cache] by (auto split: if_splits)
  from 2 g sql show ?case
    by (auto simp: Let_def tx_meta_def split: prod.splits option.splits if_splits)
qed simp

text \<open>
  A stream delivers, in scan order and without gaps, the metadata of the first transactions
  of the scan: at most \<open>MaxPreview\<close> of them (500 when not positive), each with its tables listed
  once. A truncated transaction never carries executable SQL, and no SQL is generated in
  metadata mode.
\<close>

theorem Stream_delivers_prefix:
  assumes "Stream E R rd ctx cfg = (rs, e)"
  shows "length rs \<le> max_preview (sg_MaxPreview cfg) \<and>
    (rs \<noteq> [] \<longrightarrow> (\<exists>final txs. Binlog_Engine.Scan E R rd (stream_filter cfg) = Inr (final, txs) \<and>
       map r_Meta rs = map tx_meta (take (length rs) txs))) \<and>
    (\<forall>r \<in> set rs. distinct (tm_Tables (r_Meta r)) \<and>
       (tm_Truncated (r_Meta r) \<longrightarrow> (\<forall>s \<in> set (r_SQL r). st_SQL s = [])) \<and>
       (sg_Mode cfg = ModeMetaOnly \<longrightarrow> r_SQL r = []))"
proof (cases "Binlog_Engine.Scan E R rd (stream_filter cfg)")
  case (Inl err)
  with assms show ?thesis by (simp add: Stream_def)
next
  case (Inr p)
  obtain final txs where p: "p = (final, txs)" by (cases p)
  from assms Inr p have l: "stream_loop (sg_Mode cfg) (sg_SchemaFetcher cfg) (max_preview (sg_MaxPreview cfg))
      ctx final txs Map.empty 0 = (rs, e)" by (simp add: Stream_def)
  note pre = stream_loop_prefix[OF l]
  have dm: "distinct (tm_Tables m)" if "m \<in> set (map r_Meta rs)" for m
    using that unfolding pre[THEN conjunct2] by (auto simp: tx_meta_def distinct_collect_tables)
  have "distinct (tm_Tables (r_Meta r))" if "r \<in> set rs" for r
    by (rule dm) (simp add: that)
  moreover have "r_SQL r = []" if "sg_Mode cfg = ModeMetaOnly" "r \<in> set rs" for r
    using stream_loop_meta_only l that by metis
  moreover have "length rs \<le> max_preview (sg_MaxPreview cfg)"
    using stream_loop_bound[OF l max_preview_pos] by simp
  ultimately show ?thesis
    using Inr p pre stream_loop_truncated[OF l] by auto
qed

definition cfg0 :: scan_config where
  "cfg0 = \<lparr>sg_ArchiveDir = ''d'', sg_Filter = filter0, sg_Mode = ModeMetaOnly, sg_MaxPreview = 1,
           sg_SchemaFetcher = (\<lambda>_ _. Inl (Err [] [])), sg_MaxRowsPerTx = 0\<rparr>"

lemma stream0:
  "\<exists>r. Stream engine0 reader0 (Inr [(''b.1'', False)]) (\<lambda>_. None) cfg0 = ([r], None) \<and> tm_RowCount (r_Meta r) = 2"
proof -
  have f: "stream_filter cfg0 = filter0" by (simp add: stream_filter_def cfg0_def filter0_def)
  have s: "Stream engine0 reader0 (Inr [(''b.1'', False)]) (\<lambda>_. None) cfg0 =
      stream_loop ModeMetaOnly (sg_SchemaFetcher cfg0) 1 (\<lambda>_. None) None
        (delivered engine0 filter0 (block_tx Map.empty block0)) Map.empty 0"
    unfolding Stream_def f scan0 by (simp add: cfg0_def max_preview_def)
  show ?thesis unfolding s using block0_delivered by (auto simp: tx_meta_def RowCount_def Let_def)
qed

theorem Stream_delivers_prefix_witness:
  "\<exists>r. Stream engine0 reader0 (Inr [(''b.1'', False)]) (\<lambda>_. None) cfg0 = ([r], None) \<and>
     distinct (tm_Tables (r_Meta r)) \<and> r_SQL r = []"
proof -
  obtain r where r: "Stream engine0 reader0 (Inr [(''b.1'', False)]) (\<lambda>_. None) cfg0 = ([r], None)"
    using stream0 by blast
  from Stream_delivers_prefix[OF r] r show ?thesis by (simp add: cfg0_def)
qed

end
