(* ===== verification/Reverse_Sem.thy ===== *)
theory Reverse_Sem
  imports Reverse "HOL-Library.Multiset"
begin

text \<open>
  What the generated SQL means.

  First the literals: MySQL's reading of a quoted identifier, of a string literal (with
  backslash escapes, the default mode) and of a hexadecimal literal gives back exactly what
  was quoted and stops where the literal ends, whatever follows.

  Then the statements: \<open>reverse_ast\<close> is the statement \<open>buildReverseSQL\<close> prints, as data, and
  \<open>exec_ast\<close> its effect on the multiset of a table's rows. On tables with a primary key the
  generated statements undo the transaction.
\<close>

subsection \<open>MySQL's lexer\<close>

fun lex_ident :: "string \<Rightarrow> (string \<times> string) option" where
  "lex_ident [] = None"
| "lex_ident (c # s) =
     (if c = CHR ''`''
      then (case s of
              d # s' \<Rightarrow> (if d = CHR ''`'' then map_option (\<lambda>(v, r). (CHR ''`'' # v, r)) (lex_ident s')
                         else Some ([], s))
            | [] \<Rightarrow> Some ([], []))
      else map_option (\<lambda>(v, r). (c # v, r)) (lex_ident s))"

definition unescape :: "char \<Rightarrow> string" where
  "unescape d =
     (if d = CHR ''n'' then [CHR 0x0A] else if d = CHR ''t'' then [CHR 0x09]
      else if d = CHR ''r'' then [CHR 0x0D] else if d = CHR ''b'' then [CHR 0x08]
      else if d = CHR ''0'' then [CHR 0x00] else if d = CHR ''Z'' then [CHR 0x1A]
      else if d = CHR ''%'' \<or> d = CHR ''_'' then [CHR 0x5C, d]
      else [d])"

text \<open>The text after the opening quote of a string literal: its value and what follows the closing quote.\<close>

fun lex_string :: "string \<Rightarrow> (string \<times> string) option" where
  "lex_string [] = None"
| "lex_string (c # s) =
     (if c = CHR 0x27
      then (case s of
              d # s' \<Rightarrow> (if d = CHR 0x27 then map_option (\<lambda>(v, r). (CHR 0x27 # v, r)) (lex_string s')
                         else Some ([], s))
            | [] \<Rightarrow> Some ([], []))
      else if c = CHR 0x5C
      then (case s of
              d # s' \<Rightarrow> map_option (\<lambda>(v, r). (unescape d @ v, r)) (lex_string s')
            | [] \<Rightarrow> None)
      else map_option (\<lambda>(v, r). (c # v, r)) (lex_string s))"

definition hex_value :: "char \<Rightarrow> nat option" where
  "hex_value c = index_of ''0123456789abcdef'' c"

fun hex_decode :: "string \<Rightarrow> string option" where
  "hex_decode [] = Some []"
| "hex_decode [c] = None"
| "hex_decode (a # b # s) =
     (case (hex_value a, hex_value b, hex_decode s) of
        (Some x, Some y, Some r) \<Rightarrow> Some (char_of (16 * x + y) # r)
      | _ \<Rightarrow> None)"

lemma lex_ident_quoted:
  assumes "\<not> has_prefix rest ''`''"
  shows "lex_ident (replace_char (CHR ''`'') ''``'' s @ CHR ''`'' # rest) = Some (s, rest)"
proof (induction s)
  case Nil
  then show ?case using assms by (cases rest) auto
qed auto

lemma escape_string_Nil [simp]: "escape_string [] = []"
  by (simp add: escape_string_def)

lemma escape_string_Cons [simp]:
  "escape_string (c # s) =
     (if c = CHR 0x27 then [CHR 0x27, CHR 0x27] else if c = CHR 0x5C then [CHR 0x5C, CHR 0x5C] else [c]) @
     escape_string s"
  by (auto simp: escape_string_def)

lemma lex_string_escaped:
  assumes "\<not> has_prefix rest [CHR 0x27]"
  shows "lex_string (escape_string s @ CHR 0x27 # rest) = Some (s, rest)"
proof (induction s)
  case Nil
  then show ?case using assms by (cases rest) auto
qed (auto simp: unescape_def)

lemma hex_value_digit: "d < 16 \<Longrightarrow> hex_value (digit_char d) = Some d"
proof -
  assume "d < 16"
  moreover have "\<forall>d < 16. hex_value (digit_char d) = Some d"
    by (simp add: hex_value_def digit_char_def numeral_eq_Suc less_Suc_eq all_conj_distrib)
  ultimately show ?thesis by blast
qed

lemma hex_decode_encode: "hex_decode (hex_encode s) = Some s"
proof (induction s)
  case (Cons c s)
  have "(of_char c :: nat) < 256" by simp
  then have "(of_char c :: nat) div 16 < 16" by (simp add: less_mult_imp_div_less)
  moreover have "(of_char c :: nat) mod 16 < 16" by simp
  moreover have "16 * ((of_char c :: nat) div 16) + of_char c mod 16 = (of_char c :: nat)" by simp
  ultimately show ?case using Cons.IH by (simp add: Let_def hex_value_digit)
qed simp

text \<open>
  C7. Quoting is exact and cannot be escaped from: whatever bytes an identifier, a string value
  or a binary value holds, MySQL reads the generated literal back as these bytes and the literal
  ends where the generator ended it.
\<close>

theorem literals_roundtrip:
  assumes "\<not> has_prefix rest ''`''" and "\<not> has_prefix rest sq"
  shows "lex_ident (tl (quoteIdent s) @ rest) = Some (s, rest) \<and>
    lex_string (tl (formatValue (VString v)) @ rest) = Some (v, rest) \<and>
    formatValue (VBytes b) = ''X'' @ sq @ hex_encode b @ sq \<and> hex_decode (hex_encode b) = Some b"
  using lex_ident_quoted[OF assms(1), of s] lex_string_escaped[of rest v] assms(2)
  by (simp add: quoteIdent_def sq_def hex_decode_encode)

theorem literals_roundtrip_witness:
  "lex_string (tl (formatValue (VString [CHR 0x27, CHR 0x5C])) @ '' AND 1=1'') =
     Some ([CHR 0x27, CHR 0x5C], '' AND 1=1'')"
  using literals_roundtrip[of "'' AND 1=1''" "[]" "[CHR 0x27, CHR 0x5C]" "[]"] by (simp add: sq_def)

subsection \<open>The statement as data\<close>

datatype predicate = PEq string gval | PNull string

datatype rsql =
    RInsert string string "string list" "gval list"
  | RDelete string string "predicate list"
  | RUpdate string string "(string \<times> gval) list" "predicate list"

definition where_pred :: "string list \<Rightarrow> gval list \<Rightarrow> nat \<Rightarrow> predicate" where
  "where_pred cols values i =
     (if i < length values \<and> values ! i \<noteq> VNil then PEq (cols ! i) (values ! i) else PNull (cols ! i))"

definition where_ast :: "RowChange \<Rightarrow> string list \<Rightarrow> string list \<Rightarrow> predicate list" where
  "where_ast rc cols pk =
     (let usable = fst (usable_pk cols (rc_After rc) (fst (resolvePKIndices cols pk)))
      in if usable \<noteq> [] then map (where_pred cols (rc_After rc)) usable
         else map (where_pred cols (rc_After rc)) [0..<length cols])"

definition image_at :: "gval list \<Rightarrow> nat \<Rightarrow> gval" where
  "image_at values i = (if i < length values then values ! i else VNil)"

definition reverse_ast :: "RowChange \<Rightarrow> string list \<Rightarrow> string list \<Rightarrow> rsql option" where
  "reverse_ast rc cols pk =
     (case rc_Action rc of
        ActionDelete \<Rightarrow> Some (RInsert (rc_Schema rc) (rc_Table rc) cols (rc_Before rc))
      | ActionInsert \<Rightarrow> Some (RDelete (rc_Schema rc) (rc_Table rc) (where_ast rc cols pk))
      | ActionUpdate \<Rightarrow>
          Some (RUpdate (rc_Schema rc) (rc_Table rc)
                  (map (\<lambda>i. (cols ! i, image_at (rc_Before rc) i)) [0..<length cols]) (where_ast rc cols pk))
      | ActionUnknown n \<Rightarrow> None)"

fun show_pred :: "predicate \<Rightarrow> string" where
  "show_pred (PEq c v) = quoteIdent c @ '' = '' @ formatValue v"
| "show_pred (PNull c) = quoteIdent c @ '' IS NULL''"

fun render :: "rsql \<Rightarrow> string" where
  "render (RInsert s t cols vs) =
     ''INSERT INTO '' @ (quoteIdent s @ ''.'' @ quoteIdent t) @ '' ('' @ joinQuoted cols @ '') VALUES ('' @ joinValues vs @ '')''"
| "render (RDelete s t ps) =
     ''DELETE FROM '' @ (quoteIdent s @ ''.'' @ quoteIdent t) @ '' WHERE '' @ str_join (map show_pred ps) '' AND ''"
| "render (RUpdate s t sets ps) =
     ''UPDATE '' @ (quoteIdent s @ ''.'' @ quoteIdent t) @ '' SET '' @
       str_join (map (\<lambda>(c, v). quoteIdent c @ '' = '' @ formatValue v) sets) '', '' @ '' WHERE '' @
       str_join (map show_pred ps) '' AND ''"

lemma show_where_pred [simp]: "show_pred (where_pred cols vs i) = where_part cols vs i"
  by (simp add: where_pred_def where_part_def)

lemma buildWhere_ast: "fst (buildWhere rc cols pk) = str_join (map show_pred (where_ast rc cols pk)) '' AND ''"
  by (auto simp: buildWhere_def where_ast_def buildWhereColsAt_def buildWhereCols_def comp_def Let_def
      split: prod.splits)

lemma valueAt_image: "valueAt vs i = formatValue (image_at vs i)"
  by (simp add: valueAt_def image_at_def)

text \<open>
  C8. The text \<open>buildReverseSQL\<close> assembles is the printed form of one statement: the opposite
  action on the same table, with the before image as values and the predicate of \<open>buildWhere\<close>.
\<close>

theorem buildReverseSQL_renders_ast:
  "fst (buildReverseSQL rc cols pk) = (case reverse_ast rc cols pk of None \<Rightarrow> [] | Some q \<Rightarrow> render q)"
proof (cases "rc_Action rc")
  case ActionUpdate
  then show ?thesis
    using buildWhere_ast[of rc cols pk]
    by (cases "buildWhere rc cols pk")
      (simp add: buildReverseSQL_def reverse_ast_def table_name_def comp_def set_part_def[abs_def] valueAt_image)
next
  case ActionInsert
  then show ?thesis
    using buildWhere_ast[of rc cols pk]
    by (cases "buildWhere rc cols pk") (simp add: buildReverseSQL_def reverse_ast_def table_name_def)
qed (simp_all add: buildReverseSQL_def reverse_ast_def table_name_def)

subsection \<open>Effect on a table\<close>

definition column :: "string list \<Rightarrow> gval list \<Rightarrow> string \<Rightarrow> gval" where
  "column cols row c = (case index_of cols c of Some i \<Rightarrow> image_at row i | None \<Rightarrow> VNil)"

fun holds :: "string list \<Rightarrow> gval list \<Rightarrow> predicate \<Rightarrow> bool" where
  "holds cols row (PEq c v) = (column cols row c = v)"
| "holds cols row (PNull c) = (column cols row c = VNil)"

definition selected :: "string list \<Rightarrow> predicate list \<Rightarrow> gval list \<Rightarrow> bool" where
  "selected cols ps row = list_all (holds cols row) ps"

text \<open>The row an UPDATE leaves: the listed columns take their new values.\<close>

definition set_row :: "string list \<Rightarrow> (string \<times> gval) list \<Rightarrow> gval list \<Rightarrow> gval list" where
  "set_row cols sets row =
     map (\<lambda>c. case map_of sets c of Some v \<Rightarrow> v | None \<Rightarrow> column cols row c) cols"

fun exec_ast :: "string list \<Rightarrow> rsql \<Rightarrow> gval list multiset \<Rightarrow> gval list multiset" where
  "exec_ast cols (RInsert s t cs vs) T = add_mset vs T"
| "exec_ast cols (RDelete s t ps) T = filter_mset (\<lambda>r. \<not> selected cols ps r) T"
| "exec_ast cols (RUpdate s t sets ps) T =
     image_mset (\<lambda>r. if selected cols ps r then set_row cols sets r else r) T"

text \<open>The effect of the original change.\<close>

definition apply_change :: "RowChange \<Rightarrow> gval list multiset \<Rightarrow> gval list multiset" where
  "apply_change rc T =
     (case rc_Action rc of
        ActionInsert \<Rightarrow> add_mset (rc_After rc) T
      | ActionDelete \<Rightarrow> T - {#rc_Before rc#}
      | ActionUpdate \<Rightarrow> add_mset (rc_After rc) (T - {#rc_Before rc#})
      | ActionUnknown n \<Rightarrow> T)"

text \<open>
  A change fits a table with columns \<open>cols\<close> and primary key \<open>pk\<close>: full images, the row changed is
  present, no primary-key column is null in the new row, and no other row has its key.
\<close>

definition key_of :: "string list \<Rightarrow> string list \<Rightarrow> gval list \<Rightarrow> gval list" where
  "key_of cols pk row = map (column cols row) pk"

definition fits :: "string list \<Rightarrow> string list \<Rightarrow> RowChange \<Rightarrow> gval list multiset \<Rightarrow> bool" where
  "fits cols pk rc T =
     (case rc_Action rc of
        ActionInsert \<Rightarrow> length (rc_After rc) = length cols \<and>
          list_all (\<lambda>c. column cols (rc_After rc) c \<noteq> VNil) pk \<and>
          (\<forall>r \<in># T. key_of cols pk r \<noteq> key_of cols pk (rc_After rc))
      | ActionDelete \<Rightarrow> rc_Before rc \<in># T
      | ActionUpdate \<Rightarrow> length (rc_After rc) = length cols \<and> length (rc_Before rc) = length cols \<and>
          list_all (\<lambda>c. column cols (rc_After rc) c \<noteq> VNil) pk \<and> rc_Before rc \<in># T \<and>
          (\<forall>r \<in># T - {#rc_Before rc#}. key_of cols pk r \<noteq> key_of cols pk (rc_After rc))
      | ActionUnknown n \<Rightarrow> False)"

definition wf_table :: "string list \<Rightarrow> string list \<Rightarrow> bool" where
  "wf_table cols pk \<longleftrightarrow> distinct cols \<and> pk \<noteq> [] \<and> set pk \<subseteq> set cols"

lemma resolvePK_present: "set pk \<subseteq> set cols \<Longrightarrow> fst (resolvePKIndices cols pk) = map (\<lambda>p. the (index_of cols p)) pk"
  by (induction pk) (auto split: prod.splits option.splits simp: index_of_None)

lemma usable_all:
  "(\<forall>i \<in> set is. i < length after \<and> after ! i \<noteq> VNil) \<Longrightarrow> fst (usable_pk cols after is) = is"
  by (induction "is") (auto split: prod.splits)

lemma index_of_the:
  assumes "p \<in> set cols" shows "the (index_of cols p) < length cols \<and> cols ! the (index_of cols p) = p"
  using index_of_in[OF assms] index_of_Some by fastforce

lemma where_ast_pk:
  assumes "wf_table cols pk" and "length (rc_After rc) = length cols"
    and nn: "list_all (\<lambda>c. column cols (rc_After rc) c \<noteq> VNil) pk"
  shows "where_ast rc cols pk = map (\<lambda>p. PEq p (column cols (rc_After rc) p)) pk"
proof -
  have sub: "set pk \<subseteq> set cols" and ne: "pk \<noteq> []" using assms(1) by (auto simp: wf_table_def)
  have col: "column cols (rc_After rc) p = rc_After rc ! the (index_of cols p)" if "p \<in> set pk" for p
  proof -
    have "p \<in> set cols" using that sub by auto
    then obtain i where "index_of cols p = Some i" and "i < length cols"
      using index_of_in[of p cols] index_of_Some[of cols p] by blast
    then show ?thesis using assms(2) by (simp add: column_def image_at_def)
  qed
  have idx: "the (index_of cols p) < length (rc_After rc) \<and> rc_After rc ! the (index_of cols p) \<noteq> VNil"
    if "p \<in> set pk" for p
    using index_of_the[of p cols] that sub assms(2) nn col[OF that] by (auto simp: list_all_iff)
  have us: "fst (usable_pk cols (rc_After rc) (map (\<lambda>p. the (index_of cols p)) pk)) =
            map (\<lambda>p. the (index_of cols p)) pk"
    by (rule usable_all) (use idx in auto)
  have "where_pred cols (rc_After rc) (the (index_of cols p)) = PEq p (column cols (rc_After rc) p)"
    if "p \<in> set pk" for p
    using idx[OF that] col[OF that] index_of_the[of p cols] that sub by (auto simp: where_pred_def)
  then show ?thesis
    using us ne by (simp add: where_ast_def resolvePK_present[OF sub] Let_def)
qed

lemma selected_key:
  "selected cols (map (\<lambda>p. PEq p (column cols after p)) pk) r \<longleftrightarrow> key_of cols pk r = key_of cols pk after"
  by (auto simp: selected_def key_of_def list_all_iff)

lemma index_of_nth: "distinct cols \<Longrightarrow> i < length cols \<Longrightarrow> index_of cols (cols ! i) = Some i"
  by (metis index_of_Some index_of_in nth_eq_iff_index_eq nth_mem)

lemma set_row_image:
  assumes "distinct cols" and "length before = length cols"
  shows "set_row cols (map (\<lambda>i. (cols ! i, image_at before i)) [0..<length cols]) r = before"
proof (rule nth_equalityI)
  fix i assume "i < length (set_row cols (map (\<lambda>i. (cols ! i, image_at before i)) [0..<length cols]) r)"
  then have i: "i < length cols" by (simp add: set_row_def)
  have "map fst (map (\<lambda>i. (cols ! i, image_at before i)) [0..<length cols]) = cols"
    by (simp add: comp_def map_nth)
  then have "map_of (map (\<lambda>i. (cols ! i, image_at before i)) [0..<length cols]) (cols ! i) = Some (image_at before i)"
    by (intro map_of_is_SomeI) (use i assms(1) in auto)
  then show "set_row cols (map (\<lambda>i. (cols ! i, image_at before i)) [0..<length cols]) r ! i = before ! i"
    using i assms(2) by (simp add: set_row_def image_at_def)
qed (simp add: set_row_def assms)

lemma reverse_undoes_change:
  assumes wf: "wf_table cols pk" and fit: "fits cols pk rc T" and q: "reverse_ast rc cols pk = Some q"
  shows "exec_ast cols q (apply_change rc T) = T"
proof (cases "rc_Action rc")
  case ActionInsert
  then have w: "where_ast rc cols pk = map (\<lambda>p. PEq p (column cols (rc_After rc) p)) pk"
    using where_ast_pk[OF wf] fit by (simp add: fits_def)
  have "filter_mset (\<lambda>r. key_of cols pk r \<noteq> key_of cols pk (rc_After rc)) T = T"
    using fit ActionInsert by (auto simp: fits_def filter_mset_eq_conv)
  then show ?thesis using ActionInsert q w by (auto simp: reverse_ast_def apply_change_def selected_key)
next
  case ActionUpdate
  then have w: "where_ast rc cols pk = map (\<lambda>p. PEq p (column cols (rc_After rc) p)) pk"
    using where_ast_pk[OF wf] fit by (simp add: fits_def)
  let ?upd = "\<lambda>r. if key_of cols pk r = key_of cols pk (rc_After rc) then rc_Before rc else r"
  have q': "exec_ast cols q X = image_mset ?upd X" for X
    using q ActionUpdate w wf fit
    by (auto simp: reverse_ast_def selected_key set_row_image wf_table_def fits_def cong: if_cong)
  have "image_mset ?upd (T - {#rc_Before rc#}) = image_mset (\<lambda>r. r) (T - {#rc_Before rc#})"
    using fit ActionUpdate by (intro image_mset_cong) (auto simp: fits_def)
  then show ?thesis
    using fit ActionUpdate by (simp add: q' apply_change_def fits_def)
next
  case ActionDelete
  then show ?thesis using q fit by (auto simp: reverse_ast_def apply_change_def fits_def)
next
  case (ActionUnknown n)
  then show ?thesis using fit by (simp add: fits_def)
qed

subsection \<open>A whole transaction\<close>

type_synonym db = "string \<Rightarrow> gval list multiset"

record table_def =
  td_cols :: "string list"
  td_pk :: "string list"

definition rc_key :: "RowChange \<Rightarrow> string" where
  "rc_key rc = schema_key (rc_Schema rc) (rc_Table rc)"

definition apply_db :: "RowChange \<Rightarrow> db \<Rightarrow> db" where
  "apply_db rc D = D(rc_key rc := apply_change rc (D (rc_key rc)))"

definition undo_db :: "(string \<Rightarrow> table_def) \<Rightarrow> RowChange \<Rightarrow> db \<Rightarrow> db" where
  "undo_db S rc D =
     (case reverse_ast rc (td_cols (S (rc_key rc))) (td_pk (S (rc_key rc))) of
        None \<Rightarrow> D
      | Some q \<Rightarrow> D(rc_key rc := exec_ast (td_cols (S (rc_key rc))) q (D (rc_key rc))))"

fun run_changes :: "RowChange list \<Rightarrow> db \<Rightarrow> db" where
  "run_changes [] D = D"
| "run_changes (rc # rcs) D = run_changes rcs (apply_db rc D)"

fun changes_fit :: "(string \<Rightarrow> table_def) \<Rightarrow> RowChange list \<Rightarrow> db \<Rightarrow> bool" where
  "changes_fit S [] D = True"
| "changes_fit S (rc # rcs) D =
     (fits (td_cols (S (rc_key rc))) (td_pk (S (rc_key rc))) rc (D (rc_key rc)) \<and>
      changes_fit S rcs (apply_db rc D))"

text \<open>The statements \<open>Generate\<close> returns, executed in the order it returns them.\<close>

definition undo_all :: "(string \<Rightarrow> table_def) \<Rightarrow> Statement list \<Rightarrow> db \<Rightarrow> db" where
  "undo_all S out D = foldl (\<lambda>D s. undo_db S (the (st_SourceRow s)) D) D out"

lemma undo_apply:
  assumes "wf_table (td_cols (S (rc_key rc))) (td_pk (S (rc_key rc)))"
    and "fits (td_cols (S (rc_key rc))) (td_pk (S (rc_key rc))) rc (D (rc_key rc))"
  shows "undo_db S rc (apply_db rc D) = D"
proof -
  from assms(2) obtain q where q: "reverse_ast rc (td_cols (S (rc_key rc))) (td_pk (S (rc_key rc))) = Some q"
    by (auto simp: reverse_ast_def fits_def split: RowAction.splits)
  show ?thesis using reverse_undoes_change[OF assms q] q by (simp add: undo_db_def apply_db_def)
qed

lemma foldl_undo:
  assumes "\<forall>rc \<in> set rcs. wf_table (td_cols (S (rc_key rc))) (td_pk (S (rc_key rc)))" and "changes_fit S rcs D"
  shows "foldl (\<lambda>D rc. undo_db S rc D) (run_changes rcs D) (rev rcs) = D"
  using assms
proof (induction rcs arbitrary: D)
  case (Cons rc rcs)
  then show ?case using undo_apply[of S rc D] by simp
qed simp

lemma foldl_map_rows: "foldl (\<lambda>D s. g (the (st_SourceRow s)) D) D out = foldl (\<lambda>D rc. g rc D) D (map (\<lambda>s. the (st_SourceRow s)) out)"
  by (induction out arbitrary: D) auto

lemma Generate_undoes:
  assumes "Generate (Some tx) schema ms = Inr out" and "0 \<le> ms"
    and "\<forall>rc \<in> set (tx_Statements tx). wf_table (td_cols (S (rc_key rc))) (td_pk (S (rc_key rc)))"
    and "changes_fit S (tx_Statements tx) D"
  shows "undo_all S out (run_changes (tx_Statements tx) D) = D"
proof -
  let ?n = "length (tx_Statements tx)"
  from Generate_Inr[OF assms(1)] have "map st_SourceRow out =
      map (\<lambda>i. Some (tx_Statements tx ! i)) (rev [0..<?n])" by (auto simp: comp_def)
  then have "map (\<lambda>s. the (st_SourceRow s)) out = map (\<lambda>i. tx_Statements tx ! i) (rev [0..<?n])"
    by (metis (no_types, lifting) map_map comp_def option.sel list.map_cong0)
  also have "\<dots> = rev (tx_Statements tx)"
    by (metis map_nth rev_map)
  finally show ?thesis
    using foldl_undo[OF assms(3,4)] by (simp add: undo_all_def foldl_map_rows)
qed

lemma run_changes_append: "run_changes (xs @ ys) D = run_changes ys (run_changes xs D)"
  by (induction xs arbitrary: D) auto

lemma changes_fit_append: "changes_fit S (xs @ ys) D \<longleftrightarrow> changes_fit S xs D \<and> changes_fit S ys (run_changes xs D)"
  by (induction xs arbitrary: D) auto

text \<open>Several transactions: their statements undo them when the last transaction comes first.\<close>

lemma Generate_undoes_newest_first:
  assumes "list_all2 (\<lambda>tx out. Generate (Some tx) schema ms = Inr out) txs outs" and "0 \<le> ms"
    and "\<forall>tx \<in> set txs. \<forall>rc \<in> set (tx_Statements tx). wf_table (td_cols (S (rc_key rc))) (td_pk (S (rc_key rc)))"
    and "changes_fit S (concat (map tx_Statements txs)) D"
  shows "undo_all S (concat (rev outs)) (run_changes (concat (map tx_Statements txs)) D) = D"
  using assms(1,3,4)
proof (induction txs outs arbitrary: D rule: list_all2_induct)
  case (Cons tx txs out outs)
  have "undo_all S (concat (rev outs)) (run_changes (concat (map tx_Statements txs)) (run_changes (tx_Statements tx) D)) =
      run_changes (tx_Statements tx) D"
    using Cons.IH Cons.prems by (simp add: changes_fit_append)
  moreover have "undo_all S out (run_changes (tx_Statements tx) D) = D"
    using Generate_undoes[OF Cons.hyps(1) assms(2)] Cons.prems by (simp add: changes_fit_append)
  ultimately show ?case by (simp add: run_changes_append undo_all_def)
qed (simp add: undo_all_def)




text \<open>
  Without a primary key the predicate matches whole rows and has no row limit. Reversing the
  insertion of a row that was already there deletes every copy of it, also the copies the
  transaction never touched.
\<close>

theorem reverse_of_duplicate_insert_deletes_all_copies:
  "\<exists>q. reverse_ast \<lparr>rc_Schema = s, rc_Table = t, rc_Action = ActionInsert, rc_Before = [],
                     rc_After = [VInt 1], rc_ColumnNames = []\<rparr> [''a''] [] = Some q \<and>
     exec_ast [''a''] q (apply_change \<lparr>rc_Schema = s, rc_Table = t, rc_Action = ActionInsert, rc_Before = [],
        rc_After = [VInt 1], rc_ColumnNames = []\<rparr> {#[VInt 1], [VInt 2]#}) = {#[VInt 2]#}"
  by (simp add: reverse_ast_def where_ast_def where_pred_def apply_change_def selected_def column_def image_at_def)

end
