(* ===== verification/Fs.thy ===== *)
theory Fs
  imports Prelude
begin

text \<open>
  The file system calls of package \<open>os\<close> that the code makes, on one directory: a map from names
  to contents, with modification times and a clock that counts the calls. \<open>fs_fault n\<close> decides
  whether call number \<open>n\<close> fails; when a failing call was writing \<open>x\<close>, the contents \<open>g x\<close> are left
  behind (a torn write). Every theorem quantifies over the fault function, so it covers every
  pattern of failures. A \<open>json_file\<close> holds the JSON text of one value, or bytes that do not parse.
\<close>

datatype 'a json_file = Json 'a | Corrupt

record 'c fsys =
  fs_files :: "string \<rightharpoonup> 'c"
  fs_mtime :: "string \<Rightarrow> time"
  fs_clock :: nat
  fs_fault :: "nat \<Rightarrow> ('c \<Rightarrow> 'c) option"
  fs_now :: time

definition os_ErrNotExist :: err where
  "os_ErrNotExist = Err ''file does not exist'' []"

definition io_error :: err where
  "io_error = Err ''input/output error'' []"

definition fs_tick :: "'c fsys \<Rightarrow> 'c fsys" where
  "fs_tick fs = fs\<lparr>fs_clock := Suc (fs_clock fs)\<rparr>"

definition fs_put :: "string \<Rightarrow> 'c \<Rightarrow> 'c fsys \<Rightarrow> 'c fsys" where
  "fs_put p c fs = fs\<lparr>fs_files := (fs_files fs)(p \<mapsto> c), fs_mtime := (fs_mtime fs)(p := fs_now fs)\<rparr>"

definition fs_del :: "string \<Rightarrow> 'c fsys \<Rightarrow> 'c fsys" where
  "fs_del p fs = fs\<lparr>fs_files := (fs_files fs)(p := None)\<rparr>"

text \<open>\<open>os.ReadFile\<close>, \<open>os.WriteFile\<close> (create or truncate), \<open>os.Rename\<close>, \<open>os.Remove\<close>, \<open>os.Stat\<close>.\<close>

definition os_ReadFile :: "string \<Rightarrow> 'c fsys \<Rightarrow> (err + 'c) \<times> 'c fsys" where
  "os_ReadFile p fs =
     ((case fs_fault fs (fs_clock fs) of
         Some _ \<Rightarrow> Inl io_error
       | None \<Rightarrow> (case fs_files fs p of None \<Rightarrow> Inl os_ErrNotExist | Some c \<Rightarrow> Inr c)), fs_tick fs)"

definition os_WriteFile :: "string \<Rightarrow> 'c \<Rightarrow> 'c fsys \<Rightarrow> err option \<times> 'c fsys" where
  "os_WriteFile p c fs =
     (case fs_fault fs (fs_clock fs) of
        Some g \<Rightarrow> (Some io_error, fs_put p (g c) (fs_tick fs))
      | None \<Rightarrow> (None, fs_put p c (fs_tick fs)))"

definition os_Rename :: "string \<Rightarrow> string \<Rightarrow> 'c fsys \<Rightarrow> err option \<times> 'c fsys" where
  "os_Rename a b fs =
     (case fs_fault fs (fs_clock fs) of
        Some _ \<Rightarrow> (Some io_error, fs_tick fs)
      | None \<Rightarrow>
          (case fs_files fs a of
             None \<Rightarrow> (Some os_ErrNotExist, fs_tick fs)
           | Some c \<Rightarrow>
               (None, (fs_tick fs)\<lparr>fs_files := (fs_files fs)(a := None, b \<mapsto> c),
                                    fs_mtime := (fs_mtime fs)(b := fs_mtime fs a)\<rparr>)))"

definition os_Remove :: "string \<Rightarrow> 'c fsys \<Rightarrow> err option \<times> 'c fsys" where
  "os_Remove p fs =
     (case fs_fault fs (fs_clock fs) of
        Some _ \<Rightarrow> (Some io_error, fs_tick fs)
      | None \<Rightarrow>
          (case fs_files fs p of
             None \<Rightarrow> (Some os_ErrNotExist, fs_tick fs)
           | Some _ \<Rightarrow> (None, fs_del p (fs_tick fs))))"

definition os_MkdirAll :: "'c fsys \<Rightarrow> err option \<times> 'c fsys" where
  "os_MkdirAll fs = (map_option (\<lambda>_. io_error) (fs_fault fs (fs_clock fs)), fs_tick fs)"

text \<open>\<open>os.ReadDir\<close>: the entries of the directory, sorted by name; the listing is given by the environment.\<close>

definition os_ReadDir :: "string list \<Rightarrow> 'c fsys \<Rightarrow> (err + string list) \<times> 'c fsys" where
  "os_ReadDir entries fs =
     ((case fs_fault fs (fs_clock fs) of Some _ \<Rightarrow> Inl io_error | None \<Rightarrow> Inr entries), fs_tick fs)"

text \<open>
  \<open>os.Stat\<close> (its error), \<open>os.Create\<close>, \<open>os.OpenFile\<close> with \<open>O_CREATE|O_APPEND\<close> and with \<open>O_APPEND\<close> alone, and one
  \<open>Write\<close> to a file opened by one of these: it adds the bytes at the end, a failing one adds \<open>g data\<close>. The
  directory listing without a fault: the given names that exist.
\<close>

definition os_Stat :: "string \<Rightarrow> 'c fsys \<Rightarrow> err option \<times> 'c fsys" where
  "os_Stat p fs =
     ((case fs_fault fs (fs_clock fs) of
         Some _ \<Rightarrow> Some io_error
       | None \<Rightarrow> (if fs_files fs p = None then Some os_ErrNotExist else None)), fs_tick fs)"

definition os_Create :: "string \<Rightarrow> string fsys \<Rightarrow> err option \<times> string fsys" where
  "os_Create p fs =
     (case fs_fault fs (fs_clock fs) of
        Some _ \<Rightarrow> (Some io_error, fs_tick fs)
      | None \<Rightarrow> (None, fs_put p [] (fs_tick fs)))"

definition os_OpenCreateAppend :: "string \<Rightarrow> string fsys \<Rightarrow> err option \<times> string fsys" where
  "os_OpenCreateAppend p fs =
     (case fs_fault fs (fs_clock fs) of
        Some _ \<Rightarrow> (Some io_error, fs_tick fs)
      | None \<Rightarrow> (None, if fs_files fs p = None then fs_put p [] (fs_tick fs) else fs_tick fs))"

definition os_OpenAppend :: "string \<Rightarrow> string fsys \<Rightarrow> err option \<times> string fsys" where
  "os_OpenAppend p fs = os_Stat p fs"

definition os_Append :: "string \<Rightarrow> string \<Rightarrow> string fsys \<Rightarrow> err option \<times> string fsys" where
  "os_Append p data fs =
     (let old = (case fs_files fs p of None \<Rightarrow> [] | Some c \<Rightarrow> c) in
      case fs_fault fs (fs_clock fs) of
        Some g \<Rightarrow> (Some io_error, fs_put p (old @ g data) (fs_tick fs))
      | None \<Rightarrow> (None, fs_put p (old @ data) (fs_tick fs)))"

definition os_ListDir :: "string list \<Rightarrow> 'c fsys \<Rightarrow> (err + string list) \<times> 'c fsys" where
  "os_ListDir names fs = os_ReadDir (filter (\<lambda>n. fs_files fs n \<noteq> None) names) fs"

definition os_Exists :: "string \<Rightarrow> 'c fsys \<Rightarrow> bool" where
  "os_Exists p fs = (fs_files fs p \<noteq> None)"

definition no_faults :: "nat \<Rightarrow> ('c \<Rightarrow> 'c) option" where
  "no_faults n = None"

lemma fs_tick_simps [simp]:
  "fs_files (fs_tick fs) = fs_files fs" "fs_fault (fs_tick fs) = fs_fault fs"
  "fs_clock (fs_tick fs) = Suc (fs_clock fs)" "fs_mtime (fs_tick fs) = fs_mtime fs" "fs_now (fs_tick fs) = fs_now fs"
  by (simp_all add: fs_tick_def)

lemma fs_put_simps [simp]:
  "fs_files (fs_put p c fs) = (fs_files fs)(p \<mapsto> c)" "fs_fault (fs_put p c fs) = fs_fault fs"
  "fs_clock (fs_put p c fs) = fs_clock fs" "fs_now (fs_put p c fs) = fs_now fs"
  by (simp_all add: fs_put_def)

lemma fs_del_simps [simp]:
  "fs_files (fs_del p fs) = (fs_files fs)(p := None)" "fs_fault (fs_del p fs) = fs_fault fs"
  "fs_clock (fs_del p fs) = fs_clock fs" "fs_now (fs_del p fs) = fs_now fs"
  by (simp_all add: fs_del_def)

lemma os_ReadFile_fs [simp]: "snd (os_ReadFile p fs) = fs_tick fs"
  by (simp add: os_ReadFile_def)

lemma os_WriteFile_ok: "os_WriteFile p c fs = (None, fs') \<Longrightarrow> fs' = fs_put p c (fs_tick fs)"
  by (auto simp: os_WriteFile_def split: option.splits)

lemma os_WriteFile_other: "os_WriteFile p c fs = (r, fs') \<Longrightarrow> q \<noteq> p \<Longrightarrow> fs_files fs' q = fs_files fs q"
  by (auto simp: os_WriteFile_def split: option.splits)

lemma os_Rename_ok:
  "os_Rename a b fs = (None, fs') \<Longrightarrow> \<exists>c. fs_files fs a = Some c \<and> fs_files fs' = (fs_files fs)(a := None, b \<mapsto> c)"
  by (auto simp: os_Rename_def split: option.splits)

lemma os_Rename_err: "os_Rename a b fs = (Some e, fs') \<Longrightarrow> fs_files fs' = fs_files fs"
  by (auto simp: os_Rename_def split: option.splits)

lemma os_Remove_ok: "os_Remove p fs = (None, fs') \<Longrightarrow> fs_files fs' = (fs_files fs)(p := None)"
  by (auto simp: os_Remove_def split: option.splits)

lemma os_Remove_err: "os_Remove p fs = (Some e, fs') \<Longrightarrow> fs_files fs' = fs_files fs"
  by (auto simp: os_Remove_def split: option.splits)

lemma os_Remove_other: "os_Remove p fs = (r, fs') \<Longrightarrow> q \<noteq> p \<Longrightarrow> fs_files fs' q = fs_files fs q"
  by (auto simp: os_Remove_def split: option.splits)

lemma os_Remove_shrinks: "os_Remove p fs = (r, fs') \<Longrightarrow> fs_files fs' q = Some c \<Longrightarrow> fs_files fs q = Some c"
  by (auto simp: os_Remove_def split: option.splits if_splits)

lemma os_Stat_fs [simp]: "snd (os_Stat p fs) = fs_tick fs" "snd (os_OpenAppend p fs) = fs_tick fs"
  by (simp_all add: os_Stat_def os_OpenAppend_def)

lemma os_Stat_ok: "os_Stat p fs = (None, fs') \<Longrightarrow> fs_files fs p \<noteq> None \<and> fs' = fs_tick fs"
  by (auto simp: os_Stat_def split: option.splits if_splits)

text \<open>Every call changes at most the file it names.\<close>

lemma fs_calls_other:
  "os_Stat p fs = (r, fs') \<Longrightarrow> fs_files fs' = fs_files fs"
  "os_OpenAppend p fs = (r, fs') \<Longrightarrow> fs_files fs' = fs_files fs"
  "os_ReadFile p fs = (rr, fs') \<Longrightarrow> fs_files fs' = fs_files fs"
  "os_ReadDir ns fs = (rd, fs') \<Longrightarrow> fs_files fs' = fs_files fs"
  "os_Create p fsb = (r, fsb') \<Longrightarrow> q \<noteq> p \<Longrightarrow> fs_files fsb' q = fs_files fsb q"
  "os_OpenCreateAppend p fsb = (r, fsb') \<Longrightarrow> q \<noteq> p \<Longrightarrow> fs_files fsb' q = fs_files fsb q"
  "os_Append p d fsb = (r, fsb') \<Longrightarrow> q \<noteq> p \<Longrightarrow> fs_files fsb' q = fs_files fsb q"
  by (auto simp: os_Stat_def os_OpenAppend_def os_ReadFile_def os_ReadDir_def os_Create_def os_OpenCreateAppend_def
      os_Append_def Let_def split: option.splits if_splits)

text \<open>What the calls do when nothing fails.\<close>

definition healthy :: "'c fsys \<Rightarrow> bool" where
  "healthy fs \<longleftrightarrow> fs_fault fs = no_faults"

lemma healthy_calls:
  assumes "healthy fs"
  shows "os_Stat p fs = ((if fs_files fs p = None then Some os_ErrNotExist else None), fs_tick fs)"
    "os_ReadFile p fs = ((case fs_files fs p of None \<Rightarrow> Inl os_ErrNotExist | Some c \<Rightarrow> Inr c), fs_tick fs)"
    "os_WriteFile p c fs = (None, fs_put p c (fs_tick fs))"
    "os_ReadDir ns fs = (Inr ns, fs_tick fs)"
    "healthy (fs_tick fs)" "healthy (fs_put p c fs)" "healthy (fs_del p fs)"
  using assms by (simp_all add: healthy_def no_faults_def os_Stat_def os_ReadFile_def os_WriteFile_def os_ReadDir_def)

lemma healthy_rename:
  "healthy fs \<Longrightarrow> fs_files fs a = Some c \<Longrightarrow> \<exists>fs'. os_Rename a b fs = (None, fs') \<and> healthy fs' \<and>
     fs_files fs' = (fs_files fs)(a := None, b \<mapsto> c)"
  by (simp add: healthy_def no_faults_def os_Rename_def)

lemma healthy_remove:
  "healthy fs \<Longrightarrow> \<exists>r fs'. os_Remove p fs = (r, fs') \<and> healthy fs' \<and> fs_files fs' = (fs_files fs)(p := None) \<and>
     (r = None \<longleftrightarrow> fs_files fs p \<noteq> None)"
  by (cases "fs_files fs p") (auto simp: healthy_def no_faults_def os_Remove_def)

lemma healthy_bytes:
  assumes "healthy fs"
  shows "os_Create p fs = (None, fs_put p [] (fs_tick fs))"
    "os_Append p d fs = (None, fs_put p ((case fs_files fs p of None \<Rightarrow> [] | Some c \<Rightarrow> c) @ d) (fs_tick fs))"
    "fs_files fs p = None \<Longrightarrow> os_OpenCreateAppend p fs = (None, fs_put p [] (fs_tick fs))"
    "fs_files fs p = Some c \<Longrightarrow> os_OpenCreateAppend p fs = (None, fs_tick fs)"
    "os_OpenAppend p fs = ((if fs_files fs p = None then Some os_ErrNotExist else None), fs_tick fs)"
  using assms by (simp_all add: healthy_def no_faults_def os_Create_def os_Append_def os_OpenCreateAppend_def
      os_OpenAppend_def os_Stat_def)

text \<open>
  The write-then-rename idiom (\<open>SaveState\<close>, \<open>FileCheckpointStore.Save\<close>, \<open>Manager.atomicWrite\<close>):
  the target holds its old contents or the new ones, never a torn write.
\<close>

definition write_rename :: "string \<Rightarrow> string \<Rightarrow> 'c \<Rightarrow> 'c fsys \<Rightarrow> err option \<times> 'c fsys" where
  "write_rename tmp target c fs =
     (case os_WriteFile tmp c fs of
        (Some e, fs1) \<Rightarrow> (Some e, fs1)
      | (None, fs1) \<Rightarrow> os_Rename tmp target fs1)"

lemma write_rename_atomic:
  assumes "write_rename tmp target c fs = (r, fs')" and "tmp \<noteq> target"
  shows "fs_files fs' target = (if r = None then Some c else fs_files fs target)"
  using assms
  by (auto simp: write_rename_def os_WriteFile_def os_Rename_def split: option.splits)

lemma write_rename_other:
  assumes "write_rename tmp target c fs = (r, fs')" and "q \<noteq> tmp" and "q \<noteq> target"
  shows "fs_files fs' q = fs_files fs q"
  using assms
  by (auto simp: write_rename_def os_WriteFile_def os_Rename_def split: option.splits)

end
