(* ===== verification/Executor.thy ===== *)
theory Executor
  imports Fs Reverse
begin

text \<open>
  \<open>internal/executor\<close>: batched execution of reverse SQL with checkpoints.

  The database is third party: \<open>db_driver\<close> gives what the code observes of it. A transaction
  works on a copy of the committed state; \<open>Commit\<close> replaces the committed state by the copy,
  \<open>Rollback\<close> (or a failed commit) drops the copy. The checkpoint store is an argument too
  (\<open>ckstore\<close>), with the two stores of the package as instances. Where the context is found
  cancelled is the argument \<open>ctx\<close>: at the head of the loop with so many statements completed, or
  before the statement at an index. Each of these points is passed once in a run.
\<close>

subsection \<open>Types\<close>

record ExecError =
  ee_Statement :: nat
  ee_SQL :: string
  ee_Err :: err

record Plan =
  pl_OperationID :: string
  pl_Statements :: "Statement list"
  pl_BatchSize :: int

record Progress =
  pg_Done :: nat
  pg_Total :: nat
  pg_LastTxID :: string
  pg_LastSQL :: string
  pg_Errors :: "ExecError list"

record FinalReport =
  fr_Done :: nat
  fr_Total :: nat
  fr_RowsAffected :: int
  fr_Errors :: "ExecError list"
  fr_Paused :: bool

record Checkpoint =
  cp_OperationID :: string
  cp_LastCompletedStatement :: nat
  cp_Total :: nat
  cp_RowsAffected :: int
  cp_Errors :: "ExecError list"

definition ErrCheckpointNotFound :: err where
  "ErrCheckpointNotFound = Err ''executor: checkpoint not found'' []"

definition DefaultBatchSize :: int where
  "DefaultBatchSize = 50"

text \<open>\<open>CheckpointStore\<close>\<close>

record 's ckstore =
  ck_Load :: "'s \<Rightarrow> string \<Rightarrow> (err + Checkpoint) \<times> 's"
  ck_Save :: "'s \<Rightarrow> Checkpoint \<Rightarrow> err option \<times> 's"
  ck_Clear :: "'s \<Rightarrow> string \<Rightarrow> err option \<times> 's"

text \<open>\<open>DBConnFactory\<close>, \<open>DB\<close>, \<open>Tx\<close>, \<open>Result\<close>: errors of opening, of beginning and of committing with so many
  statements completed; the effect of a statement and its affected rows (\<open>None\<close>: not available).\<close>

record 'd db_driver =
  dr_open :: "err option"
  dr_begin :: "nat \<Rightarrow> err option"
  dr_exec :: "'d \<Rightarrow> string \<Rightarrow> (err + int option) \<times> 'd"
  dr_commit :: "nat \<Rightarrow> err option"

record exec_ctx =
  cx_head :: "nat \<Rightarrow> bool"
  cx_stmt :: "nat \<Rightarrow> bool"

record ('d, 's) xworld =
  xw_db :: 'd
  xw_store :: 's
  xw_progress :: "Progress list"

subsection \<open>The stores\<close>

type_synonym mem_store = "string \<rightharpoonup> Checkpoint"

definition mem_Load :: "mem_store \<Rightarrow> string \<Rightarrow> (err + Checkpoint) \<times> mem_store" where
  "mem_Load s operationID =
     ((case s operationID of
         None \<Rightarrow> Inl (Wrap ''%w (operation %q)'' [operationID] ErrCheckpointNotFound)
       | Some c \<Rightarrow> Inr c), s)"

definition mem_Save :: "mem_store \<Rightarrow> Checkpoint \<Rightarrow> err option \<times> mem_store" where
  "mem_Save s c =
     (if cp_OperationID c = [] then (Some (Err ''executor: checkpoint.OperationID required'' []), s)
      else (None, s(cp_OperationID c \<mapsto> c)))"

definition mem_Clear :: "mem_store \<Rightarrow> string \<Rightarrow> err option \<times> mem_store" where
  "mem_Clear s operationID = (None, s(operationID := None))"

definition InMemoryCheckpointStore :: "mem_store ckstore" where
  "InMemoryCheckpointStore = \<lparr>ck_Load = mem_Load, ck_Save = mem_Save, ck_Clear = mem_Clear\<rparr>"

type_synonym file_store = "Checkpoint json_file fsys"

text \<open>\<open>path\<close>: the files of the directory are named relative to it.\<close>

definition ck_path :: "string \<Rightarrow> string" where
  "ck_path i = i @ ''.json''"

definition file_Load :: "file_store \<Rightarrow> string \<Rightarrow> (err + Checkpoint) \<times> file_store" where
  "file_Load s operationID =
     (case os_ReadFile (ck_path operationID) s of
        (Inl e, s1) \<Rightarrow>
          (if e = os_ErrNotExist
           then (Inl (Wrap ''%w (operation %q)'' [operationID] ErrCheckpointNotFound), s1)
           else (Inl (Wrap ''executor: load checkpoint %s: %w'' [operationID] e), s1))
      | (Inr Corrupt, s1) \<Rightarrow> (Inl (Err ''executor: parse checkpoint %s: %w'' [operationID]), s1)
      | (Inr (Json cp), s1) \<Rightarrow> (Inr cp, s1))"

definition file_Save :: "file_store \<Rightarrow> Checkpoint \<Rightarrow> err option \<times> file_store" where
  "file_Save s c =
     (if cp_OperationID c = [] then (Some (Err ''executor: checkpoint.OperationID required'' []), s)
      else (let tmp = ck_path (cp_OperationID c) @ ''.tmp'' in
            case os_WriteFile tmp (Json c) s of
              (Some e, s1) \<Rightarrow> (Some (Wrap ''executor: write checkpoint: %w'' [] e), s1)
            | (None, s1) \<Rightarrow>
                (case os_Rename tmp (ck_path (cp_OperationID c)) s1 of
                   (Some e, s2) \<Rightarrow> (Some (Wrap ''executor: commit checkpoint: %w'' [] e), s2)
                 | (None, s2) \<Rightarrow> (None, s2))))"

definition file_Clear :: "file_store \<Rightarrow> string \<Rightarrow> err option \<times> file_store" where
  "file_Clear s operationID =
     (case os_Remove (ck_path operationID) s of
        (Some e, s1) \<Rightarrow>
          (if e \<noteq> os_ErrNotExist then (Some (Wrap ''executor: clear checkpoint %s: %w'' [operationID] e), s1)
           else (None, s1))
      | (None, s1) \<Rightarrow> (None, s1))"

definition FileCheckpointStore :: "file_store ckstore" where
  "FileCheckpointStore = \<lparr>ck_Load = file_Load, ck_Save = file_Save, ck_Clear = file_Clear\<rparr>"

subsection \<open>The executor\<close>

definition normalizePlan :: "Plan \<Rightarrow> err + Plan" where
  "normalizePlan plan =
     (if pl_OperationID plan = [] then Inl (Err ''executor: plan.OperationID required'' [])
      else (let p = (if pl_BatchSize plan = 0 then plan\<lparr>pl_BatchSize := DefaultBatchSize\<rparr> else plan) in
            if pl_BatchSize p < 1 then Inl (Err ''executor: BatchSize must be >= 1'' [])
            else Inr p))"

definition lastTxID :: "Plan \<Rightarrow> nat \<Rightarrow> string" where
  "lastTxID plan completed =
     (if completed = 0 \<or> completed - 1 \<ge> length (pl_Statements plan) then []
      else st_TxID (pl_Statements plan ! (completed - 1)))"

definition lastSQL :: "Plan \<Rightarrow> nat \<Rightarrow> string" where
  "lastSQL plan completed =
     (if completed = 0 \<or> completed - 1 \<ge> length (pl_Statements plan) then []
      else st_SQL (pl_Statements plan ! (completed - 1)))"

record 'd batch =
  b_db :: 'd
  b_errs :: "ExecError list"
  b_rows :: int
  b_aborted :: bool

text \<open>One statement of a batch: an empty one is skipped, a failing one is recorded.\<close>

definition exec_stmt :: "'d db_driver \<Rightarrow> Statement list \<Rightarrow> nat \<Rightarrow> 'd batch \<Rightarrow> 'd batch" where
  "exec_stmt D stmts i b =
     (let sql = st_SQL (stmts ! i) in
      if sql = [] then b
      else (case dr_exec D (b_db b) sql of
              (Inl e, d') \<Rightarrow>
                b\<lparr>b_db := d', b_errs := b_errs b @ [\<lparr>ee_Statement = i, ee_SQL = sql, ee_Err = e\<rparr>]\<rparr>
            | (Inr None, d') \<Rightarrow> b\<lparr>b_db := d'\<rparr>
            | (Inr (Some n), d') \<Rightarrow> b\<lparr>b_db := d', b_rows := b_rows b + n\<rparr>))"

fun exec_batch :: "'d db_driver \<Rightarrow> exec_ctx \<Rightarrow> Statement list \<Rightarrow> nat list \<Rightarrow> 'd batch \<Rightarrow> 'd batch" where
  "exec_batch D C stmts [] b = b"
| "exec_batch D C stmts (i # is) b =
     (if cx_stmt C i then b\<lparr>b_aborted := True\<rparr>
      else exec_batch D C stmts is (exec_stmt D stmts i b))"

definition pausedReport :: "Plan \<Rightarrow> nat \<Rightarrow> int \<Rightarrow> ExecError list \<Rightarrow> FinalReport" where
  "pausedReport plan completed rows errs =
     \<lparr>fr_Done = completed, fr_Total = length (pl_Statements plan), fr_RowsAffected = rows,
      fr_Errors = errs, fr_Paused = True\<rparr>"

definition final_report :: "Plan \<Rightarrow> nat \<Rightarrow> int \<Rightarrow> ExecError list \<Rightarrow> FinalReport" where
  "final_report plan completed rows errs =
     \<lparr>fr_Done = completed, fr_Total = length (pl_Statements plan), fr_RowsAffected = rows,
      fr_Errors = errs, fr_Paused = False\<rparr>"

text \<open>
  The loop of \<open>runFromIndex\<close>, from \<open>completed\<close> statements on. \<open>normalizePlan\<close> has made the batch
  size positive; the loop would not advance otherwise.
\<close>

function run_batches ::
  "'s ckstore \<Rightarrow> 'd db_driver \<Rightarrow> exec_ctx \<Rightarrow> Plan \<Rightarrow> nat \<Rightarrow> ExecError list \<Rightarrow> int \<Rightarrow> ('d, 's) xworld \<Rightarrow>
     FinalReport \<times> err option \<times> ('d, 's) xworld" where
  "run_batches S D C plan completed errs rows w =
     (let total = length (pl_Statements plan) in
      if \<not> (completed < total \<and> pl_BatchSize plan \<ge> 1) then (final_report plan completed rows errs, None, w)
      else if cx_head C completed then (pausedReport plan completed rows errs, None, w)
      else
        (let batchEnd = min total (completed + nat (pl_BatchSize plan)) in
         case dr_begin D completed of
           Some e \<Rightarrow> (final_report plan completed rows errs, Some (Wrap ''executor: begin tx: %w'' [] e), w)
         | None \<Rightarrow>
             (let b = exec_batch D C (pl_Statements plan) [completed..<batchEnd]
                        \<lparr>b_db = xw_db w, b_errs = [], b_rows = 0, b_aborted = False\<rparr>
              in if b_aborted b then (pausedReport plan completed rows errs, None, w)
                 else (case dr_commit D completed of
                         Some e \<Rightarrow> (final_report plan completed rows errs,
                                    Some (Wrap ''executor: commit batch [%d,%d): %w'' [] e), w)
                       | None \<Rightarrow>
                           (let errs' = errs @ b_errs b; rows' = rows + b_rows b in
                            case ck_Save S (xw_store w)
                                   \<lparr>cp_OperationID = pl_OperationID plan, cp_LastCompletedStatement = batchEnd,
                                    cp_Total = total, cp_RowsAffected = rows', cp_Errors = errs'\<rparr> of
                              (Some e, s') \<Rightarrow>
                                (final_report plan batchEnd rows' errs',
                                 Some (Wrap ''executor: save checkpoint: %w'' [] e),
                                 w\<lparr>xw_db := b_db b, xw_store := s'\<rparr>)
                            | (None, s') \<Rightarrow>
                                run_batches S D C plan batchEnd errs' rows'
                                  (w\<lparr>xw_db := b_db b, xw_store := s',
                                     xw_progress := xw_progress w @
                                       [\<lparr>pg_Done = batchEnd, pg_Total = total, pg_LastTxID = lastTxID plan batchEnd,
                                         pg_LastSQL = lastSQL plan batchEnd, pg_Errors = errs'\<rparr>]\<rparr>))))))"
  by pat_completeness auto
termination
  by (relation "measure (\<lambda>(S, D, C, plan, completed, errs, rows, w). length (pl_Statements plan) - completed)") auto

declare run_batches.simps [simp del]

definition zero_report :: FinalReport where
  "zero_report = \<lparr>fr_Done = 0, fr_Total = 0, fr_RowsAffected = 0, fr_Errors = [], fr_Paused = False\<rparr>"

definition runFromIndex ::
  "'s ckstore \<Rightarrow> 'd db_driver \<Rightarrow> exec_ctx \<Rightarrow> Plan \<Rightarrow> nat \<Rightarrow> ExecError list \<Rightarrow> int \<Rightarrow> ('d, 's) xworld \<Rightarrow>
     FinalReport \<times> err option \<times> ('d, 's) xworld" where
  "runFromIndex S D C plan startIdx initialErrs initialRows w =
     (case dr_open D of
        Some e \<Rightarrow> (zero_report, Some (Wrap ''executor: open db: %w'' [] e), w)
      | None \<Rightarrow> run_batches S D C plan startIdx initialErrs initialRows w)"

definition Run ::
  "'s ckstore \<Rightarrow> 'd db_driver \<Rightarrow> exec_ctx \<Rightarrow> Plan \<Rightarrow> ('d, 's) xworld \<Rightarrow> FinalReport \<times> err option \<times> ('d, 's) xworld" where
  "Run S D C plan0 w =
     (case normalizePlan plan0 of
        Inl e \<Rightarrow> (zero_report, Some e, w)
      | Inr plan \<Rightarrow>
          (case ck_Clear S (xw_store w) (pl_OperationID plan) of (_, s1) \<Rightarrow>
             (case ck_Save S s1 \<lparr>cp_OperationID = pl_OperationID plan, cp_LastCompletedStatement = 0,
                                cp_Total = length (pl_Statements plan), cp_RowsAffected = 0, cp_Errors = []\<rparr> of
                (Some e, s2) \<Rightarrow> (zero_report, Some (Wrap ''executor: init checkpoint: %w'' [] e), w\<lparr>xw_store := s2\<rparr>)
              | (None, s2) \<Rightarrow> runFromIndex S D C plan 0 [] 0 (w\<lparr>xw_store := s2\<rparr>))))"

definition Resume ::
  "'s ckstore \<Rightarrow> 'd db_driver \<Rightarrow> exec_ctx \<Rightarrow> Plan \<Rightarrow> ('d, 's) xworld \<Rightarrow> FinalReport \<times> err option \<times> ('d, 's) xworld" where
  "Resume S D C plan0 w =
     (case normalizePlan plan0 of
        Inl e \<Rightarrow> (zero_report, Some e, w)
      | Inr plan \<Rightarrow>
          (case ck_Load S (xw_store w) (pl_OperationID plan) of
             (Inl e, s1) \<Rightarrow>
               (if \<not> errors_is e ErrCheckpointNotFound
                then (zero_report, Some (Wrap ''executor: load checkpoint: %w'' [] e), w\<lparr>xw_store := s1\<rparr>)
                else runFromIndex S D C plan 0 [] 0 (w\<lparr>xw_store := s1\<rparr>))
           | (Inr cp, s1) \<Rightarrow>
               (let n = length (pl_Statements plan); startIdx = cp_LastCompletedStatement cp in
                if startIdx > n
                then (\<lparr>fr_Done = n, fr_Total = n, fr_RowsAffected = cp_RowsAffected cp, fr_Errors = cp_Errors cp,
                       fr_Paused = False\<rparr>, None, w\<lparr>xw_store := s1\<rparr>)
                else runFromIndex S D C plan startIdx (cp_Errors cp) (cp_RowsAffected cp) (w\<lparr>xw_store := s1\<rparr>))))"

end
