(* ===== verification/Executor_Props.thy ===== *)
theory Executor_Props
  imports Executor
begin

text \<open>
  Correctness of the executor against the sequential execution of the plan, for every pattern of
  cancellations and database failures, and the contract of a checkpoint store as a locale with
  both stores of the package as its instances.
\<close>

subsection \<open>Sequential execution\<close>

text \<open>The statements at the listed indices, one after the other: database, errors recorded, rows affected.\<close>

definition seq_step ::
  "'d db_driver \<Rightarrow> Statement list \<Rightarrow> nat \<Rightarrow> 'd \<times> ExecError list \<times> int \<Rightarrow> 'd \<times> ExecError list \<times> int" where
  "seq_step D stmts i t =
     (case t of (d, es, n) \<Rightarrow>
        (let b = exec_stmt D stmts i \<lparr>b_db = d, b_errs = es, b_rows = n, b_aborted = False\<rparr>
         in (b_db b, b_errs b, b_rows b)))"

definition seq_exec ::
  "'d db_driver \<Rightarrow> Statement list \<Rightarrow> nat list \<Rightarrow> 'd \<times> ExecError list \<times> int \<Rightarrow> 'd \<times> ExecError list \<times> int" where
  "seq_exec D stmts is t = foldl (\<lambda>t i. seq_step D stmts i t) t is"

lemma seq_exec_Nil [simp]: "seq_exec D stmts [] t = t"
  by (simp add: seq_exec_def)

lemma seq_exec_Cons: "seq_exec D stmts (i # is) t = seq_exec D stmts is (seq_step D stmts i t)"
  by (simp add: seq_exec_def)

lemma seq_exec_append: "seq_exec D stmts (is @ js) t = seq_exec D stmts js (seq_exec D stmts is t)"
  by (simp add: seq_exec_def)

lemma seq_step_shift:
  "seq_step D stmts i (d, es @ es', n + n') =
     (case seq_step D stmts i (d, es', n') of (d1, es1, n1) \<Rightarrow> (d1, es @ es1, n + n1))"
  by (auto simp: seq_step_def exec_stmt_def Let_def split: prod.splits sum.splits option.splits)

lemma seq_exec_shift:
  "seq_exec D stmts is (d, es @ es', n + n') =
     (case seq_exec D stmts is (d, es', n') of (d1, es1, n1) \<Rightarrow> (d1, es @ es1, n + n1))"
proof (induction "is" arbitrary: d es' n')
  case (Cons i "is")
  then show ?case by (simp add: seq_exec_Cons seq_step_shift split: prod.splits)
qed simp

lemma exec_stmt_aborted [simp]: "b_aborted (exec_stmt D stmts i b) = b_aborted b"
  by (auto simp: exec_stmt_def Let_def split: prod.splits sum.splits option.splits)

lemma exec_batch_seq:
  assumes "\<not> b_aborted (exec_batch D C stmts is b)" and "\<not> b_aborted b"
  shows "seq_exec D stmts is (b_db b, b_errs b, b_rows b) =
    (b_db (exec_batch D C stmts is b), b_errs (exec_batch D C stmts is b), b_rows (exec_batch D C stmts is b))"
  using assms
proof (induction D C stmts "is" b rule: exec_batch.induct)
  case (2 D C stmts i "is" b)
  then have nc: "\<not> cx_stmt C i" by (auto split: if_splits)
  have "seq_step D stmts i (b_db b, b_errs b, b_rows b) =
    (b_db (exec_stmt D stmts i b), b_errs (exec_stmt D stmts i b), b_rows (exec_stmt D stmts i b))"
    using 2(3) by (cases b) (auto simp: seq_step_def Let_def)
  then show ?case using 2 nc by (simp add: seq_exec_Cons)
qed simp

lemma batch_seq:
  assumes "b = exec_batch D C stmts is \<lparr>b_db = d, b_errs = [], b_rows = 0, b_aborted = False\<rparr>" and "\<not> b_aborted b"
  shows "seq_exec D stmts is (d, errs, rows) = (b_db b, errs @ b_errs b, rows + b_rows b)"
  using exec_batch_seq[of D C stmts "is" "\<lparr>b_db = d, b_errs = [], b_rows = 0, b_aborted = False\<rparr>"] assms
    seq_exec_shift[of D stmts "is" d errs "[]" rows 0] by simp

subsection \<open>One round of the loop\<close>

text \<open>The body of the loop once: the result when it stops here, else the variables of the next round.\<close>

definition batch_end :: "Plan \<Rightarrow> nat \<Rightarrow> nat" where
  "batch_end plan c = min (length (pl_Statements plan)) (c + nat (pl_BatchSize plan))"

definition batch_of :: "'d db_driver \<Rightarrow> exec_ctx \<Rightarrow> Plan \<Rightarrow> nat \<Rightarrow> 'd \<Rightarrow> 'd batch" where
  "batch_of D C plan c d = exec_batch D C (pl_Statements plan) [c..<batch_end plan c]
     \<lparr>b_db = d, b_errs = [], b_rows = 0, b_aborted = False\<rparr>"

definition cp_at :: "Plan \<Rightarrow> nat \<Rightarrow> ExecError list \<Rightarrow> int \<Rightarrow> Checkpoint" where
  "cp_at plan c errs rows = \<lparr>cp_OperationID = pl_OperationID plan, cp_LastCompletedStatement = c,
     cp_Total = length (pl_Statements plan), cp_RowsAffected = rows, cp_Errors = errs\<rparr>"

definition progress_at :: "Plan \<Rightarrow> nat \<Rightarrow> ExecError list \<Rightarrow> Progress" where
  "progress_at plan c errs = \<lparr>pg_Done = c, pg_Total = length (pl_Statements plan),
     pg_LastTxID = lastTxID plan c, pg_LastSQL = lastSQL plan c, pg_Errors = errs\<rparr>"

definition run_one ::
  "'s ckstore \<Rightarrow> 'd db_driver \<Rightarrow> exec_ctx \<Rightarrow> Plan \<Rightarrow> nat \<Rightarrow> ExecError list \<Rightarrow> int \<Rightarrow> ('d, 's) xworld \<Rightarrow>
     (FinalReport \<times> err option \<times> ('d, 's) xworld) + (nat \<times> ExecError list \<times> int \<times> ('d, 's) xworld)" where
  "run_one S D C plan c errs rows w =
     (if \<not> (c < length (pl_Statements plan) \<and> pl_BatchSize plan \<ge> 1) then Inl (final_report plan c rows errs, None, w)
      else if cx_head C c then Inl (pausedReport plan c rows errs, None, w)
      else case dr_begin D c of
        Some e \<Rightarrow> Inl (final_report plan c rows errs, Some (Wrap ''executor: begin tx: %w'' [] e), w)
      | None \<Rightarrow>
          if b_aborted (batch_of D C plan c (xw_db w)) then Inl (pausedReport plan c rows errs, None, w)
          else case dr_commit D c of
            Some e \<Rightarrow> Inl (final_report plan c rows errs, Some (Wrap ''executor: commit batch [%d,%d): %w'' [] e), w)
          | None \<Rightarrow>
              case ck_Save S (xw_store w) (cp_at plan (batch_end plan c) (errs @ b_errs (batch_of D C plan c (xw_db w)))
                                             (rows + b_rows (batch_of D C plan c (xw_db w)))) of
                (Some e, s') \<Rightarrow>
                  Inl (final_report plan (batch_end plan c) (rows + b_rows (batch_of D C plan c (xw_db w)))
                         (errs @ b_errs (batch_of D C plan c (xw_db w))),
                       Some (Wrap ''executor: save checkpoint: %w'' [] e),
                       w\<lparr>xw_db := b_db (batch_of D C plan c (xw_db w)), xw_store := s'\<rparr>)
              | (None, s') \<Rightarrow>
                  Inr (batch_end plan c, errs @ b_errs (batch_of D C plan c (xw_db w)),
                       rows + b_rows (batch_of D C plan c (xw_db w)),
                       w\<lparr>xw_db := b_db (batch_of D C plan c (xw_db w)), xw_store := s',
                         xw_progress := xw_progress w @
                           [progress_at plan (batch_end plan c) (errs @ b_errs (batch_of D C plan c (xw_db w)))]\<rparr>))"

lemma batch_end_le: "c \<le> length (pl_Statements plan) \<Longrightarrow> c \<le> batch_end plan c" "batch_end plan c \<le> length (pl_Statements plan)"
  by (auto simp: batch_end_def)

lemma run_batches_one:
  "run_batches S D C plan c errs rows w =
     (case run_one S D C plan c errs rows w of
        Inl r \<Rightarrow> r
      | Inr (c', errs', rows', w') \<Rightarrow> run_batches S D C plan c' errs' rows' w')"
  by (subst run_batches.simps)
    (simp add: run_one_def Let_def batch_of_def batch_end_def cp_at_def progress_at_def
      cong: if_cong option.case_cong prod.case_cong split: option.splits prod.splits)

lemma run_one_progress: "run_one S D C plan c errs rows w = Inr (c', errs', rows', w') \<Longrightarrow> c < c' \<and> c' \<le> length (pl_Statements plan)"
  by (auto simp: run_one_def batch_end_def split: if_splits option.splits prod.splits)

lemma run_batches_induct [consumes 1, case_names stop step]:
  assumes "run_batches S D C plan c errs rows w = r"
    and stop: "\<And>c errs rows w. run_one S D C plan c errs rows w = Inl r \<Longrightarrow> P c errs rows w"
    and step: "\<And>c errs rows w c' errs' rows' w'. run_one S D C plan c errs rows w = Inr (c', errs', rows', w') \<Longrightarrow>
      run_batches S D C plan c' errs' rows' w' = r \<Longrightarrow> P c' errs' rows' w' \<Longrightarrow> P c errs rows w"
  shows "P c errs rows w"
  using assms(1)
proof (induction "length (pl_Statements plan) - c" arbitrary: c errs rows w rule: less_induct)
  case less
  show ?case
  proof (cases "run_one S D C plan c errs rows w")
    case (Inl x)
    then show ?thesis using less.prems stop by (simp add: run_batches_one)
  next
    case (Inr y)
    obtain c' errs' rows' w' where y: "y = (c', errs', rows', w')" by (cases y)
    then have "run_batches S D C plan c' errs' rows' w' = r"
      using less.prems Inr by (simp add: run_batches_one[of S D C plan c errs])
    moreover have "length (pl_Statements plan) - c' < length (pl_Statements plan) - c"
      using run_one_progress[of S D C plan c errs rows w c'] Inr y by fastforce
    ultimately show ?thesis using less.hyps step[of c errs rows w] Inr y by blast
  qed
qed

lemma batch_of_seq:
  "\<not> b_aborted (batch_of D C plan c d) \<Longrightarrow>
   seq_exec D (pl_Statements plan) [c..<batch_end plan c] (d, errs, rows) =
     (b_db (batch_of D C plan c d), errs @ b_errs (batch_of D C plan c d), rows + b_rows (batch_of D C plan c d))"
  by (rule batch_seq[OF batch_of_def])

lemma run_one_Inr_seq:
  "run_one S D C plan c errs rows w = Inr (c', errs', rows', w') \<Longrightarrow>
   seq_exec D (pl_Statements plan) [c..<c'] (xw_db w, errs, rows) = (xw_db w', errs', rows')"
  by (auto simp: run_one_def batch_of_seq split: if_splits option.splits prod.splits)

lemma run_one_Inr_save:
  "run_one S D C plan c errs rows w = Inr (c', errs', rows', w') \<Longrightarrow>
   ck_Save S (xw_store w) (cp_at plan c' errs' rows') = (None, xw_store w')"
  by (auto simp: run_one_def split: if_splits option.splits prod.splits)

lemma run_one_Inl_seq:
  assumes "run_one S D C plan c errs rows w = Inl (rep, e, w')"
    and "c \<le> length (pl_Statements plan)" and "1 \<le> pl_BatchSize plan"
  shows "c \<le> fr_Done rep \<and> fr_Done rep \<le> length (pl_Statements plan) \<and> fr_Total rep = length (pl_Statements plan) \<and>
    seq_exec D (pl_Statements plan) [c..<fr_Done rep] (xw_db w, errs, rows) = (xw_db w', fr_Errors rep, fr_RowsAffected rep) \<and>
    (e = None \<and> \<not> fr_Paused rep \<longrightarrow> fr_Done rep = length (pl_Statements plan))"
  using assms
  by (auto simp: run_one_def pausedReport_def final_report_def batch_of_seq batch_end_le
      split: if_splits option.splits prod.splits)

subsection \<open>The loop is the sequential execution of a prefix\<close>

lemma run_batches_prefix:
  assumes "run_batches S D C plan c errs rows w = (rep, e, w')"
    and "c \<le> length (pl_Statements plan)" and size: "1 \<le> pl_BatchSize plan"
  shows "c \<le> fr_Done rep \<and> fr_Done rep \<le> length (pl_Statements plan) \<and> fr_Total rep = length (pl_Statements plan) \<and>
    seq_exec D (pl_Statements plan) [c..<fr_Done rep] (xw_db w, errs, rows) = (xw_db w', fr_Errors rep, fr_RowsAffected rep) \<and>
    (e = None \<and> \<not> fr_Paused rep \<longrightarrow> fr_Done rep = length (pl_Statements plan))"
  using assms(1,2)
proof (induction rule: run_batches_induct)
  case (stop c errs rows w)
  then show ?case using run_one_Inl_seq size by blast
next
  case (step c errs rows w c' errs' rows' w1)
  note p = run_one_progress[OF step(1)]
  then have "[c..<fr_Done rep] = [c..<c'] @ [c'..<fr_Done rep]"
    using step(3) upt_add_eq_append[of c c' "fr_Done rep - c'"] by simp
  then show ?case using step(3) p by (simp add: seq_exec_append run_one_Inr_seq[OF step(1)])
qed

lemma normalizePlan_Inr:
  "normalizePlan plan0 = Inr plan \<Longrightarrow>
   pl_Statements plan = pl_Statements plan0 \<and> pl_OperationID plan = pl_OperationID plan0 \<and> 1 \<le> pl_BatchSize plan \<and>
   pl_OperationID plan0 \<noteq> []"
  by (auto simp: normalizePlan_def Let_def DefaultBatchSize_def split: if_splits)

lemma seq_exec_dr_exec:
  assumes "dr_exec D = dr_exec D'"
  shows "seq_exec D = seq_exec D'"
  unfolding seq_exec_def[abs_def] seq_step_def exec_stmt_def assms ..

subsection \<open>The contract of a checkpoint store\<close>

text \<open>\<open>ab\<close> reads the checkpoint of an operation off the state of the store.\<close>

locale checkpoint_store =
  fixes S :: "'s ckstore" and ab :: "'s \<Rightarrow> string \<Rightarrow> Checkpoint option"
  assumes save_ok: "ck_Save S s cp = (None, s') \<Longrightarrow> ab s' = (ab s)(cp_OperationID cp \<mapsto> cp)"
    and save_err: "ck_Save S s cp = (Some e, s') \<Longrightarrow> ab s' = ab s"
    and load_keeps: "ck_Load S s i = (r, s') \<Longrightarrow> ab s' = ab s"
    and load_ok: "ck_Load S s i = (Inr cp, s') \<Longrightarrow> ab s i = Some cp"
    and load_missing: "ck_Load S s i = (Inl e, s') \<Longrightarrow> errors_is e ErrCheckpointNotFound \<Longrightarrow> ab s i = None"
    and clear_ok: "ck_Clear S s i = (None, s') \<Longrightarrow> ab s' = (ab s)(i := None)"
begin

lemma run_one_Inl_cp:
  assumes "run_one S D C plan c errs rows w = Inl (rep, e, w')"
    and "ab (xw_store w) (pl_OperationID plan) = Some (cp_at plan c errs rows)"
  shows "ab (xw_store w') (pl_OperationID plan) = Some (cp_at plan c errs rows) \<and>
    (e = None \<longrightarrow> fr_Done rep = c \<and> fr_Errors rep = errs \<and> fr_RowsAffected rep = rows) \<and>
    (fr_Done rep = c \<or> fr_Done rep = batch_end plan c)"
  using assms
  by (auto simp: run_one_def pausedReport_def final_report_def split: if_splits option.splits prod.splits
      dest!: save_err)

lemma run_batches_cp:
  assumes "run_batches S D C plan c errs rows w = (rep, e, w')"
    and "ab (xw_store w) (pl_OperationID plan) = Some (cp_at plan c errs rows)"
  shows "\<exists>c0 errs0 rows0. ab (xw_store w') (pl_OperationID plan) = Some (cp_at plan c0 errs0 rows0) \<and> c \<le> c0 \<and>
    (e = None \<longrightarrow> c0 = fr_Done rep \<and> errs0 = fr_Errors rep \<and> rows0 = fr_RowsAffected rep) \<and>
    (fr_Done rep = c0 \<or> fr_Done rep = batch_end plan c0)"
  using assms
proof (induction rule: run_batches_induct)
  case (stop c errs rows w)
  then show ?case using run_one_Inl_cp by blast
next
  case (step c errs rows w c' errs' rows' w1)
  have "ab (xw_store w1) (pl_OperationID plan) = Some (cp_at plan c' errs' rows')"
    using save_ok[OF run_one_Inr_save[OF step(1)]] by (simp add: cp_at_def)
  with step(3) run_one_progress[OF step(1)] show ?case by fastforce
qed

text \<open>What holds between two calls: the checkpoint is the last report, and it tells the truth about the database.\<close>

definition at_rest :: "'d db_driver \<Rightarrow> Plan \<Rightarrow> 'd \<Rightarrow> FinalReport \<Rightarrow> ('d, 's) xworld \<Rightarrow> bool" where
  "at_rest D plan d0 rep w \<longleftrightarrow>
     ab (xw_store w) (pl_OperationID plan) = Some (cp_at plan (fr_Done rep) (fr_Errors rep) (fr_RowsAffected rep)) \<and>
     seq_exec D (pl_Statements plan) [0..<fr_Done rep] (d0, [], 0) = (xw_db w, fr_Errors rep, fr_RowsAffected rep) \<and>
     fr_Done rep \<le> length (pl_Statements plan) \<and> (\<not> fr_Paused rep \<longrightarrow> fr_Done rep = length (pl_Statements plan))"

lemma run_batches_at_rest:
  assumes run: "run_batches S D C plan c errs rows w = (rep, None, w')"
    and cp: "ab (xw_store w) (pl_OperationID plan) = Some (cp_at plan c errs rows)"
    and sq: "seq_exec D (pl_Statements plan) [0..<c] (d0, [], 0) = (xw_db w, errs, rows)"
    and c: "c \<le> length (pl_Statements plan)" and "1 \<le> pl_BatchSize plan"
  shows "at_rest D plan d0 rep w'"
proof -
  have p: "c \<le> fr_Done rep" "fr_Done rep \<le> length (pl_Statements plan)"
    "seq_exec D (pl_Statements plan) [c..<fr_Done rep] (xw_db w, errs, rows) = (xw_db w', fr_Errors rep, fr_RowsAffected rep)"
    "\<not> fr_Paused rep \<longrightarrow> fr_Done rep = length (pl_Statements plan)"
    using run_batches_prefix[OF run c assms(5)] by auto
  then have "[0..<fr_Done rep] = [0..<c] @ [c..<fr_Done rep]"
    using upt_add_eq_append[of 0 c "fr_Done rep - c"] by simp
  with p sq run_batches_cp[OF run cp] show ?thesis by (auto simp: at_rest_def seq_exec_append)
qed

lemma Run_at_rest:
  assumes "Run S D C plan w = (rep, None, w')"
  shows "at_rest D plan (xw_db w) rep w'"
proof -
  obtain p where p: "normalizePlan plan = Inr p" using assms by (auto simp: Run_def split: sum.splits)
  note np = normalizePlan_Inr[OF p]
  obtain e1 s1 where cl: "ck_Clear S (xw_store w) (pl_OperationID p) = (e1, s1)" by (cases "ck_Clear S (xw_store w) (pl_OperationID p)")
  from assms p cl obtain s2 where sv: "ck_Save S s1 (cp_at p 0 [] 0) = (None, s2)"
    and r: "run_batches S D C p 0 [] 0 (w\<lparr>xw_store := s2\<rparr>) = (rep, None, w')"
    by (auto simp: Run_def runFromIndex_def cp_at_def split: prod.splits option.splits)
  have "at_rest D p (xw_db w) rep w'"
    by (rule run_batches_at_rest[OF r]) (use save_ok[OF sv] np in \<open>simp_all add: cp_at_def\<close>)
  then show ?thesis using np by (simp add: at_rest_def cp_at_def)
qed

lemma Resume_at_rest:
  assumes "Resume S D' C plan w = (rep', None, w')" and rest: "at_rest D plan d0 rep w" and D: "dr_exec D' = dr_exec D"
  shows "at_rest D plan d0 rep' w'"
proof -
  obtain p where p: "normalizePlan plan = Inr p" using assms by (auto simp: Resume_def split: sum.splits)
  note np = normalizePlan_Inr[OF p]
  have ab: "ab (xw_store w) (pl_OperationID plan) = Some (cp_at plan (fr_Done rep) (fr_Errors rep) (fr_RowsAffected rep))"
    and le: "fr_Done rep \<le> length (pl_Statements plan)" using rest by (auto simp: at_rest_def)
  obtain l s1 where ld: "ck_Load S (xw_store w) (pl_OperationID plan) = (l, s1)" by (cases "ck_Load S (xw_store w) (pl_OperationID plan)")
  note keep = load_keeps[OF ld]
  show ?thesis
  proof (cases l)
    case (Inl x)
    then show ?thesis using assms(1) p np ld load_missing[of "xw_store w" "pl_OperationID plan" x s1] ab
      by (auto simp: Resume_def split: if_splits)
  next
    case (Inr cp)
    have cp: "cp = cp_at plan (fr_Done rep) (fr_Errors rep) (fr_RowsAffected rep)"
      using load_ok[of "xw_store w" "pl_OperationID plan" cp s1] ld Inr ab by simp
    have r: "run_batches S D' C p (fr_Done rep) (fr_Errors rep) (fr_RowsAffected rep) (w\<lparr>xw_store := s1\<rparr>) = (rep', None, w')"
      using assms(1) p np ld Inr le by (auto simp: Resume_def runFromIndex_def cp cp_at_def split: option.splits)
    have "at_rest D' p d0 rep' w'"
      by (rule run_batches_at_rest[OF r])
        (use rest np keep seq_exec_dr_exec[OF D] in \<open>auto simp: at_rest_def cp_at_def\<close>)
    then show ?thesis using np seq_exec_dr_exec[OF D] by (simp add: at_rest_def cp_at_def)
  qed
qed

end

subsection \<open>The two stores keep the contract\<close>

interpretation mem_ck: checkpoint_store InMemoryCheckpointStore "\<lambda>s. s"
  by unfold_locales
    (auto simp: InMemoryCheckpointStore_def mem_Save_def mem_Load_def mem_Clear_def split: if_splits option.splits)

definition file_ab :: "file_store \<Rightarrow> string \<Rightarrow> Checkpoint option" where
  "file_ab s i = (case fs_files s (ck_path i) of Some (Json cp) \<Rightarrow> Some cp | _ \<Rightarrow> None)"

lemma ck_path_inj [simp]: "ck_path i = ck_path j \<longleftrightarrow> i = j"
  by (simp add: ck_path_def)

lemma ck_path_tmp [simp]: "ck_path i \<noteq> ck_path j @ ''.tmp''"
proof
  assume "ck_path i = ck_path j @ ''.tmp''"
  then have "last (ck_path i) = last (ck_path j @ ''.tmp'')" by simp
  then show False by (simp add: ck_path_def)
qed

lemma file_Save_ok:
  assumes "file_Save s cp = (None, s')"
  shows "file_ab s' = (file_ab s)(cp_OperationID cp \<mapsto> cp)"
proof -
  let ?p = "ck_path (cp_OperationID cp)"
  obtain s1 where w: "os_WriteFile (?p @ ''.tmp'') (Json cp) s = (None, s1)" and r: "os_Rename (?p @ ''.tmp'') ?p s1 = (None, s')"
    using assms by (auto simp: file_Save_def Let_def split: if_splits prod.splits option.splits)
  have "fs_files s' = (fs_files s)(?p @ ''.tmp'' := None, ?p \<mapsto> Json cp)"
    using os_WriteFile_ok[OF w] os_Rename_ok[OF r] by auto
  then show ?thesis by (intro ext) (simp add: file_ab_def)
qed

lemma file_Save_err:
  assumes "file_Save s cp = (Some e, s')"
  shows "file_ab s' = file_ab s"
  using assms
  by (auto simp: file_Save_def file_ab_def fun_eq_iff os_WriteFile_def os_Rename_def Let_def
      split: if_splits option.splits)

lemma file_Clear_ok:
  assumes "file_Clear s i = (None, s')"
  shows "file_ab s' = (file_ab s)(i := None)"
  using assms
  by (auto simp: file_Clear_def file_ab_def fun_eq_iff os_Remove_def io_error_def os_ErrNotExist_def
      split: if_splits option.splits)

interpretation file_ck: checkpoint_store FileCheckpointStore file_ab
proof unfold_locales
  fix s s' :: file_store and cp e i
  show "ck_Save FileCheckpointStore s cp = (None, s') \<Longrightarrow> file_ab s' = (file_ab s)(cp_OperationID cp \<mapsto> cp)"
    by (simp add: FileCheckpointStore_def file_Save_ok)
  show "ck_Save FileCheckpointStore s cp = (Some e, s') \<Longrightarrow> file_ab s' = file_ab s"
    by (simp add: FileCheckpointStore_def file_Save_err)
  show "ck_Load FileCheckpointStore s i = (r, s') \<Longrightarrow> file_ab s' = file_ab s" for r
    by (auto simp: FileCheckpointStore_def file_Load_def file_ab_def fun_eq_iff os_ReadFile_def
        split: if_splits option.splits json_file.splits sum.splits)
  show "ck_Load FileCheckpointStore s i = (Inr cp, s') \<Longrightarrow> file_ab s i = Some cp"
    by (auto simp: FileCheckpointStore_def file_Load_def file_ab_def os_ReadFile_def
        split: if_splits option.splits json_file.splits sum.splits)
  show "ck_Load FileCheckpointStore s i = (Inl e, s') \<Longrightarrow> errors_is e ErrCheckpointNotFound \<Longrightarrow> file_ab s i = None"
    by (auto simp: FileCheckpointStore_def file_Load_def file_ab_def os_ReadFile_def io_error_def os_ErrNotExist_def
        ErrCheckpointNotFound_def split: if_splits option.splits json_file.splits sum.splits)
  show "ck_Clear FileCheckpointStore s i = (None, s') \<Longrightarrow> file_ab s' = (file_ab s)(i := None)"
    by (simp add: FileCheckpointStore_def file_Clear_ok)
qed

subsection \<open>Interrupted and resumed\<close>

text \<open>A run followed by \<open>Resume\<close> calls, each with its own connection failures and cancellations, up to the first error.\<close>

fun resume_all ::
  "'s ckstore \<Rightarrow> Plan \<Rightarrow> ('d db_driver \<times> exec_ctx) list \<Rightarrow> FinalReport \<times> err option \<times> ('d, 's) xworld \<Rightarrow>
     FinalReport \<times> err option \<times> ('d, 's) xworld" where
  "resume_all S plan [] (rep, e, w) = (rep, e, w)"
| "resume_all S plan ((D, C) # xs) (rep, e, w) =
     (if e \<noteq> None then (rep, e, w) else resume_all S plan xs (Resume S D C plan w))"

context checkpoint_store begin

lemma resume_all_at_rest:
  assumes "resume_all S plan xs (rep, e, w) = (rep', None, w')" and "e = None \<longrightarrow> at_rest D plan d0 rep w"
    and "\<forall>(D', C) \<in> set xs. dr_exec D' = dr_exec D"
  shows "at_rest D plan d0 rep' w'"
  using assms
proof (induction xs arbitrary: rep e w)
  case (Cons x xs)
  obtain D' C where x: "x = (D', C)" by (cases x)
  obtain rep1 e1 w1 where r: "Resume S D' C plan w = (rep1, e1, w1)" by (cases "Resume S D' C plan w")
  have "e1 = None \<longrightarrow> at_rest D plan d0 rep1 w1"
    using Resume_at_rest[of D' C plan w rep1 w1 D d0 rep] Cons.prems r x by (auto split: if_splits)
  then show ?case using Cons.IH[of rep1 e1 w1] Cons.prems r x by (auto split: if_splits)
qed simp

lemma run_batches_save_failure:
  assumes "run_batches S D C plan c errs rows w = (rep, Some (Wrap ''executor: save checkpoint: %w'' [] x), w')"
    and "ab (xw_store w) (pl_OperationID plan) = Some (cp_at plan c errs rows)"
    and "seq_exec D (pl_Statements plan) [0..<c] (d0, [], 0) = (xw_db w, errs, rows)"
  shows "\<exists>c0 errs0 rows0. ab (xw_store w') (pl_OperationID plan) = Some (cp_at plan c0 errs0 rows0) \<and> c0 < fr_Done rep"
  using assms
proof (induction rule: run_batches_induct)
  case (stop c errs rows w)
  have "c < fr_Done rep" using stop(1)
    by (auto simp: run_one_def final_report_def batch_end_def split: if_splits option.splits prod.splits)
  then show ?case using run_one_Inl_cp[OF stop(1,2)] by blast
next
  case (step c errs rows w c' errs' rows' w1)
  have "ab (xw_store w1) (pl_OperationID plan) = Some (cp_at plan c' errs' rows')"
    using save_ok[OF run_one_Inr_save[OF step(1)]] by (simp add: cp_at_def)
  moreover have "[0..<c'] = [0..<c] @ [c..<c']"
    using run_one_progress[OF step(1)] upt_add_eq_append[of 0 c "c' - c"] by simp
  ultimately show ?case using step(3,5) run_one_Inr_seq[OF step(1)] by (simp add: seq_exec_append)
qed

lemma Run_save_failure:
  assumes "Run S D C plan w = (rep, Some (Wrap ''executor: save checkpoint: %w'' [] x), w1)"
  shows "\<exists>c0 errs0 rows0. ab (xw_store w1) (pl_OperationID plan) = Some (cp_at plan c0 errs0 rows0) \<and> c0 < fr_Done rep"
proof -
  obtain p where p: "normalizePlan plan = Inr p"
    using assms by (auto simp: Run_def normalizePlan_def Let_def split: sum.splits if_splits)
  note np = normalizePlan_Inr[OF p]
  obtain e1 s1 where cl: "ck_Clear S (xw_store w) (pl_OperationID p) = (e1, s1)" by (cases "ck_Clear S (xw_store w) (pl_OperationID p)")
  from assms p cl obtain s2 where sv: "ck_Save S s1 (cp_at p 0 [] 0) = (None, s2)"
    and r: "run_batches S D C p 0 [] 0 (w\<lparr>xw_store := s2\<rparr>) = (rep, Some (Wrap ''executor: save checkpoint: %w'' [] x), w1)"
    by (auto simp: Run_def runFromIndex_def cp_at_def split: prod.splits option.splits)
  have "ab (xw_store (w\<lparr>xw_store := s2\<rparr>)) (pl_OperationID p) = Some (cp_at p 0 [] 0)"
    using save_ok[OF sv] by (simp add: cp_at_def)
  from run_batches_save_failure[OF r this, of "xw_db w"] show ?thesis using np by (simp add: cp_at_def)
qed

lemma Resume_from:
  assumes "Resume S D C plan w = (rep, None, w')" and "\<not> fr_Paused rep"
    and "ab (xw_store w) (pl_OperationID plan) = Some (cp_at plan c errs rows)" and "c \<le> length (pl_Statements plan)"
  shows "fst (seq_exec D (pl_Statements plan) [c..<length (pl_Statements plan)] (xw_db w, [], 0)) = xw_db w'"
proof -
  obtain p where p: "normalizePlan plan = Inr p" using assms by (auto simp: Resume_def split: sum.splits)
  note np = normalizePlan_Inr[OF p]
  obtain l s1 where ld: "ck_Load S (xw_store w) (pl_OperationID plan) = (l, s1)" by (cases "ck_Load S (xw_store w) (pl_OperationID plan)")
  have "\<exists>errs rows. run_batches S D C p c errs rows (w\<lparr>xw_store := s1\<rparr>) = (rep, None, w')"
  proof (cases l)
    case (Inl x)
    then show ?thesis using assms p np ld load_missing[of "xw_store w" "pl_OperationID plan" x s1]
      by (auto simp: Resume_def split: if_splits)
  next
    case (Inr cp)
    have "cp = cp_at plan c errs rows" using load_ok[of "xw_store w" "pl_OperationID plan" cp s1] ld Inr assms(3) by simp
    then show ?thesis using assms p np ld Inr by (auto simp: Resume_def runFromIndex_def cp_at_def split: option.splits)
  qed
  then obtain errs rows where r: "run_batches S D C p c errs rows (w\<lparr>xw_store := s1\<rparr>) = (rep, None, w')" by blast
  have "seq_exec D (pl_Statements plan) [c..<length (pl_Statements plan)] (xw_db w, errs, rows)
    = (xw_db w', fr_Errors rep, fr_RowsAffected rep)"
    using run_batches_prefix[OF r] np assms by auto
  then show ?thesis using seq_exec_shift[of D "pl_Statements plan" "[c..<length (pl_Statements plan)]" "xw_db w" errs "[]" rows 0]
    by (auto split: prod.splits)
qed

end

subsection \<open>Properties\<close>

lemma Run_prefix:
  assumes "Run S D C plan w = (rep, e, w')"
  shows "seq_exec D (pl_Statements plan) [0..<fr_Done rep] (xw_db w, [], 0)
      = (xw_db w', fr_Errors rep, fr_RowsAffected rep) \<and>
    fr_Done rep \<le> length (pl_Statements plan) \<and>
    (e = None \<and> \<not> fr_Paused rep \<longrightarrow> fr_Done rep = length (pl_Statements plan))"
proof (cases "normalizePlan plan")
  case (Inl x)
  then show ?thesis using assms by (auto simp: Run_def zero_report_def)
next
  case (Inr p)
  note np = normalizePlan_Inr[OF Inr]
  obtain e1 s1 where cl: "ck_Clear S (xw_store w) (pl_OperationID p) = (e1, s1)" by (cases "ck_Clear S (xw_store w) (pl_OperationID p)")
  show ?thesis
  proof (cases "fst (ck_Save S s1 (cp_at p 0 [] 0)) \<noteq> None \<or> dr_open D \<noteq> None")
    case True
    then show ?thesis using assms Inr cl
      by (auto simp: Run_def runFromIndex_def zero_report_def cp_at_def split: prod.splits option.splits)
  next
    case False
    then obtain s2 where "run_batches S D C p 0 [] 0 (w\<lparr>xw_store := s2\<rparr>) = (rep, e, w')"
      using assms Inr cl by (auto simp: Run_def runFromIndex_def cp_at_def split: prod.splits option.splits)
    from run_batches_prefix[OF this] np show ?thesis by auto
  qed
qed

text \<open>
  C12. Whatever the database, the store and the cancellations do, the database ends up as the
  sequential execution of the first \<open>Done\<close> statements, with exactly their errors and affected rows
  reported: no batch is half applied. Without error and without pause every statement was executed.
\<close>

theorem Run_commits_a_prefix:
  assumes "Run S D C plan w = (rep, e, w')"
  shows "seq_exec D (pl_Statements plan) [0..<fr_Done rep] (xw_db w, [], 0)
      = (xw_db w', fr_Errors rep, fr_RowsAffected rep) \<and>
    fr_Done rep \<le> length (pl_Statements plan) \<and>
    (e = None \<and> \<not> fr_Paused rep \<longrightarrow> fr_Done rep = length (pl_Statements plan))"
  using assms by (rule Run_prefix)

text \<open>A database that logs the statements it executed; the third statement of the plan fails.\<close>

definition log_db :: "string list db_driver" where
  "log_db = \<lparr>dr_open = None, dr_begin = (\<lambda>_. None),
     dr_exec = (\<lambda>d s. if s = ''C'' then (Inl (Err ''duplicate'' []), d) else (Inr (Some 1), d @ [s])),
     dr_commit = (\<lambda>_. None)\<rparr>"

definition plan_abcd :: Plan where
  "plan_abcd = \<lparr>pl_OperationID = ''op'',
     pl_Statements = map (\<lambda>s. \<lparr>st_SQL = s, st_TxID = ''t'', st_TxOrder = 0, st_SourceRow = None, st_Warnings = []\<rparr>)
       [''A'', ''B'', ''C'', ''D''],
     pl_BatchSize = 2\<rparr>"

definition pause_at :: "nat \<Rightarrow> exec_ctx" where
  "pause_at n = \<lparr>cx_head = (\<lambda>c. c = n), cx_stmt = (\<lambda>_. False)\<rparr>"

definition disk_ok :: file_store where
  "disk_ok = \<lparr>fs_files = Map.empty, fs_mtime = (\<lambda>_. 0), fs_clock = 0, fs_fault = no_faults, fs_now = 0\<rparr>"

text \<open>Call number \<open>n\<close> on this disk fails.\<close>

definition disk_fails_at :: "nat \<Rightarrow> file_store" where
  "disk_fails_at n = disk_ok\<lparr>fs_fault := (\<lambda>k. if k = n then Some (\<lambda>_. Corrupt) else None)\<rparr>"

definition log_world :: "'s \<Rightarrow> (string list, 's) xworld" where
  "log_world s = \<lparr>xw_db = [], xw_store = s, xw_progress = []\<rparr>"

lemma Run_commits_a_prefix_witness:
  "let (rep, e, w') = Run FileCheckpointStore log_db (pause_at 2) plan_abcd (log_world disk_ok) in
     fr_Done rep = 2 \<and> fr_Paused rep \<and> e = None \<and> xw_db w' = [''A'', ''B''] \<and>
     fst (seq_exec log_db (pl_Statements plan_abcd) [0..<2] ([], [], 0)) = [''A'', ''B'']"
proof -
  obtain rep e w' where r: "Run FileCheckpointStore log_db (pause_at 2) plan_abcd (log_world disk_ok) = (rep, e, w')"
    using prod_cases3 by blast
  have "(case Run FileCheckpointStore log_db (pause_at 2) plan_abcd (log_world disk_ok) of
      (rep, e, w') \<Rightarrow> fr_Done rep = 2 \<and> fr_Paused rep \<and> e = None \<and> xw_db w' = [''A'', ''B''])"
    by code_simp
  with Run_commits_a_prefix[OF r] r show ?thesis by (simp add: log_world_def)
qed

text \<open>
  C13. With the file store, a plan that is run, paused and resumed any number of times, over any
  pattern of cancellations and of failures that are not reported, ends exactly as one uninterrupted
  execution: same database, same recorded errors, same affected rows, every statement executed once.
\<close>

theorem resumed_plan_equals_one_run:
  assumes "resume_all FileCheckpointStore plan xs (Run FileCheckpointStore D C plan w) = (rep, None, w')"
    and "\<forall>(D', C') \<in> set xs. dr_exec D' = dr_exec D" and "\<not> fr_Paused rep"
  shows "seq_exec D (pl_Statements plan) [0..<length (pl_Statements plan)] (xw_db w, [], 0)
    = (xw_db w', fr_Errors rep, fr_RowsAffected rep)"
proof -
  obtain rep1 e1 w1 where r: "Run FileCheckpointStore D C plan w = (rep1, e1, w1)" using prod_cases3 by blast
  then have "e1 = None \<longrightarrow> file_ck.at_rest D plan (xw_db w) rep1 w1" using file_ck.Run_at_rest by blast
  with file_ck.resume_all_at_rest[OF assms(1)[unfolded r] this assms(2)] assms(3) show ?thesis
    by (auto simp: file_ck.at_rest_def)
qed

lemma resumed_plan_equals_one_run_witness:
  "let (rep, e, w') = resume_all FileCheckpointStore plan_abcd [(log_db, pause_at 2), (log_db, pause_at 9)]
       (Run FileCheckpointStore log_db (pause_at 2) plan_abcd (log_world disk_ok)) in
   e = None \<and> xw_db w' = [''A'', ''B'', ''D''] \<and>
   seq_exec log_db (pl_Statements plan_abcd) [0..<4] ([], [], 0) = (xw_db w', fr_Errors rep, fr_RowsAffected rep)"
proof -
  let ?run = "resume_all FileCheckpointStore plan_abcd [(log_db, pause_at 2), (log_db, pause_at 9)]
       (Run FileCheckpointStore log_db (pause_at 2) plan_abcd (log_world disk_ok))"
  obtain rep e w' where r: "?run = (rep, e, w')" using prod_cases3 by blast
  have "(case ?run of (rep, e, w') \<Rightarrow> \<not> fr_Paused rep \<and> e = None \<and> xw_db w' = [''A'', ''B'', ''D''])"
    by code_simp
  then have v: "\<not> fr_Paused rep \<and> e = None \<and> xw_db w' = [''A'', ''B'', ''D'']" by (simp add: r)
  have "length (pl_Statements plan_abcd) = 4" by (simp add: plan_abcd_def)
  with resumed_plan_equals_one_run[of plan_abcd "[(log_db, pause_at 2), (log_db, pause_at 9)]" log_db "pause_at 2"
      "log_world disk_ok" rep w'] v r show ?thesis
    by (simp add: log_world_def)
qed

text \<open>
  The batch is committed before its checkpoint is saved. When that save fails, the report counts
  the batch as done but the checkpoint does not, and \<open>Resume\<close> executes committed statements a second
  time: a duplicated reverse INSERT or UPDATE.
\<close>

theorem failed_save_replays_committed_batch:
  assumes "Run FileCheckpointStore D C plan w = (rep, Some (Wrap ''executor: save checkpoint: %w'' [] x), w1)"
    and "xw_store w2 = xw_store w1" and "xw_db w2 = xw_db w1"
    and "Resume FileCheckpointStore D C' plan w2 = (rep2, None, w3)" and "\<not> fr_Paused rep2"
  shows "\<exists>c < fr_Done rep. let n = length (pl_Statements plan) in
    xw_db w3 = fst (seq_exec D (pl_Statements plan) ([0..<fr_Done rep] @ [c..<n]) (xw_db w, [], 0))"
proof -
  obtain c errs rows where c: "file_ab (xw_store w1) (pl_OperationID plan) = Some (cp_at plan c errs rows)" "c < fr_Done rep"
    using file_ck.Run_save_failure[OF assms(1)] by blast
  have p: "seq_exec D (pl_Statements plan) [0..<fr_Done rep] (xw_db w, [], 0) = (xw_db w1, fr_Errors rep, fr_RowsAffected rep)"
    "fr_Done rep \<le> length (pl_Statements plan)"
    using Run_prefix[OF assms(1)] by auto
  have "fst (seq_exec D (pl_Statements plan) [c..<length (pl_Statements plan)] (xw_db w1, fr_Errors rep, fr_RowsAffected rep))
    = fst (seq_exec D (pl_Statements plan) [c..<length (pl_Statements plan)] (xw_db w2, [], 0))"
    using seq_exec_shift[of D "pl_Statements plan" "[c..<length (pl_Statements plan)]" "xw_db w2" "fr_Errors rep" "[]" "fr_RowsAffected rep" 0]
      assms(3) by (simp split: prod.splits)
  also have "\<dots> = xw_db w3"
    using file_ck.Resume_from[OF assms(4,5), of c errs rows] c p(2) assms(2) by simp
  finally show ?thesis using c(2) p(1) by (auto simp: Let_def seq_exec_append)
qed

lemma failed_save_replays_committed_batch_witness:
  "let (rep, e, w1) = Run FileCheckpointStore log_db (pause_at 9) plan_abcd (log_world (disk_fails_at 5));
       (rep2, e2, w3) = Resume FileCheckpointStore log_db (pause_at 9) plan_abcd w1 in
   fr_Done rep = 4 \<and> xw_db w3 = [''A'', ''B'', ''D'', ''D''] \<and>
   (\<exists>c < fr_Done rep. xw_db w3 = fst (seq_exec log_db (pl_Statements plan_abcd) ([0..<4] @ [c..<4]) ([], [], 0)))"
proof -
  let ?run = "Run FileCheckpointStore log_db (pause_at 9) plan_abcd (log_world (disk_fails_at 5))"
  obtain rep e w1 where r: "?run = (rep, e, w1)" using prod_cases3 by blast
  obtain rep2 e2 w3 where s: "Resume FileCheckpointStore log_db (pause_at 9) plan_abcd w1 = (rep2, e2, w3)"
    using prod_cases3 by blast
  have "(case ?run of (rep, e, w1) \<Rightarrow> fr_Done rep = 4 \<and> e = Some (Wrap ''executor: save checkpoint: %w'' []
      (Wrap ''executor: write checkpoint: %w'' [] io_error)) \<and>
    (case Resume FileCheckpointStore log_db (pause_at 9) plan_abcd w1 of (rep2, e2, w3) \<Rightarrow>
       e2 = None \<and> \<not> fr_Paused rep2 \<and> xw_db w3 = [''A'', ''B'', ''D'', ''D'']))"
    by code_simp
  then have v: "fr_Done rep = 4 \<and> e = Some (Wrap ''executor: save checkpoint: %w'' []
      (Wrap ''executor: write checkpoint: %w'' [] io_error)) \<and> e2 = None \<and> \<not> fr_Paused rep2 \<and>
      xw_db w3 = [''A'', ''B'', ''D'', ''D'']"
    by (simp add: r s)
  have "length (pl_Statements plan_abcd) = 4" by (simp add: plan_abcd_def)
  with failed_save_replays_committed_batch[of log_db "pause_at 9" plan_abcd "log_world (disk_fails_at 5)" rep _ w1 w1
      "pause_at 9" rep2 w3] v r s show ?thesis
    by (simp add: log_world_def Let_def)
qed

end
