(* ===== verification/Checkpoint_Manager.thy ===== *)
theory Checkpoint_Manager
  imports Fs
begin


record ManagedCheckpoint =
  mc_RecoveryID :: string
  mc_TableName :: string
  mc_RecoveryTime :: time
  mc_TotalBatches :: int
  mc_CompletedBatches :: int
  mc_TableOrder :: "string list"
  mc_LastCommitAt :: time
  mc_Status :: string
  mc_Checksum :: string

type_synonym cp_dir = "ManagedCheckpoint json_file fsys"

definition checkpointPath :: "string \<Rightarrow> string" where
  "checkpointPath i = i @ ''.json''"

definition readCheckpoint :: "string \<Rightarrow> cp_dir \<Rightarrow> (err + ManagedCheckpoint) \<times> cp_dir" where
  "readCheckpoint i fs =
     (case os_ReadFile (checkpointPath i) fs of
        (Inl e, fs1) \<Rightarrow> (Inl (Wrap ''checkpoint: read %s: %w'' [i] e), fs1)
      | (Inr Corrupt, fs1) \<Rightarrow> (Inl (Err ''checkpoint: unmarshal %s: %w'' [i]), fs1)
      | (Inr (Json cp), fs1) \<Rightarrow> (Inr cp, fs1))"





text \<open>The loop over the directory entries; a file that cannot be read or parsed is skipped.\<close>

fun read_entries :: "string list \<Rightarrow> cp_dir \<Rightarrow> ManagedCheckpoint list \<times> cp_dir" where
  "read_entries [] fs = ([], fs)"
| "read_entries (n # ns) fs =
     (if \<not> has_suffix n ''.json'' then read_entries ns fs
      else (case readCheckpoint (trim_suffix n ''.json'') fs of
              (Inl _, fs1) \<Rightarrow> read_entries ns fs1
            | (Inr cp, fs1) \<Rightarrow> (case read_entries ns fs1 of (cps, fs2) \<Rightarrow> (cp # cps, fs2))))"

text \<open>\<open>sort.Slice\<close> leaves the order of equal keys open; the model keeps it.\<close>

definition ListCheckpoints :: "string list \<Rightarrow> cp_dir \<Rightarrow> (err + ManagedCheckpoint list) \<times> cp_dir" where
  "ListCheckpoints entries fs =
     (case os_ReadDir entries fs of
        (Inl e, fs1) \<Rightarrow>
          (if e = os_ErrNotExist then (Inr [], fs1) else (Inl (Wrap ''checkpoint: read dir: %w'' [] e), fs1))
      | (Inr ns, fs1) \<Rightarrow>
          (case read_entries ns fs1 of (cps, fs2) \<Rightarrow> (Inr (sort_key (\<lambda>cp. - mc_LastCommitAt cp) cps), fs2)))"

definition GetLastCheckpoint :: "string list \<Rightarrow> cp_dir \<Rightarrow> (err + ManagedCheckpoint option) \<times> cp_dir" where
  "GetLastCheckpoint entries fs =
     (case ListCheckpoints entries fs of
        (Inl e, fs1) \<Rightarrow> (Inl e, fs1)
      | (Inr [], fs1) \<Rightarrow> (Inr None, fs1)
      | (Inr (cp # _), fs1) \<Rightarrow> (Inr (Some cp), fs1))"

subsection \<open>Lemmas\<close>

text \<open>The checkpoint of a recovery id as a reader finds it, and the invariant of the directory.\<close>

definition cp_of :: "cp_dir \<Rightarrow> string \<Rightarrow> ManagedCheckpoint json_file option" where
  "cp_of fs i = fs_files fs (checkpointPath i)"


lemma checkpointPath_inj [simp]: "checkpointPath i = checkpointPath j \<longleftrightarrow> i = j"
  by (simp add: checkpointPath_def)

lemma checkpointPath_tmp [simp]: "checkpointPath i \<noteq> checkpointPath j @ ''.tmp''"
proof
  assume "checkpointPath i = checkpointPath j @ ''.tmp''"
  then have "last (checkpointPath i) = last (checkpointPath j @ ''.tmp'')" by simp
  then show False by (simp add: checkpointPath_def)
qed




lemma cp_of_tick [simp]: "cp_of (fs_tick fs) = cp_of fs"
  by (simp add: cp_of_def fun_eq_iff)









lemma in_map_filter: "x \<in> set (List.map_filter f ns) \<longleftrightarrow> (\<exists>n\<in>set ns. f n = Some x)"
  by (induction ns) (auto simp: List.map_filter_simps split: option.splits)

text \<open>The checkpoint that the entry contributes to a listing.\<close>

definition entry_checkpoint :: "cp_dir \<Rightarrow> string \<Rightarrow> ManagedCheckpoint option" where
  "entry_checkpoint fs n =
     (if has_suffix n ''.json'' then
        (case cp_of fs (trim_suffix n ''.json'') of Some (Json cp) \<Rightarrow> Some cp | _ \<Rightarrow> None)
      else None)"

lemma entry_checkpoint_tick [simp]: "entry_checkpoint (fs_tick fs) = entry_checkpoint fs"
  by (rule ext) (simp add: entry_checkpoint_def)

lemma entry_checkpoint_path [simp]: "entry_checkpoint fs (checkpointPath i) = Some cp \<longleftrightarrow> cp_of fs i = Some (Json cp)"
  by (auto simp: entry_checkpoint_def checkpointPath_def split: option.splits json_file.splits)

lemma entry_checkpoint_Some: "entry_checkpoint fs n = Some cp \<Longrightarrow> \<exists>i. cp_of fs i = Some (Json cp)"
  by (simp add: entry_checkpoint_def split: if_split_asm option.split_asm json_file.split_asm) blast

lemma read_entries_head:
  assumes "fs_fault fs = no_faults"
  shows "\<exists>fs1. fs_fault fs1 = no_faults \<and> entry_checkpoint fs1 = entry_checkpoint fs \<and>
    fst (read_entries (n # ns) fs) =
      (case entry_checkpoint fs n of None \<Rightarrow> [] | Some cp \<Rightarrow> [cp]) @ fst (read_entries ns fs1)"
proof (cases "has_suffix n ''.json''")
  case False
  then show ?thesis using assms by (intro exI[of _ fs]) (simp add: entry_checkpoint_def)
next
  case True
  then have "fst (read_entries (n # ns) fs) =
      (case entry_checkpoint fs n of None \<Rightarrow> [] | Some cp \<Rightarrow> [cp]) @ fst (read_entries ns (fs_tick fs))"
    using assms
    by (simp add: entry_checkpoint_def readCheckpoint_def os_ReadFile_def cp_of_def no_faults_def
        split: option.split json_file.split prod.split)
  then show ?thesis using assms by (intro exI[of _ "fs_tick fs"]) simp
qed

lemma read_entries_no_faults:
  assumes "fs_fault fs = no_faults"
  shows "fst (read_entries ns fs) = List.map_filter (entry_checkpoint fs) ns"
  using assms
proof (induction ns arbitrary: fs)
  case (Cons n ns)
  obtain fs1 where "fs_fault fs1 = no_faults" "entry_checkpoint fs1 = entry_checkpoint fs"
    "fst (read_entries (n # ns) fs) =
      (case entry_checkpoint fs n of None \<Rightarrow> [] | Some cp \<Rightarrow> [cp]) @ fst (read_entries ns fs1)"
    using read_entries_head[OF Cons.prems] by blast
  with Cons.IH[of fs1] show ?case by (simp add: List.map_filter_simps split: option.split)
qed (simp add: List.map_filter_simps)

subsection \<open>Properties\<close>


definition empty_dir :: cp_dir where
  "empty_dir = \<lparr>fs_files = Map.empty, fs_mtime = (\<lambda>_. 0), fs_clock = 0,
     fs_fault = (\<lambda>n. if n = 4 then Some (\<lambda>_. Corrupt) else None), fs_now = 7\<rparr>"



text \<open>
  Without I/O errors the listing holds exactly the readable checkpoints of the directory, newest
  first, and \<open>GetLastCheckpoint\<close> is one with the latest commit time; unreadable files are skipped.
\<close>

theorem ListCheckpoints_newest_first:
  assumes "fs_fault fs = no_faults" and "ListCheckpoints entries fs = (Inr cps, fs')"
    and "set entries = dom (fs_files fs)"
  shows "sorted_wrt (\<lambda>a b. mc_LastCommitAt b \<le> mc_LastCommitAt a) cps \<and>
    set cps = {cp. \<exists>i. cp_of fs i = Some (Json cp)} \<and>
    fst (GetLastCheckpoint entries fs) = Inr (case cps of [] \<Rightarrow> None | cp # _ \<Rightarrow> Some cp)"
proof -
  have "fs_fault (fs_tick fs) = no_faults" using assms(1) by simp
  then have cps: "cps = sort_key (\<lambda>cp. - mc_LastCommitAt cp) (List.map_filter (entry_checkpoint fs) entries)"
    using assms(1,2) read_entries_no_faults[of "fs_tick fs" entries]
    by (auto simp: ListCheckpoints_def os_ReadDir_def no_faults_def split: prod.splits)
  have "cp \<in> set (List.map_filter (entry_checkpoint fs) entries) \<longleftrightarrow> (\<exists>i. cp_of fs i = Some (Json cp))" for cp
  proof
    assume "cp \<in> set (List.map_filter (entry_checkpoint fs) entries)"
    then show "\<exists>i. cp_of fs i = Some (Json cp)" by (auto simp: in_map_filter intro: entry_checkpoint_Some)
  next
    assume "\<exists>i. cp_of fs i = Some (Json cp)"
    then obtain i where i: "cp_of fs i = Some (Json cp)" ..
    then have "checkpointPath i \<in> set entries" using assms(3) by (auto simp: cp_of_def)
    moreover have "entry_checkpoint fs (checkpointPath i) = Some cp" using i by simp
    ultimately show "cp \<in> set (List.map_filter (entry_checkpoint fs) entries)" unfolding in_map_filter by blast
  qed
  then have "set cps = {cp. \<exists>i. cp_of fs i = Some (Json cp)}" by (auto simp: cps)
  moreover have "sorted_wrt (\<lambda>a b. mc_LastCommitAt b \<le> mc_LastCommitAt a) cps"
    using sorted_sort_key[of "\<lambda>cp. - mc_LastCommitAt cp" "List.map_filter (entry_checkpoint fs) entries"]
    by (simp add: cps sorted_map)
  moreover have "fst (GetLastCheckpoint entries fs) = Inr (case cps of [] \<Rightarrow> None | cp # _ \<Rightarrow> Some cp)"
    using assms(2) by (simp add: GetLastCheckpoint_def split: list.splits)
  ultimately show ?thesis by blast
qed

definition dir_three :: cp_dir where
  "dir_three = empty_dir\<lparr>fs_fault := no_faults, fs_files :=
     [''a.json'' \<mapsto> Json \<lparr>mc_RecoveryID = ''a'', mc_TableName = ''t'', mc_RecoveryTime = 0, mc_TotalBatches = 1,
        mc_CompletedBatches = 0, mc_TableOrder = [], mc_LastCommitAt = 10, mc_Status = ''in_progress'', mc_Checksum = []\<rparr>,
      ''b.json'' \<mapsto> Corrupt,
      ''c.json'' \<mapsto> Json \<lparr>mc_RecoveryID = ''c'', mc_TableName = ''t'', mc_RecoveryTime = 0, mc_TotalBatches = 1,
        mc_CompletedBatches = 1, mc_TableOrder = [], mc_LastCommitAt = 20, mc_Status = ''complete'', mc_Checksum = []\<rparr>]\<rparr>"

lemma ListCheckpoints_newest_first_witness:
  "case ListCheckpoints [''a.json'', ''b.json'', ''c.json''] dir_three of
     (Inr cps, _) \<Rightarrow> map mc_RecoveryID cps = [''c'', ''a''] \<and> sorted_wrt (\<lambda>a b. mc_LastCommitAt b \<le> mc_LastCommitAt a) cps
   | _ \<Rightarrow> False"
proof -
  have "case ListCheckpoints [''a.json'', ''b.json'', ''c.json''] dir_three of
     (Inr cps, _) \<Rightarrow> map mc_RecoveryID cps = [''c'', ''a''] | _ \<Rightarrow> False" by code_simp
  then obtain cps fs' where l: "ListCheckpoints [''a.json'', ''b.json'', ''c.json''] dir_three = (Inr cps, fs')"
    and "map mc_RecoveryID cps = [''c'', ''a'']" by (auto split: prod.splits sum.splits)
  moreover have "fs_fault dir_three = no_faults" "set [''a.json'', ''b.json'', ''c.json''] = dom (fs_files dir_three)"
    by (auto simp: dir_three_def)
  ultimately show ?thesis using ListCheckpoints_newest_first[OF _ l] by simp
qed

end
