(* ===== verification/Archive.thy ===== *)
theory Archive
  imports Fs Binlog_Engine
begin

text \<open>
  \<open>internal/archive\<close>: the writer that turns an event stream into archived binlog files. A segment is written
  to a \<open>.partial\<close> file and becomes part of the archive only when it is sealed.

  \<^item> The stream is the list of what \<open>Source.Next\<close> delivers (\<open>delivery\<close>), its end is \<open>io.EOF\<close>.
  \<^item> Files are named relative to the writer's directory; contents are bytes; every file system call may
    fail (\<open>Fs\<close>).
  \<^item> \<open>replication.BinlogParser.ParseFile\<close> with checksum verification is third party: \<open>parse\<close> gives its
    error on the bytes of a file.
\<close>

subsection \<open>Rotate events\<close>

definition io_EOF :: err where
  "io_EOF = Err ''EOF'' []"

definition defaultBinlogName :: string where
  "defaultBinlogName = ''mysql-bin.000001''"

record ManifestFile =
  mf_Name :: string
  mf_Size :: int

definition validateRotateName :: "string \<Rightarrow> err option" where
  "validateRotateName name =
     (if name = [] then Some (Err ''archive: rotate next log name is empty'' [])
      else if name \<noteq> path_base name \<or> list_ex (\<lambda>c. c = CHR ''/'' \<or> c = CHR 0x5C) name
      then Some (Err ''archive: rotate next log name %q contains path separators (path traversal rejected)'' [name])
      else (case last_index name CHR ''.'' of
              None \<Rightarrow> Some (Err ''archive: rotate next log name %q does not match binlog naming (<prefix>.<digits>)'' [name])
            | Some i \<Rightarrow>
                (if i = 0 \<or> i = length name - 1 \<or> \<not> list_all is_digit (drop (Suc i) name)
                 then Some (Err ''archive: rotate next log name %q does not match binlog naming (<prefix>.<digits>)'' [name])
                 else None)))"

text \<open>\<open>RotateNextLogName\<close>: the decoded event, else the raw bytes (19 bytes header, 8 bytes position, name, 4 bytes CRC).\<close>

definition RotateNextLogName :: "binlog_event \<Rightarrow> err + string" where
  "RotateNextLogName ev =
     (let raw = ev_RawData ev;
          from_raw = (if length raw \<ge> 27 + 4 \<and> take (length raw - 4 - 27) (drop 27 raw) \<noteq> []
                      then Inr (take (length raw - 4 - 27) (drop 27 raw))
                      else Inl (Err ''archive: rotate event without next log name'' [])) in
      case ev_Body ev of
        RotateEvent s \<Rightarrow> (if s \<noteq> [] then Inr s else from_raw)
      | _ \<Rightarrow> from_raw)"

subsection \<open>Writing a segment\<close>

definition partial_of :: "string \<Rightarrow> string" where
  "partial_of name = name @ ''.partial''"

text \<open>The first content event opens the file: a full segment starts with the magic, an appended one with nothing.\<close>

definition open_segment :: "bool \<Rightarrow> string \<Rightarrow> string fsys \<Rightarrow> err option \<times> string fsys" where
  "open_segment writeMagic path fs =
     (if writeMagic
      then (case os_Create path fs of
              (Some e, fs1) \<Rightarrow> (Some e, fs1)
            | (None, fs1) \<Rightarrow> os_Append path binlogMagic fs1)
      else os_OpenCreateAppend path fs)"

text \<open>
  The loop of \<open>consume\<close>: \<open>f\<close> is the path of the open file; \<open>started\<close> of the source holds exactly when there
  is one.
\<close>

fun consume_loop ::
  "bool \<Rightarrow> string option \<Rightarrow> string \<Rightarrow> delivery list \<Rightarrow> string fsys \<Rightarrow> (err + string) \<times> string fsys" where
  "consume_loop writeMagic f next [] fs = (Inr [], fs)"
| "consume_loop writeMagic f next (DlvCanceled e # ds) fs = (if errors_is e io_EOF then Inr [] else Inl e, fs)"
| "consume_loop writeMagic f next (DlvErr e # ds) fs = (if errors_is e io_EOF then Inr [] else Inl e, fs)"
| "consume_loop writeMagic f next (DlvEvent ev # ds) fs =
     (case ev_Header ev of
        None \<Rightarrow> consume_loop writeMagic f next ds fs
      | Some h \<Rightarrow>
          (if eh_EventType h = ROTATE_EVENT
           then (case RotateNextLogName ev of
                   Inl e \<Rightarrow> (Inl e, fs)
                 | Inr name \<Rightarrow>
                     (case validateRotateName name of
                        Some e \<Rightarrow> (Inl e, fs)
                      | None \<Rightarrow>
                          (if f = None then consume_loop writeMagic f (if writeMagic then name else next) ds fs
                           else (Inr name, fs))))
           else
             (let path = (case f of Some p \<Rightarrow> p
                          | None \<Rightarrow> partial_of (if next = [] then defaultBinlogName else next)) in
              case (if f = None then open_segment writeMagic path fs else (None, fs)) of
                (Some e, fs1) \<Rightarrow> (Inl e, fs1)
              | (None, fs1) \<Rightarrow>
                  (case os_Append path (ev_RawData ev) fs1 of
                     (Some e, fs2) \<Rightarrow> (Inl e, fs2)
                   | (None, fs2) \<Rightarrow> consume_loop writeMagic (Some path) next ds fs2))))"

definition Consume :: "delivery list \<Rightarrow> string fsys \<Rightarrow> (err + string) \<times> string fsys" where
  "Consume src fs = consume_loop True None [] src fs"

definition ConsumeAppend :: "delivery list \<Rightarrow> string \<Rightarrow> string fsys \<Rightarrow> (err + string) \<times> string fsys" where
  "ConsumeAppend src fileName fs = consume_loop False None fileName src fs"

subsection \<open>Sealing\<close>

text \<open>The name of the temporary file holds the clock; \<open>ParseFile\<close> reads the file back.\<close>

definition verify_name :: "string fsys \<Rightarrow> string" where
  "verify_name fs = ''.verify-'' @ show_int (fs_now fs)"

definition ParseFile :: "(string \<Rightarrow> err option) \<Rightarrow> string \<Rightarrow> string fsys \<Rightarrow> err option \<times> string fsys" where
  "ParseFile parse path fs =
     (case os_ReadFile path fs of
        (Inl e, fs1) \<Rightarrow> (Some e, fs1)
      | (Inr bytes, fs1) \<Rightarrow> (parse bytes, fs1))"

definition verifyParseable :: "(string \<Rightarrow> err option) \<Rightarrow> string \<Rightarrow> string fsys \<Rightarrow> err option \<times> string fsys" where
  "verifyParseable parse data fs =
     (let tmp = verify_name fs in
      case os_WriteFile tmp (binlogMagic @ data) fs of
        (Some e, fs1) \<Rightarrow> (Some e, fs1)
      | (None, fs1) \<Rightarrow>
          (case ParseFile parse tmp fs1 of (r, fs2) \<Rightarrow> (r, snd (os_Remove tmp fs2))))"

text \<open>Appending a verified tail to the sealed file and removing the partial file, common to both ways of sealing.\<close>

definition append_tail :: "string \<Rightarrow> string \<Rightarrow> string \<Rightarrow> string fsys \<Rightarrow> err option \<times> string fsys" where
  "append_tail src final data fs =
     (case os_OpenAppend final fs of
        (Some e, fs1) \<Rightarrow> (Some (Wrap ''archive: open final %s: %w'' [src] e), fs1)
      | (None, fs1) \<Rightarrow>
          (case os_Append final data fs1 of
             (Some e, fs2) \<Rightarrow> (Some (Wrap ''archive: append %s: %w'' [src] e), fs2)
           | (None, fs2) \<Rightarrow> os_Remove src fs2))"

definition Seal :: "(string \<Rightarrow> err option) \<Rightarrow> string \<Rightarrow> string fsys \<Rightarrow> err option \<times> string fsys" where
  "Seal parse partialName fs =
     (let final = trim_suffix partialName ''.partial'' in
      case os_ReadFile partialName fs of
        (Inl e, fs1) \<Rightarrow> (Some (Wrap ''archive: read partial %s: %w'' [partialName] e), fs1)
      | (Inr data, fs1) \<Rightarrow>
          (case os_Stat final fs1 of
             (statErr, fs2) \<Rightarrow>
               (if length data \<ge> 4 \<and> take 4 data = binlogMagic
                then (if statErr = None
                      then (Some (Err ''archive: refuse full reconstruction over sealed file %s'' [final]), fs2)
                      else (case verifyParseable parse (drop 4 data) fs2 of
                              (Some e, fs3) \<Rightarrow> (Some (Wrap ''archive: seal verify %s: %w'' [partialName] e), fs3)
                            | (None, fs3) \<Rightarrow> os_Rename partialName final fs3))
                else (if statErr \<noteq> None
                      then (Some (Err ''archive: append seal %s but final %s missing'' [partialName, final]), fs2)
                      else (case verifyParseable parse data fs2 of
                              (Some e, fs3) \<Rightarrow> (Some (Wrap ''archive: append seal verify %s: %w'' [partialName] e), fs3)
                            | (None, fs3) \<Rightarrow> append_tail partialName final data fs3)))))"

text \<open>\<open>alreadyAppended\<close>: the file ends with exactly these bytes; false when it cannot be read.\<close>

definition alreadyAppended :: "string \<Rightarrow> string \<Rightarrow> string fsys \<Rightarrow> bool \<times> string fsys" where
  "alreadyAppended final tail fs =
     (if tail = [] then (False, fs)
      else (case os_ReadFile final fs of
              (Inl _, fs1) \<Rightarrow> (False, fs1)
            | (Inr bytes, fs1) \<Rightarrow>
                (length tail \<le> length bytes \<and> drop (length bytes - length tail) bytes = tail, fs1)))"

text \<open>
  The verification of the whole: the sealed file is copied to a temporary file, the tail is added and the
  result is parsed; the temporary file is removed in every case once it was created.
\<close>

definition verify_combined :: "(string \<Rightarrow> err option) \<Rightarrow> string \<Rightarrow> string \<Rightarrow> string \<Rightarrow> string fsys \<Rightarrow> err option \<times> string fsys" where
  "verify_combined parse partialName final tail fs =
     (let tmp = verify_name fs; done = (\<lambda>(r, fs). (r, snd (os_Remove tmp fs))) in
      case os_Create tmp fs of
        (Some e, fs1) \<Rightarrow> (Some e, fs1)
      | (None, fs1) \<Rightarrow>
          (case os_ReadFile final fs1 of
             (Inl e, fs2) \<Rightarrow> done (Some (Wrap ''archive: open final %s: %w'' [partialName] e), fs2)
           | (Inr bytes, fs2) \<Rightarrow>
               (case os_Append tmp bytes fs2 of
                  (Some e, fs3) \<Rightarrow> done (Some (Wrap ''archive: copy final %s: %w'' [partialName] e), fs3)
                | (None, fs3) \<Rightarrow>
                    (case os_Append tmp tail fs3 of
                       (Some e, fs4) \<Rightarrow> done (Some (Wrap ''archive: write tail %s: %w'' [partialName] e), fs4)
                     | (None, fs4) \<Rightarrow>
                         (case ParseFile parse tmp fs4 of
                            (Some e, fs5) \<Rightarrow> done (Some (Wrap ''archive: append seal verify %s: %w'' [partialName] e), fs5)
                          | (None, fs5) \<Rightarrow> done (None, fs5))))))"

definition SealAppendVerified :: "(string \<Rightarrow> err option) \<Rightarrow> string \<Rightarrow> string fsys \<Rightarrow> err option \<times> string fsys" where
  "SealAppendVerified parse partialName fs =
     (let final = trim_suffix partialName ''.partial'' in
      case os_ReadFile partialName fs of
        (Inl e, fs1) \<Rightarrow> (Some (Wrap ''archive: read partial %s: %w'' [partialName] e), fs1)
      | (Inr tail, fs1) \<Rightarrow>
          (case os_Stat final fs1 of
             (Some _, fs2) \<Rightarrow> (Some (Err ''archive: append seal %s but final %s missing'' [partialName, final]), fs2)
           | (None, fs2) \<Rightarrow>
               (case alreadyAppended final tail fs2 of
                  (already, fs3) \<Rightarrow>
                    (if already then os_Remove partialName fs3
                     else (case verify_combined parse partialName final tail fs3 of
                             (Some e, fs4) \<Rightarrow> (Some e, fs4)
                           | (None, fs4) \<Rightarrow> append_tail partialName final tail fs4)))))"

end
