(* ===== verification/Archive_Props.thy ===== *)
theory Archive_Props
  imports Archive
begin

text \<open>
  What the archive writer guarantees: only partial files are written while a stream is consumed, sealed
  files only ever grow by verified tails, and what a clean segment leaves behind.
\<close>

subsection \<open>Names\<close>

definition binlog_name :: "string \<Rightarrow> bool" where
  "binlog_name n \<longleftrightarrow> n \<noteq> [] \<and> hd n \<noteq> CHR ''.'' \<and> \<not> has_suffix n ''.partial''"

lemma trim_partial [simp]: "trim_suffix (partial_of n) ''.partial'' = n"
  by (simp add: partial_of_def)

lemma partial_of_neq [simp]: "partial_of n \<noteq> n" "n \<noteq> partial_of n"
  by (simp_all add: partial_of_def)

lemma partial_of_inj [simp]: "partial_of a = partial_of b \<longleftrightarrow> a = b"
  by (simp add: partial_of_def)

lemma has_suffix_partial_of [simp]: "has_suffix (partial_of n) ''.partial''"
  by (simp add: partial_of_def)

lemma binlog_name_verify:
  assumes "binlog_name n"
  shows "n \<noteq> verify_name fs" "partial_of n \<noteq> verify_name fs" "verify_name fs \<noteq> n" "verify_name fs \<noteq> partial_of n"
proof -
  have "hd (partial_of n) \<noteq> CHR ''.''" "hd n \<noteq> CHR ''.''" using assms by (auto simp: binlog_name_def partial_of_def)
  then show "n \<noteq> verify_name fs" "partial_of n \<noteq> verify_name fs" "verify_name fs \<noteq> n" "verify_name fs \<noteq> partial_of n"
    unfolding verify_name_def by (metis append_Cons list.sel(1))+
qed

text \<open>A name that passed the check has no separator, so it names a file of the directory.\<close>

lemma validateRotateName_safe:
  assumes "validateRotateName n = None"
  shows "n \<noteq> []" "CHR ''/'' \<notin> set n" "CHR 0x5C \<notin> set n" "n \<noteq> ''..''" "isBinlogFile n"
proof -
  have ne: "n \<noteq> []" and sep: "\<not> list_ex (\<lambda>c. c = CHR ''/'' \<or> c = CHR 0x5C) n"
    using assms by (auto simp: validateRotateName_def split: if_splits)
  obtain i where i: "last_index n CHR ''.'' = Some i" "i \<noteq> length n - 1" "list_all is_digit (drop (Suc i) n)"
    using assms ne sep by (auto simp: validateRotateName_def split: if_splits option.splits)
  show "n \<noteq> []" by (fact ne)
  show "CHR ''/'' \<notin> set n" "CHR 0x5C \<notin> set n" using sep by (auto simp: list_ex_iff)
  show "n \<noteq> ''..''" using i by auto
  have "i < length n" using last_index_Some_less[OF i(1)] by blast
  then show "isBinlogFile n" using i ne by (auto simp: isBinlogFile_def list_all_iff)
qed

subsection \<open>Consuming\<close>

definition segment_name :: "string \<Rightarrow> string \<Rightarrow> bool" where
  "segment_name fileName n \<longleftrightarrow> n = fileName \<or> n = defaultBinlogName \<or> validateRotateName n = None"

lemma open_segment_other:
  "open_segment wm p fs = (r, fs') \<Longrightarrow> q \<noteq> p \<Longrightarrow> fs_files fs' q = fs_files fs q"
  by (auto simp: open_segment_def fs_calls_other split: prod.splits option.splits if_splits)

lemma consume_loop_touches:
  assumes "consume_loop wm f next ds fs = (r, fs')"
    and "segment_name fileName next \<or> next = []" and "f = None \<or> (\<exists>n. f = Some (partial_of n) \<and> segment_name fileName n)"
    and "\<forall>n. segment_name fileName n \<longrightarrow> q \<noteq> partial_of n"
  shows "fs_files fs' q = fs_files fs q"
  using assms
proof (induction wm f "next" ds fs rule: consume_loop.induct)
  case (4 wm f "next" ev ds fs)
  show ?case
  proof (cases "ev_Header ev")
    case None
    with 4 show ?thesis by simp
  next
    case (Some h)
    show ?thesis
    proof (cases "eh_EventType h = ROTATE_EVENT")
      case True
      show ?thesis
      proof (cases "RotateNextLogName ev")
        case (Inl e)
        with 4 Some True show ?thesis by simp
      next
        case (Inr name)
        show ?thesis
        proof (cases "validateRotateName name")
          case None
          then have "segment_name fileName name" by (simp add: segment_name_def)
          then have nx: "segment_name fileName (if wm then name else next) \<or> (if wm then name else next) = []"
            using 4(5) by auto
          show ?thesis
          proof (cases f)
            case fNone: None
            have "consume_loop wm f (if wm then name else next) ds fs = (r, fs')"
              using 4(4) Some True Inr None fNone by simp
            from 4(2)[OF Some True Inr None fNone this nx _ 4(7)] show ?thesis using fNone by simp
          next
            case fSome: (Some p)
            then show ?thesis using 4(4) Some True Inr None by simp
          qed
        next
          case (Some e)
          with 4 \<open>ev_Header ev = Some h\<close> True Inr show ?thesis by simp
        qed
      qed
    next
      case False
      define path where "path = (case f of Some p \<Rightarrow> p
          | None \<Rightarrow> partial_of (if next = [] then defaultBinlogName else next))"
      have path: "\<exists>n. path = partial_of n \<and> segment_name fileName n"
        using 4(5,6) by (auto simp: path_def segment_name_def split: option.splits)
      then have q: "q \<noteq> path" using 4(7) by auto
      have step: "(case (if f = None then open_segment wm path fs else (None, fs)) of
          (Some e, fs1) \<Rightarrow> (Inl e, fs1)
        | (None, fs1) \<Rightarrow> (case os_Append path (ev_RawData ev) fs1 of
              (Some e, fs2) \<Rightarrow> (Inl e, fs2)
            | (None, fs2) \<Rightarrow> consume_loop wm (Some path) next ds fs2)) = (r, fs')"
        using 4(4) Some False unfolding path_def by (simp add: Let_def)
      obtain e1 fs1 where o: "(if f = None then open_segment wm path fs else (None, fs)) = (e1, fs1)" by fastforce
      have q1: "fs_files fs1 q = fs_files fs q"
        using o q open_segment_other[of wm path fs e1 fs1 q] by (auto split: if_splits)
      show ?thesis
      proof (cases e1)
        case (Some e)
        with step[unfolded o] q1 show ?thesis by simp
      next
        case None
        obtain e2 fs2 where a: "os_Append path (ev_RawData ev) fs1 = (e2, fs2)" by fastforce
        have q2: "fs_files fs2 q = fs_files fs1 q" using fs_calls_other(7)[OF a q] .
        show ?thesis
        proof (cases e2)
          case (Some e)
          with step[unfolded o] None a q1 q2 show ?thesis by simp
        next
          case None2: None
          have "fs_files fs' q = fs_files fs2 q"
          proof (rule 4(3)[OF Some False path_def o[symmetric] None a[symmetric] None2])
            show "consume_loop wm (Some path) next ds fs2 = (r, fs')"
              using step[unfolded o] None a None2 by simp
          qed (use 4(5-7) path in auto)
          with q1 q2 show ?thesis by simp
        qed
      qed
    qed
  qed
qed (auto split: if_splits)

definition content_event :: "binlog_event \<Rightarrow> bool" where
  "content_event ev \<longleftrightarrow> (\<exists>h. ev_Header ev = Some h \<and> eh_EventType h \<noteq> ROTATE_EVENT)"

definition rotates_to :: "binlog_event \<Rightarrow> string \<Rightarrow> bool" where
  "rotates_to ev n \<longleftrightarrow> (\<exists>h. ev_Header ev = Some h \<and> eh_EventType h = ROTATE_EVENT) \<and>
     RotateNextLogName ev = Inr n \<and> validateRotateName n = None"

definition raws :: "binlog_event list \<Rightarrow> string" where
  "raws evs = concat (map ev_RawData evs)"

lemma raws_simps [simp]: "raws [] = []" "raws (e # es) = ev_RawData e @ raws es" "raws (xs @ ys) = raws xs @ raws ys"
  by (simp_all add: raws_def)

lemma consume_loop_rotate:
  "rotates_to ev n \<Longrightarrow> consume_loop wm (Some p) next (DlvEvent ev # ds) fs = (Inr n, fs)"
  "rotates_to ev n \<Longrightarrow> consume_loop wm None next (DlvEvent ev # ds) fs = consume_loop wm None (if wm then n else next) ds fs"
  by (auto simp: rotates_to_def)

text \<open>Content events are appended to the open file one after the other.\<close>

lemma consume_loop_body:
  assumes "healthy fs" "fs_files fs p = Some c" "\<forall>ev\<in>set body. content_event ev"
  shows "\<exists>fs'. consume_loop wm (Some p) next (map DlvEvent body @ rest) fs = consume_loop wm (Some p) next rest fs' \<and>
    healthy fs' \<and> fs_files fs' = (fs_files fs)(p \<mapsto> c @ raws body)"
  using assms
proof (induction body arbitrary: fs c)
  case Nil
  then have "fs_files fs = (fs_files fs)(p \<mapsto> c @ raws [])" by (auto simp: fun_upd_idem)
  then show ?case using Nil by auto
next
  case (Cons ev body)
  obtain h where h: "ev_Header ev = Some h" "eh_EventType h \<noteq> ROTATE_EVENT"
    using Cons.prems by (auto simp: content_event_def)
  let ?fs1 = "fs_put p (c @ ev_RawData ev) (fs_tick fs)"
  obtain fs' where fs': "consume_loop wm (Some p) next (map DlvEvent body @ rest) ?fs1 = consume_loop wm (Some p) next rest fs'"
    "healthy fs'" "fs_files fs' = (fs_files ?fs1)(p \<mapsto> (c @ ev_RawData ev) @ raws body)"
    using Cons.IH[of ?fs1 "c @ ev_RawData ev"] Cons.prems by (fastforce simp: healthy_calls)
  have "consume_loop wm (Some p) next (map DlvEvent (ev # body) @ rest) fs =
      consume_loop wm (Some p) next (map DlvEvent body @ rest) ?fs1"
    using h Cons.prems(1,2) by (simp add: healthy_bytes)
  with fs' show ?case by (intro exI[of _ fs']) simp
qed

text \<open>The first content event opens the file.\<close>

definition segment_start :: "bool \<Rightarrow> string" where
  "segment_start writeMagic = (if writeMagic then binlogMagic else [])"

lemma consume_loop_fresh:
  assumes "healthy fs" and "writeMagic \<or> fs_files fs (partial_of n) = None" and "n \<noteq> []"
    and "body \<noteq> []" "\<forall>ev\<in>set body. content_event ev"
  shows "\<exists>fs'. consume_loop writeMagic None n (map DlvEvent body @ rest) fs =
      consume_loop writeMagic (Some (partial_of n)) n rest fs' \<and>
    healthy fs' \<and> fs_files fs' = (fs_files fs)(partial_of n \<mapsto> segment_start writeMagic @ raws body)"
proof -
  obtain ev body' where b: "body = ev # body'" using assms(4) by (cases body) auto
  obtain h where h: "ev_Header ev = Some h" "eh_EventType h \<noteq> ROTATE_EVENT"
    using assms(5) b by (auto simp: content_event_def)
  let ?p = "partial_of n" and ?c = "segment_start writeMagic"
  obtain fs1 where o: "open_segment writeMagic ?p fs = (None, fs1)" "healthy fs1" "fs_files fs1 = (fs_files fs)(?p \<mapsto> ?c)"
    using assms(1,2) by (cases writeMagic) (auto simp: open_segment_def healthy_bytes healthy_calls segment_start_def)
  let ?fs2 = "fs_put ?p (?c @ ev_RawData ev) (fs_tick fs1)"
  have step: "consume_loop writeMagic None n (map DlvEvent body @ rest) fs =
      consume_loop writeMagic (Some ?p) n (map DlvEvent body' @ rest) ?fs2"
    using h o assms(3) by (simp add: b healthy_bytes Let_def)
  obtain fs' where "consume_loop writeMagic (Some ?p) n (map DlvEvent body' @ rest) ?fs2 =
      consume_loop writeMagic (Some ?p) n rest fs'" "healthy fs'"
    "fs_files fs' = (fs_files ?fs2)(?p \<mapsto> (?c @ ev_RawData ev) @ raws body')"
    using consume_loop_body[of ?fs2 ?p "?c @ ev_RawData ev" body' writeMagic n rest] o(2) assms(5) b
    by (auto simp: healthy_calls)
  with step o(3) b show ?thesis by (intro exI[of _ fs']) simp
qed

lemma Consume_segment:
  assumes "healthy fs" "rotates_to ann n" "body \<noteq> []" "\<forall>ev\<in>set body. content_event ev"
  shows "\<exists>fs'. Consume (DlvEvent ann # map DlvEvent body @ rest) fs = consume_loop True (Some (partial_of n)) n rest fs' \<and>
    healthy fs' \<and> fs_files fs' = (fs_files fs)(partial_of n \<mapsto> binlogMagic @ raws body)"
proof -
  have n: "n \<noteq> []" using assms(2) validateRotateName_safe(1) by (auto simp: rotates_to_def)
  have "Consume (DlvEvent ann # ds) fs = consume_loop True None n ds fs" for ds
    using assms(2) by (simp add: Consume_def consume_loop_rotate del: consume_loop.simps)
  then show ?thesis using consume_loop_fresh[of fs True n body rest] assms n by (simp add: segment_start_def)
qed

lemma ConsumeAppend_segment:
  assumes "healthy fs" "fs_files fs (partial_of n) = None" "n \<noteq> []" "body \<noteq> []" "\<forall>ev\<in>set body. content_event ev"
  shows "\<exists>fs'. ConsumeAppend (map DlvEvent body @ rest) n fs = consume_loop False (Some (partial_of n)) n rest fs' \<and>
    healthy fs' \<and> fs_files fs' = (fs_files fs)(partial_of n \<mapsto> raws body)"
  using consume_loop_fresh[of fs False n body rest] assms by (simp add: ConsumeAppend_def segment_start_def)

lemma consume_loop_result:
  "consume_loop wm f next ds fs = (Inr n, fs') \<Longrightarrow> n \<noteq> [] \<Longrightarrow> validateRotateName n = None"
proof (induction wm f "next" ds fs rule: consume_loop.induct)
  case (4 wm f "next" ev ds fs)
  from 4(4) show ?case
    using 4(5) 4(1) 4(2)
    by (auto split: option.splits if_splits sum.splits prod.splits simp: Let_def intro: 4(3)[OF _ _ refl])
qed (auto split: if_splits)

text \<open>
  C33. A stream cannot reach outside its partial files: whatever events arrive, forged ones included, and
  whatever fails, consuming them changes only files named \<open><name>.partial\<close>, with \<open>name\<close> the default, the
  given or an announced binlog name without separators; so no sealed file changes, and the next name
  that is returned is such a name too.
\<close>

theorem consume_writes_partials_only:
  assumes "(r, fs') \<in> {Consume src fs, ConsumeAppend src fileName fs}" and "validateRotateName fileName = None"
  shows "(fs_files fs' q \<noteq> fs_files fs q \<longrightarrow>
      (\<exists>n. q = n @ ''.partial'' \<and> isBinlogFile n \<and> CHR ''/'' \<notin> set n \<and> CHR 0x5C \<notin> set n)) \<and>
    (\<forall>n. r = Inr n \<and> n \<noteq> [] \<longrightarrow> isBinlogFile n \<and> CHR ''/'' \<notin> set n \<and> CHR 0x5C \<notin> set n)"
proof -
  have default: "validateRotateName defaultBinlogName = None" by code_simp
  obtain wm nx where run: "consume_loop wm None nx src fs = (r, fs')" and nx: "segment_name fileName nx \<or> nx = []"
    using assms(1) by (auto simp: Consume_def ConsumeAppend_def segment_name_def)
  have "fs_files fs' q = fs_files fs q" if "\<forall>n. segment_name fileName n \<longrightarrow> q \<noteq> partial_of n"
    using consume_loop_touches[OF run nx _ that] by simp
  moreover have "isBinlogFile n \<and> CHR ''/'' \<notin> set n \<and> CHR 0x5C \<notin> set n" if "segment_name fileName n" for n
    using that assms(2) default validateRotateName_safe(2,3,5) by (auto simp: segment_name_def)
  ultimately show ?thesis
    using consume_loop_result run validateRotateName_safe(2,3,5) by (fastforce simp: partial_of_def)
qed

subsection \<open>Sealing\<close>

lemma os_Remove_snd: "q \<noteq> p \<Longrightarrow> fs_files (snd (os_Remove p fs)) q = fs_files fs q"
  by (auto simp: os_Remove_def split: option.splits)

lemma ParseFile_files: "ParseFile parse p fs = (r, fs') \<Longrightarrow> fs_files fs' = fs_files fs"
  by (auto simp: ParseFile_def fs_calls_other split: prod.splits sum.splits)

lemma ParseFile_ok: "ParseFile parse p fs = (None, fs') \<Longrightarrow> \<exists>b. fs_files fs p = Some b \<and> parse b = None"
  by (auto simp: ParseFile_def os_ReadFile_def split: prod.splits sum.splits option.splits)

lemma verifyParseable_other:
  "verifyParseable parse data fs = (r, fs') \<Longrightarrow> q \<noteq> verify_name fs \<Longrightarrow> fs_files fs' q = fs_files fs q"
  by (auto simp: verifyParseable_def Let_def os_WriteFile_other ParseFile_files os_Remove_snd
      split: prod.splits option.splits)

lemma verifyParseable_ok: "verifyParseable parse data fs = (None, fs') \<Longrightarrow> parse (binlogMagic @ data) = None"
  by (auto simp: verifyParseable_def Let_def dest!: ParseFile_ok os_WriteFile_ok split: prod.splits option.splits)

lemma verify_combined_other:
  "verify_combined parse pn final tail fs = (r, fs') \<Longrightarrow> q \<noteq> verify_name fs \<Longrightarrow> fs_files fs' q = fs_files fs q"
  by (auto simp: verify_combined_def Let_def fs_calls_other ParseFile_files os_Remove_snd
      split: prod.splits option.splits sum.splits)

lemma os_Append_ok:
  "os_Append p d fs = (None, fs') \<Longrightarrow> fs_files fs' = (fs_files fs)(p \<mapsto> (case fs_files fs p of None \<Rightarrow> [] | Some c \<Rightarrow> c) @ d)"
  by (auto simp: os_Append_def Let_def split: option.splits)

lemma os_Create_ok: "os_Create p fs = (None, fs') \<Longrightarrow> fs_files fs' = (fs_files fs)(p \<mapsto> [])"
  by (auto simp: os_Create_def split: option.splits)

lemma os_ReadFile_ok: "os_ReadFile p fs = (Inr c, fs') \<Longrightarrow> fs_files fs p = Some c \<and> fs_files fs' = fs_files fs"
  by (auto simp: os_ReadFile_def split: option.splits)

lemma verify_combined_ok:
  assumes "verify_combined parse pn final tail fs = (None, fs')" and "final \<noteq> verify_name fs"
  shows "\<exists>old. fs_files fs final = Some old \<and> parse (old @ tail) = None"
  using assms
  by (auto simp: verify_combined_def Let_def split: prod.splits option.splits sum.splits
      dest!: ParseFile_ok os_Append_ok os_Create_ok os_ReadFile_ok)

text \<open>Appending: the file stays, grows by the tail, or, when the write fails, by what was left of it.\<close>

lemma append_tail_cases:
  assumes "append_tail src final data fs = (r, fs')" and "src \<noteq> final"
  shows "(r \<noteq> None \<and> fs_files fs' = fs_files fs) \<or>
    (\<exists>old g. fs_files fs final = Some old \<and> r \<noteq> None \<and> fs_files fs' final = Some (old @ g)) \<or>
    (\<exists>old. fs_files fs final = Some old \<and> fs_files fs' final = Some (old @ data) \<and> (r = None \<longrightarrow> fs_files fs' src = None))"
  using assms
  by (auto simp: append_tail_def os_OpenAppend_def os_Append_def os_Remove_def Let_def dest: fs_calls_other(1) dest!: os_Stat_ok
      split: prod.splits option.splits if_splits)

text \<open>What a seal may leave in the sealed file \<open>n\<close>; \<open>stat_fails\<close>: the call that looks for it failed.\<close>

definition seal_outcome ::
  "(string \<Rightarrow> err option) \<Rightarrow> bool \<Rightarrow> string \<Rightarrow> string fsys \<Rightarrow> err option \<Rightarrow> string fsys \<Rightarrow> bool" where
  "seal_outcome parse stat_fails n fs r fs' \<longleftrightarrow>
     fs_files fs' n = fs_files fs n \<or>
     (\<exists>whole. fs_files fs (partial_of n) = Some whole \<and> parse whole = None \<and> fs_files fs' n = Some whole \<and>
        (fs_files fs n = None \<or> stat_fails)) \<or>
     (\<exists>old tail. fs_files fs n = Some old \<and> fs_files fs (partial_of n) = Some tail \<and>
        (parse (binlogMagic @ tail) = None \<or> parse (old @ tail) = None) \<and>
        (fs_files fs' n = Some (old @ tail) \<or> r \<noteq> None \<and> (\<exists>torn. fs_files fs' n = Some (old @ torn))))"

definition sealed_data :: "string \<Rightarrow> string fsys \<Rightarrow> string fsys \<Rightarrow> bool" where
  "sealed_data n fs fs' \<longleftrightarrow> fs_files fs' (partial_of n) = None \<and>
     (\<exists>old data. fs_files fs (partial_of n) = Some data \<and> fs_files fs' n = Some (old @ data))"

lemma append_tail_outcome:
  assumes a: "append_tail (partial_of n) n tail fs3 = (r, fs')"
    and "fs_files fs (partial_of n) = Some tail" "fs_files fs3 n = fs_files fs n"
    and "\<And>old. fs_files fs n = Some old \<Longrightarrow> parse (binlogMagic @ tail) = None \<or> parse (old @ tail) = None"
  shows "seal_outcome parse sf n fs r fs'" "r = None \<Longrightarrow> sealed_data n fs fs'"
proof -
  from append_tail_cases[OF a] assms(2-) show "seal_outcome parse sf n fs r fs'"
    by (simp add: seal_outcome_def) metis
  from append_tail_cases[OF a] assms(2-) show "r = None \<Longrightarrow> sealed_data n fs fs'"
    by (auto simp: sealed_data_def)
qed

lemma Seal_outcome:
  assumes "Seal parse (partial_of n) fs = (r, fs')" and n: "binlog_name n"
  shows "seal_outcome parse (fs_fault fs (Suc (fs_clock fs)) \<noteq> None) n fs r fs' \<and> (r = None \<longrightarrow> sealed_data n fs fs')"
proof -
  have keep: "seal_outcome parse sf n fs (Some e) fs1" if "fs_files fs1 n = fs_files fs n" for sf e fs1
    using that by (simp add: seal_outcome_def)
  show ?thesis
  proof (cases "os_ReadFile (partial_of n) fs")
    case (Pair rd fs1)
    show ?thesis
    proof (cases rd)
      case (Inl e)
      then show ?thesis using assms(1) Pair fs_calls_other(3)[OF Pair] keep by (auto simp: Seal_def Let_def)
    next
      case (Inr data)
      then have d: "fs_files fs (partial_of n) = Some data" and f1: "fs_files fs1 = fs_files fs"
        using os_ReadFile_ok[of "partial_of n" fs data fs1] Pair by simp_all
      obtain st fs2 where st: "os_Stat n fs1 = (st, fs2)" by fastforce
      then have f2: "fs_files fs2 = fs_files fs" using fs_calls_other(1) f1 by metis
      show ?thesis
      proof (cases "length data \<ge> 4 \<and> take 4 data = binlogMagic")
        case magic: True
        then have whole: "data = binlogMagic @ drop 4 data" by (metis append_take_drop_id)
        show ?thesis
        proof (cases st)
          case None
          then show ?thesis using assms(1) Pair Inr st magic keep f2 by (auto simp: Seal_def Let_def)
        next
          case (Some se)
          have absent: "fs_files fs n = None \<or> fs_fault fs (Suc (fs_clock fs)) \<noteq> None"
            using st Some f1 Pair by (auto simp: os_Stat_def os_ReadFile_def split: option.splits if_splits)
          obtain v fs3 where v: "verifyParseable parse (drop 4 data) fs2 = (v, fs3)" by fastforce
          have f3: "fs_files fs3 n = fs_files fs n" "fs_files fs3 (partial_of n) = Some data"
            using verifyParseable_other[OF v] binlog_name_verify[OF n] f2 d by auto
          show ?thesis
          proof (cases v)
            case (Some e)
            then show ?thesis using assms(1) Pair Inr st \<open>st = Some se\<close> magic v keep f3 by (auto simp: Seal_def Let_def)
          next
            case None
            then have "parse data = None" using verifyParseable_ok v whole by metis
            moreover have "os_Rename (partial_of n) n fs3 = (r, fs')"
              using assms(1) Pair Inr st \<open>st = Some se\<close> magic v None by (auto simp: Seal_def Let_def)
            ultimately show ?thesis using d f3 absent
              by (cases r) (auto simp: seal_outcome_def sealed_data_def dest!: os_Rename_ok os_Rename_err)
          qed
        qed
      next
        case tail: False
        show ?thesis
        proof (cases st)
          case (Some se)
          then show ?thesis using assms(1) Pair Inr st tail keep f2 by (auto simp: Seal_def Let_def)
        next
          case None
          obtain v fs3 where v: "verifyParseable parse data fs2 = (v, fs3)" by fastforce
          have f3: "fs_files fs3 n = fs_files fs n" using verifyParseable_other[OF v] binlog_name_verify[OF n] f2 by auto
          show ?thesis
          proof (cases v)
            case (Some e)
            then show ?thesis using assms(1) Pair Inr st \<open>st = None\<close> tail v keep f3 by (auto simp: Seal_def Let_def)
          next
            case vNone: None
            have "append_tail (partial_of n) n data fs3 = (r, fs')"
              using assms(1) Pair Inr st None tail v vNone by (auto simp: Seal_def Let_def)
            from append_tail_outcome[OF this d f3, where parse = parse] verifyParseable_ok v vNone show ?thesis by blast
          qed
        qed
      qed
    qed
  qed
qed

lemma SealAppendVerified_outcome:
  assumes "SealAppendVerified parse (partial_of n) fs = (r, fs')" and n: "binlog_name n"
  shows "seal_outcome parse False n fs r fs' \<and>
    (r = None \<longrightarrow> sealed_data n fs fs' \<or>
       (\<exists>b tail. fs_files fs (partial_of n) = Some tail \<and> fs_files fs n = Some (b @ tail) \<and> fs_files fs' n = Some (b @ tail) \<and>
          fs_files fs' (partial_of n) = None))"
proof -
  have keep: "seal_outcome parse sf n fs r1 fs1" if "fs_files fs1 n = fs_files fs n" for sf r1 fs1
    using that by (simp add: seal_outcome_def)
  obtain rd fs1 where rd: "os_ReadFile (partial_of n) fs = (rd, fs1)" by fastforce
  show ?thesis
  proof (cases rd)
    case (Inl e)
    then show ?thesis using assms(1) rd fs_calls_other(3)[OF rd] keep by (auto simp: SealAppendVerified_def Let_def)
  next
    case (Inr tail)
    then have d: "fs_files fs (partial_of n) = Some tail" and f1: "fs_files fs1 = fs_files fs"
      using os_ReadFile_ok[of "partial_of n" fs tail fs1] rd by simp_all
    obtain st fs2 where st: "os_Stat n fs1 = (st, fs2)" by fastforce
    then have f2: "fs_files fs2 = fs_files fs" using fs_calls_other(1) f1 by metis
    obtain al fs3 where al: "alreadyAppended n tail fs2 = (al, fs3)" by fastforce
    then have f3: "fs_files fs3 = fs_files fs"
      using f2 by (auto simp: alreadyAppended_def fs_calls_other split: if_splits prod.splits sum.splits)
    have ends: "\<exists>b. fs_files fs n = Some (b @ tail)" if already: "al"
    proof -
      obtain bytes where "fs_files fs n = Some bytes" "drop (length bytes - length tail) bytes = tail"
        using al f2 already by (auto simp: alreadyAppended_def split: if_splits prod.splits sum.splits dest!: os_ReadFile_ok)
      then show ?thesis by (metis append_take_drop_id)
    qed
    show ?thesis
    proof (cases "st = None \<and> \<not> al")
      case False
      then consider "st \<noteq> None" | "st = None" "al" by auto
      then show ?thesis
      proof cases
        case 1
        then show ?thesis using assms(1) rd Inr st keep f2 by (auto simp: SealAppendVerified_def Let_def)
      next
        case 2
        then have "os_Remove (partial_of n) fs3 = (r, fs')"
          using assms(1) rd Inr st al by (simp add: SealAppendVerified_def Let_def)
        then show ?thesis using f3 keep ends[OF 2(2)] d
          by (cases r) (auto dest!: os_Remove_ok os_Remove_err)
      qed
    next
      case True
      obtain v fs4 where v: "verify_combined parse (partial_of n) n tail fs3 = (v, fs4)" by fastforce
      have f4: "fs_files fs4 n = fs_files fs n" using verify_combined_other[OF v] binlog_name_verify[OF n] f3 by auto
      show ?thesis
      proof (cases v)
        case (Some e)
        then show ?thesis using assms(1) rd Inr st True al v keep f4 by (auto simp: SealAppendVerified_def Let_def)
      next
        case None
        then have ok: "parse (old @ tail) = None" if "fs_files fs n = Some old" for old
          using verify_combined_ok[of parse "partial_of n" n tail fs3 fs4] v that f3 binlog_name_verify[OF n] by auto
        have "append_tail (partial_of n) n tail fs4 = (r, fs')"
          using assms(1) rd Inr st True al v None by (auto simp: SealAppendVerified_def Let_def)
        note out = append_tail_outcome[OF this d f4, where parse = parse, OF disjI2[OF ok]]
        show ?thesis using out(1) out(2) by blast
      qed
    qed
  qed
qed

text \<open>
  C34. A sealed file only ever changes by gaining a verified tail. Whatever fails while a segment is sealed,
  the sealed file is as before; or it appears as the whole partial file, whose bytes the parser accepted;
  or it has grown by the partial file's bytes, which the parser accepted behind it or behind the magic; or,
  with an error reported, a failed append left something behind its old bytes. No byte of a sealed file is
  lost, except where the call that looks for it failed and so counted it as missing. After success the
  partial file is gone and the sealed file ends with its bytes.
\<close>

theorem sealing_only_adds_verified_bytes:
  assumes "(r, fs') \<in> {Seal parse (partial_of n) fs, SealAppendVerified parse (partial_of n) fs}" and "binlog_name n"
  shows "seal_outcome parse (fs_fault fs (Suc (fs_clock fs)) \<noteq> None) n fs r fs' \<and>
    (r = None \<longrightarrow> fs_files fs' (partial_of n) = None \<and>
       (\<exists>data b. fs_files fs (partial_of n) = Some data \<and> fs_files fs' n = Some (b @ data)))"
proof -
  have "seal_outcome parse sf n fs r fs'" if "seal_outcome parse False n fs r fs'" for sf
    using that by (auto simp: seal_outcome_def)
  then show ?thesis
    using assms Seal_outcome[of parse n fs r fs'] SealAppendVerified_outcome[of parse n fs r fs']
    by (auto simp: sealed_data_def)
qed

subsection \<open>Examples\<close>

definition ar_event :: "event_type \<Rightarrow> event_body \<Rightarrow> string \<Rightarrow> binlog_event" where
  "ar_event t b raw = \<lparr>ev_Header = Some \<lparr>eh_EventType = t, eh_Timestamp = 0, eh_LogPos = 0\<rparr>, ev_Body = b, ev_RawData = raw\<rparr>"

definition ar_rotate :: "string \<Rightarrow> binlog_event" where
  "ar_rotate n = ar_event ROTATE_EVENT (RotateEvent n) []"

definition ar_disk :: "(string \<rightharpoonup> string) \<Rightarrow> string fsys" where
  "ar_disk files = \<lparr>fs_files = files, fs_mtime = (\<lambda>_. 0), fs_clock = 0, fs_fault = no_faults, fs_now = 7\<rparr>"

lemma healthy_ar_disk [simp]: "healthy (ar_disk files)" "fs_files (ar_disk files) = files"
  by (simp_all add: healthy_def ar_disk_def)

lemma consume_writes_partials_only_witness:
  "fst (Consume [DlvEvent (ar_rotate ''../evil''), DlvEvent (ar_event (OTHER_EVENT 2) OtherBody ''AB'')] (ar_disk Map.empty))
     = Inl (Err ''archive: rotate next log name %q contains path separators (path traversal rejected)'' [''../evil'']) \<and>
   fs_files (snd (Consume [DlvEvent (ar_rotate ''../evil'')] (ar_disk Map.empty))) ''../evil.partial'' = None"
proof -
  have name: "validateRotateName ''b.1'' = None" by code_simp
  have "fs_files (snd (Consume [DlvEvent (ar_rotate ''../evil'')] (ar_disk Map.empty))) ''../evil.partial'' =
      fs_files (ar_disk Map.empty) ''../evil.partial''"
    using consume_writes_partials_only[OF _ name, of "fst (Consume [DlvEvent (ar_rotate ''../evil'')] (ar_disk Map.empty))"
        "snd (Consume [DlvEvent (ar_rotate ''../evil'')] (ar_disk Map.empty))" "[DlvEvent (ar_rotate ''../evil'')]"
        "ar_disk Map.empty" "''../evil.partial''"] by (auto simp: Cons_eq_append_conv append_eq_Cons_conv)
  moreover have "fst (Consume [DlvEvent (ar_rotate ''../evil''), DlvEvent (ar_event (OTHER_EVENT 2) OtherBody ''AB'')]
      (ar_disk Map.empty)) =
      Inl (Err ''archive: rotate next log name %q contains path separators (path traversal rejected)'' [''../evil''])"
    by (simp add: Consume_def ar_rotate_def ar_event_def RotateNextLogName_def validateRotateName_def path_base_def Let_def)
  ultimately show ?thesis by simp
qed

definition ar_archive :: "string fsys" where
  "ar_archive = ar_disk [''b.1'' \<mapsto> binlogMagic @ ''A'', ''b.1.partial'' \<mapsto> ''B'']"

lemma seal_archive:
  "fst (SealAppendVerified (\<lambda>_. None) (partial_of ''b.1'') ar_archive) = None"
  "fs_files (snd (SealAppendVerified (\<lambda>_. None) (partial_of ''b.1'') ar_archive)) ''b.1'' = Some (binlogMagic @ ''AB'')"
  by (simp_all add: SealAppendVerified_def partial_of_def ar_archive_def ar_disk_def no_faults_def trim_suffix_def
      has_suffix_def os_ReadFile_def os_Stat_def alreadyAppended_def verify_combined_def verify_name_def
      os_Create_def os_Append_def ParseFile_def append_tail_def os_OpenAppend_def os_Remove_def binlogMagic_def Let_def)

lemma sealing_only_adds_verified_bytes_witness:
  "\<exists>b. fs_files (snd (SealAppendVerified (\<lambda>_. None) (partial_of ''b.1'') ar_archive)) (partial_of ''b.1'') = None \<and>
     fs_files (snd (SealAppendVerified (\<lambda>_. None) (partial_of ''b.1'') ar_archive)) ''b.1'' = Some (b @ ''B'')"
proof -
  have n: "binlog_name ''b.1''" by (simp add: binlog_name_def has_suffix_def)
  have "fs_files ar_archive (partial_of ''b.1'') = Some ''B''" by (simp add: ar_archive_def partial_of_def)
  then show ?thesis
    using sealing_only_adds_verified_bytes[OF _ n, of None "snd (SealAppendVerified (\<lambda>_. None) (partial_of ''b.1'') ar_archive)"
        "\<lambda>_. None" ar_archive] seal_archive(1) by (auto simp: prod_eq_iff)
qed

end
