(* ===== verification/In_Use_Flag.thy ===== *)
theory In_Use_Flag
  imports Archive "HOL-Library.Word"
begin

text \<open>
  \<open>internal/collector/loop.go\<close>, \<open>clearInUseFlag\<close>: a binlog file that the server is writing has the in-use
  flag in its format description event, which the event's checksum does not cover. The archived copy gets
  the flag cleared when that makes the checksum right. \<open>crc32.ChecksumIEEE\<close> is defined bit by bit.
\<close>

unbundle bit_operations_syntax

subsection \<open>CRC-32\<close>

fun crc_bits :: "nat \<Rightarrow> 32 word \<Rightarrow> 32 word" where
  "crc_bits 0 c = c"
| "crc_bits (Suc k) c = crc_bits k (if bit c 0 then drop_bit 1 c XOR 0xEDB88320 else drop_bit 1 c)"

definition crc_byte :: "32 word \<Rightarrow> char \<Rightarrow> 32 word" where
  "crc_byte c b = crc_bits 8 (c XOR of_char b)"

definition ChecksumIEEE :: "string \<Rightarrow> 32 word" where
  "ChecksumIEEE bs = NOT (foldl crc_byte (NOT 0) bs)"

text \<open>\<open>binary.LittleEndian.Uint32\<close> of the first four bytes.\<close>

definition le_uint32 :: "string \<Rightarrow> 32 word" where
  "le_uint32 bs = of_char (bs ! 0) OR push_bit 8 (of_char (bs ! 1)) OR push_bit 16 (of_char (bs ! 2)) OR
     push_bit 24 (of_char (bs ! 3))"

subsection \<open>Clearing the flag\<close>

definition zero_byte :: char where
  "zero_byte = CHR 0x00"

text \<open>The first event of the file, when its size is plausible and it is complete.\<close>

definition first_event :: "string \<Rightarrow> string option" where
  "first_event bytes =
     (let evSize = unat (le_uint32 (drop 13 bytes)) in
      if evSize \<le> 19 + 4 \<or> evSize > 65536 then None
      else if length bytes < 4 + evSize then None
      else Some (take evSize (drop 4 bytes)))"

definition stored_crc :: "string \<Rightarrow> 32 word" where
  "stored_crc ev = le_uint32 (drop (length ev - 4) ev)"

definition computed_crc :: "string \<Rightarrow> 32 word" where
  "computed_crc ev = ChecksumIEEE (take (length ev - 4) ev)"

text \<open>The new contents of the file, \<open>None\<close> when it is left alone.\<close>

definition clear_flag_bytes :: "string \<Rightarrow> string option" where
  "clear_flag_bytes bytes =
     (if length bytes < 23 then None
      else if take 4 bytes \<noteq> binlogMagic \<or> bytes ! 8 \<noteq> CHR 0x0F then None
      else if bytes ! 21 = zero_byte \<and> bytes ! 22 = zero_byte then None
      else (case first_event bytes of
              None \<Rightarrow> None
            | Some ev \<Rightarrow>
                (if computed_crc ev = stored_crc ev then None
                 else (let patched = ev[17 := zero_byte, 18 := zero_byte] in
                       if computed_crc patched \<noteq> stored_crc ev then None
                       else Some (bytes[21 := zero_byte, 22 := zero_byte])))))"

text \<open>A failing \<open>WriteAt\<close> may leave anything in the two bytes.\<close>

definition clearInUseFlag :: "string \<Rightarrow> string fsys \<Rightarrow> err option \<times> string fsys" where
  "clearInUseFlag path fs =
     (case os_ReadFile path fs of
        (Inl e, fs1) \<Rightarrow> (Some e, fs1)
      | (Inr bytes, fs1) \<Rightarrow>
          (case clear_flag_bytes bytes of
             None \<Rightarrow> (None, fs1)
           | Some bytes' \<Rightarrow> os_WriteFile path bytes' fs1))"

subsection \<open>The checksum detects the flag\<close>

lemma crc_bits_xor: "crc_bits k (a XOR b) = crc_bits k a XOR crc_bits k b"
  by (induction k arbitrary: a b) (simp_all add: bit_simps ac_simps)

lemma crc_bits_inj: "crc_bits k a = 0 \<Longrightarrow> a = 0"
proof (induction k arbitrary: a)
  case (Suc k)
  then have z: "(if bit a 0 then drop_bit 1 a XOR 0xEDB88320 else drop_bit 1 a) = 0" by simp
  show "a = 0"
  proof (cases "bit a 0")
    case True
    then have "bit (drop_bit 1 a XOR 0xEDB88320 :: 32 word) 31 = bit (0::32 word) 31" using z by simp
    moreover have "\<not> bit (drop_bit 1 a) 31" using bit_imp_le_length[of a 32] by (auto simp: bit_simps)
    ultimately show ?thesis by (simp add: bit_simps)
  next
    case False
    then have "drop_bit 1 a = 0" using z by simp
    have *: "bit a (Suc n) = bit (drop_bit 1 a) n" for n by (simp add: bit_simps)
    have "\<not> bit a n" for n using False * \<open>drop_bit 1 a = 0\<close> by (cases n) auto
    then show ?thesis by (intro bit_word_eqI) simp
  qed
qed simp

lemma crc_bits_shift: "(\<forall>i<k. \<not> bit a i) \<Longrightarrow> crc_bits k a = drop_bit k a"
proof (induction k arbitrary: a)
  case (Suc k)
  then have "\<forall>i<k. \<not> bit (drop_bit 1 a) i" by (simp add: bit_simps)
  then show ?case using Suc by simp
qed simp

lemma crc_bits_low:
  assumes "k \<le> 32" and "\<forall>i\<ge>32 - k. \<not> bit (crc_bits k a) i"
  shows "\<forall>i<k. \<not> bit a i"
  using assms
proof (induction k arbitrary: a)
  case (Suc k)
  let ?a = "if bit a 0 then drop_bit 1 a XOR 0xEDB88320 else drop_bit 1 a"
  have low: "\<forall>i<k. \<not> bit ?a i" using Suc.IH[of ?a] Suc.prems by simp
  then have "crc_bits k ?a = drop_bit k ?a" by (rule crc_bits_shift)
  then have "\<not> bit (drop_bit k ?a) (31 - k)" using Suc.prems by simp
  then have "\<not> bit ?a 31" using Suc.prems(1) by (simp add: bit_simps del: if_split split del: if_split)
  moreover have "\<not> bit (drop_bit 1 a) 31" using bit_imp_le_length[of a 32] by (auto simp: bit_simps)
  ultimately have "\<not> bit a 0" by (simp add: bit_simps split: if_splits)
  with low have "\<forall>i<k. \<not> bit a (Suc i)" by (simp add: bit_simps)
  with \<open>\<not> bit a 0\<close> show ?case by (metis less_Suc_eq_0_disj)
qed simp

lemma of_char_word: "(of_char c :: 32 word) = word_of_nat (of_char c)"
  by (rule of_nat_of_char[symmetric])

lemma of_char_take: "take_bit 8 (of_char c :: nat) = of_char c"
  by (simp add: take_bit_eq_mod)

lemma of_char_bits: "8 \<le> i \<Longrightarrow> \<not> bit (of_char c :: 32 word) i"
  using bit_take_bit_iff[of 8 "of_char c :: nat" i] unfolding of_char_word of_char_take
  by (simp add: bit_simps)

lemma of_char_zero: "(of_char c :: 32 word) = 0 \<Longrightarrow> c = CHR 0x00"
proof -
  assume "(of_char c :: 32 word) = 0"
  then have "unat (word_of_nat (of_char c) :: 32 word) = 0" by (simp add: of_char_word)
  moreover have "(of_char c :: nat) < 256" by (metis of_char_mod_256 mod_less_divisor zero_less_numeral)
  ultimately have "(of_char c :: nat) = of_char (CHR 0x00)" by (simp add: unat_of_nat)
  then show "c = CHR 0x00" by (rule of_char_eqI)
qed

lemma xor_cancel: "(a :: 32 word) XOR c = b XOR c \<longleftrightarrow> a = b" "a XOR b = 0 \<longleftrightarrow> a = (b :: 32 word)"
  by (metis xor.assoc xor.right_neutral xor_self_eq)+

lemma crc_bits_eq: "crc_bits k a = crc_bits k b \<longleftrightarrow> a = b"
proof
  assume "crc_bits k a = crc_bits k b"
  then have "crc_bits k (a XOR b) = 0" by (simp add: crc_bits_xor)
  then have "a XOR b = 0" by (rule crc_bits_inj)
  then show "a = b" by (simp add: xor_cancel)
qed simp

lemma foldl_crc_inj: "foldl crc_byte a bs = foldl crc_byte b bs \<longleftrightarrow> a = b"
  by (induction bs arbitrary: a b) (auto simp: crc_byte_def crc_bits_eq xor_cancel)

text \<open>Two adjacent bytes cannot be changed to zero without changing the checksum.\<close>

lemma crc_two_bytes:
  assumes "crc_byte (crc_byte s x) y = crc_byte (crc_byte s (CHR 0x00)) (CHR 0x00)"
  shows "x = CHR 0x00 \<and> y = CHR 0x00"
proof -
  have z: "(of_char (CHR 0x00) :: 32 word) = 0" by simp
  have "crc_bits 8 s XOR (crc_bits 8 (of_char x) XOR of_char y) = crc_bits 8 s XOR 0"
    using assms unfolding crc_byte_def crc_bits_eq by (simp add: crc_bits_xor z xor.assoc)
  then have "crc_bits 8 (of_char x) XOR of_char y = 0"
    by (metis xor.left_commute xor.commute xor_cancel(1))
  then have e: "crc_bits 8 (of_char x) = of_char y" by (simp add: xor_cancel)
  have "\<forall>i<8. \<not> bit (of_char x :: 32 word) i"
    by (rule crc_bits_low) (simp_all add: e of_char_bits)
  then have b: "\<not> bit (of_char x :: 32 word) i" for i using of_char_bits[of i x] by (cases "i < 8") auto
  have x: "of_char x = (0 :: 32 word)" by (rule bit_word_eqI) (simp add: b)
  have "crc_bits 8 0 = 0" using crc_bits_shift[of 8 0] by simp
  then have "of_char y = (0 :: 32 word)" using e x by simp
  with x show ?thesis using of_char_zero by blast
qed
subsection \<open>What it restores\<close>

lemma first_event_length: "first_event bytes = Some ev \<Longrightarrow> 23 < length ev \<and> 4 + length ev \<le> length bytes"
  by (auto simp: first_event_def Let_def split: if_splits)

lemma first_event_patch:
  assumes "first_event bytes = Some ev"
  shows "first_event (bytes[21 := x, 22 := y]) = Some (ev[17 := x, 18 := y])"
proof -
  have len: "first_event bytes = Some ev" "23 < length ev" "4 + length ev \<le> length bytes"
    using assms first_event_length by auto
  have size: "le_uint32 (drop 13 (bytes[21 := x, 22 := y])) = le_uint32 (drop 13 bytes)"
    by (cases "16 < length bytes") (use len in \<open>auto simp: le_uint32_def\<close>)
  have "take n (drop 4 (bytes[21 := x, 22 := y])) = (take n (drop 4 bytes))[17 := x, 18 := y]" for n
    by (simp add: drop_update_swap take_update_swap)
  then show ?thesis using assms size by (simp add: first_event_def Let_def split: if_splits)
qed

lemma stored_crc_patch: "23 < length ev \<Longrightarrow> stored_crc (ev[17 := x, 18 := y]) = stored_crc ev"
  by (simp add: stored_crc_def le_uint32_def)

lemma update_two: "Suc i < length d \<Longrightarrow> d[i := u, Suc i := v] = take i d @ u # v # drop (Suc (Suc i)) d"
  by (simp add: upd_conv_take_nth_drop take_Suc_conv_app_nth take_update_swap drop_update_swap)

text \<open>The two flag bytes within the checked part of the event.\<close>

lemma computed_crc_flag:
  assumes "23 < length ev" "ev ! 17 = zero_byte" "ev ! 18 = zero_byte"
    and "computed_crc (ev[17 := x, 18 := y]) = computed_crc ev"
  shows "x = zero_byte \<and> y = zero_byte"
proof -
  let ?d = "take (length ev - 4) ev"
  have len: "18 < length ?d" using assms(1) by simp
  have split: "?d[17 := u, 18 := v] = take 17 ?d @ u # v # drop 19 ?d" for u v
    using update_two[of 17 ?d u v] len by simp
  have "?d ! 17 = zero_byte" "?d ! 18 = zero_byte" using assms(2,3) len by simp_all
  then have same: "?d[17 := zero_byte, 18 := zero_byte] = ?d" by (metis list_update_id)
  have "foldl crc_byte (NOT 0) (?d[17 := x, 18 := y]) = foldl crc_byte (NOT 0) (?d[17 := zero_byte, 18 := zero_byte])"
    using assms(4) unfolding same by (simp add: computed_crc_def ChecksumIEEE_def take_update_swap)
  then show ?thesis
    unfolding split using crc_two_bytes by (simp add: foldl_crc_inj zero_byte_def)
qed

text \<open>A binlog file whose format description event has no flag set and a right checksum.\<close>

definition sealed_fde :: "string \<Rightarrow> bool" where
  "sealed_fde bytes \<longleftrightarrow> 23 \<le> length bytes \<and> take 4 bytes = binlogMagic \<and> bytes ! 8 = CHR 0x0F \<and>
     bytes ! 21 = zero_byte \<and> bytes ! 22 = zero_byte \<and>
     (\<exists>ev. first_event bytes = Some ev \<and> computed_crc ev = stored_crc ev)"

lemma first_event_nth: "first_event bytes = Some ev \<Longrightarrow> i < length ev \<Longrightarrow> ev ! i = bytes ! (4 + i)"
  using first_event_length[of bytes ev] by (auto simp: first_event_def Let_def split: if_splits)

lemma update_flag_back:
  assumes "23 \<le> length bytes"
  shows "(bytes[21 := u, 22 := v])[21 := bytes ! 21, 22 := bytes ! 22] = bytes"
    "(bytes[21 := x, 22 := y])[21 := u, 22 := v] = bytes[21 := u, 22 := v]"
  by (simp_all add: list_update_swap[of 22 21])

text \<open>
  C38. \<open>clearInUseFlag\<close> undoes exactly what the server does to a file it has open: it rewrites a copy as \<open>b'\<close> if and
  only if \<open>b'\<close> is a binlog file with an unflagged, correctly checksummed format description event and the copy
  is \<open>b'\<close> with some flag bits set in that event. Whole files, corrupt ones and other files stay as they are.
\<close>

theorem clear_flag_undoes_flagging:
  "clear_flag_bytes b = Some b' \<longleftrightarrow>
     sealed_fde b' \<and> (\<exists>x y. \<not> (x = zero_byte \<and> y = zero_byte) \<and> b = b'[21 := x, 22 := y])"
proof
  assume c: "clear_flag_bytes b = Some b'"
  then obtain ev where len: "23 \<le> length b" and m: "take 4 b = binlogMagic" "b ! 8 = CHR 0x0F"
    and fl: "\<not> (b ! 21 = zero_byte \<and> b ! 22 = zero_byte)" and ev: "first_event b = Some ev"
    and ok: "computed_crc (ev[17 := zero_byte, 18 := zero_byte]) = stored_crc ev"
    and b': "b' = b[21 := zero_byte, 22 := zero_byte]"
    by (auto simp: clear_flag_bytes_def Let_def split: if_splits option.splits)
  have "sealed_fde b'"
    using len m first_event_patch[OF ev] stored_crc_patch first_event_length[OF ev] ok
    by (auto simp: sealed_fde_def b')
  moreover have "b = b'[21 := b ! 21, 22 := b ! 22]"
    using update_flag_back(1)[OF len] b' by simp
  ultimately show "sealed_fde b' \<and> (\<exists>x y. \<not> (x = zero_byte \<and> y = zero_byte) \<and> b = b'[21 := x, 22 := y])"
    using fl by blast
next
  assume "sealed_fde b' \<and> (\<exists>x y. \<not> (x = zero_byte \<and> y = zero_byte) \<and> b = b'[21 := x, 22 := y])"
  then obtain x y ev where s: "sealed_fde b'" and xy: "\<not> (x = zero_byte \<and> y = zero_byte)" and b: "b = b'[21 := x, 22 := y]"
    and ev: "first_event b' = Some ev" and ok: "computed_crc ev = stored_crc ev"
    by (auto simp: sealed_fde_def)
  have len: "23 < length ev" "4 + length ev \<le> length b'" using first_event_length[OF ev] by auto
  have z: "ev ! 17 = zero_byte" "ev ! 18 = zero_byte"
    using first_event_nth[OF ev] len s by (simp_all add: sealed_fde_def)
  have undo: "(ev[17 := x, 18 := y])[17 := zero_byte, 18 := zero_byte] = ev" "b[21 := zero_byte, 22 := zero_byte] = b'"
    using z s unfolding b sealed_fde_def
    by (simp_all add: list_update_swap[of 18 17] list_update_swap[of 22 21]) (metis list_update_id)+
  have "computed_crc (ev[17 := x, 18 := y]) \<noteq> stored_crc (ev[17 := x, 18 := y])"
    using computed_crc_flag[OF len(1) z] xy ok stored_crc_patch[OF len(1)] by metis
  then show "clear_flag_bytes b = Some b'"
    using s xy len first_event_patch[OF ev, of x y] undo ok stored_crc_patch[OF len(1)]
    by (auto simp: clear_flag_bytes_def sealed_fde_def b Let_def)
qed

end
