(* ===== verification/Collector.thy ===== *)
theory Collector
  imports In_Use_Flag
begin

text \<open>
  \<open>internal/collector\<close> (\<open>loop.go\<close>, \<open>state.go\<close>): the archive loop of the agent. It fills gaps from the server's own
  files, follows the replication stream one file at a time, seals each file when the server rotates and
  records where to go on.

  \<^item> \<open>col_world\<close> holds the archive directory (bytes), the state file beside it, the loop's memory and a log
    of the backoff waits. Both file systems may fail at every call.
  \<^item> \<open>col_env\<close> is what the loop asks: the MySQL server, the source factory (go-mysql's syncer), the server's
    binlog directory and the context. \<open>cw_calls\<close> counts the questions, so answers may change over time.
  \<^item> Files of the archive are named relative to its directory; \<open>ce_names\<close> lists the names it may hold.
\<close>

subsection \<open>The state file\<close>

record ArchiveState =
  as_LastFile :: string
  as_LastPos :: nat
  as_LastGTID :: string
  as_UpdatedAt :: time

definition zero_state :: ArchiveState where
  "zero_state = \<lparr>as_LastFile = [], as_LastPos = 0, as_LastGTID = [], as_UpdatedAt = zero_time\<rparr>"

definition statePath :: string where
  "statePath = ''archive_state.json''"

definition LoadState :: "ArchiveState json_file fsys \<Rightarrow> (err + ArchiveState) \<times> ArchiveState json_file fsys" where
  "LoadState fs =
     (case os_ReadFile statePath fs of
        (Inl e, fs1) \<Rightarrow>
          (if errors_is e os_ErrNotExist then Inr zero_state
           else Inl (Wrap ''collector: read state %s: %w'' [statePath] e), fs1)
      | (Inr (Json s), fs1) \<Rightarrow> (Inr s, fs1)
      | (Inr Corrupt, fs1) \<Rightarrow> (Inl (Err ''collector: parse state %s (corrupt): %w'' [statePath]), fs1))"

definition SaveState :: "ArchiveState \<Rightarrow> ArchiveState json_file fsys \<Rightarrow> err option \<times> ArchiveState json_file fsys" where
  "SaveState s fs =
     (let tmp = statePath @ ''.tmp'' in
      case os_WriteFile tmp (Json s) fs of
        (Some e, fs1) \<Rightarrow> (Some (Wrap ''collector: write state tmp: %w'' [] e), fs1)
      | (None, fs1) \<Rightarrow>
          (case os_Rename tmp statePath fs1 of
             (Some e, fs2) \<Rightarrow> (Some (Wrap ''collector: rename state: %w'' [] e), snd (os_Remove tmp fs2))
           | (None, fs2) \<Rightarrow> (None, fs2)))"

subsection \<open>World and environment\<close>

record col_world =
  cw_fs :: "string fsys"
  cw_st :: "ArchiveState json_file fsys"
  cw_state :: ArchiveState
  cw_delay :: int
  cw_waits :: "int list"
  cw_calls :: nat

record col_env =
  ce_ServerID :: nat
  ce_RetentionDays :: int
  ce_ListBinlogs :: "nat \<Rightarrow> err + ManifestFile list"
  ce_MasterPosition :: "nat \<Rightarrow> err + Position"
  ce_Source :: "nat \<Rightarrow> Position \<Rightarrow> err + delivery list"
  ce_BinlogDir :: "nat \<Rightarrow> string \<Rightarrow> string option"
  ce_cancelled :: "nat \<Rightarrow> bool"
  ce_parse :: "string \<Rightarrow> err option"
  ce_names :: "string list"

definition ask :: "(nat \<Rightarrow> 'a) \<Rightarrow> col_world \<Rightarrow> 'a \<times> col_world" where
  "ask q w = (q (cw_calls w), w\<lparr>cw_calls := Suc (cw_calls w)\<rparr>)"

definition on_fs :: "(string fsys \<Rightarrow> 'a \<times> string fsys) \<Rightarrow> col_world \<Rightarrow> 'a \<times> col_world" where
  "on_fs f w = (case f (cw_fs w) of (r, fs) \<Rightarrow> (r, w\<lparr>cw_fs := fs\<rparr>))"

definition on_st :: "(ArchiveState json_file fsys \<Rightarrow> 'a \<times> ArchiveState json_file fsys) \<Rightarrow> col_world \<Rightarrow> 'a \<times> col_world" where
  "on_st f w = (case f (cw_st w) of (r, fs) \<Rightarrow> (r, w\<lparr>cw_st := fs\<rparr>))"

definition ctx_done :: "col_env \<Rightarrow> col_world \<Rightarrow> bool" where
  "ctx_done E w = ce_cancelled E (cw_calls w)"

text \<open>
  \<open>DefaultSourceFactory\<close> without a GTID set: a zero position is refused, one inside the magic is moved behind
  it; \<open>new\<close> is \<open>stream.NewSource\<close>.
\<close>

definition DefaultSourceFactory :: "(Position \<Rightarrow> err + delivery list) \<Rightarrow> Position \<Rightarrow> err + delivery list" where
  "DefaultSourceFactory new pos =
     (if pos_Name pos = []
      then Inl (Err ''collector: zero SyncPos (name=%q pos=%d) and no SyncGTID; refusing to start sync'' [pos_Name pos, show_nat (pos_Pos pos)])
      else new (if pos_Pos pos < 4 then pos\<lparr>pos_Pos := 4\<rparr> else pos))"

definition errStreamEnded :: err where
  "errStreamEnded = Err ''collector: stream ended cleanly without rotation'' []"

definition errStateAdvance :: err where
  "errStateAdvance = Err ''collector: state persistence failed after seal; continuing from sealed position'' []"

definition fileExists :: "string \<Rightarrow> string fsys \<Rightarrow> bool \<times> string fsys" where
  "fileExists p fs = (case os_Stat p fs of (r, fs1) \<Rightarrow> (r = None, fs1))"

subsection \<open>Housekeeping\<close>

fun remove_all :: "(string \<Rightarrow> bool) \<Rightarrow> string list \<Rightarrow> string fsys \<Rightarrow> string fsys" where
  "remove_all P [] fs = fs"
| "remove_all P (n # ns) fs = remove_all P ns (if P n then snd (os_Remove n fs) else fs)"

definition cleanupPartials :: "string list \<Rightarrow> string fsys \<Rightarrow> string fsys" where
  "cleanupPartials names fs =
     (case os_ListDir names fs of
        (Inl _, fs1) \<Rightarrow> fs1
      | (Inr entries, fs1) \<Rightarrow> remove_all (\<lambda>n. has_suffix n ''.partial'') entries fs1)"

fun prune_entries :: "time \<Rightarrow> string list \<Rightarrow> string fsys \<Rightarrow> string fsys" where
  "prune_entries cutoff [] fs = fs"
| "prune_entries cutoff (n # ns) fs =
     (if has_suffix n ''.partial'' \<or> has_suffix n ''.json'' \<or> has_prefix n ''.verify-'' then prune_entries cutoff ns fs
      else (case os_Stat n fs of
              (Some _, fs1) \<Rightarrow> prune_entries cutoff ns fs1
            | (None, fs1) \<Rightarrow>
                prune_entries cutoff ns (if fs_mtime fs1 n < cutoff then snd (os_Remove n fs1) else fs1)))"

definition pruneRetention :: "int \<Rightarrow> string list \<Rightarrow> string fsys \<Rightarrow> string fsys" where
  "pruneRetention days names fs =
     (if days \<le> 0 then fs
      else (case os_ListDir names fs of
              (Inl _, fs1) \<Rightarrow> fs1
            | (Inr entries, fs1) \<Rightarrow> prune_entries (fs_now fs - days * 24 * 3600 * 1000000000) entries fs1))"

text \<open>The exponential backoff: one second at first, doubled up to a minute; false when the context is done.\<close>

definition second :: int where
  "second = 1000000000"

definition defaultBackoff :: "col_env \<Rightarrow> col_world \<Rightarrow> bool \<times> col_world" where
  "defaultBackoff E w =
     (let d = (if cw_delay w = 0 then second else cw_delay w);
          d2 = (if d * 2 > 60 * second then 60 * second else d * 2) in
      (\<not> ctx_done E w, w\<lparr>cw_delay := d2, cw_waits := cw_waits w @ [d], cw_calls := Suc (cw_calls w)\<rparr>))"

definition resetBackoff :: "col_world \<Rightarrow> col_world" where
  "resetBackoff w = w\<lparr>cw_delay := 0\<rparr>"

text \<open>\<open>saveStateRetry\<close> with \<open>k\<close> attempts left.\<close>

fun save_attempts :: "nat \<Rightarrow> col_env \<Rightarrow> ArchiveState \<Rightarrow> err \<Rightarrow> col_world \<Rightarrow> err option \<times> col_world" where
  "save_attempts 0 E st e0 w = (Some (Wrap ''collector: persist state %s after 3 attempts: %w'' [as_LastFile st] e0), w)"
| "save_attempts (Suc k) E st e0 w =
     (case on_st (SaveState st) w of
        (None, w1) \<Rightarrow> (None, w1)
      | (Some e, w1) \<Rightarrow>
          (if ctx_done E w1
           then (Some (Wrap ''collector: persist state %s canceled: %w'' [as_LastFile st] ctx_canceled), w1)
           else save_attempts k E st e w1))"

definition saveStateRetry :: "col_env \<Rightarrow> ArchiveState \<Rightarrow> col_world \<Rightarrow> err option \<times> col_world" where
  "saveStateRetry E st w = save_attempts 3 E st (Err [] []) w"

text \<open>Recording the new position, in memory also when the file cannot be written.\<close>

definition advance :: "col_env \<Rightarrow> string \<Rightarrow> col_world \<Rightarrow> err option \<times> col_world" where
  "advance E next w =
     (let st = \<lparr>as_LastFile = next, as_LastPos = 0, as_LastGTID = [], as_UpdatedAt = fs_now (cw_fs w)\<rparr> in
      case saveStateRetry E st w of
        (Some _, w1) \<Rightarrow> (Some errStateAdvance, w1\<lparr>cw_state := st\<rparr>)
      | (None, w1) \<Rightarrow> (None, w1\<lparr>cw_state := st\<rparr>))"

subsection \<open>Filling gaps from the server's files\<close>

text \<open>
  \<open>copyFilePrefix\<close>: \<open>src\<close> is what opening the source gave; a negative limit is the whole file. A limit beyond the
  end is the error of \<open>io.CopyN\<close>, after everything was copied.
\<close>

definition copyFilePrefix :: "string option \<Rightarrow> string \<Rightarrow> int \<Rightarrow> string fsys \<Rightarrow> err option \<times> string fsys" where
  "copyFilePrefix src dst limit fs =
     (case src of
        None \<Rightarrow> (Some (Err ''collector: open %s: %w'' [dst]), fs)
      | Some bytes \<Rightarrow>
          (let partial = partial_of dst in
           case os_Create partial fs of
             (Some e, fs1) \<Rightarrow> (Some (Wrap ''collector: create %s: %w'' [partial] e), fs1)
           | (None, fs1) \<Rightarrow>
               (let lim = (if 0 \<le> limit \<and> limit < 4 then 4 else limit);
                    data = (if lim < 0 then bytes else take (nat lim) bytes);
                    short = (0 \<le> lim \<and> int (length bytes) < lim) in
                case os_Append partial data fs1 of
                  (r, fs2) \<Rightarrow>
                    (case (if r = None \<and> short then Some io_EOF else r) of
                       Some e \<Rightarrow> (Some (Wrap ''collector: copy %s: %w'' [dst] e), snd (os_Remove partial fs2))
                     | None \<Rightarrow>
                         (case clearInUseFlag partial fs2 of
                            (Some e, fs3) \<Rightarrow>
                              (Some (Wrap ''collector: clear in-use flag %s: %w'' [partial] e), snd (os_Remove partial fs3))
                          | (None, fs3) \<Rightarrow>
                              (case os_Rename partial dst fs3 of
                                 (Some e, fs4) \<Rightarrow> (Some (Wrap ''collector: rename %s: %w'' [dst] e), snd (os_Remove partial fs4))
                               | (None, fs4) \<Rightarrow> (None, fs4)))))))"

definition backfillFile :: "col_env \<Rightarrow> string \<Rightarrow> Position \<Rightarrow> col_world \<Rightarrow> err option \<times> col_world" where
  "backfillFile E name masterPos w =
     (if name = pos_Name masterPos \<and> pos_Pos masterPos \<le> 4 then (None, w)
      else (let limit = (if name = pos_Name masterPos then int (pos_Pos masterPos) else - 1) in
            case ask (\<lambda>n. ce_BinlogDir E n name) w of
              (src, w1) \<Rightarrow> on_fs (copyFilePrefix src name limit) w1))"

fun backfill_all :: "col_env \<Rightarrow> Position \<Rightarrow> ManifestFile list \<Rightarrow> col_world \<Rightarrow> err option \<times> col_world" where
  "backfill_all E pos [] w = (None, w)"
| "backfill_all E pos (f # fs) w =
     (case on_fs (os_Stat (mf_Name f)) w of
        (st, w1) \<Rightarrow>
          (case (case st of Some e \<Rightarrow> if errors_is e os_ErrNotExist then backfillFile E (mf_Name f) pos w1 else (None, w1)
                 | None \<Rightarrow> (None, w1)) of
             (Some e, w2) \<Rightarrow> (Some (Wrap ''collector: backfill %s: %w'' [mf_Name f] e), w2)
           | (None, w2) \<Rightarrow> backfill_all E pos fs w2))"

definition cleanup :: "col_env \<Rightarrow> col_world \<Rightarrow> col_world" where
  "cleanup E w = w\<lparr>cw_fs := cleanupPartials (ce_names E) (cw_fs w)\<rparr>"

definition reconcile :: "col_env \<Rightarrow> col_world \<Rightarrow> err option \<times> col_world" where
  "reconcile E w =
     (case ask (ce_ListBinlogs E) w of
        (Inl e, w1) \<Rightarrow> (Some (Wrap ''collector: list binlogs: %w'' [] e), w1)
      | (Inr files, w1) \<Rightarrow>
          (case ask (ce_MasterPosition E) w1 of
             (Inl e, w2) \<Rightarrow> (Some (Wrap ''collector: master position: %w'' [] e), w2)
           | (Inr pos, w2) \<Rightarrow>
               (case backfill_all E pos files w2 of
                  (Some e, w3) \<Rightarrow> (Some e, w3)
                | (None, w3) \<Rightarrow> (None, cleanup E w3))))"

subsection \<open>One segment\<close>

text \<open>
  \<open>skipStreamPreamble\<close>: the first content event and what follows it, or the name of a boundary rotation (\<open>None\<close>
  and the name), or neither at the end of the stream.
\<close>

fun skipStreamPreamble :: "delivery list \<Rightarrow> string \<Rightarrow> err + (binlog_event option \<times> string \<times> delivery list)" where
  "skipStreamPreamble [] cur = Inr (None, [], [])"
| "skipStreamPreamble (DlvCanceled e # ds) cur = (if errors_is e io_EOF then Inr (None, [], ds) else Inl e)"
| "skipStreamPreamble (DlvErr e # ds) cur = (if errors_is e io_EOF then Inr (None, [], ds) else Inl e)"
| "skipStreamPreamble (DlvEvent ev # ds) cur =
     (case ev_Header ev of
        None \<Rightarrow> skipStreamPreamble ds cur
      | Some h \<Rightarrow>
          (if eh_EventType h = ROTATE_EVENT
           then (case RotateNextLogName ev of
                   Inl e \<Rightarrow> Inl e
                 | Inr name \<Rightarrow> (if name \<noteq> cur then Inr (None, name, ds) else skipStreamPreamble ds cur))
           else if eh_EventType h = FORMAT_DESCRIPTION_EVENT then skipStreamPreamble ds cur
           else Inr (Some ev, [], ds)))"

text \<open>\<open>recoverSealedFile\<close>: whether the file was recovered, and the error.\<close>

definition str_greater :: "string \<Rightarrow> string \<Rightarrow> bool" where
  "str_greater a b = (b < a)"

definition recoverSealedFile :: "col_env \<Rightarrow> Position \<Rightarrow> col_world \<Rightarrow> (bool \<times> err option) \<times> col_world" where
  "recoverSealedFile E pos w =
     (case ask (ce_ListBinlogs E) w of
        (Inl e, w1) \<Rightarrow> ((False, Some (Wrap ''collector: list binlogs during seal recovery: %w'' [] e)), w1)
      | (Inr files, w1) \<Rightarrow>
          (case ask (ce_MasterPosition E) w1 of
             (Inl e, w2) \<Rightarrow> ((False, Some (Wrap ''collector: master position during seal recovery: %w'' [] e)), w2)
           | (Inr masterPos, w2) \<Rightarrow>
               (let name = pos_Name pos;
                    rotated = (str_greater (pos_Name masterPos) name \<or> \<not> list_ex (\<lambda>f. mf_Name f = name) files) in
                if \<not> rotated then ((False, None), w2)
                else (let w3 = snd (on_fs (os_Remove name) w2); w4 = snd (on_fs (os_Remove (partial_of name)) w3) in
                      case backfillFile E name masterPos w4 of
                        (Some e, w5) \<Rightarrow> ((False, Some (Wrap ''collector: backfill %s after seal failure: %w'' [name] e)), w5)
                      | (None, w5) \<Rightarrow>
                          (let next = (case List.find (\<lambda>f. str_greater (mf_Name f) name) files of
                                         Some f \<Rightarrow> mf_Name f
                                       | None \<Rightarrow> []) in
                           case advance E (if next = [] then pos_Name masterPos else next) w5 of
                             (r, w6) \<Rightarrow> ((True, r), w6))))))"

text \<open>\<open>syncOnce\<close> from the consumed segment on: sealing, recovery, retention and the new position.\<close>

definition seal_segment :: "col_env \<Rightarrow> bool \<Rightarrow> Position \<Rightarrow> string \<Rightarrow> col_world \<Rightarrow> err option \<times> col_world" where
  "seal_segment E appending pos next w =
     (case on_fs (fileExists (partial_of (pos_Name pos))) w of
        (ex, w1) \<Rightarrow>
          (if \<not> ex
           then (Some (Err ''collector: segment for %s rotated but partial %s missing (source must announce the segment file via an initial rotate)''
                   [pos_Name pos, partial_of (pos_Name pos)]), w1)
           else (case on_fs ((if appending then SealAppendVerified else Seal) (ce_parse E) (partial_of (pos_Name pos))) w1 of
                   (Some e, w2) \<Rightarrow>
                     (case recoverSealedFile E pos (cleanup E w2) of
                        ((recovered, rerr), w3) \<Rightarrow>
                          (if recovered then rerr else if rerr \<noteq> None then rerr else Some e, w3))
                 | (None, w2) \<Rightarrow>
                     advance E next (w2\<lparr>cw_fs := pruneRetention (ce_RetentionDays E) (ce_names E) (cw_fs w2)\<rparr>))))"

definition consumed :: "col_env \<Rightarrow> bool \<Rightarrow> Position \<Rightarrow> (err + string) \<times> col_world \<Rightarrow> err option \<times> col_world" where
  "consumed E appending pos r =
     (case r of
        (Inl e, w) \<Rightarrow> (Some e, cleanup E w)
      | (Inr next, w) \<Rightarrow>
          (if next = [] then (Some errStreamEnded, cleanup E w) else seal_segment E appending pos next w))"

definition syncOnce :: "col_env \<Rightarrow> Position \<Rightarrow> col_world \<Rightarrow> err option \<times> col_world" where
  "syncOnce E pos w =
     (case ask (\<lambda>n. ce_Source E n pos) w of
        (Inl e, w1) \<Rightarrow> (Some (Wrap ''collector: create source at %s/%d: %w'' [pos_Name pos, show_nat (pos_Pos pos)] e), w1)
      | (Inr src, w1) \<Rightarrow>
          (case on_fs (fileExists (pos_Name pos)) w1 of
             (appending, w2) \<Rightarrow>
               (if appending
                then (case skipStreamPreamble src (pos_Name pos) of
                        Inl e \<Rightarrow> (Some e, cleanup E w2)
                      | Inr (first, boundary, rest) \<Rightarrow>
                          (if boundary \<noteq> [] then advance E boundary (cleanup E w2)
                           else (case first of
                                   None \<Rightarrow> (Some errStreamEnded, cleanup E w2)
                                 | Some ev \<Rightarrow>
                                     consumed E True pos (on_fs (ConsumeAppend (DlvEvent ev # rest) (pos_Name pos)) w2))))
                else consumed E False pos (on_fs (Consume src) w2))))"

subsection \<open>The loop\<close>

text \<open>
  \<open>syncLoop\<close> may run forever: \<open>fuel\<close> bounds the number of rounds, \<open>None\<close> means that it has not returned within them.
\<close>

fun sync_rounds :: "nat \<Rightarrow> col_env \<Rightarrow> Position \<Rightarrow> col_world \<Rightarrow> (err option \<times> col_world) option" where
  "sync_rounds 0 E pos w = None"
| "sync_rounds (Suc fuel) E pos w =
     (case syncOnce E pos w of
        (Some e, w1) \<Rightarrow>
          (if errors_is e errStreamEnded then Some (None, w1)
           else if errors_is e errStateAdvance
           then (let next = cw_state w1 in
                 if as_LastFile next = [] \<or> as_LastFile next = pos_Name pos then Some (None, w1)
                 else sync_rounds fuel E \<lparr>pos_Name = as_LastFile next, pos_Pos = as_LastPos next\<rparr> (resetBackoff w1))
           else if ctx_done E w1 then Some (None, w1)
           else (case defaultBackoff E w1 of
                   (again, w2) \<Rightarrow> (if \<not> again then Some (None, w2) else sync_rounds fuel E pos w2)))
      | (None, w1) \<Rightarrow>
          (case on_st LoadState (resetBackoff w1) of
             (Inl e, w2) \<Rightarrow> Some (Some e, w2)
           | (Inr st, w2) \<Rightarrow>
               (if as_LastFile st = [] \<or> as_LastFile st = pos_Name pos then Some (None, w2)
                else sync_rounds fuel E \<lparr>pos_Name = as_LastFile st, pos_Pos = as_LastPos st\<rparr> (w2\<lparr>cw_state := st\<rparr>))))"

definition syncLoop :: "nat \<Rightarrow> col_env \<Rightarrow> col_world \<Rightarrow> (err option \<times> col_world) option" where
  "syncLoop fuel E w =
     (case on_st LoadState w of
        (Inl e, w1) \<Rightarrow> Some (Some e, w1)
      | (Inr st, w1) \<Rightarrow>
          (if as_LastFile st = []
           then (case ask (ce_MasterPosition E) w1 of
                   (Inl e, w2) \<Rightarrow> Some (Some (Wrap ''collector: master position: %w'' [] e), w2)
                 | (Inr pos, w2) \<Rightarrow>
                     sync_rounds fuel E pos
                       (w2\<lparr>cw_state := \<lparr>as_LastFile = pos_Name pos, as_LastPos = pos_Pos pos, as_LastGTID = [],
                                       as_UpdatedAt = fs_now (cw_fs w2)\<rparr>\<rparr>))
           else sync_rounds fuel E \<lparr>pos_Name = as_LastFile st, pos_Pos = as_LastPos st\<rparr> w1))"

definition Run_collector :: "nat \<Rightarrow> col_env \<Rightarrow> col_world \<Rightarrow> (err option \<times> col_world) option" where
  "Run_collector fuel E w =
     (if ce_ServerID E = 0 then Some (Some (Err ''collector: ServerID required'' []), w)
      else (case reconcile E w of
              (Some e, w1) \<Rightarrow> Some (Some e, w1)
            | (None, w1) \<Rightarrow> syncLoop fuel E w1))"

end
