(* ===== verification/Collector_Props.thy ===== *)
theory Collector_Props
  imports Collector Archive_Props
begin

text \<open>
  What the archive loop achieves: one clean segment, the whole run over a chain of files, the repetition of an
  append after a crash, and what a restart does to the file that was open.
\<close>

subsection \<open>Sealing when nothing fails\<close>

definition kept :: "string \<Rightarrow> string fsys \<Rightarrow> string fsys \<Rightarrow> bool" where
  "kept n fs fs' \<longleftrightarrow> (\<forall>q. binlog_name q \<and> q \<noteq> n \<longrightarrow> fs_files fs' q = fs_files fs q)"

lemma binlog_name_partial: "binlog_name q \<Longrightarrow> q \<noteq> partial_of n"
  by (auto simp: binlog_name_def)

lemma kept_trans: "kept n a b \<Longrightarrow> kept n b c \<Longrightarrow> kept n a c"
  by (simp add: kept_def)



definition appended :: "string \<Rightarrow> string \<Rightarrow> string" where
  "appended old tail = (if has_suffix old tail then old else old @ tail)"

lemma alreadyAppended_healthy:
  assumes "healthy fs" "fs_files fs n = Some old"
  shows "\<exists>fs'. alreadyAppended n tail fs = (tail \<noteq> [] \<and> has_suffix old tail, fs') \<and> healthy fs' \<and> fs_files fs' = fs_files fs"
proof (cases "tail = []")
  case False
  have "(length tail \<le> length old \<and> drop (length old - length tail) old = tail) = has_suffix old tail"
    unfolding has_suffix_iff by (metis append_take_drop_id append_eq_conv_conj length_append le_add2 add_diff_cancel_right')
  with False assms show ?thesis by (simp add: alreadyAppended_def healthy_calls)
qed (use assms in \<open>simp add: alreadyAppended_def\<close>)

lemma append_tail_healthy:
  assumes h: "healthy fs" and "fs_files fs n = Some old" "fs_files fs (partial_of n) \<noteq> None"
  shows "\<exists>fs'. append_tail (partial_of n) n d fs = (None, fs') \<and> healthy fs' \<and>
    fs_files fs' = (fs_files fs)(n \<mapsto> old @ d, partial_of n := None)"
proof -
  let ?fs2 = "fs_put n (old @ d) (fs_tick (fs_tick fs))"
  have h2: "healthy ?fs2" using h by (simp add: healthy_calls)
  obtain r fs' where r: "os_Remove (partial_of n) ?fs2 = (r, fs')" "healthy fs'"
    "fs_files fs' = (fs_files ?fs2)(partial_of n := None)" "r = None"
    using healthy_remove[OF h2, of "partial_of n"] assms(3) by auto
  then show ?thesis using assms
    by (intro exI[of _ fs']) (simp add: append_tail_def healthy_bytes healthy_calls)
qed

lemma verify_combined_healthy:
  assumes h: "healthy fs" and n: "n \<noteq> verify_name fs" and "fs_files fs n = Some old" and ok: "parse (old @ tail) = None"
  shows "\<exists>fs'. verify_combined parse pn n tail fs = (None, fs') \<and> healthy fs' \<and>
    fs_files fs' = (fs_files fs)(verify_name fs := None)"
proof -
  let ?t = "verify_name fs"
  let ?fs2 = "fs_tick (fs_put ?t [] (fs_tick fs))"
  let ?fs4 = "fs_put ?t (old @ tail) (fs_tick (fs_put ?t old (fs_tick ?fs2)))"
  have h4: "healthy (fs_tick ?fs4)" using h by (simp add: healthy_calls)
  obtain r fs' where r: "os_Remove ?t (fs_tick ?fs4) = (r, fs')" "healthy fs'" "fs_files fs' = (fs_files ?fs4)(?t := None)"
    using healthy_remove[OF h4, of ?t] by auto
  have "verify_combined parse pn n tail fs = (None, fs')"
    using assms r(1) by (simp add: verify_combined_def Let_def healthy_bytes healthy_calls ParseFile_def)
  then show ?thesis using r by (intro exI[of _ fs']) auto
qed

lemma SealAppendVerified_healthy:
  assumes h: "healthy fs" and n: "binlog_name n" and p: "fs_files fs (partial_of n) = Some tail"
    and f: "fs_files fs n = Some old" and ok: "parse (old @ tail) = None"
  shows "\<exists>fs'. SealAppendVerified parse (partial_of n) fs = (None, fs') \<and> healthy fs' \<and>
    fs_files fs' n = Some (appended old tail) \<and> fs_files fs' (partial_of n) = None \<and> kept n fs fs'"
proof -
  let ?fs2 = "fs_tick (fs_tick fs)"
  have h2: "healthy ?fs2" "fs_files ?fs2 n = Some old" using h f by (simp_all add: healthy_calls)
  obtain fs3 where a: "alreadyAppended n tail ?fs2 = (tail \<noteq> [] \<and> has_suffix old tail, fs3)" "healthy fs3" "fs_files fs3 = fs_files fs"
    using alreadyAppended_healthy[OF h2, of tail] by auto
  have head: "SealAppendVerified parse (partial_of n) fs =
      (if tail \<noteq> [] \<and> has_suffix old tail then os_Remove (partial_of n) fs3
       else (case verify_combined parse (partial_of n) n tail fs3 of
               (Some e, fs4) \<Rightarrow> (Some e, fs4)
             | (None, fs4) \<Rightarrow> append_tail (partial_of n) n tail fs4))"
    using p f a(1) by (simp add: SealAppendVerified_def Let_def healthy_calls[OF h] healthy_calls[OF healthy_calls(5)[OF h]])
  show ?thesis
  proof (cases "tail \<noteq> [] \<and> has_suffix old tail")
    case True
    obtain r fs' where "os_Remove (partial_of n) fs3 = (None, fs')" "healthy fs'"
      "fs_files fs' = (fs_files fs)(partial_of n := None)"
      using healthy_remove[OF a(2), of "partial_of n"] p a(3) by auto
    with True head f binlog_name_partial show ?thesis by (auto simp: appended_def kept_def)
  next
    case False
    obtain fs4 where v: "verify_combined parse (partial_of n) n tail fs3 = (None, fs4)" "healthy fs4"
      "fs_files fs4 = (fs_files fs)(verify_name fs3 := None)"
      using verify_combined_healthy[of fs3 n old parse tail "partial_of n"] a f ok binlog_name_verify[OF n] by auto
    obtain fs' where t: "append_tail (partial_of n) n tail fs4 = (None, fs')" "healthy fs'"
      "fs_files fs' = (fs_files fs4)(n \<mapsto> old @ tail, partial_of n := None)"
      using append_tail_healthy[OF v(2), of n old tail] v(3) f p binlog_name_verify[OF n] by auto
    have "appended old tail = old @ tail" using False by (auto simp: appended_def has_suffix_iff)
    with t v head False binlog_name_verify binlog_name_partial show ?thesis by (auto simp: kept_def)
  qed
qed

subsection \<open>Recording the position\<close>

definition fine :: "col_world \<Rightarrow> bool" where
  "fine w \<longleftrightarrow> healthy (cw_fs w) \<and> healthy (cw_st w)"

definition position_is :: "col_world \<Rightarrow> string \<Rightarrow> nat \<Rightarrow> bool" where
  "position_is w n p \<longleftrightarrow>
     (\<exists>s. fs_files (cw_st w) statePath = Some (Json s) \<and> as_LastFile s = n \<and> as_LastPos s = p)"

lemma SaveState_healthy:
  assumes h: "healthy fs"
  shows "\<exists>fs'. SaveState s fs = (None, fs') \<and> healthy fs' \<and> fs_files fs' statePath = Some (Json s)"
proof -
  let ?tmp = "statePath @ ''.tmp''" and ?fs1 = "fs_put (statePath @ ''.tmp'') (Json s) (fs_tick fs)"
  have "healthy ?fs1" using h by (simp add: healthy_calls)
  then obtain fs' where "os_Rename ?tmp statePath ?fs1 = (None, fs')" "healthy fs'"
    "fs_files fs' = (fs_files ?fs1)(?tmp := None, statePath \<mapsto> Json s)"
    using healthy_rename[of ?fs1 ?tmp "Json s" statePath] by auto
  then show ?thesis using h by (simp add: SaveState_def Let_def healthy_calls)
qed

lemma advance_healthy:
  assumes "fine w"
  shows "\<exists>w'. advance E n w = (None, w') \<and> fine w' \<and> cw_fs w' = cw_fs w \<and> position_is w' n 0"
proof -
  let ?st = "\<lparr>as_LastFile = n, as_LastPos = 0, as_LastGTID = [], as_UpdatedAt = fs_now (cw_fs w)\<rparr>"
  obtain fs' where "SaveState ?st (cw_st w) = (None, fs')" "healthy fs'" "fs_files fs' statePath = Some (Json ?st)"
    using SaveState_healthy assms by (auto simp: fine_def)
  then show ?thesis using assms
    by (auto simp: advance_def saveStateRetry_def numeral_3_eq_3 on_st_def Let_def fine_def position_is_def)
qed

lemma remove_all_other: "\<not> P q \<Longrightarrow> fs_files (remove_all P ns fs) q = fs_files fs q"
  by (induction ns arbitrary: fs) (auto simp: os_Remove_snd, metis os_Remove_snd)

lemma remove_all_healthy: "healthy fs \<Longrightarrow> healthy (remove_all P ns fs)"
proof (induction ns arbitrary: fs)
  case (Cons n ns)
  then show ?case using healthy_remove[of fs n] by auto
qed simp

lemma cleanup_keeps:
  "binlog_name q \<Longrightarrow> fs_files (cw_fs (cleanup E w)) q = fs_files (cw_fs w) q" "fine w \<Longrightarrow> fine (cleanup E w)"
  "cw_st (cleanup E w) = cw_st w"
  by (auto simp: cleanup_def cleanupPartials_def os_ListDir_def remove_all_other remove_all_healthy[unfolded healthy_def] fine_def binlog_name_def
      os_ReadDir_def healthy_calls healthy_def no_faults_def split: prod.split sum.split option.split)

lemma remove_all_absent: "fs_files fs q = None \<Longrightarrow> fs_files (remove_all P ns fs) q = None"
proof (induction ns arbitrary: fs)
  case (Cons n ns)
  have "fs_files (snd (os_Remove n fs)) q = None"
    using Cons.prems os_Remove_shrinks[of n fs] by (metis not_None_eq prod.collapse)
  with Cons show ?case by simp
qed simp

lemma cleanup_absent: "fs_files (cw_fs w) q = None \<Longrightarrow> fs_files (cw_fs (cleanup E w)) q = None"
  by (auto simp: cleanup_def cleanupPartials_def os_ListDir_def os_ReadDir_def remove_all_absent
      split: prod.split sum.split option.split)

subsection \<open>One clean segment\<close>

text \<open>
  The server sends the file \<open>n\<close> from its start: the announcement, the content, and the rotation to \<open>nxt\<close>; or, for
  the file that is still open, the content so far.
\<close>

definition serves :: "col_env \<Rightarrow> string \<Rightarrow> binlog_event list \<Rightarrow> string \<Rightarrow> bool" where
  "serves E n body nxt \<longleftrightarrow> binlog_name n \<and> nxt \<noteq> n \<and> body \<noteq> [] \<and> (\<forall>ev\<in>set body. content_event ev) \<and>
     ce_parse E (binlogMagic @ raws body) = None \<and>
     (\<forall>k. \<exists>ann rot rest. ce_Source E k \<lparr>pos_Name = n, pos_Pos = 0\<rparr> =
        Inr (DlvEvent ann # map DlvEvent body @ DlvEvent rot # rest) \<and> rotates_to ann n \<and> rotates_to rot nxt)"

definition serves_open :: "col_env \<Rightarrow> string \<Rightarrow> binlog_event list \<Rightarrow> bool" where
  "serves_open E n body \<longleftrightarrow> binlog_name n \<and> body \<noteq> [] \<and> (\<forall>ev\<in>set body. content_event ev) \<and>
     (\<forall>k. \<exists>ann. ce_Source E k \<lparr>pos_Name = n, pos_Pos = 0\<rparr> = Inr (DlvEvent ann # map DlvEvent body) \<and> rotates_to ann n)"

lemma fileExists_healthy: "healthy fs \<Longrightarrow> fileExists p fs = (fs_files fs p \<noteq> None, fs_tick fs)"
  by (simp add: fileExists_def healthy_calls)

lemma seal_segment_healthy:
  assumes w: "fine w" and "ce_RetentionDays E \<le> 0"
    and "(if appending then SealAppendVerified else Seal) (ce_parse E) (partial_of n) (fs_tick (cw_fs w)) = (None, fs')"
    and "healthy fs'" "fs_files (cw_fs w) (partial_of n) \<noteq> None"
  shows "\<exists>w'. seal_segment E appending \<lparr>pos_Name = n, pos_Pos = p\<rparr> nxt w = (None, w') \<and> fine w' \<and> cw_fs w' = fs' \<and>
    position_is w' nxt 0"
proof -
  let ?w2 = "w\<lparr>cw_fs := fs'\<rparr>"
  obtain w' where a: "advance E nxt ?w2 = (None, w')" "fine w'" "cw_fs w' = fs'" "position_is w' nxt 0"
    using advance_healthy[of ?w2 E nxt] w assms(4) by (auto simp: fine_def)
  have ex: "on_fs (fileExists (partial_of n)) w = (True, w\<lparr>cw_fs := fs_tick (cw_fs w)\<rparr>)"
    using w assms(5) by (simp add: on_fs_def fileExists_healthy fine_def)
  have "on_fs ((if appending then SealAppendVerified else Seal) (ce_parse E) (partial_of n)) (w\<lparr>cw_fs := fs_tick (cw_fs w)\<rparr>) = (None, ?w2)"
    using assms(3) by (simp add: on_fs_def)
  then show ?thesis using a assms(2) unfolding seal_segment_def
    by (simp add: ex pruneRetention_def)
qed


subsection \<open>The whole run\<close>



lemma LoadState_position:
  assumes "healthy (cw_st w)" "position_is w n p"
  shows "\<exists>s. on_st LoadState w = (Inr s, w\<lparr>cw_st := fs_tick (cw_st w)\<rparr>) \<and> as_LastFile s = n \<and> as_LastPos s = p"
  using assms by (auto simp: position_is_def on_st_def LoadState_def healthy_calls)

lemma syncOnce_open_file:
  assumes w: "fine w" and s: "serves_open E n body" and new: "fs_files (cw_fs w) n = None"
  shows "\<exists>w'. syncOnce E \<lparr>pos_Name = n, pos_Pos = 0\<rparr> w = (Some errStreamEnded, w') \<and> fine w' \<and> cw_st w' = cw_st w \<and>
    (\<forall>q. binlog_name q \<longrightarrow> fs_files (cw_fs w') q = fs_files (cw_fs w) q)"
proof -
  let ?pos = "\<lparr>pos_Name = n, pos_Pos = 0\<rparr>" and ?fs1 = "fs_tick (cw_fs w)"
  obtain ann where src: "ce_Source E (cw_calls w) ?pos = Inr (DlvEvent ann # map DlvEvent body)" and ann: "rotates_to ann n"
    using s unfolding serves_open_def by blast
  have h1: "healthy ?fs1" using w by (simp add: fine_def healthy_calls)
  obtain fs2 where c: "Consume (DlvEvent ann # map DlvEvent body) ?fs1 = (Inr [], fs2)" "healthy fs2"
    "fs_files fs2 = (fs_files ?fs1)(partial_of n \<mapsto> binlogMagic @ raws body)"
    using Consume_segment[OF h1 ann, of body "[]"] s by (auto simp: serves_open_def)
  let ?w2 = "w\<lparr>cw_calls := Suc (cw_calls w), cw_fs := fs2\<rparr>"
  have "syncOnce E ?pos w = (Some errStreamEnded, cleanup E ?w2)"
    using src c(1) new w by (simp add: syncOnce_def ask_def on_fs_def fileExists_healthy fine_def consumed_def)
  moreover have "fine ?w2" using w c(2) by (simp add: fine_def)
  then have "fine (cleanup E ?w2)" by (rule cleanup_keeps(2))
  moreover have "fs_files (cw_fs (cleanup E ?w2)) q = fs_files (cw_fs w) q" if "binlog_name q" for q
    using that c(3) binlog_name_partial by (auto simp: cleanup_keeps)
  ultimately show ?thesis by (auto simp: cleanup_keeps)
qed



subsection \<open>Appending to an archived file\<close>

text \<open>The server sends the rest of file \<open>n\<close>: the announcement, the format description again, the content, the rotation.\<close>

definition resends :: "col_env \<Rightarrow> Position \<Rightarrow> binlog_event list \<Rightarrow> string \<Rightarrow> bool" where
  "resends E pos body nxt \<longleftrightarrow> nxt \<noteq> pos_Name pos \<and> body \<noteq> [] \<and> (\<forall>ev\<in>set body. content_event ev) \<and>
     (\<exists>h. ev_Header (hd body) = Some h \<and> eh_EventType h \<noteq> FORMAT_DESCRIPTION_EVENT) \<and>
     (\<forall>k. \<exists>ann fde rot rest. ce_Source E k pos =
        Inr (DlvEvent ann # DlvEvent fde # map DlvEvent body @ DlvEvent rot # rest) \<and> rotates_to ann (pos_Name pos) \<and>
        (\<exists>h. ev_Header fde = Some h \<and> eh_EventType h = FORMAT_DESCRIPTION_EVENT) \<and> rotates_to rot nxt)"

lemma syncOnce_append:
  assumes w: "fine w" and s: "resends E pos body nxt" and n: "binlog_name (pos_Name pos)"
    and old: "fs_files (cw_fs w) (pos_Name pos) = Some old" and new: "fs_files (cw_fs w) (partial_of (pos_Name pos)) = None"
    and ok: "ce_parse E (old @ raws body) = None" and r: "ce_RetentionDays E \<le> 0"
  shows "\<exists>w'. syncOnce E pos w = (None, w') \<and> fine w' \<and> position_is w' nxt 0 \<and>
    fs_files (cw_fs w') (pos_Name pos) = Some (appended old (raws body)) \<and>
    fs_files (cw_fs w') (partial_of (pos_Name pos)) = None \<and> kept (pos_Name pos) (cw_fs w) (cw_fs w')"
proof -
  let ?n = "pos_Name pos" and ?fs1 = "fs_tick (cw_fs w)"
  obtain ann fde rot rest h where src: "ce_Source E (cw_calls w) pos =
        Inr (DlvEvent ann # DlvEvent fde # map DlvEvent body @ DlvEvent rot # rest)"
    and ann: "rotates_to ann ?n" and fde: "ev_Header fde = Some h" "eh_EventType h = FORMAT_DESCRIPTION_EVENT"
    and rot: "rotates_to rot nxt" using s unfolding resends_def by blast
  obtain ev body' where b: "body = ev # body'" using s by (cases body) (auto simp: resends_def)
  obtain hv where hv: "ev_Header ev = Some hv" "eh_EventType hv \<noteq> FORMAT_DESCRIPTION_EVENT" "eh_EventType hv \<noteq> ROTATE_EVENT"
    using s by (auto simp: resends_def b content_event_def)
  have pre: "skipStreamPreamble (DlvEvent ann # DlvEvent fde # map DlvEvent body @ DlvEvent rot # rest) ?n =
      Inr (Some ev, [], map DlvEvent body' @ DlvEvent rot # rest)"
    using ann fde hv by (auto simp: rotates_to_def b)
  have h1: "healthy ?fs1" using w by (simp add: fine_def healthy_calls)
  have ne: "?n \<noteq> []" "nxt \<noteq> []" using n rot validateRotateName_safe(1) by (auto simp: binlog_name_def rotates_to_def)
  obtain fs2 where c: "ConsumeAppend (map DlvEvent body @ DlvEvent rot # rest) ?n ?fs1 = (Inr nxt, fs2)" "healthy fs2"
    "fs_files fs2 = (fs_files ?fs1)(partial_of ?n \<mapsto> raws body)"
    using ConsumeAppend_segment[OF h1, of ?n body "DlvEvent rot # rest"] s rot new ne
    by (auto simp: resends_def consume_loop_rotate simp del: consume_loop.simps)
  obtain fs3 where seal: "SealAppendVerified (ce_parse E) (partial_of ?n) (fs_tick fs2) = (None, fs3)" "healthy fs3"
    "fs_files fs3 ?n = Some (appended old (raws body))" "fs_files fs3 (partial_of ?n) = None" "kept ?n (fs_tick fs2) fs3"
    using SealAppendVerified_healthy[of "fs_tick fs2" ?n "raws body" old "ce_parse E"] c(2,3) n old ok
    by (auto simp: healthy_calls)
  let ?w2 = "w\<lparr>cw_calls := Suc (cw_calls w), cw_fs := fs2\<rparr>"
  have pos: "\<lparr>pos_Name = ?n, pos_Pos = pos_Pos pos\<rparr> = pos" by simp
  obtain w' where fin: "seal_segment E True pos nxt ?w2 = (None, w')" "fine w'" "cw_fs w' = fs3" "position_is w' nxt 0"
    using seal_segment_healthy[of ?w2 E True ?n fs3 "pos_Pos pos" nxt, unfolded pos] w c(2,3) seal(1,2) r by (auto simp: fine_def)
  have "syncOnce E pos w = (None, w')"
    using src pre c(1) old w ne fin(1) unfolding b
    by (simp add: syncOnce_def ask_def on_fs_def fileExists_healthy fine_def consumed_def)
  moreover have "kept ?n (cw_fs w) fs3"
    using seal(5) c(3) binlog_name_partial by (auto simp: kept_def)
  ultimately show ?thesis using fin seal(3,4) by auto
qed

lemma appended_twice [simp]: "appended (appended old t) t = appended old t"
  by (simp add: appended_def)

text \<open>
  Sealing is idempotent across a crash: when the loop appended the rest of a file but the new position was
  lost, doing the same segment again from the old position leaves the archived file exactly as the first
  time, and then records the position.
\<close>

theorem append_survives_lost_position:
  assumes "resends E pos body nxt" "binlog_name (pos_Name pos)" "ce_RetentionDays E \<le> 0" "healthy (cw_fs w)" "healthy (cw_st w)"
    and "fs_files (cw_fs w) (pos_Name pos) = Some old" "fs_files (cw_fs w) (partial_of (pos_Name pos)) = None"
    and "\<And>bytes. ce_parse E bytes = None"
    and "syncOnce E pos w = (r, w1)" and "cw_fs w2 = cw_fs w1" "healthy (cw_st w2)"
  shows "\<exists>w3. r = None \<and> syncOnce E pos w2 = (None, w3) \<and> position_is w3 nxt 0 \<and>
    fs_files (cw_fs w1) (pos_Name pos) = Some (appended old (concat (map ev_RawData body))) \<and>
    fs_files (cw_fs w3) (pos_Name pos) = fs_files (cw_fs w1) (pos_Name pos)"
proof -
  have "fine w" using assms(4,5) by (simp add: fine_def)
  from syncOnce_append[OF this assms(1,2,6,7,8,3)] assms(9)
  have 1: "r = None" "fine w1" "fs_files (cw_fs w1) (pos_Name pos) = Some (appended old (raws body))"
    "fs_files (cw_fs w1) (partial_of (pos_Name pos)) = None" by auto
  then have "fine w2" using assms(10,11) by (simp add: fine_def)
  from syncOnce_append[OF this assms(1,2) _ _ assms(8,3)] 1 assms(10) show ?thesis
    by (auto simp: raws_def)
qed

subsection \<open>What a restart does to the open file\<close>

definition cleared :: "string \<Rightarrow> string" where
  "cleared bytes = (case clear_flag_bytes bytes of None \<Rightarrow> bytes | Some b \<Rightarrow> b)"

lemma clearInUseFlag_healthy:
  assumes "healthy fs" "fs_files fs p = Some bytes"
  shows "\<exists>fs'. clearInUseFlag p fs = (None, fs') \<and> healthy fs' \<and> fs_files fs' = (fs_files fs)(p \<mapsto> cleared bytes)"
  using assms by (cases "clear_flag_bytes bytes") (auto simp: clearInUseFlag_def cleared_def healthy_calls)

lemma copyFilePrefix_healthy:
  assumes h: "healthy fs" and "int (length pre) = limit" "4 \<le> limit"
  shows "\<exists>fs'. copyFilePrefix (Some (pre @ beyond)) n limit fs = (None, fs') \<and> healthy fs' \<and>
    fs_files fs' = (fs_files fs)(partial_of n := None, n \<mapsto> cleared pre)"
proof -
  let ?fs2 = "fs_put (partial_of n) pre (fs_tick (fs_put (partial_of n) [] (fs_tick fs)))"
  have h2: "healthy ?fs2" using h by (simp add: healthy_calls)
  obtain fs3 where c: "clearInUseFlag (partial_of n) ?fs2 = (None, fs3)" "healthy fs3"
    "fs_files fs3 = (fs_files ?fs2)(partial_of n \<mapsto> cleared pre)"
    using clearInUseFlag_healthy[OF h2, of "partial_of n" pre] by auto
  obtain fs4 where r: "os_Rename (partial_of n) n fs3 = (None, fs4)" "healthy fs4"
    "fs_files fs4 = (fs_files fs3)(partial_of n := None, n \<mapsto> cleared pre)"
    using healthy_rename[OF c(2), of "partial_of n" "cleared pre" n] c(3) by auto
  have "take (nat limit) (pre @ beyond) = pre" using assms(2) by auto
  then have "copyFilePrefix (Some (pre @ beyond)) n limit fs = (None, fs4)"
    using assms c(1) r(1) by (simp add: copyFilePrefix_def Let_def healthy_bytes healthy_calls)
  then show ?thesis using r c(3) by (intro exI[of _ fs4]) auto
qed

lemma backfill_all_archived:
  assumes "fine w" "\<forall>f\<in>set files. fs_files (cw_fs w) (mf_Name f) \<noteq> None"
  shows "\<exists>w'. backfill_all E pos (files @ gs) w = backfill_all E pos gs w' \<and> fine w' \<and> cw_st w' = cw_st w \<and>
    fs_files (cw_fs w') = fs_files (cw_fs w)"
  using assms
proof (induction files arbitrary: w)
  case (Cons f files)
  let ?w1 = "w\<lparr>cw_fs := fs_tick (cw_fs w)\<rparr>"
  have "fine ?w1" using Cons.prems(1) by (simp add: fine_def healthy_calls)
  then obtain w' where "backfill_all E pos (files @ gs) ?w1 = backfill_all E pos gs w'" "fine w'" "cw_st w' = cw_st ?w1"
    "fs_files (cw_fs w') = fs_files (cw_fs ?w1)"
    using Cons.IH[of ?w1] Cons.prems(2) by auto
  moreover have "on_fs (os_Stat (mf_Name f)) w = (None, ?w1)"
    using Cons.prems by (simp add: on_fs_def fine_def healthy_calls)
  ultimately show ?case by (intro exI[of _ w']) simp
qed auto

text \<open>Reconciling when only the open file is missing: its prefix up to the server's position is copied.\<close>

lemma reconcile_open_file:
  assumes w: "fine w" and "\<forall>k. ce_ListBinlogs E k = Inr (files @ [f])" and f: "mf_Name f = n"
    and "\<forall>k. ce_MasterPosition E k = Inr \<lparr>pos_Name = n, pos_Pos = length pre\<rparr>" and "4 < length pre"
    and "\<forall>k. ce_BinlogDir E k n = Some (pre @ beyond)"
    and "\<forall>f\<in>set files. fs_files (cw_fs w) (mf_Name f) \<noteq> None" and "fs_files (cw_fs w) n = None" and n: "binlog_name n"
    and np: "fs_files (cw_fs w) (partial_of n) = None"
  shows "\<exists>w'. reconcile E w = (None, w') \<and> fine w' \<and> cw_st w' = cw_st w \<and>
    fs_files (cw_fs w') n = Some (cleared pre) \<and> fs_files (cw_fs w') (partial_of n) = None \<and> kept n (cw_fs w) (cw_fs w')"
proof -
  let ?w2 = "w\<lparr>cw_calls := Suc (Suc (cw_calls w))\<rparr>" and ?pos = "\<lparr>pos_Name = n, pos_Pos = length pre\<rparr>"
  obtain w3 where b: "backfill_all E ?pos (files @ [f]) ?w2 = backfill_all E ?pos [f] w3" "fine w3" "cw_st w3 = cw_st w"
    "fs_files (cw_fs w3) = fs_files (cw_fs w)"
    using backfill_all_archived[of ?w2 files E ?pos "[f]"] w assms(7) by (auto simp: fine_def)
  let ?w4 = "w3\<lparr>cw_fs := fs_tick (cw_fs w3), cw_calls := Suc (cw_calls w3)\<rparr>"
  obtain fs5 where c: "copyFilePrefix (Some (pre @ beyond)) n (int (length pre)) (fs_tick (cw_fs w3)) = (None, fs5)" "healthy fs5"
    "fs_files fs5 = (fs_files (cw_fs w))(partial_of n := None, n \<mapsto> cleared pre)"
    using copyFilePrefix_healthy[of "fs_tick (cw_fs w3)" pre "int (length pre)" beyond n] b(2,4) assms(5)
    by (auto simp: fine_def healthy_calls)
  let ?w5 = "?w4\<lparr>cw_fs := fs5\<rparr>"
  have "backfill_all E ?pos [f] w3 = (None, ?w5)"
    using b(2,4) c(1) assms(5,6,8) f
    by (simp add: on_fs_def ask_def backfillFile_def fine_def healthy_calls)
  then have "reconcile E w = (None, cleanup E ?w5)"
    using assms(2,4) b(1) by (simp add: reconcile_def ask_def)
  moreover have "fine ?w5" using b(2) c(2) by (simp add: fine_def)
  then have "fine (cleanup E ?w5)" by (rule cleanup_keeps(2))
  moreover have "fs_files (cw_fs (cleanup E ?w5)) (partial_of n) = None"
    using c(3) by (simp add: cleanup_absent)
  ultimately show ?thesis using b(3) c(3) n binlog_name_partial
    by (auto simp: cleanup_keeps kept_def)
qed

text \<open>
  After a restart the archive holds events twice. The recorded position of the open file is its start;
  when the file is not archived yet, reconciling copies the server's prefix of it, and the loop then appends the
  file from the recorded position on, that is all its events again: those of the prefix are archived
  twice, and the parser, which checks events one by one, accepts the result.
\<close>

theorem restart_archives_events_twice:
  assumes "healthy (cw_fs w)" "healthy (cw_st w)" "position_is w n 0" "binlog_name n" "ce_RetentionDays E \<le> 0" "ce_ServerID E \<noteq> 0"
    and "\<forall>k. ce_ListBinlogs E k = Inr (files @ [f])" "mf_Name f = n"
    and "\<forall>f\<in>set files. fs_files (cw_fs w) (mf_Name f) \<noteq> None" "fs_files (cw_fs w) n = None" "fs_files (cw_fs w) (partial_of n) = None"
    and "\<forall>k. ce_MasterPosition E k = Inr \<lparr>pos_Name = n, pos_Pos = length pre\<rparr>" "\<forall>k. ce_BinlogDir E k n = Some (pre @ beyond)"
    and "pre = binlogMagic @ fde @ raws first" "fde \<noteq> []"
    and "resends E \<lparr>pos_Name = n, pos_Pos = 0\<rparr> (first @ later) nxt" "serves_open E nxt body" "fs_files (cw_fs w) nxt = None"
    and "ce_parse E (cleared pre @ raws (first @ later)) = None" "\<not> has_suffix (cleared pre) (raws (first @ later))"
  shows "\<exists>w'. Run_collector (Suc (Suc fuel)) E w = Some (None, w') \<and>
    fs_files (cw_fs w') n = Some (cleared (binlogMagic @ fde @ raws first) @ raws first @ raws later)"
proof -
  have "fine w" "4 < length pre" using assms(1,2,14,15) by (auto simp: fine_def binlogMagic_def)
  then obtain w1 where w1: "reconcile E w = (None, w1)" "fine w1" "cw_st w1 = cw_st w"
    "fs_files (cw_fs w1) n = Some (cleared pre)" "fs_files (cw_fs w1) (partial_of n) = None" "kept n (cw_fs w) (cw_fs w1)"
    using reconcile_open_file[of w E files f n pre beyond] assms(4,7-13) by auto
  let ?w1 = "w1\<lparr>cw_st := fs_tick (cw_st w1)\<rparr>"
  obtain st where st: "on_st LoadState w1 = (Inr st, ?w1)" "as_LastFile st = n" "as_LastPos st = 0"
    using LoadState_position[of w1 n 0] w1(2,3) assms(3) by (auto simp: fine_def position_is_def)
  have f1: "fine ?w1" using w1(2) by (simp add: fine_def healthy_calls)
  obtain w2 where w2: "syncOnce E \<lparr>pos_Name = n, pos_Pos = 0\<rparr> ?w1 = (None, w2)" "fine w2" "position_is w2 nxt 0"
    "fs_files (cw_fs w2) n = Some (appended (cleared pre) (raws (first @ later)))" "kept n (cw_fs w1) (cw_fs w2)"
    using syncOnce_append[OF f1 assms(16), of "cleared pre"] w1(4,5) assms(4,5,19) by auto
  have nx: "nxt \<noteq> n" "binlog_name nxt" "nxt \<noteq> []" "n \<noteq> []" using assms(4,16,17) by (auto simp: resends_def serves_open_def binlog_name_def)
  obtain st2 where st2: "on_st LoadState (resetBackoff w2) = (Inr st2, (resetBackoff w2)\<lparr>cw_st := fs_tick (cw_st w2)\<rparr>)"
    "as_LastFile st2 = nxt" "as_LastPos st2 = 0"
    using LoadState_position[of "resetBackoff w2" nxt 0] w2(2,3) by (auto simp: resetBackoff_def fine_def position_is_def)
  let ?w3 = "(resetBackoff w2)\<lparr>cw_st := fs_tick (cw_st w2), cw_state := st2\<rparr>"
  have "fine ?w3" "fs_files (cw_fs ?w3) nxt = None"
    using w2(2,5) w1(6) assms(18) nx by (simp_all add: fine_def healthy_calls resetBackoff_def kept_def)
  then obtain w4 where w4: "syncOnce E \<lparr>pos_Name = nxt, pos_Pos = 0\<rparr> ?w3 = (Some errStreamEnded, w4)"
    "\<forall>q. binlog_name q \<longrightarrow> fs_files (cw_fs w4) q = fs_files (cw_fs ?w3) q"
    using syncOnce_open_file[OF _ assms(17)] by blast
  have "Run_collector (Suc (Suc fuel)) E w = Some (None, w4)"
    using w1(1) st w2(1) st2 w4(1) nx assms(6) by (simp add: Run_collector_def syncLoop_def)
  then show ?thesis
    using w4(2) w2(4) assms(4,14,20) by (simp add: resetBackoff_def appended_def)
qed

subsection \<open>A boundary rotation is not checked\<close>

text \<open>
  \<open>consume\<close> rejects a rotation to a name with separators, but \<open>skipStreamPreamble\<close> does not check the name of a
  boundary rotation: it becomes the recorded position, the name of the next file.
\<close>

lemma boundary_name_is_not_validated:
  assumes "fine w" "fs_files (cw_fs w) (pos_Name pos) \<noteq> None"
    and "\<forall>k. ce_Source E k pos = Inr (DlvEvent ev # rest)" "ev_Header ev = Some h" "eh_EventType h = ROTATE_EVENT"
    and "RotateNextLogName ev = Inr evil" "evil \<noteq> pos_Name pos" "evil \<noteq> []"
  shows "\<exists>w'. syncOnce E pos w = (None, w') \<and> position_is w' evil 0"
proof -
  let ?w2 = "w\<lparr>cw_calls := Suc (cw_calls w), cw_fs := fs_tick (cw_fs w)\<rparr>"
  have "fine ?w2" using assms(1) by (simp add: fine_def healthy_calls)
  then have "fine (cleanup E ?w2)" by (rule cleanup_keeps(2))
  then obtain w' where "advance E evil (cleanup E ?w2) = (None, w')" "position_is w' evil 0"
    using advance_healthy by blast
  then show ?thesis using assms
    by (auto simp: syncOnce_def ask_def on_fs_def fileExists_healthy fine_def)
qed

subsection \<open>Examples\<close>

definition ev_fde :: binlog_event where
  "ev_fde = ar_event FORMAT_DESCRIPTION_EVENT FormatDescriptionEvent ''F''"

definition ev_tx :: "string \<Rightarrow> binlog_event" where
  "ev_tx raw = ar_event (OTHER_EVENT 2) OtherBody raw"

definition col_ex :: col_env where
  "col_ex = \<lparr>ce_ServerID = 1, ce_RetentionDays = 0,
     ce_ListBinlogs = (\<lambda>_. Inr [\<lparr>mf_Name = ''b.1'', mf_Size = 7\<rparr>]),
     ce_MasterPosition = (\<lambda>_. Inr \<lparr>pos_Name = ''b.1'', pos_Pos = 6\<rparr>),
     ce_Source = (\<lambda>_ pos. Inr (map DlvEvent
       (if pos_Name pos = ''b.1'' then [ar_rotate ''b.1'', ev_fde, ev_tx ''A'', ev_tx ''B'', ar_rotate ''b.2'']
        else [ar_rotate ''b.2'', ev_tx ''C'']))),
     ce_BinlogDir = (\<lambda>_ n. if n = ''b.1'' then Some (binlogMagic @ ''FAB'') else None),
     ce_cancelled = (\<lambda>_. False), ce_parse = (\<lambda>_. None), ce_names = [''b.1'', ''b.1.partial'', ''b.2'', ''b.2.partial'']\<rparr>"

definition col_start :: "(string \<rightharpoonup> string) \<Rightarrow> col_world" where
  "col_start files = \<lparr>cw_fs = ar_disk files,
     cw_st = \<lparr>fs_files = [statePath \<mapsto> Json (zero_state\<lparr>as_LastFile := ''b.1''\<rparr>)], fs_mtime = (\<lambda>_. 0), fs_clock = 0,
              fs_fault = no_faults, fs_now = 7\<rparr>,
     cw_state = zero_state, cw_delay = 0, cw_waits = [], cw_calls = 0\<rparr>"

lemma col_start_simps [simp]:
  "cw_fs (col_start files) = ar_disk files" "healthy (cw_st (col_start files))" "position_is (col_start files) ''b.1'' 0"
  by (simp_all add: col_start_def healthy_def position_is_def zero_state_def)

lemma ex_names:
  "validateRotateName ''b.1'' = None" "validateRotateName ''b.2'' = None" "binlog_name ''b.1''" "binlog_name ''b.2''"
  by (code_simp, code_simp, simp_all add: binlog_name_def has_suffix_def)

lemma ex_rotates: "rotates_to (ar_rotate ''b.1'') ''b.1''" "rotates_to (ar_rotate ''b.2'') ''b.2''"
  using ex_names by (simp_all add: rotates_to_def ar_rotate_def ar_event_def RotateNextLogName_def)

lemma ex_content: "content_event (ev_tx raw)" "content_event ev_fde"
  by (simp_all add: content_event_def ev_tx_def ev_fde_def ar_event_def)

lemma ex_raws [simp]: "ev_RawData (ev_tx raw) = raw" "ev_RawData ev_fde = ''F''"
  by (simp_all add: ev_tx_def ev_fde_def ar_event_def)

lemma ex_serves:
  "serves col_ex ''b.1'' [ev_fde, ev_tx ''A'', ev_tx ''B''] ''b.2''" "serves_open col_ex ''b.2'' [ev_tx ''C'']"
  "resends col_ex \<lparr>pos_Name = ''b.1'', pos_Pos = 0\<rparr> [ev_tx ''A'', ev_tx ''B''] ''b.2''"
  using ex_names ex_rotates ex_content
  by (auto simp: serves_def serves_open_def resends_def col_ex_def ev_tx_def ev_fde_def ar_event_def)

lemma col_ex_fields [simp]:
  "ce_RetentionDays col_ex = 0" "ce_ServerID col_ex = 1" "ce_parse col_ex = (\<lambda>_. None)"
  by (simp_all add: col_ex_def)


lemma append_survives_lost_position_witness:
  "let w = col_start [''b.1'' \<mapsto> binlogMagic @ ''F'']; pos = \<lparr>pos_Name = ''b.1'', pos_Pos = 0\<rparr>;
       w1 = snd (syncOnce col_ex pos w) in
   fs_files (cw_fs (snd (syncOnce col_ex pos (w1\<lparr>cw_st := cw_st w\<rparr>)))) ''b.1'' = Some (binlogMagic @ ''FAB'')"
proof -
  let ?w = "col_start [''b.1'' \<mapsto> binlogMagic @ ''F'']" and ?pos = "\<lparr>pos_Name = ''b.1'', pos_Pos = 0\<rparr>"
  let ?w1 = "snd (syncOnce col_ex ?pos ?w)"
  have "\<exists>w3. fst (syncOnce col_ex ?pos ?w) = None \<and> syncOnce col_ex ?pos (?w1\<lparr>cw_st := cw_st ?w\<rparr>) = (None, w3) \<and>
      position_is w3 ''b.2'' 0 \<and>
      fs_files (cw_fs ?w1) (pos_Name ?pos) = Some (appended (binlogMagic @ ''F'') (concat (map ev_RawData [ev_tx ''A'', ev_tx ''B'']))) \<and>
      fs_files (cw_fs w3) (pos_Name ?pos) = fs_files (cw_fs ?w1) (pos_Name ?pos)"
    by (rule append_survives_lost_position[OF ex_serves(3)]) (simp_all add: ex_names partial_of_def)
  moreover have "appended (binlogMagic @ ''F'') ''AB'' = binlogMagic @ ''FAB''"
    by (simp add: appended_def has_suffix_def)
  ultimately show ?thesis by (auto simp: Let_def)
qed

lemma restart_archives_events_twice_witness:
  "\<exists>w'. Run_collector 2 col_ex (col_start Map.empty) = Some (None, w') \<and>
     fs_files (cw_fs w') ''b.1'' = Some (binlogMagic @ ''FA'' @ ''AB'')"
proof -
  have short: "cleared (binlogMagic @ ''FA'') = binlogMagic @ ''FA''"
    by (simp add: cleared_def clear_flag_bytes_def binlogMagic_def)
  have "\<exists>w'. Run_collector (Suc (Suc 0)) col_ex (col_start Map.empty) = Some (None, w') \<and>
      fs_files (cw_fs w') ''b.1'' = Some (cleared (binlogMagic @ ''F'' @ raws [ev_tx ''A'']) @ raws [ev_tx ''A''] @ raws [ev_tx ''B''])"
    by (rule restart_archives_events_twice[where nxt = "''b.2''" and body = "[ev_tx ''C'']" and files = "[]" and beyond = "''B''"
          and f = "\<lparr>mf_Name = ''b.1'', mf_Size = 7\<rparr>" and pre = "binlogMagic @ ''FA''"])
      (use ex_serves ex_names short in \<open>simp_all add: col_ex_def partial_of_def has_suffix_def binlogMagic_def\<close>)
  then show ?thesis by (simp add: short numeral_2_eq_2)
qed

end
