(* ===== verification/Sql.thy ===== *)
theory Sql
  imports Prelude
begin

text \<open>
  The SQLite database as the stores use it (\<open>database/sql\<close>): tables are lists of rows in rowid
  order, and every call of a store is one statement or one transaction, which either takes effect as
  a whole or fails and leaves the tables alone. \<open>q_fault n\<close> decides whether call number \<open>n\<close> fails in
  the driver; theorems quantify over it. Timestamps are stored as instants (the fixed-width text of
  \<open>formatStoreTime\<close> and \<open>parseStoreTime\<close> is a faithful encoding of them).
\<close>

record 'd sqldb =
  q_data :: 'd
  q_clock :: nat
  q_fault :: "nat \<Rightarrow> bool"

definition sql_failure :: err where
  "sql_failure = Err ''sql: database error'' []"

definition sql_run :: "('d \<Rightarrow> (err + 'a) \<times> 'd) \<Rightarrow> 'd sqldb \<Rightarrow> (err + 'a) \<times> 'd sqldb" where
  "sql_run f db =
     (if q_fault db (q_clock db) then (Inl sql_failure, db\<lparr>q_clock := Suc (q_clock db)\<rparr>)
      else (case f (q_data db) of (r, d) \<Rightarrow> (r, db\<lparr>q_clock := Suc (q_clock db), q_data := d\<rparr>)))"

definition sql_constraint :: err where
  "sql_constraint = Err ''UNIQUE constraint failed'' []"

text \<open>\<open>INSERT\<close> into a table with a key, and \<open>UPDATE ... WHERE\<close> on one.\<close>

definition sql_insert :: "('r \<Rightarrow> 'k) \<Rightarrow> 'r \<Rightarrow> 'r list \<Rightarrow> (err + unit) \<times> 'r list" where
  "sql_insert key r t = (if key r \<in> key ` set t then (Inl sql_constraint, t) else (Inr (), t @ [r]))"

definition sql_update :: "('r \<Rightarrow> bool) \<Rightarrow> ('r \<Rightarrow> 'r) \<Rightarrow> 'r list \<Rightarrow> 'r list" where
  "sql_update P f t = map (\<lambda>r. if P r then f r else r) t"

definition sql_count :: "('r \<Rightarrow> bool) \<Rightarrow> 'r list \<Rightarrow> nat" where
  "sql_count P t = length (filter P t)"

lemma sql_run_fault: "q_fault db (q_clock db) \<Longrightarrow> sql_run f db = (Inl sql_failure, db\<lparr>q_clock := Suc (q_clock db)\<rparr>)"
  by (simp add: sql_run_def)

lemma sql_run_Inr:
  "sql_run f db = (Inr x, db') \<Longrightarrow>
   \<exists>d. f (q_data db) = (Inr x, d) \<and> db' = db\<lparr>q_clock := Suc (q_clock db), q_data := d\<rparr>"
  by (auto simp: sql_run_def split: if_splits prod.splits)

lemma sql_run_fields [simp]:
  "q_clock (snd (sql_run f db)) = Suc (q_clock db)" "q_fault (snd (sql_run f db)) = q_fault db"
  by (auto simp: sql_run_def split: prod.split)

lemma sql_run_data:
  "q_data (snd (sql_run f db)) = (if q_fault db (q_clock db) then q_data db else snd (f (q_data db)))"
  by (auto simp: sql_run_def split: prod.split)

lemma sql_update_ids:
  "(\<And>r. key (f r) = key r) \<Longrightarrow> map key (sql_update P f t) = map key t"
  by (simp add: sql_update_def)

lemma find_map_keep:
  "(\<And>r. Q (g r) = Q r) \<Longrightarrow> List.find Q (map g t) = map_option g (List.find Q t)"
  by (induction t) auto

lemma find_sql_update:
  "(\<And>r. Q (f r) = Q r) \<Longrightarrow> List.find Q (sql_update P f t) = map_option (\<lambda>r. if P r then f r else r) (List.find Q t)"
  unfolding sql_update_def by (rule find_map_keep) simp

lemma sql_count_pos: "0 < sql_count P t \<longleftrightarrow> (\<exists>r\<in>set t. P r)"
  by (auto simp: sql_count_def filter_empty_conv)

lemma sql_insert_Inr: "sql_insert key r t = (Inr u, t') \<Longrightarrow> find_key key (key r) t = None \<and> t' = t @ [r]"
  by (auto simp: sql_insert_def find_key_None split: if_splits)

end
