(* ===== verification/Store_Org.thy ===== *)
theory Store_Org
  imports Sql Binlog_Types "HOL-Library.AList"
begin

text \<open>
  \<open>internal/server/org\<close> (\<open>store.go\<close>, \<open>sqlite.go\<close>): organisations, their members and their invites, in memory
  and in SQLite, and the contract both keep as the locale \<open>org_store\<close>. Go maps are association lists
  here; the order in which \<open>range\<close> visits them is theirs, Go leaves it open. Random bytes and the
  time are arguments.
\<close>

subsection \<open>Types\<close>

record Organization =
  og_ID :: string
  og_Name :: string
  og_CreatedAt :: time

record Member =
  mb_UserID :: string
  mb_OrgID :: string
  mb_Role :: string
  mb_JoinedAt :: time

record Invite =
  iv_Code :: string
  iv_OrgID :: string
  iv_CreatedBy :: string
  iv_CreatedAt :: time

definition generateOrgID :: "string \<Rightarrow> string" where
  "generateOrgID rnd = ''org_'' @ hex_encode rnd"

definition generateInviteCode :: "string \<Rightarrow> string" where
  "generateInviteCode rnd = hex_encode rnd"

definition org_not_found :: "string \<Rightarrow> err" where
  "org_not_found i = Err ''organisation not found: %s'' [i]"

definition already_member :: "string \<Rightarrow> string \<Rightarrow> err" where
  "already_member u i = Err ''user %s is already a member of organisation %s'' [u, i]"

definition not_member :: "string \<Rightarrow> string \<Rightarrow> err" where
  "not_member u i = Err ''user %s is not a member of organisation %s'' [u, i]"

definition invite_not_found :: "string \<Rightarrow> err" where
  "invite_not_found c = Err ''invite not found: %s'' [c]"

definition complete_org :: "time \<Rightarrow> string \<Rightarrow> Organization \<Rightarrow> Organization" where
  "complete_org now rnd org0 =
     (let org1 = (if og_ID org0 = [] then org0\<lparr>og_ID := generateOrgID rnd\<rparr> else org0) in
      if time_is_zero (og_CreatedAt org1) then org1\<lparr>og_CreatedAt := now\<rparr> else org1)"

definition has_user :: "string \<Rightarrow> Member list \<Rightarrow> bool" where
  "has_user u ms = (find_key mb_UserID u ms \<noteq> None)"

subsection \<open>In memory\<close>

record mem_orgs =
  mo_orgs :: "(string \<times> Organization) list"
  mo_members :: "(string \<times> Member list) list"
  mo_invites :: "(string \<times> Invite) list"

definition members_at :: "mem_orgs \<Rightarrow> string \<Rightarrow> Member list" where
  "members_at s i = (case map_of (mo_members s) i of None \<Rightarrow> [] | Some ms \<Rightarrow> ms)"

definition mem_org_Create :: "time \<Rightarrow> string \<Rightarrow> Organization \<Rightarrow> mem_orgs \<Rightarrow> (err + Organization) \<times> mem_orgs" where
  "mem_org_Create now rnd org0 s =
     (let org = complete_org now rnd org0 in (Inr org, s\<lparr>mo_orgs := AList.update (og_ID org) org (mo_orgs s)\<rparr>))"

definition mem_org_Get :: "string \<Rightarrow> mem_orgs \<Rightarrow> (err + Organization) \<times> mem_orgs" where
  "mem_org_Get i s = ((case map_of (mo_orgs s) i of None \<Rightarrow> Inl (org_not_found i) | Some org \<Rightarrow> Inr org), s)"

definition mem_org_Delete :: "string \<Rightarrow> mem_orgs \<Rightarrow> (err + unit) \<times> mem_orgs" where
  "mem_org_Delete i s =
     (if map_of (mo_orgs s) i = None then (Inl (org_not_found i), s)
      else (Inr (), s\<lparr>mo_orgs := AList.delete i (mo_orgs s), mo_members := AList.delete i (mo_members s)\<rparr>))"

definition mem_org_ListAll :: "mem_orgs \<Rightarrow> (err + Organization list) \<times> mem_orgs" where
  "mem_org_ListAll s = (Inr (map snd (mo_orgs s)), s)"

definition mem_org_ListByUserID :: "string \<Rightarrow> mem_orgs \<Rightarrow> (err + Organization list) \<times> mem_orgs" where
  "mem_org_ListByUserID u s =
     (Inr (List.map_filter (\<lambda>(i, ms). if has_user u ms then map_of (mo_orgs s) i else None) (mo_members s)), s)"

definition mem_AddMember :: "time \<Rightarrow> string \<Rightarrow> string \<Rightarrow> string \<Rightarrow> mem_orgs \<Rightarrow> (err + unit) \<times> mem_orgs" where
  "mem_AddMember now i u role s =
     (if map_of (mo_orgs s) i = None then (Inl (org_not_found i), s)
      else if has_user u (members_at s i) then (Inl (already_member u i), s)
      else (Inr (), s\<lparr>mo_members := AList.update i
              (members_at s i @ [\<lparr>mb_UserID = u, mb_OrgID = i, mb_Role = role, mb_JoinedAt = now\<rparr>]) (mo_members s)\<rparr>))"

fun remove_user :: "string \<Rightarrow> Member list \<Rightarrow> Member list" where
  "remove_user u [] = []"
| "remove_user u (m # ms) = (if mb_UserID m = u then ms else m # remove_user u ms)"

definition mem_RemoveMember :: "string \<Rightarrow> string \<Rightarrow> mem_orgs \<Rightarrow> (err + unit) \<times> mem_orgs" where
  "mem_RemoveMember i u s =
     (if \<not> has_user u (members_at s i) then (Inl (not_member u i), s)
      else (Inr (), s\<lparr>mo_members := AList.update i (remove_user u (members_at s i)) (mo_members s)\<rparr>))"

definition mem_ListMembers :: "string \<Rightarrow> mem_orgs \<Rightarrow> (err + Member list) \<times> mem_orgs" where
  "mem_ListMembers i s =
     ((if map_of (mo_orgs s) i = None then Inl (org_not_found i) else Inr (members_at s i)), s)"

definition mem_CreateInvite :: "time \<Rightarrow> string \<Rightarrow> string \<Rightarrow> string \<Rightarrow> mem_orgs \<Rightarrow> (err + Invite) \<times> mem_orgs" where
  "mem_CreateInvite now rnd i createdBy s =
     (if map_of (mo_orgs s) i = None then (Inl (org_not_found i), s)
      else (let inv = \<lparr>iv_Code = generateInviteCode rnd, iv_OrgID = i, iv_CreatedBy = createdBy, iv_CreatedAt = now\<rparr> in
            (Inr inv, s\<lparr>mo_invites := AList.update (iv_Code inv) inv (mo_invites s)\<rparr>)))"

definition mem_GetInviteByCode :: "string \<Rightarrow> mem_orgs \<Rightarrow> (err + Invite) \<times> mem_orgs" where
  "mem_GetInviteByCode c s = ((case map_of (mo_invites s) c of None \<Rightarrow> Inl (invite_not_found c) | Some v \<Rightarrow> Inr v), s)"

definition mem_DeleteInvite :: "string \<Rightarrow> mem_orgs \<Rightarrow> (err + unit) \<times> mem_orgs" where
  "mem_DeleteInvite c s = (Inr (), s\<lparr>mo_invites := AList.delete c (mo_invites s)\<rparr>)"

subsection \<open>SQLite\<close>

record org_tables =
  ot_orgs :: "Organization list"
  ot_members :: "Member list"
  ot_invites :: "Invite list"

type_synonym org_db = "org_tables sqldb"

definition org_row :: "string \<Rightarrow> org_tables \<Rightarrow> Organization option" where
  "org_row i d = find_key og_ID i (ot_orgs d)"

definition members_of :: "string \<Rightarrow> org_tables \<Rightarrow> Member list" where
  "members_of i d = filter (\<lambda>m. mb_OrgID m = i) (ot_members d)"

definition sql_org_Create :: "time \<Rightarrow> string \<Rightarrow> Organization \<Rightarrow> org_db \<Rightarrow> (err + Organization) \<times> org_db" where
  "sql_org_Create now rnd org0 db =
     (let org = complete_org now rnd org0 in
      sql_run (\<lambda>d. case sql_insert og_ID org (ot_orgs d) of
                     (Inl e, _) \<Rightarrow> (Inl e, d)
                   | (Inr _, t) \<Rightarrow> (Inr org, d\<lparr>ot_orgs := t\<rparr>)) db)"

definition sql_org_Get :: "string \<Rightarrow> org_db \<Rightarrow> (err + Organization) \<times> org_db" where
  "sql_org_Get i db =
     sql_run (\<lambda>d. (case org_row i d of None \<Rightarrow> Inl (org_not_found i) | Some org \<Rightarrow> Inr org, d)) db"

definition sql_org_Delete :: "string \<Rightarrow> org_db \<Rightarrow> (err + unit) \<times> org_db" where
  "sql_org_Delete i db =
     sql_run (\<lambda>d. if org_row i d = None then (Inl (org_not_found i), d)
                  else (Inr (), d\<lparr>ot_members := filter (\<lambda>m. mb_OrgID m \<noteq> i) (ot_members d),
                                  ot_invites := filter (\<lambda>v. iv_OrgID v \<noteq> i) (ot_invites d),
                                  ot_orgs := filter (\<lambda>r. og_ID r \<noteq> i) (ot_orgs d)\<rparr>)) db"

definition sql_org_ListAll :: "org_db \<Rightarrow> (err + Organization list) \<times> org_db" where
  "sql_org_ListAll db = sql_run (\<lambda>d. (Inr (ot_orgs d), d)) db"

definition sql_org_ListByUserID :: "string \<Rightarrow> org_db \<Rightarrow> (err + Organization list) \<times> org_db" where
  "sql_org_ListByUserID u db =
     sql_run (\<lambda>d. (Inr [r. r \<leftarrow> ot_orgs d, m \<leftarrow> ot_members d, mb_OrgID m = og_ID r \<and> mb_UserID m = u], d)) db"

definition sql_AddMember :: "time \<Rightarrow> string \<Rightarrow> string \<Rightarrow> string \<Rightarrow> org_db \<Rightarrow> (err + unit) \<times> org_db" where
  "sql_AddMember now i u role db =
     sql_run (\<lambda>d. if org_row i d = None then (Inl (org_not_found i), d)
                  else if has_user u (members_of i d) then (Inl (already_member u i), d)
                  else (case sql_insert (\<lambda>m. (mb_OrgID m, mb_UserID m))
                               \<lparr>mb_UserID = u, mb_OrgID = i, mb_Role = role, mb_JoinedAt = now\<rparr> (ot_members d) of
                          (Inl e, _) \<Rightarrow> (Inl e, d)
                        | (Inr _, t) \<Rightarrow> (Inr (), d\<lparr>ot_members := t\<rparr>))) db"

definition sql_RemoveMember :: "string \<Rightarrow> string \<Rightarrow> org_db \<Rightarrow> (err + unit) \<times> org_db" where
  "sql_RemoveMember i u db =
     sql_run (\<lambda>d. let P = (\<lambda>m. mb_OrgID m = i \<and> mb_UserID m = u) in
                  (if sql_count P (ot_members d) = 0 then Inl (not_member u i) else Inr (),
                   d\<lparr>ot_members := filter (\<lambda>m. \<not> P m) (ot_members d)\<rparr>)) db"

definition sql_ListMembers :: "string \<Rightarrow> org_db \<Rightarrow> (err + Member list) \<times> org_db" where
  "sql_ListMembers i db =
     (case sql_run (\<lambda>d. (if org_row i d = None then Inl (org_not_found i) else Inr (), d)) db of
        (Inl e, db1) \<Rightarrow> (Inl e, db1)
      | (Inr _, db1) \<Rightarrow> sql_run (\<lambda>d. (Inr (members_of i d), d)) db1)"

definition sql_CreateInvite :: "time \<Rightarrow> string \<Rightarrow> string \<Rightarrow> string \<Rightarrow> org_db \<Rightarrow> (err + Invite) \<times> org_db" where
  "sql_CreateInvite now rnd i createdBy db =
     sql_run (\<lambda>d. if org_row i d = None then (Inl (org_not_found i), d)
                  else (let inv = \<lparr>iv_Code = generateInviteCode rnd, iv_OrgID = i, iv_CreatedBy = createdBy,
                                   iv_CreatedAt = now\<rparr> in
                        case sql_insert iv_Code inv (ot_invites d) of
                          (Inl e, _) \<Rightarrow> (Inl e, d)
                        | (Inr _, t) \<Rightarrow> (Inr inv, d\<lparr>ot_invites := t\<rparr>))) db"

definition sql_GetInviteByCode :: "string \<Rightarrow> org_db \<Rightarrow> (err + Invite) \<times> org_db" where
  "sql_GetInviteByCode c db =
     sql_run (\<lambda>d. (case find_key iv_Code c (ot_invites d) of
                     None \<Rightarrow> Inl (invite_not_found c) | Some v \<Rightarrow> Inr v, d)) db"

definition sql_DeleteInvite :: "string \<Rightarrow> org_db \<Rightarrow> (err + unit) \<times> org_db" where
  "sql_DeleteInvite c db = sql_run (\<lambda>d. (Inr (), d\<lparr>ot_invites := filter (\<lambda>v. iv_Code v \<noteq> c) (ot_invites d)\<rparr>)) db"

subsection \<open>The contract\<close>

text \<open>What a caller of either store can see of its state.\<close>

record org_view =
  vw_orgs :: "string \<rightharpoonup> Organization"
  vw_members :: "string \<Rightarrow> Member list"
  vw_invites :: "string \<rightharpoonup> Invite"

definition unique_members :: "org_view \<Rightarrow> bool" where
  "unique_members v \<longleftrightarrow> (\<forall>i. distinct (map mb_UserID (vw_members v i)))"

lemma has_user_iff: "has_user u ms \<longleftrightarrow> u \<in> mb_UserID ` set ms"
  by (simp add: has_user_def find_key_None)

lemma remove_user_filter: "distinct (map mb_UserID ms) \<Longrightarrow> remove_user u ms = filter (\<lambda>m. mb_UserID m \<noteq> u) ms"
proof (induction ms)
  case (Cons m ms)
  then show ?case by (auto intro!: filter_True[symmetric]) (metis image_eqI)
qed simp

locale org_store =
  fixes view :: "'s \<Rightarrow> org_view"
    and create :: "time \<Rightarrow> string \<Rightarrow> Organization \<Rightarrow> 's \<Rightarrow> (err + Organization) \<times> 's"
    and delete :: "string \<Rightarrow> 's \<Rightarrow> (err + unit) \<times> 's"
    and add :: "time \<Rightarrow> string \<Rightarrow> string \<Rightarrow> string \<Rightarrow> 's \<Rightarrow> (err + unit) \<times> 's"
    and remove :: "string \<Rightarrow> string \<Rightarrow> 's \<Rightarrow> (err + unit) \<times> 's"
    and list_members :: "string \<Rightarrow> 's \<Rightarrow> (err + Member list) \<times> 's"
  assumes create_keeps: "create now rnd o0 s = (r, s') \<Longrightarrow> vw_members (view s') = vw_members (view s)"
    and delete_ok: "delete i s = (Inr x, s') \<Longrightarrow>
      vw_orgs (view s') = (vw_orgs (view s))(i := None) \<and> vw_members (view s') = (vw_members (view s))(i := [])"
    and delete_err: "delete i s = (Inl e, s') \<Longrightarrow> view s' = view s"
    and add_ok: "add now i u role s = (Inr x, s') \<Longrightarrow>
      vw_orgs (view s) i \<noteq> None \<and> \<not> has_user u (vw_members (view s) i) \<and> vw_orgs (view s') = vw_orgs (view s) \<and>
      vw_members (view s') = (vw_members (view s))(i := vw_members (view s) i @
        [\<lparr>mb_UserID = u, mb_OrgID = i, mb_Role = role, mb_JoinedAt = now\<rparr>])"
    and add_err: "add now i u role s = (Inl e, s') \<Longrightarrow> view s' = view s"
    and remove_ok: "remove i u s = (Inr x, s') \<Longrightarrow> unique_members (view s) \<Longrightarrow>
      has_user u (vw_members (view s) i) \<and> vw_orgs (view s') = vw_orgs (view s) \<and>
      vw_members (view s') = (vw_members (view s))(i := filter (\<lambda>m. mb_UserID m \<noteq> u) (vw_members (view s) i))"
    and remove_err: "remove i u s = (Inl e, s') \<Longrightarrow> view s' = view s"
    and list_view: "list_members i s = (rm, s') \<Longrightarrow> view s' = view s"
    and list_ok: "list_members i s = (Inr ms, s') \<Longrightarrow> vw_orgs (view s) i \<noteq> None \<and> ms = vw_members (view s) i"
begin

lemma add_unique: "add now i u role s = (r, s') \<Longrightarrow> unique_members (view s) \<Longrightarrow> unique_members (view s')"
  by (cases r) (auto simp: unique_members_def has_user_iff dest: add_ok add_err)

lemma remove_unique: "remove i u s = (r, s') \<Longrightarrow> unique_members (view s) \<Longrightarrow> unique_members (view s')"
proof (cases r)
  case (Inr x)
  assume "remove i u s = (r, s')" "unique_members (view s)"
  with remove_ok[of i u s x s'] Inr show ?thesis by (auto simp: unique_members_def distinct_map_filter)
qed (auto dest: remove_err)

lemma delete_unique: "delete i s = (r, s') \<Longrightarrow> unique_members (view s) \<Longrightarrow> unique_members (view s')"
  by (cases r) (auto simp: unique_members_def dest: delete_ok delete_err)

lemma create_unique: "create now rnd o0 s = (r, s') \<Longrightarrow> unique_members (view s) \<Longrightarrow> unique_members (view s')"
  by (simp add: unique_members_def create_keeps)

lemma removed_user_out:
  assumes "remove i u s = (Inr x, s1)" and "unique_members (view s)" and "list_members i s1 = (Inr ms, s2)"
  shows "\<not> has_user u ms"
  using remove_ok[OF assms(1,2)] list_ok[OF assms(3)] by (auto simp: has_user_iff)

lemma added_user_in:
  assumes "add now i u role s = (Inr x, s1)" and "list_members i s1 = (Inr ms, s2)"
  shows "has_user u ms"
  using add_ok[OF assms(1)] list_ok[OF assms(2)] by (auto simp: has_user_iff)

lemma deleted_org_out:
  assumes "delete i s = (Inr x, s1)"
  shows "\<exists>e s2. list_members i s1 = (Inl e, s2)"
  using delete_ok[OF assms] list_ok[of i s1]
  by (cases "list_members i s1"; cases "fst (list_members i s1)") auto

end

definition mem_org_view :: "mem_orgs \<Rightarrow> org_view" where
  "mem_org_view s = \<lparr>vw_orgs = map_of (mo_orgs s), vw_members = members_at s, vw_invites = map_of (mo_invites s)\<rparr>"

definition sql_org_view :: "org_db \<Rightarrow> org_view" where
  "sql_org_view db = \<lparr>vw_orgs = (\<lambda>i. org_row i (q_data db)), vw_members = (\<lambda>i. members_of i (q_data db)),
     vw_invites = (\<lambda>c. find_key iv_Code c (ot_invites (q_data db)))\<rparr>"

lemma members_at_update [simp]:
  "members_at (s\<lparr>mo_members := AList.update i ms (mo_members s)\<rparr>) = (members_at s)(i := ms)"
  by (rule ext) (simp add: members_at_def update_conv)

lemma members_at_delete [simp]:
  "members_at (s\<lparr>mo_orgs := os, mo_members := AList.delete i (mo_members s)\<rparr>) = (members_at s)(i := [])"
  by (rule ext) (simp add: members_at_def delete_conv)

lemma members_at_other [simp]:
  "members_at (s\<lparr>mo_orgs := os\<rparr>) = members_at s" "members_at (s\<lparr>mo_invites := vs\<rparr>) = members_at s"
  by (simp_all add: members_at_def[abs_def])

lemma map_of_update [simp]: "map_of (AList.update k v al) = (map_of al)(k \<mapsto> v)"
  by (rule update_conv')

lemma map_of_delete [simp]: "map_of (AList.delete k al) = (map_of al)(k := None)"
  by (rule delete_conv')

interpretation mem_org: org_store mem_org_view mem_org_Create mem_org_Delete mem_AddMember mem_RemoveMember mem_ListMembers
proof unfold_locales
  fix s s' :: mem_orgs and i u x
  assume "mem_RemoveMember i u s = (Inr x, s')" "unique_members (mem_org_view s)"
  then show "has_user u (vw_members (mem_org_view s) i) \<and> vw_orgs (mem_org_view s') = vw_orgs (mem_org_view s) \<and>
      vw_members (mem_org_view s') = (vw_members (mem_org_view s))(i := filter (\<lambda>m. mb_UserID m \<noteq> u) (vw_members (mem_org_view s) i))"
    by (auto simp: mem_RemoveMember_def mem_org_view_def unique_members_def remove_user_filter split: if_splits)
qed (auto simp: mem_org_Create_def mem_org_Delete_def mem_AddMember_def mem_RemoveMember_def mem_ListMembers_def
    mem_org_view_def Let_def split: if_splits)

lemma members_of_remove:
  "members_of j (d\<lparr>ot_members := filter (\<lambda>m. mb_OrgID m = i \<longrightarrow> mb_UserID m \<noteq> u) (ot_members d)\<rparr>) =
     (if j = i then filter (\<lambda>m. mb_UserID m \<noteq> u) (members_of i d) else members_of j d)"
  by (auto simp: members_of_def intro!: filter_cong)

lemma members_of_delete:
  "members_of j (d\<lparr>ot_members := filter (\<lambda>m. mb_OrgID m \<noteq> i) (ot_members d), ot_invites := vs, ot_orgs := rs\<rparr>) =
     (if j = i then [] else members_of j d)"
proof -
  have "filter (\<lambda>m. mb_OrgID m = j) (filter (\<lambda>m. mb_OrgID m \<noteq> i) t) = (if j = i then [] else filter (\<lambda>m. mb_OrgID m = j) t)"
    for t :: "Member list" by (induction t) auto
  then show ?thesis by (simp add: members_of_def del: filter_filter)
qed

lemma sql_count_has_user: "0 < sql_count (\<lambda>m. mb_OrgID m = i \<and> mb_UserID m = u) (ot_members d) \<longleftrightarrow> has_user u (members_of i d)"
  by (auto simp: sql_count_pos has_user_iff members_of_def)

interpretation sql_org: org_store sql_org_view sql_org_Create sql_org_Delete sql_AddMember sql_RemoveMember sql_ListMembers
proof unfold_locales
  fix s s' :: org_db and i u x
  assume "sql_RemoveMember i u s = (Inr x, s')"
  then show "has_user u (vw_members (sql_org_view s) i) \<and> vw_orgs (sql_org_view s') = vw_orgs (sql_org_view s) \<and>
      vw_members (sql_org_view s') = (vw_members (sql_org_view s))(i := filter (\<lambda>m. mb_UserID m \<noteq> u) (vw_members (sql_org_view s) i))"
    using sql_count_has_user[of i u "q_data s"]
    by (auto simp: sql_RemoveMember_def sql_run_def sql_org_view_def fun_eq_iff members_of_remove org_row_def split: if_splits)
next
  fix s s' :: org_db and i u e
  assume "sql_RemoveMember i u s = (Inl e, s')"
  then show "sql_org_view s' = sql_org_view s"
    by (auto simp: sql_RemoveMember_def sql_run_def sql_org_view_def sql_count_def filter_empty_conv members_of_def
        org_row_def Let_def split: if_splits)
next
  fix s s' :: org_db and i x
  assume "sql_org_Delete i s = (Inr x, s')"
  then show "vw_orgs (sql_org_view s') = (vw_orgs (sql_org_view s))(i := None) \<and>
      vw_members (sql_org_view s') = (vw_members (sql_org_view s))(i := [])"
    by (auto simp: sql_org_Delete_def sql_run_def sql_org_view_def fun_eq_iff org_row_def find_key_delete members_of_delete
        split: if_splits)
qed (auto simp: sql_org_Create_def sql_org_Delete_def sql_AddMember_def sql_ListMembers_def sql_run_def sql_insert_def
    sql_org_view_def org_row_def members_of_def fun_eq_iff Let_def split: if_splits prod.splits sum.splits option.splits)

end
