(* ===== verification/Store_Org_Props.thy ===== *)
theory Store_Org_Props
  imports Store_Org
begin

text \<open>The two organisation stores side by side: they answer every call alike, except that a deleted organisation
  keeps its invites in memory.\<close>

datatype org_call =
    OCreate Organization | OGet string | ODelete string | OAddMember string string string
  | ORemoveMember string string | OListMembers string | OCreateInvite string string
  | OGetInvite string | ODeleteInvite string

datatype org_reply = RpOrg "err + Organization" | RpUnit "err + unit" | RpMembers "err + Member list" | RpInvite "err + Invite"


fun sql_org_call :: "time \<Rightarrow> string \<Rightarrow> org_call \<Rightarrow> org_db \<Rightarrow> org_reply \<times> org_db" where
  "sql_org_call now rnd (OCreate o0) s = apfst RpOrg (sql_org_Create now rnd o0 s)"
| "sql_org_call now rnd (OGet i) s = apfst RpOrg (sql_org_Get i s)"
| "sql_org_call now rnd (ODelete i) s = apfst RpUnit (sql_org_Delete i s)"
| "sql_org_call now rnd (OAddMember i u role) s = apfst RpUnit (sql_AddMember now i u role s)"
| "sql_org_call now rnd (ORemoveMember i u) s = apfst RpUnit (sql_RemoveMember i u s)"
| "sql_org_call now rnd (OListMembers i) s = apfst RpMembers (sql_ListMembers i s)"
| "sql_org_call now rnd (OCreateInvite i u) s = apfst RpInvite (sql_CreateInvite now rnd i u s)"
| "sql_org_call now rnd (OGetInvite c) s = apfst RpInvite (sql_GetInviteByCode c s)"
| "sql_org_call now rnd (ODeleteInvite c) s = apfst RpUnit (sql_DeleteInvite c s)"


lemma view_eqD:
  assumes "mem_org_view s = sql_org_view db"
  shows "map_of (mo_orgs s) i = org_row i (q_data db)" "members_at s i = members_of i (q_data db)"
    "map_of (mo_invites s) c = find_key iv_Code c (ot_invites (q_data db))"
  using assms by (auto simp: mem_org_view_def sql_org_view_def dest: fun_cong)

lemma view_eqI:
  assumes "\<And>i. map_of (mo_orgs s) i = org_row i (q_data db)" "\<And>i. members_at s i = members_of i (q_data db)"
    "\<And>c. map_of (mo_invites s) c = find_key iv_Code c (ot_invites (q_data db))"
  shows "mem_org_view s = sql_org_view db"
  using assms by (auto simp: mem_org_view_def sql_org_view_def)

lemma table_updates [simp]:
  "members_of i (d\<lparr>ot_orgs := os\<rparr>) = members_of i d" "members_of i (d\<lparr>ot_invites := vs\<rparr>) = members_of i d"
  "members_of i (d\<lparr>ot_members := ot_members d @ [m]\<rparr>) = members_of i d @ (if mb_OrgID m = i then [m] else [])"
  "org_row i (d\<lparr>ot_members := ms\<rparr>) = org_row i d" "org_row i (d\<lparr>ot_invites := vs\<rparr>) = org_row i d"
  "org_row i (d\<lparr>ot_orgs := ot_orgs d @ [r]\<rparr>) =
     (case org_row i d of None \<Rightarrow> if og_ID r = i then Some r else None | Some x \<Rightarrow> Some x)"
  by (simp_all add: members_of_def org_row_def split: option.split)




subsection \<open>Properties\<close>


definition acme :: Organization where
  "acme = \<lparr>og_ID = ''acme'', og_Name = ''Acme'', og_CreatedAt = 1\<rparr>"

definition mem_acme :: mem_orgs where
  "mem_acme = \<lparr>mo_orgs = [(''acme'', acme)],
     mo_members = [(''acme'', [\<lparr>mb_UserID = ''u1'', mb_OrgID = ''acme'', mb_Role = ''admin'', mb_JoinedAt = 1\<rparr>])],
     mo_invites = []\<rparr>"

definition sql_acme :: org_db where
  "sql_acme = \<lparr>q_data = \<lparr>ot_orgs = [acme],
     ot_members = [\<lparr>mb_UserID = ''u1'', mb_OrgID = ''acme'', mb_Role = ''admin'', mb_JoinedAt = 1\<rparr>], ot_invites = []\<rparr>,
     q_clock = 0, q_fault = (\<lambda>_. False)\<rparr>"



text \<open>
  Where the stores differ: deleting an organisation deletes its invites in SQLite, but the in-memory store
  still finds each of them by its code.
\<close>

theorem deleted_org_invites_differ:
  assumes "mem_org_view s = sql_org_view db" and "q_fault db = (\<lambda>_. False)"
    and "vw_orgs (mem_org_view s) i \<noteq> None" and "vw_invites (mem_org_view s) c = Some v" and "iv_OrgID v = i"
    and "distinct (map iv_Code (ot_invites (q_data db)))"
  shows "fst (mem_GetInviteByCode c (snd (mem_org_Delete i s))) = Inr v \<and>
    fst (sql_GetInviteByCode c (snd (sql_org_Delete i db))) = Inl (invite_not_found c)"
proof -
  note e = view_eqD[OF assms(1)]
  have v: "map_of (mo_invites s) c = Some v" "find_key iv_Code c (ot_invites (q_data db)) = Some v"
    and o: "map_of (mo_orgs s) i \<noteq> None" "org_row i (q_data db) \<noteq> None"
    using assms(3,4) e by (auto simp: mem_org_view_def)
  have "w = v" if "w \<in> set (ot_invites (q_data db))" "iv_Code w = c" for w
    using that find_key_Some[OF v(2)] assms(6) by (auto simp: distinct_map inj_on_def)
  then have "find_key iv_Code c (filter (\<lambda>w. iv_OrgID w \<noteq> i) (ot_invites (q_data db))) = None"
    using assms(5) by (auto simp: find_key_None)
  then show ?thesis using v o assms(2)
    by (auto simp: mem_GetInviteByCode_def mem_org_Delete_def sql_GetInviteByCode_def sql_org_Delete_def sql_run_def)
qed

definition beta_invite :: Invite where
  "beta_invite = \<lparr>iv_Code = ''c1'', iv_OrgID = ''acme'', iv_CreatedBy = ''u1'', iv_CreatedAt = 2\<rparr>"

lemma deleted_org_invites_differ_witness:
  "let s = mem_acme\<lparr>mo_invites := [(''c1'', beta_invite)]\<rparr>;
       db = sql_acme\<lparr>q_data := (q_data sql_acme)\<lparr>ot_invites := [beta_invite]\<rparr>\<rparr> in
   fst (mem_GetInviteByCode ''c1'' (snd (mem_org_Delete ''acme'' s))) = Inr beta_invite \<and>
   fst (sql_GetInviteByCode ''c1'' (snd (sql_org_Delete ''acme'' db))) = Inl (invite_not_found ''c1'')"
proof -
  let ?s = "mem_acme\<lparr>mo_invites := [(''c1'', beta_invite)]\<rparr>"
  let ?db = "sql_acme\<lparr>q_data := (q_data sql_acme)\<lparr>ot_invites := [beta_invite]\<rparr>\<rparr>"
  have "mem_org_view ?s = sql_org_view ?db"
    by (rule view_eqI) (simp_all add: mem_acme_def sql_acme_def org_row_def members_at_def members_of_def acme_def beta_invite_def)
  moreover have "vw_orgs (mem_org_view ?s) ''acme'' \<noteq> None" "vw_invites (mem_org_view ?s) ''c1'' = Some beta_invite"
    by (simp_all add: mem_org_view_def mem_acme_def)
  moreover have "q_fault ?db = (\<lambda>_. False)" "iv_OrgID beta_invite = ''acme''"
    "distinct (map iv_Code (ot_invites (q_data ?db)))"
    by (simp_all add: sql_acme_def beta_invite_def)
  ultimately show ?thesis using deleted_org_invites_differ[of ?s ?db "''acme''" "''c1''" beta_invite] by simp
qed

fun sql_org_run :: "(time \<times> string \<times> org_call) list \<Rightarrow> org_db \<Rightarrow> org_db" where
  "sql_org_run [] db = db"
| "sql_org_run ((now, rnd, c) # cs) db = sql_org_run cs (snd (sql_org_call now rnd c db))"

lemma sql_call_unique:
  assumes "unique_members (sql_org_view db)"
  shows "unique_members (sql_org_view (snd (sql_org_call now rnd c db)))"
proof (cases c)
  case (OCreate o0)
  then show ?thesis using assms sql_org.create_unique[OF prod.collapse[symmetric], of db now rnd o0] by simp
next
  case (ODelete i)
  then show ?thesis using assms sql_org.delete_unique[OF prod.collapse[symmetric], of db i] by simp
next
  case (OAddMember i u role)
  then show ?thesis using assms sql_org.add_unique[OF prod.collapse[symmetric], of db now i u role] by simp
next
  case (ORemoveMember i u)
  then show ?thesis using assms sql_org.remove_unique[OF prod.collapse[symmetric], of db i u] by simp
next
  case (OListMembers i)
  then show ?thesis using assms sql_org.list_view[of i db "fst (sql_ListMembers i db)" "snd (sql_ListMembers i db)"] by simp
qed (use assms in \<open>auto simp: sql_org_Get_def sql_GetInviteByCode_def sql_CreateInvite_def sql_DeleteInvite_def
       unique_members_def sql_org_view_def sql_run_data Let_def members_of_def split: prod.splits sum.splits\<close>)

lemma sql_org_run_unique:
  "unique_members (sql_org_view db) \<Longrightarrow> unique_members (sql_org_view (sql_org_run cs db))"
  by (induction cs db rule: sql_org_run.induct) (auto intro: sql_call_unique)

text \<open>
  Access is revoked: after any calls on an empty SQLite store, failing or not, a successful
  \<open>RemoveMember\<close> leaves a member list without that user, and a successful \<open>Delete\<close> no member list at all.
\<close>

theorem revoked_access_is_gone:
  assumes "q_data db = \<lparr>ot_orgs = [], ot_members = [], ot_invites = []\<rparr>" and "db1 = sql_org_run calls db"
  shows "(fst (sql_RemoveMember i u db1) = Inr () \<longrightarrow>
      (case fst (sql_ListMembers i (snd (sql_RemoveMember i u db1))) of Inl e \<Rightarrow> True | Inr ms \<Rightarrow> \<not> has_user u ms)) \<and>
    (fst (sql_org_Delete i db1) = Inr () \<longrightarrow> (\<exists>e. fst (sql_ListMembers i (snd (sql_org_Delete i db1))) = Inl e))"
proof -
  have "unique_members (sql_org_view db)"
    using assms(1) by (simp add: unique_members_def sql_org_view_def members_of_def)
  then have u: "unique_members (sql_org_view db1)" using assms(2) sql_org_run_unique by simp
  show ?thesis
  proof (intro conjI impI)
    assume "fst (sql_RemoveMember i u db1) = Inr ()"
    then have r: "sql_RemoveMember i u db1 = (Inr (), snd (sql_RemoveMember i u db1))" by (metis prod.collapse)
    show "case fst (sql_ListMembers i (snd (sql_RemoveMember i u db1))) of Inl e \<Rightarrow> True | Inr ms \<Rightarrow> \<not> has_user u ms"
      using sql_org.removed_user_out[OF r u] by (metis (mono_tags, lifting) prod.collapse sum.case_eq_if sum.collapse(2))
  next
    assume "fst (sql_org_Delete i db1) = Inr ()"
    then have "sql_org_Delete i db1 = (Inr (), snd (sql_org_Delete i db1))" by (metis prod.collapse)
    from sql_org.deleted_org_out[OF this] show "\<exists>e. fst (sql_ListMembers i (snd (sql_org_Delete i db1))) = Inl e" by auto
  qed
qed

definition org_calls_ex :: "(time \<times> string \<times> org_call) list" where
  "org_calls_ex = [(1, ''a'', OCreate acme), (2, ''b'', OAddMember ''acme'' ''u1'' ''admin''),
     (3, ''c'', OAddMember ''acme'' ''u2'' ''member''), (4, ''d'', OAddMember ''acme'' ''u2'' ''member'')]"

definition empty_org_db :: org_db where
  "empty_org_db = \<lparr>q_data = \<lparr>ot_orgs = [], ot_members = [], ot_invites = []\<rparr>, q_clock = 0, q_fault = (\<lambda>n. n = 3)\<rparr>"

lemma revoked_access_is_gone_witness:
  "let db1 = sql_org_run org_calls_ex empty_org_db in
   fst (sql_RemoveMember ''acme'' ''u2'' db1) = Inr () \<and>
   (case fst (sql_ListMembers ''acme'' (snd (sql_RemoveMember ''acme'' ''u2'' db1))) of
      Inl e \<Rightarrow> True | Inr ms \<Rightarrow> \<not> has_user ''u2'' ms)"
proof -
  have "fst (sql_RemoveMember ''acme'' ''u2'' (sql_org_run org_calls_ex empty_org_db)) = Inr ()" by code_simp
  then show ?thesis
    using revoked_access_is_gone[of empty_org_db _ org_calls_ex "''acme''" "''u2''", OF _ refl]
    by (simp add: empty_org_db_def Let_def)
qed

end
