(* ===== verification/Store_Agent.thy ===== *)
theory Store_Agent
  imports Sql Binlog_Types "HOL-Library.AList"
begin

text \<open>
  \<open>internal/server/agent\<close> (\<open>store.go\<close>, \<open>sqlite.go\<close>) and \<open>internal/server/audit\<close> (\<open>store.go\<close>): the agent
  records, in memory and in SQLite, and the audit log. The in-memory store hands out pointers to its
  records; callers of \<open>Get\<close> that change the record follow with \<open>Update\<close>, which is what is modelled.
\<close>

subsection \<open>Agents\<close>

record AgentRecord =
  ar_ID :: string
  ar_OrgID :: string
  ar_Hostname :: string
  ar_MySQLVersion :: string
  ar_Status :: string
  ar_LastSeen :: time
  ar_CreatedAt :: time
  ar_CertSerial :: string
  ar_RegistrationToken :: string
  ar_Approved :: bool

definition generateAgentID :: "string \<Rightarrow> string" where
  "generateAgentID rnd = ''agent_'' @ hex_encode rnd"

definition agent_not_found :: "string \<Rightarrow> err" where
  "agent_not_found i = Err ''agent not found: %s'' [i]"

definition complete_agent :: "time \<Rightarrow> string \<Rightarrow> AgentRecord \<Rightarrow> AgentRecord" where
  "complete_agent now rnd a0 =
     (let a1 = (if ar_ID a0 = [] then a0\<lparr>ar_ID := generateAgentID rnd\<rparr> else a0);
          a2 = (if time_is_zero (ar_CreatedAt a1) then a1\<lparr>ar_CreatedAt := now\<rparr> else a1)
      in if ar_Status a2 = [] then a2\<lparr>ar_Status := ''offline''\<rparr> else a2)"

type_synonym mem_agents = "(string \<times> AgentRecord) list"

definition mem_agent_Create :: "time \<Rightarrow> string \<Rightarrow> AgentRecord \<Rightarrow> mem_agents \<Rightarrow> (err + AgentRecord) \<times> mem_agents" where
  "mem_agent_Create now rnd a0 s = (let a = complete_agent now rnd a0 in (Inr a, AList.update (ar_ID a) a s))"

definition mem_agent_Get :: "string \<Rightarrow> mem_agents \<Rightarrow> (err + AgentRecord) \<times> mem_agents" where
  "mem_agent_Get i s = ((case map_of s i of None \<Rightarrow> Inl (agent_not_found i) | Some a \<Rightarrow> Inr a), s)"

definition mem_agent_ListByOrg :: "string \<Rightarrow> mem_agents \<Rightarrow> (err + AgentRecord list) \<times> mem_agents" where
  "mem_agent_ListByOrg o_id s = (Inr (filter (\<lambda>a. ar_OrgID a = o_id) (map snd s)), s)"

definition mem_agent_Update :: "AgentRecord \<Rightarrow> mem_agents \<Rightarrow> (err + unit) \<times> mem_agents" where
  "mem_agent_Update a s =
     (if map_of s (ar_ID a) = None then (Inl (agent_not_found (ar_ID a)), s)
      else (Inr (), AList.update (ar_ID a) a s))"

definition mem_agent_Delete :: "string \<Rightarrow> mem_agents \<Rightarrow> (err + unit) \<times> mem_agents" where
  "mem_agent_Delete i s =
     (case map_of s i of
        None \<Rightarrow> (Inl (agent_not_found i), s)
      | Some a \<Rightarrow> (Inr (), AList.update i (a\<lparr>ar_Approved := False, ar_Status := ''rejected''\<rparr>) s))"

definition mem_agent_MarkAllOffline :: "mem_agents \<Rightarrow> (err + unit) \<times> mem_agents" where
  "mem_agent_MarkAllOffline s = (Inr (), map (\<lambda>(i, a). (i, a\<lparr>ar_Status := ''offline''\<rparr>)) s)"

type_synonym agent_db = "AgentRecord list sqldb"

definition sql_agent_Create :: "time \<Rightarrow> string \<Rightarrow> AgentRecord \<Rightarrow> agent_db \<Rightarrow> (err + AgentRecord) \<times> agent_db" where
  "sql_agent_Create now rnd a0 db =
     (let a = complete_agent now rnd a0 in
      sql_run (\<lambda>d. case sql_insert ar_ID a d of (Inl e, _) \<Rightarrow> (Inl e, d) | (Inr _, t) \<Rightarrow> (Inr a, t)) db)"

definition sql_agent_Get :: "string \<Rightarrow> agent_db \<Rightarrow> (err + AgentRecord) \<times> agent_db" where
  "sql_agent_Get i db =
     sql_run (\<lambda>d. (case find_key ar_ID i d of None \<Rightarrow> Inl (agent_not_found i) | Some a \<Rightarrow> Inr a, d)) db"

definition sql_agent_ListByOrg :: "string \<Rightarrow> agent_db \<Rightarrow> (err + AgentRecord list) \<times> agent_db" where
  "sql_agent_ListByOrg o_id db = sql_run (\<lambda>d. (Inr (filter (\<lambda>a. ar_OrgID a = o_id) d), d)) db"

definition sql_agent_Update :: "AgentRecord \<Rightarrow> agent_db \<Rightarrow> (err + unit) \<times> agent_db" where
  "sql_agent_Update a db =
     sql_run (\<lambda>d. (if sql_count (\<lambda>r. ar_ID r = ar_ID a) d = 0 then Inl (agent_not_found (ar_ID a)) else Inr (),
                   sql_update (\<lambda>r. ar_ID r = ar_ID a) (\<lambda>_. a) d)) db"

definition sql_agent_Delete :: "string \<Rightarrow> agent_db \<Rightarrow> (err + unit) \<times> agent_db" where
  "sql_agent_Delete i db =
     sql_run (\<lambda>d. (if sql_count (\<lambda>r. ar_ID r = i) d = 0 then Inl (agent_not_found i) else Inr (),
                   sql_update (\<lambda>r. ar_ID r = i) (\<lambda>r. r\<lparr>ar_Approved := False, ar_Status := ''rejected''\<rparr>) d)) db"

definition sql_agent_MarkAllOffline :: "agent_db \<Rightarrow> (err + unit) \<times> agent_db" where
  "sql_agent_MarkAllOffline db = sql_run (\<lambda>d. (Inr (), sql_update (\<lambda>_. True) (\<lambda>r. r\<lparr>ar_Status := ''offline''\<rparr>) d)) db"

subsection \<open>The audit log\<close>

record AuditEntry =
  au_OperationID :: string
  au_Operator :: string
  au_Timestamp :: time
  au_OrgID :: string
  au_AgentID :: string
  au_TargetTable :: string
  au_RecoveryTime :: time
  au_RowsAffected :: int
  au_Status :: string
  au_ErrorDetails :: string

record AuditFilter =
  af_OrgID :: string
  af_OperationID :: string
  af_From :: time
  af_To :: time
  af_Status :: string
  af_AgentID :: string

definition audit_Append :: "time \<Rightarrow> AuditEntry \<Rightarrow> AuditEntry list \<Rightarrow> AuditEntry list" where
  "audit_Append now e es =
     es @ [if time_is_zero (au_Timestamp e) then e\<lparr>au_Timestamp := now\<rparr> else e]"

definition audit_match :: "AuditFilter \<Rightarrow> AuditEntry \<Rightarrow> bool" where
  "audit_match f e =
     (if au_OrgID e \<noteq> af_OrgID f then False
      else if \<not> time_is_zero (af_From f) \<and> au_Timestamp e < af_From f then False
      else if \<not> time_is_zero (af_To f) \<and> au_Timestamp e > af_To f then False
      else if af_Status f \<noteq> [] \<and> au_Status e \<noteq> af_Status f then False
      else if af_AgentID f \<noteq> [] \<and> au_AgentID e \<noteq> af_AgentID f then False
      else if af_OperationID f \<noteq> [] \<and> au_OperationID e \<noteq> af_OperationID f then False
      else True)"

definition audit_Query :: "AuditFilter \<Rightarrow> AuditEntry list \<Rightarrow> err + AuditEntry list" where
  "audit_Query f es =
     (if af_OrgID f = [] then Inl (Err ''orgId filter is required'' []) else Inr (filter (audit_match f) es))"

definition audit_ListAll :: "AuditEntry list \<Rightarrow> err + AuditEntry list" where
  "audit_ListAll es = Inr es"

text \<open>A query only ever shows entries of the organisation that it names.\<close>

lemma audit_Query_org: "audit_Query f es = Inr rs \<Longrightarrow> e \<in> set rs \<Longrightarrow> au_OrgID e = af_OrgID f \<and> e \<in> set es"
  by (auto simp: audit_Query_def audit_match_def split: if_splits)

lemma map_of_offline:
  "map_of (map (\<lambda>(i, a). (i, a\<lparr>ar_Status := x\<rparr>)) s) i = map_option (\<lambda>a. a\<lparr>ar_Status := x\<rparr>) (map_of s i)"
  by (induction s) auto

end
