(* ===== verification/Pitr_State.thy ===== *)
theory Pitr_State
  imports Prelude
begin

text \<open>
  \<open>internal/server/pitr\<close> (\<open>state.go\<close>): the state machine of a recovery operation, and the facts about its
  transition table that the handlers rely on.
\<close>

datatype OperationState =
    StateCreated | StateScanning | StateReady | StateExecuting | StatePaused
  | StateDone | StateFailed | StateBlocked | StateCancelled

instantiation OperationState :: enum
begin

definition enum_OperationState :: "OperationState list" where
  "enum_OperationState = [StateCreated, StateScanning, StateReady, StateExecuting, StatePaused,
     StateDone, StateFailed, StateBlocked, StateCancelled]"

definition enum_all_OperationState :: "(OperationState \<Rightarrow> bool) \<Rightarrow> bool" where
  "enum_all_OperationState P = list_all P enum_class.enum"

definition enum_ex_OperationState :: "(OperationState \<Rightarrow> bool) \<Rightarrow> bool" where
  "enum_ex_OperationState P = list_ex P enum_class.enum"

instance
proof
  have U: "s \<in> set (enum_class.enum :: OperationState list)" for s by (cases s) (simp_all add: enum_OperationState_def)
  then show univ: "(UNIV :: OperationState set) = set enum_class.enum" by blast
  show "distinct (enum_class.enum :: OperationState list)" by (simp add: enum_OperationState_def)
  show "enum_class.enum_all P = Ball (UNIV :: OperationState set) P" for P
    using U by (auto simp: enum_all_OperationState_def list_all_iff)
  show "enum_class.enum_ex P = Bex (UNIV :: OperationState set) P" for P
    using U by (auto simp: enum_ex_OperationState_def list_ex_iff)
qed

end

fun state_string :: "OperationState \<Rightarrow> string" where
  "state_string StateCreated = ''created''"
| "state_string StateScanning = ''scanning''"
| "state_string StateReady = ''ready''"
| "state_string StateExecuting = ''executing''"
| "state_string StatePaused = ''paused''"
| "state_string StateDone = ''done''"
| "state_string StateFailed = ''failed''"
| "state_string StateBlocked = ''blocked''"
| "state_string StateCancelled = ''cancelled''"

definition validTransitions :: "OperationState \<rightharpoonup> OperationState list" where
  "validTransitions =
     [StateCreated \<mapsto> [StateScanning, StateBlocked, StateFailed],
      StateScanning \<mapsto> [StateReady, StateFailed, StateCancelled, StateBlocked],
      StateReady \<mapsto> [StateExecuting, StateCancelled, StateScanning],
      StateExecuting \<mapsto> [StatePaused, StateDone, StateFailed, StateBlocked],
      StatePaused \<mapsto> [StateExecuting, StateCancelled]]"

definition TransitionValid :: "OperationState \<Rightarrow> OperationState \<Rightarrow> bool" where
  "TransitionValid from_s to_s =
     (case validTransitions from_s of None \<Rightarrow> False | Some allowed \<Rightarrow> to_s \<in> set allowed)"

definition IsTerminal :: "OperationState \<Rightarrow> bool" where
  "IsTerminal s = (s \<in> {StateDone, StateFailed, StateCancelled, StateBlocked})"

definition TryTransitionErr :: "OperationState \<Rightarrow> OperationState \<Rightarrow> err option" where
  "TryTransitionErr from_s to_s =
     (if \<not> TransitionValid from_s to_s
      then Some (Err ''invalid state transition: %s -> %s'' [state_string from_s, state_string to_s])
      else None)"

subsection \<open>The machine as a relation\<close>

inductive op_move :: "OperationState \<Rightarrow> OperationState \<Rightarrow> bool" where
  scan_start: "op_move StateCreated StateScanning"
| scan_end: "op_move StateScanning StateReady"
| rescan: "op_move StateReady StateScanning"
| execute: "op_move StateReady StateExecuting"
| pause: "op_move StateExecuting StatePaused"
| resume: "op_move StatePaused StateExecuting"
| complete: "op_move StateExecuting StateDone"
| fail: "s \<in> {StateCreated, StateScanning, StateExecuting} \<Longrightarrow> op_move s StateFailed"
| block: "s \<in> {StateCreated, StateScanning, StateExecuting} \<Longrightarrow> op_move s StateBlocked"
| cancel: "s \<in> {StateScanning, StateReady, StatePaused} \<Longrightarrow> op_move s StateCancelled"

inductive_cases op_moveE: "op_move s t"

inductive_simps op_move_from [simp]:
  "op_move StateCreated t" "op_move StateScanning t" "op_move StateReady t" "op_move StateExecuting t"
  "op_move StatePaused t" "op_move StateDone t" "op_move StateFailed t" "op_move StateBlocked t"
  "op_move StateCancelled t"

lemma state_string_inject [simp]: "state_string s = state_string t \<longleftrightarrow> s = t"
  by (cases s; cases t) simp_all

lemma TransitionValid_move: "TransitionValid s t \<longleftrightarrow> op_move s t"
  by (cases s; cases t) (simp_all add: TransitionValid_def validTransitions_def )

lemma TryTransitionErr_None [simp]: "TryTransitionErr s t = None \<longleftrightarrow> op_move s t"
  by (simp add: TryTransitionErr_def TransitionValid_move)

lemma IsTerminal_no_move: "IsTerminal s \<Longrightarrow> \<not> op_move s t"
  by (auto simp: IsTerminal_def)

lemma IsTerminal_iff: "IsTerminal s \<longleftrightarrow> (\<forall>t. \<not> op_move s t)"
  by (cases s) (auto simp: IsTerminal_def)

lemma op_move_rtranclp_terminal: "op_move\<^sup>*\<^sup>* s t \<Longrightarrow> IsTerminal s \<Longrightarrow> t = s"
  by (induction rule: converse_rtranclp_induct) (auto dest: IsTerminal_no_move)

lemma op_move_never_created: "op_move s t \<Longrightarrow> t \<noteq> StateCreated"
  by (auto elim: op_moveE)

text \<open>Every state but \<open>created\<close> is entered from \<open>created\<close>, and every live state can still end.\<close>

lemma reachable_from_created: "op_move\<^sup>*\<^sup>* StateCreated s"
proof -
  have sc: "op_move\<^sup>*\<^sup>* StateCreated StateScanning" by (rule r_into_rtranclp) simp
  have re: "op_move\<^sup>*\<^sup>* StateCreated StateReady" by (rule rtranclp.rtrancl_into_rtrancl[OF sc]) simp
  have ex: "op_move\<^sup>*\<^sup>* StateCreated StateExecuting" by (rule rtranclp.rtrancl_into_rtrancl[OF re]) simp
  have pa: "op_move\<^sup>*\<^sup>* StateCreated StatePaused" by (rule rtranclp.rtrancl_into_rtrancl[OF ex]) simp
  show ?thesis
    using sc re ex pa
    by (cases s) (auto intro: rtranclp.rtrancl_into_rtrancl)
qed

lemma live_states_can_end: "\<exists>t. op_move\<^sup>*\<^sup>* s t \<and> IsTerminal t"
proof (cases "IsTerminal s")
  case False
  then have "op_move s StateCancelled \<or> op_move s StateFailed" by (cases s) (auto simp: IsTerminal_def)
  then show ?thesis by (auto simp: IsTerminal_def)
qed auto

end
