(* ===== verification/Ws_Types.thy ===== *)
theory Ws_Types
  imports Prelude
begin

text \<open>
  \<open>internal/ws\<close> (\<open>types.go\<close>): the wire types between server and agent. JSON encoding is not modelled: the
  parameters of a command and the data of a stream event are the values themselves. \<open>wire_data\<close>
  lists the shapes that a stream event or a response carries; \<open>DFields\<close> is a small object that only the
  answers to commands hold, by field and text; \<open>DNull\<close> is JSON \<open>null\<close> (every decoder accepts it and
  yields the zero value), \<open>DRaw\<close> any text that none of the decoders accepts.
\<close>

record TableRefJSON =
  wj_Schema :: string
  wj_Table :: string

record ScanFilter =
  sf_Tables :: "TableRefJSON list"
  sf_TimeStart :: string
  sf_TimeEnd :: string
  sf_GTIDSet :: string
  sf_StartFile :: string
  sf_StartPos :: nat
  sf_EndFile :: string
  sf_EndPos :: nat
  sf_MaxRowsPerTx :: int
  sf_SelectedTxIDs :: "string list"

record ScanRequest =
  sr_Filter :: ScanFilter
  sr_Mode :: string
  sr_MaxPreview :: int

record StatementWire =
  sw_SQL :: string
  sw_TxID :: string
  sw_TxOrder :: int
  sw_Warnings :: "string list"

record ExecuteRequest =
  er_OperationID :: string
  er_Statements :: "StatementWire list"
  er_BatchSize :: int

record txMetaWire =
  tm_w_TxID :: string
  tm_w_GTID :: string
  tm_w_XID :: nat
  tm_w_CommitTime :: time
  tm_w_Schema :: string
  tm_w_Tables :: "TableRefJSON list"
  tm_w_RowCount :: int
  tm_w_Truncated :: bool

record StmtError =
  se_Statement :: nat
  se_Err :: string

record opDonePayload =
  od_Done :: int
  od_Total :: int
  od_RowsAffected :: int
  od_Paused :: bool
  od_Errors :: "StmtError list"

record ProgressWire =
  pw_Done :: int
  pw_Total :: int
  pw_Errors :: "StmtError list"

datatype wire_data =
    DTxMeta txMetaWire
  | DSQL "StatementWire list"
  | DProgress ProgressWire
  | DReport opDonePayload
  | DText string
  | DStatus string "(int \<times> int) option"
  | DFields "(string \<times> wire_data) list"
  | DList "wire_data list"
  | DInt int
  | DBool bool
  | DNull
  | DRaw string

datatype cmd_params =
    PNone
  | PScan ScanRequest
  | PExecute ExecuteRequest
  | PCancel string
  | PStream string string wire_data
  | PCsr string

record Command =
  cm_Cmd :: string
  cm_Type :: string
  cm_Params :: cmd_params

record Response =
  rs_Cmd :: string
  rs_Status :: string
  rs_Result :: wire_data
  rs_Error :: string

record StreamEvent =
  sv_ID :: string
  sv_Kind :: string
  sv_Data :: wire_data

definition StatusOK :: string where "StatusOK = ''ok''"
definition StatusError :: string where "StatusError = ''error''"

definition CmdPreflight :: string where "CmdPreflight = ''preflight''"
definition CmdStatus :: string where "CmdStatus = ''status''"
definition CmdShutdown :: string where "CmdShutdown = ''shutdown''"
definition CmdCertRenewal :: string where "CmdCertRenewal = ''cert_renewal''"
definition CmdPITRProgress :: string where "CmdPITRProgress = ''pitr_progress''"
definition CmdScan :: string where "CmdScan = ''scan''"
definition CmdExecute :: string where "CmdExecute = ''execute''"
definition CmdResume :: string where "CmdResume = ''resume''"
definition CmdCancel :: string where "CmdCancel = ''cancel''"
definition CmdArchiveStatus :: string where "CmdArchiveStatus = ''archive_status''"
definition CmdStreamEvent :: string where "CmdStreamEvent = ''stream_event''"

definition EvTxMeta :: string where "EvTxMeta = ''tx_meta''"
definition EvSQL :: string where "EvSQL = ''sql''"
definition EvScanDone :: string where "EvScanDone = ''scan_done''"
definition EvProgress :: string where "EvProgress = ''progress''"
definition EvOpDone :: string where "EvOpDone = ''op_done''"
definition EvOpError :: string where "EvOpError = ''op_error''"
definition EvOpPaused :: string where "EvOpPaused = ''op_paused''"

lemmas ws_consts = StatusOK_def StatusError_def CmdPreflight_def CmdStatus_def CmdShutdown_def CmdCertRenewal_def
  CmdPITRProgress_def CmdScan_def CmdExecute_def CmdResume_def CmdCancel_def
  CmdArchiveStatus_def CmdStreamEvent_def EvTxMeta_def EvSQL_def EvScanDone_def EvProgress_def EvOpDone_def
  EvOpError_def EvOpPaused_def

text \<open>\<open>json.Unmarshal\<close> into the type that the receiver expects.\<close>

definition zero_meta :: txMetaWire where
  "zero_meta = \<lparr>tm_w_TxID = [], tm_w_GTID = [], tm_w_XID = 0, tm_w_CommitTime = zero_time, tm_w_Schema = [],
     tm_w_Tables = [], tm_w_RowCount = 0, tm_w_Truncated = False\<rparr>"

definition zero_done :: opDonePayload where
  "zero_done = \<lparr>od_Done = 0, od_Total = 0, od_RowsAffected = 0, od_Paused = False, od_Errors = []\<rparr>"

definition zero_progress :: ProgressWire where
  "zero_progress = \<lparr>pw_Done = 0, pw_Total = 0, pw_Errors = []\<rparr>"

fun decode_meta :: "wire_data \<Rightarrow> txMetaWire option" where
  "decode_meta (DTxMeta m) = Some m"
| "decode_meta DNull = Some zero_meta"
| "decode_meta _ = None"

fun decode_sql :: "wire_data \<Rightarrow> StatementWire list option" where
  "decode_sql (DSQL ws) = Some ws"
| "decode_sql DNull = Some []"
| "decode_sql _ = None"

fun decode_progress :: "wire_data \<Rightarrow> ProgressWire option" where
  "decode_progress (DProgress p) = Some p"
| "decode_progress DNull = Some zero_progress"
| "decode_progress _ = None"

fun decode_done :: "wire_data \<Rightarrow> opDonePayload option" where
  "decode_done (DReport r) = Some r"
| "decode_done DNull = Some zero_done"
| "decode_done _ = None"

subsection \<open>Response channels\<close>

text \<open>A channel of capacity one, on which a caller waits for a response: empty, holding a response (also when it is closed after that), or closed and empty.\<close>

datatype chan = Empty | Got Response | Closed

definition chan_offer :: "Response \<Rightarrow> chan \<Rightarrow> chan" where
  "chan_offer resp ch = (case ch of Empty \<Rightarrow> Got resp | _ \<Rightarrow> ch)"

definition chan_close :: "chan \<Rightarrow> chan" where
  "chan_close ch = (case ch of Empty \<Rightarrow> Closed | _ \<Rightarrow> ch)"

text \<open>How writing to a socket ends: well, with an error of the deadline, or with an error of the write.\<close>

datatype write_result = Written | DeadlineError err | WriteError err

end
