(* ===== verification/Pitr_Store.thy ===== *)
theory Pitr_Store
  imports Sql Pitr_State Ws_Types Binlog_Types
begin

text \<open>
  \<open>internal/server/pitr\<close> (\<open>model.go\<close>, \<open>store.go\<close>) and \<open>internal/server/store\<close> (\<open>checkpoint.go\<close>): the
  persisted operations, their statements and execution checkpoints, in SQLite. \<open>pitr_tables\<close> holds
  the rows of the three tables in rowid order; JSON columns hold the values they encode.
\<close>

subsection \<open>Model\<close>

record OpStatement =
  ost_TxIndex :: nat
  ost_StmtIndex :: nat
  ost_SQL :: string
  ost_TxID :: string
  ost_TxOrder :: int
  ost_Warnings :: "string list"
  ost_Status :: string

record Operation =
  op_ID :: string
  op_OrgID :: string
  op_AgentID :: string
  op_Type :: string
  op_Mode :: string
  op_Filter :: Filter
  op_Status :: OperationState
  op_CreatedBy :: string
  op_CreatedAt :: time
  op_UpdatedAt :: time
  op_SelectedTxIDs :: "string list"
  op_TargetTables :: "TableRef list"

record filterJSON =
  fj_BinlogDir :: string
  fj_Tables :: "TableRef list"
  fj_TimeRange :: "TimeRange option"
  fj_GTIDSet :: string
  fj_StartPos :: Position
  fj_EndPos :: Position
  fj_MaxRowsPerTx :: int
  fj_SelectedTxIDs :: "string list"

definition marshalFilter :: "Filter \<Rightarrow> filterJSON" where
  "marshalFilter f =
     \<lparr>fj_BinlogDir = f_BinlogDir f, fj_Tables = f_Tables f, fj_TimeRange = f_TimeRange f,
      fj_GTIDSet = (case f_GTIDSet f of None \<Rightarrow> [] | Some g \<Rightarrow> gtid_text g),
      fj_StartPos = f_StartPos f, fj_EndPos = f_EndPos f, fj_MaxRowsPerTx = f_MaxRowsPerTx f,
      fj_SelectedTxIDs = f_SelectedTxIDs f\<rparr>"

definition unmarshalFilter :: "gtid_lib \<Rightarrow> filterJSON \<Rightarrow> err + Filter" where
  "unmarshalFilter G dto =
     (let f = \<lparr>f_BinlogDir = fj_BinlogDir dto, f_Tables = fj_Tables dto, f_TimeRange = fj_TimeRange dto,
               f_GTIDSet = None, f_StartPos = fj_StartPos dto, f_EndPos = fj_EndPos dto,
               f_MaxRowsPerTx = fj_MaxRowsPerTx dto, f_SelectedTxIDs = fj_SelectedTxIDs dto\<rparr> in
      if fj_GTIDSet dto = [] then Inr f
      else (case lib_ParseGTIDSet G ''mysql'' (fj_GTIDSet dto) of
              Some g \<Rightarrow> Inr (f\<lparr>f_GTIDSet := Some g\<rparr>)
            | None \<Rightarrow>
                (case lib_ParseGTIDSet G ''mariadb'' (fj_GTIDSet dto) of
                   Some g \<Rightarrow> Inr (f\<lparr>f_GTIDSet := Some g\<rparr>)
                 | None \<Rightarrow> Inl (Err ''parse gtid set %q: %w'' [fj_GTIDSet dto]))))"

text \<open>A row of \<open>operations\<close>, and of \<open>statements\<close> and \<open>checkpoints\<close>.\<close>

record OpRow =
  row_ID :: string
  row_OrgID :: string
  row_AgentID :: string
  row_Type :: string
  row_Mode :: string
  row_Filter :: filterJSON
  row_SelectedTxIDs :: "string list"
  row_TargetTables :: "TableRef list"
  row_Status :: OperationState
  row_CreatedBy :: string
  row_CreatedAt :: time
  row_UpdatedAt :: time

record StmtRow =
  srow_OpID :: string
  srow_Stmt :: OpStatement

record CheckpointRow =
  crow_OpID :: string
  crow_LastStatement :: int
  crow_Total :: int
  crow_Errors :: "StmtError list"

record pitr_tables =
  pt_ops :: "OpRow list"
  pt_stmts :: "StmtRow list"
  pt_cps :: "CheckpointRow list"

type_synonym pitr_db = "pitr_tables sqldb"

definition op_row :: "Operation \<Rightarrow> OpRow" where
  "op_row op =
     \<lparr>row_ID = op_ID op, row_OrgID = op_OrgID op, row_AgentID = op_AgentID op, row_Type = op_Type op,
      row_Mode = op_Mode op, row_Filter = marshalFilter (op_Filter op), row_SelectedTxIDs = op_SelectedTxIDs op,
      row_TargetTables = op_TargetTables op, row_Status = op_Status op, row_CreatedBy = op_CreatedBy op,
      row_CreatedAt = op_CreatedAt op, row_UpdatedAt = op_UpdatedAt op\<rparr>"

definition scanOperation :: "gtid_lib \<Rightarrow> OpRow \<Rightarrow> err + Operation" where
  "scanOperation G r =
     (case unmarshalFilter G (row_Filter r) of
        Inl e \<Rightarrow> Inl (Wrap ''pitr: op %s: parse filter: %w'' [row_ID r] e)
      | Inr f \<Rightarrow>
          Inr \<lparr>op_ID = row_ID r, op_OrgID = row_OrgID r, op_AgentID = row_AgentID r, op_Type = row_Type r,
               op_Mode = row_Mode r, op_Filter = f, op_Status = row_Status r, op_CreatedBy = row_CreatedBy r,
               op_CreatedAt = row_CreatedAt r, op_UpdatedAt = row_UpdatedAt r,
               op_SelectedTxIDs = row_SelectedTxIDs r, op_TargetTables = row_TargetTables r\<rparr>)"

subsection \<open>Operations\<close>

definition generateOpID :: "string \<Rightarrow> string" where
  "generateOpID rnd = ''op_'' @ hex_encode rnd"

text \<open>
  \<open>Create\<close>, at time \<open>now\<close> with eight random bytes \<open>rnd\<close>; it returns the record it completed. An empty
  \<open>Status\<close> cannot be written here: the caller passes \<open>StateCreated\<close>.
\<close>

definition store_Create :: "time \<Rightarrow> string \<Rightarrow> Operation \<Rightarrow> pitr_db \<Rightarrow> (err + Operation) \<times> pitr_db" where
  "store_Create now rnd op0 db =
     (let op1 = (if op_ID op0 = [] then op0\<lparr>op_ID := generateOpID rnd\<rparr> else op0);
          op2 = (if time_is_zero (op_CreatedAt op1) then op1\<lparr>op_CreatedAt := now\<rparr> else op1);
          op = (if time_is_zero (op_UpdatedAt op2) then op2\<lparr>op_UpdatedAt := op_CreatedAt op2\<rparr> else op2) in
      sql_run (\<lambda>d. case sql_insert row_ID (op_row op) (pt_ops d) of
                     (Inl e, _) \<Rightarrow> (Inl e, d)
                   | (Inr _, t) \<Rightarrow> (Inr op, d\<lparr>pt_ops := t\<rparr>)) db)"

definition op_not_found :: "string \<Rightarrow> err" where
  "op_not_found i = Err ''operation not found: %s'' [i]"

definition row_of :: "string \<Rightarrow> OpRow list \<Rightarrow> OpRow option" where
  "row_of i t = List.find (\<lambda>r. row_ID r = i) t"

definition store_Get :: "gtid_lib \<Rightarrow> string \<Rightarrow> pitr_db \<Rightarrow> (err + Operation) \<times> pitr_db" where
  "store_Get G i db =
     sql_run (\<lambda>d. (case row_of i (pt_ops d) of
                     None \<Rightarrow> Inl (op_not_found i)
                   | Some r \<Rightarrow> scanOperation G r, d)) db"

definition store_Update :: "time \<Rightarrow> Operation \<Rightarrow> pitr_db \<Rightarrow> (err + unit) \<times> pitr_db" where
  "store_Update now op0 db =
     (let op = (if time_is_zero (op_UpdatedAt op0) then op0\<lparr>op_UpdatedAt := now\<rparr> else op0) in
      sql_run (\<lambda>d. let t = sql_update (\<lambda>r. row_ID r = op_ID op) (\<lambda>_. op_row op) (pt_ops d) in
                   (if sql_count (\<lambda>r. row_ID r = op_ID op) (pt_ops d) = 0 then Inl (op_not_found (op_ID op))
                    else Inr (), d\<lparr>pt_ops := t\<rparr>)) db)"

definition store_UpdateIfStatus :: "time \<Rightarrow> Operation \<Rightarrow> OperationState \<Rightarrow> pitr_db \<Rightarrow> (err + bool) \<times> pitr_db" where
  "store_UpdateIfStatus now op0 from_s db =
     (let op = (if time_is_zero (op_UpdatedAt op0) then op0\<lparr>op_UpdatedAt := now\<rparr> else op0);
          P = (\<lambda>r. row_ID r = op_ID op \<and> row_Status r = from_s) in
      sql_run (\<lambda>d. (Inr (sql_count P (pt_ops d) > 0),
                    d\<lparr>pt_ops := sql_update P (\<lambda>r. r\<lparr>row_Status := op_Status op, row_UpdatedAt := op_UpdatedAt op\<rparr>)
                                  (pt_ops d)\<rparr>)) db)"

text \<open>\<open>list\<close>: the first row that does not decode fails the whole listing.\<close>

fun scan_rows :: "gtid_lib \<Rightarrow> OpRow list \<Rightarrow> err + Operation list" where
  "scan_rows G [] = Inr []"
| "scan_rows G (r # rs) =
     (case scanOperation G r of
        Inl e \<Rightarrow> Inl e
      | Inr op \<Rightarrow> (case scan_rows G rs of Inl e \<Rightarrow> Inl e | Inr ops \<Rightarrow> Inr (op # ops)))"

definition store_list :: "gtid_lib \<Rightarrow> (OpRow \<Rightarrow> bool) \<Rightarrow> pitr_db \<Rightarrow> (err + Operation list) \<times> pitr_db" where
  "store_list G P db = sql_run (\<lambda>d. (scan_rows G (filter P (pt_ops d)), d)) db"

definition store_ListByOrg :: "gtid_lib \<Rightarrow> string \<Rightarrow> pitr_db \<Rightarrow> (err + Operation list) \<times> pitr_db" where
  "store_ListByOrg G orgID = store_list G (\<lambda>r. row_OrgID r = orgID)"

definition store_ListByAgent :: "gtid_lib \<Rightarrow> string \<Rightarrow> pitr_db \<Rightarrow> (err + Operation list) \<times> pitr_db" where
  "store_ListByAgent G agentID = store_list G (\<lambda>r. row_AgentID r = agentID)"

definition store_ListByStatus :: "gtid_lib \<Rightarrow> OperationState \<Rightarrow> pitr_db \<Rightarrow> (err + Operation list) \<times> pitr_db" where
  "store_ListByStatus G s = store_list G (\<lambda>r. row_Status r = s)"

text \<open>Delete-then-insert inside one transaction: an error rolls everything back.\<close>

fun insert_stmts :: "string \<Rightarrow> OpStatement list \<Rightarrow> StmtRow list \<Rightarrow> err + StmtRow list" where
  "insert_stmts i [] t = Inr t"
| "insert_stmts i (st # sts) t =
     (case sql_insert (\<lambda>r. (srow_OpID r, ost_StmtIndex (srow_Stmt r))) \<lparr>srow_OpID = i, srow_Stmt = st\<rparr> t of
        (Inl e, _) \<Rightarrow> Inl e
      | (Inr _, t') \<Rightarrow> insert_stmts i sts t')"

definition replace_stmts :: "string \<Rightarrow> OpStatement list \<Rightarrow> pitr_tables \<Rightarrow> err + pitr_tables" where
  "replace_stmts i stmts d =
     (case insert_stmts i stmts (filter (\<lambda>r. srow_OpID r \<noteq> i) (pt_stmts d)) of
        Inl e \<Rightarrow> Inl e
      | Inr t \<Rightarrow> Inr (d\<lparr>pt_stmts := t\<rparr>))"

definition store_SaveStatements :: "string \<Rightarrow> OpStatement list \<Rightarrow> pitr_db \<Rightarrow> (err + unit) \<times> pitr_db" where
  "store_SaveStatements i stmts db =
     sql_run (\<lambda>d. case replace_stmts i stmts d of Inl e \<Rightarrow> (Inl e, d) | Inr d' \<Rightarrow> (Inr (), d')) db"

definition store_SaveStatementsAndSelect ::
  "time \<Rightarrow> string \<Rightarrow> OpStatement list \<Rightarrow> string list \<Rightarrow> TableRef list \<Rightarrow> pitr_db \<Rightarrow> (err + unit) \<times> pitr_db" where
  "store_SaveStatementsAndSelect now i stmts txIDs tables db =
     sql_run (\<lambda>d. case replace_stmts i stmts d of
                    Inl e \<Rightarrow> (Inl e, d)
                  | Inr d' \<Rightarrow>
                      (if sql_count (\<lambda>r. row_ID r = i) (pt_ops d') = 0 then (Inl (op_not_found i), d)
                       else (Inr (), d'\<lparr>pt_ops := sql_update (\<lambda>r. row_ID r = i)
                               (\<lambda>r. r\<lparr>row_SelectedTxIDs := txIDs, row_TargetTables := tables, row_UpdatedAt := now\<rparr>)
                               (pt_ops d')\<rparr>))) db"

definition stmts_of :: "string \<Rightarrow> StmtRow list \<Rightarrow> OpStatement list" where
  "stmts_of i t = sort_key ost_StmtIndex (map srow_Stmt (filter (\<lambda>r. srow_OpID r = i) t))"

definition store_LoadStatements :: "string \<Rightarrow> pitr_db \<Rightarrow> (err + OpStatement list) \<times> pitr_db" where
  "store_LoadStatements i db = sql_run (\<lambda>d. (Inr (stmts_of i (pt_stmts d)), d)) db"

definition store_SaveCheckpoint :: "string \<Rightarrow> int \<Rightarrow> int \<Rightarrow> StmtError list \<Rightarrow> pitr_db \<Rightarrow> (err + unit) \<times> pitr_db" where
  "store_SaveCheckpoint i lastStmt tot errs db =
     (if i = [] then (Inl (Err ''store: SaveCheckpoint: operation id required'' []), db)
      else
        (case sql_run
                (\<lambda>d. let row = \<lparr>crow_OpID = i, crow_LastStatement = lastStmt, crow_Total = tot, crow_Errors = errs\<rparr> in
                     (Inr (),
                      d\<lparr>pt_cps := (if List.find (\<lambda>r. crow_OpID r = i) (pt_cps d) = None then pt_cps d @ [row]
                                   else sql_update (\<lambda>r. crow_OpID r = i) (\<lambda>_. row) (pt_cps d))\<rparr>)) db of
           (Inl e, db') \<Rightarrow> (Inl (Wrap ''store: save checkpoint %s: %w'' [i] e), db')
         | (Inr u, db') \<Rightarrow> (Inr u, db')))"

definition store_LoadCheckpoint :: "string \<Rightarrow> pitr_db \<Rightarrow> (err + (int \<times> int \<times> StmtError list) option) \<times> pitr_db" where
  "store_LoadCheckpoint i db =
     (case sql_run (\<lambda>d. (Inr (List.find (\<lambda>r. crow_OpID r = i) (pt_cps d)), d)) db of
        (Inl e, db') \<Rightarrow> (Inl (Wrap ''store: load checkpoint %s: %w'' [i] e), db')
      | (Inr None, db') \<Rightarrow> (Inr None, db')
      | (Inr (Some r), db') \<Rightarrow> (Inr (Some (crow_LastStatement r, crow_Total r, crow_Errors r)), db'))"

subsection \<open>Lemmas\<close>

text \<open>The persisted status of an operation.\<close>

definition status_of :: "pitr_tables \<Rightarrow> string \<Rightarrow> OperationState option" where
  "status_of d i = map_option row_Status (row_of i (pt_ops d))"

definition db_status :: "pitr_db \<Rightarrow> string \<Rightarrow> OperationState option" where
  "db_status db = status_of (q_data db)"

definition ids_distinct :: "pitr_db \<Rightarrow> bool" where
  "ids_distinct db = distinct (map row_ID (pt_ops (q_data db)))"

lemma row_of_update:
  "(\<And>r. P r \<Longrightarrow> row_ID (f r) = row_ID r) \<Longrightarrow>
   row_of i (sql_update P f t) = map_option (\<lambda>r. if P r then f r else r) (row_of i t)"
  unfolding row_of_def sql_update_def by (rule find_map_keep) simp

lemma row_of_Some: "row_of i t = Some r \<Longrightarrow> row_ID r = i \<and> r \<in> set t"
  unfolding row_of_def by (auto simp: find_Some_iff)

lemma row_of_None: "row_of i t = None \<longleftrightarrow> i \<notin> row_ID ` set t"
  unfolding row_of_def by (auto simp: find_None_iff)

lemma row_of_mem: "distinct (map row_ID t) \<Longrightarrow> r \<in> set t \<Longrightarrow> row_of (row_ID r) t = Some r"
  unfolding row_of_def by (induction t) auto

lemma row_of_append: "row_of i (xs @ ys) = (case row_of i xs of None \<Rightarrow> row_of i ys | Some x \<Rightarrow> Some x)"
  unfolding row_of_def by (rule find_append)

lemma sql_count_cas:
  assumes "distinct (map row_ID t)"
  shows "0 < sql_count (\<lambda>r. row_ID r = i \<and> row_Status r = s) t \<longleftrightarrow> (\<exists>r. row_of i t = Some r \<and> row_Status r = s)"
  using assms row_of_mem[OF assms] row_of_Some[of i t] by (auto simp: sql_count_pos)

lemma sql_count_id: "sql_count (\<lambda>r. row_ID r = i) t = 0 \<longleftrightarrow> row_of i t = None"
  using sql_count_pos[of "\<lambda>r. row_ID r = i" t] by (auto simp: row_of_None)

text \<open>Compare-and-swap: it wins exactly when the persisted status is the expected one.\<close>

lemma UpdateIfStatus_cases:
  assumes "store_UpdateIfStatus now op from_s db = (r, db')" and "ids_distinct db"
  shows "(\<exists>e. r = Inl e \<and> q_data db' = q_data db) \<or>
    (r = Inr False \<and> q_data db' = q_data db \<and> db_status db (op_ID op) \<noteq> Some from_s) \<or>
    (r = Inr True \<and> db_status db (op_ID op) = Some from_s \<and>
       db_status db' = (db_status db)(op_ID op \<mapsto> op_Status op))"
proof -
  let ?P = "\<lambda>r. row_ID r = op_ID op \<and> row_Status r = from_s"
  have d: "distinct (map row_ID (pt_ops (q_data db)))" using assms(2) by (simp add: ids_distinct_def)
  define u where "u = (if time_is_zero (op_UpdatedAt op) then now else op_UpdatedAt op)"
  have u: "store_UpdateIfStatus now op from_s db =
    sql_run (\<lambda>d. (Inr (sql_count ?P (pt_ops d) > 0),
      d\<lparr>pt_ops := sql_update ?P (\<lambda>r. r\<lparr>row_Status := op_Status op, row_UpdatedAt := u\<rparr>) (pt_ops d)\<rparr>)) db"
    by (cases "time_is_zero (op_UpdatedAt op)") (simp_all add: store_UpdateIfStatus_def u_def Let_def)
  show ?thesis
  proof (cases "q_fault db (q_clock db)")
    case True
    then show ?thesis using assms(1) u by (auto simp: sql_run_def)
  next
    case False
    have r: "r = Inr (sql_count ?P (pt_ops (q_data db)) > 0)"
      and d': "q_data db' = (q_data db)\<lparr>pt_ops := sql_update ?P
        (\<lambda>r. r\<lparr>row_Status := op_Status op, row_UpdatedAt := u\<rparr>) (pt_ops (q_data db))\<rparr>"
      using assms(1) u False by (auto simp: sql_run_def)
    show ?thesis
    proof (cases "sql_count ?P (pt_ops (q_data db)) > 0")
      case True
      then obtain rw where rw: "row_of (op_ID op) (pt_ops (q_data db)) = Some rw" "row_Status rw = from_s"
        using sql_count_cas[OF d] by auto
      have "db_status db' i = ((db_status db)(op_ID op \<mapsto> op_Status op)) i" for i
        using rw row_of_Some[of i "pt_ops (q_data db)"]
        by (cases "row_of i (pt_ops (q_data db))") (auto simp: db_status_def status_of_def d' row_of_update)
      then show ?thesis using True r rw by (auto simp: db_status_def status_of_def)
    next
      case no: False
      then have "\<forall>rw\<in>set (pt_ops (q_data db)). \<not> ?P rw" by (simp add: sql_count_def filter_empty_conv)
      then have "sql_update ?P g (pt_ops (q_data db)) = pt_ops (q_data db)" for g
        unfolding sql_update_def by (intro map_idI) auto
      then show ?thesis using no r d' sql_count_cas[OF d] by (auto simp: db_status_def status_of_def)
    qed
  qed
qed

lemma status_update_ids [simp]:
  "map row_ID (sql_update P (\<lambda>r. r\<lparr>row_Status := s, row_UpdatedAt := u\<rparr>) t) = map row_ID t"
  by (rule sql_update_ids) simp

lemma UpdateIfStatus_distinct:
  assumes "store_UpdateIfStatus now op from_s db = (r, db')" and "ids_distinct db"
  shows "ids_distinct db'"
  using assms
  by (auto simp: store_UpdateIfStatus_def Let_def ids_distinct_def sql_run_def split: if_splits)

lemma store_Get_data [simp]: "q_data (snd (store_Get G i db)) = q_data db"
  by (simp add: store_Get_def sql_run_data)

lemma scanOperation_fields:
  "scanOperation G r = Inr op \<Longrightarrow>
   op_ID op = row_ID r \<and> op_OrgID op = row_OrgID r \<and> op_AgentID op = row_AgentID r \<and> op_Mode op = row_Mode r \<and>
   op_Status op = row_Status r \<and> op_SelectedTxIDs op = row_SelectedTxIDs r \<and> op_TargetTables op = row_TargetTables r"
  by (auto simp: scanOperation_def split: sum.splits)

lemma store_Get_Inr:
  "store_Get G i db = (Inr op, db') \<Longrightarrow>
   op_ID op = i \<and> db_status db i = Some (op_Status op) \<and> q_data db' = q_data db \<and>
   (\<exists>r. row_of i (pt_ops (q_data db)) = Some r \<and> scanOperation G r = Inr op)"
  unfolding store_Get_def
  by (drule sql_run_Inr)
    (auto simp: db_status_def status_of_def split: option.splits dest!: scanOperation_fields dest: row_of_Some)

text \<open>What is stored can be read back when the GTID set is the library's own rendering.\<close>

definition gtid_storable :: "gtid_lib \<Rightarrow> Filter \<Rightarrow> bool" where
  "gtid_storable G f =
     (case f_GTIDSet f of
        None \<Rightarrow> True
      | Some g \<Rightarrow> gtid_text g \<noteq> [] \<and>
          (case g of
             MysqlSet s \<Rightarrow> parse_mysql G s = Some s
           | MariadbSet s \<Rightarrow> parse_mysql G s = None \<and> parse_mariadb G s = Some s))"

lemma filter_roundtrip: "gtid_storable G f \<Longrightarrow> unmarshalFilter G (marshalFilter f) = Inr f"
  by (cases f)
    (auto simp: gtid_storable_def unmarshalFilter_def marshalFilter_def lib_ParseGTIDSet_def Let_def
      split: option.splits gtid_set.splits)

lemma scanOperation_op_row: "gtid_storable G (op_Filter op) \<Longrightarrow> scanOperation G (op_row op) = Inr op"
  by (cases op) (simp add: scanOperation_def op_row_def filter_roundtrip)

lemma scan_rows_Inr:
  "scan_rows G rs = Inr ops \<Longrightarrow> list_all2 (\<lambda>r op. scanOperation G r = Inr op) rs ops"
  by (induction rs arbitrary: ops) (auto split: sum.splits)

lemma insert_stmts_Inr:
  "insert_stmts i sts t = Inr t' \<Longrightarrow> t' = t @ map (\<lambda>st. \<lparr>srow_OpID = i, srow_Stmt = st\<rparr>) sts"
proof (induction sts arbitrary: t)
  case (Cons st sts)
  then have "insert_stmts i sts (t @ [\<lparr>srow_OpID = i, srow_Stmt = st\<rparr>]) = Inr t'"
    by (auto simp: sql_insert_def split: if_splits)
  from Cons.IH[OF this] show ?case by simp
qed simp

lemma insert_stmts_fresh:
  "distinct (map ost_StmtIndex sts) \<Longrightarrow>
   \<forall>st\<in>set sts. (i, ost_StmtIndex st) \<notin> (\<lambda>r. (srow_OpID r, ost_StmtIndex (srow_Stmt r))) ` set t \<Longrightarrow>
   insert_stmts i sts t = Inr (t @ map (\<lambda>st. \<lparr>srow_OpID = i, srow_Stmt = st\<rparr>) sts)"
proof (induction sts arbitrary: t)
  case (Cons st sts)
  have "\<forall>x\<in>set sts. (i, ost_StmtIndex x) \<notin>
      (\<lambda>r. (srow_OpID r, ost_StmtIndex (srow_Stmt r))) ` set (t @ [\<lparr>srow_OpID = i, srow_Stmt = st\<rparr>])"
    using Cons.prems by auto (metis image_eqI)
  from Cons.IH[OF _ this] Cons.prems show ?case by (simp add: sql_insert_def)
qed simp

lemma insert_stmts_ok:
  assumes "distinct (map ost_StmtIndex sts)" and "i \<notin> srow_OpID ` set t"
  shows "insert_stmts i sts t = Inr (t @ map (\<lambda>st. \<lparr>srow_OpID = i, srow_Stmt = st\<rparr>) sts)"
  by (rule insert_stmts_fresh[OF assms(1)]) (use assms(2) in auto)

lemma filter_other: "j \<noteq> i \<Longrightarrow> filter (\<lambda>r. f r = j) (filter (\<lambda>r. f r \<noteq> i) t) = filter (\<lambda>r. f r = j) t"
  by (induction t) auto

lemma stmts_of_replace:
  assumes "replace_stmts i sts d = Inr d'" and "sorted (map ost_StmtIndex sts)"
  shows "stmts_of i (pt_stmts d') = sts \<and> (\<forall>j. j \<noteq> i \<longrightarrow> stmts_of j (pt_stmts d') = stmts_of j (pt_stmts d)) \<and>
    pt_ops d' = pt_ops d"
proof -
  have t: "pt_stmts d' = filter (\<lambda>r. srow_OpID r \<noteq> i) (pt_stmts d) @ map (\<lambda>st. \<lparr>srow_OpID = i, srow_Stmt = st\<rparr>) sts"
    and o: "pt_ops d' = pt_ops d"
    using assms(1) insert_stmts_Inr by (auto simp: replace_stmts_def split: sum.splits)
  have "stmts_of i (pt_stmts d') = sort_key ost_StmtIndex sts"
    by (simp add: stmts_of_def t filter_map o_def)
  also have "\<dots> = sts" using assms(2) by (simp add: sort_key_id_if_sorted)
  finally have 1: "stmts_of i (pt_stmts d') = sts" .
  have "stmts_of j (pt_stmts d') = stmts_of j (pt_stmts d)" if "j \<noteq> i" for j
    using that by (simp add: stmts_of_def t filter_other filter_map o_def del: filter_filter)
  with 1 o show ?thesis by blast
qed

end
