(* ===== verification/Pitr_World.thy ===== *)
theory Pitr_World
  imports Pitr_Store Store_Org Store_Agent
begin

text \<open>
  The state behind the HTTP and stream handlers of \<open>internal/server/pitr\<close>: the event bus (\<open>events.go\<close>),
  the in-memory previews and the handler's own record (\<open>handler.go\<close>), together with the stores it
  calls. A handler is a function on this world. \<open>w_now\<close> is the clock reading and \<open>w_rnd\<close> the random
  bytes that the next call sees; both are the environment's.
\<close>

subsection \<open>The event bus\<close>

definition subBuffer :: nat where
  "subBuffer = 16"

text \<open>A subscription is a channel, here an identity and the events buffered in it.\<close>

record subscription =
  sb_id :: nat
  sb_queue :: "StreamEvent list"

record eventBus =
  bus_subs :: "string \<Rightarrow> subscription list"
  bus_next :: nat

definition NewEventBus :: eventBus where
  "NewEventBus = \<lparr>bus_subs = (\<lambda>_. []), bus_next = 0\<rparr>"

definition bus_Subscribe :: "string \<Rightarrow> eventBus \<Rightarrow> nat \<times> eventBus" where
  "bus_Subscribe opID b =
     (bus_next b, b\<lparr>bus_subs := (bus_subs b)(opID := bus_subs b opID @ [\<lparr>sb_id = bus_next b, sb_queue = []\<rparr>]),
                    bus_next := Suc (bus_next b)\<rparr>)"

definition offer :: "StreamEvent \<Rightarrow> subscription \<Rightarrow> subscription" where
  "offer ev s = (if length (sb_queue s) < subBuffer then s\<lparr>sb_queue := sb_queue s @ [ev]\<rparr> else s)"

definition bus_Publish :: "string \<Rightarrow> StreamEvent \<Rightarrow> eventBus \<Rightarrow> eventBus" where
  "bus_Publish opID ev b = b\<lparr>bus_subs := (bus_subs b)(opID := map (offer ev) (bus_subs b opID))\<rparr>"

fun remove_sub :: "nat \<Rightarrow> subscription list \<Rightarrow> subscription list" where
  "remove_sub ch [] = []"
| "remove_sub ch (s # ss) = (if sb_id s = ch then ss else s # remove_sub ch ss)"

definition bus_Unsubscribe :: "string \<Rightarrow> nat \<Rightarrow> eventBus \<Rightarrow> eventBus" where
  "bus_Unsubscribe opID ch b = b\<lparr>bus_subs := (bus_subs b)(opID := remove_sub ch (bus_subs b opID))\<rparr>"

text \<open>The consumer's receive from its channel.\<close>

definition queue_of :: "string \<Rightarrow> nat \<Rightarrow> eventBus \<Rightarrow> StreamEvent list" where
  "queue_of opID ch b = (case find_key sb_id ch (bus_subs b opID) of None \<Rightarrow> [] | Some s \<Rightarrow> sb_queue s)"

definition bus_recv :: "string \<Rightarrow> nat \<Rightarrow> eventBus \<Rightarrow> StreamEvent option \<times> eventBus" where
  "bus_recv opID ch b =
     (case queue_of opID ch b of
        [] \<Rightarrow> (None, b)
      | ev # rest \<Rightarrow>
          (Some ev, b\<lparr>bus_subs := (bus_subs b)(opID :=
             map (\<lambda>s. if sb_id s = ch then s\<lparr>sb_queue := rest\<rparr> else s) (bus_subs b opID))\<rparr>))"

subsection \<open>The preview of a scan\<close>

record opPreview =
  pv_metas :: "txMetaWire list"
  pv_sqlByTx :: "string \<rightharpoonup> StatementWire list"
  pv_known :: "string set"
  pv_maxEntries :: int
  pv_truncated :: bool

definition defaultMaxPreview :: int where
  "defaultMaxPreview = 500"

definition previewCap :: "int \<Rightarrow> int" where
  "previewCap v = (if v \<le> 0 then defaultMaxPreview else v)"

definition fresh_preview :: opPreview where
  "fresh_preview = \<lparr>pv_metas = [], pv_sqlByTx = Map.empty, pv_known = {}, pv_maxEntries = defaultMaxPreview,
     pv_truncated = False\<rparr>"

definition sql_of :: "opPreview \<Rightarrow> string \<Rightarrow> StatementWire list" where
  "sql_of p i = (case pv_sqlByTx p i of None \<Rightarrow> [] | Some ws \<Rightarrow> ws)"

definition stage_meta :: "txMetaWire \<Rightarrow> opPreview \<Rightarrow> opPreview" where
  "stage_meta meta p =
     (if tm_w_TxID meta \<in> pv_known p then p
      else if int (length (pv_metas p)) \<ge> pv_maxEntries p then p\<lparr>pv_truncated := True\<rparr>
      else p\<lparr>pv_metas := pv_metas p @ [meta], pv_known := insert (tm_w_TxID meta) (pv_known p)\<rparr>)"

definition stage_wire :: "StatementWire \<Rightarrow> opPreview \<Rightarrow> opPreview" where
  "stage_wire w p =
     (if sw_TxID w = [] then p
      else if sw_TxID w \<notin> pv_known p then p
      else if list_ex (\<lambda>ex. sw_TxOrder ex = sw_TxOrder w) (sql_of p (sw_TxID w)) then p
      else p\<lparr>pv_sqlByTx := (pv_sqlByTx p)(sw_TxID w \<mapsto> sql_of p (sw_TxID w) @ [w])\<rparr>)"

text \<open>\<open>snapshot\<close> copies the metadata, the SQL and the flag; \<open>known\<close> and the cap stay behind.\<close>

definition snapshot_of :: "opPreview \<Rightarrow> opPreview" where
  "snapshot_of p = \<lparr>pv_metas = pv_metas p, pv_sqlByTx = pv_sqlByTx p, pv_known = {}, pv_maxEntries = 0,
     pv_truncated = pv_truncated p\<rparr>"

subsection \<open>The world\<close>

record pworld =
  w_db :: pitr_db
  w_orgs :: org_db
  w_agents :: agent_db
  w_audits :: "AuditEntry list"
  w_bus :: eventBus
  w_previews :: "string \<rightharpoonup> opPreview"
  w_connected :: "string \<Rightarrow> bool"
  w_now :: time
  w_rnd :: string

text \<open>
  The commander (\<open>hub.Hub\<close>) as the handlers see it: it delivers a command and waits for the response.
  While it waits anything may happen to the world; that is why it is a function of the world.
  \<open>None\<close> is a handler without commander. \<open>pe_error_text\<close> renders an error (\<open>Error()\<close>), \<open>pe_raw_json\<close> event data.
\<close>

record pitr_env =
  pe_gtid :: gtid_lib
  pe_error_text :: "err \<Rightarrow> string"
  pe_raw_json :: "wire_data \<Rightarrow> string"
  pe_commander :: "(string \<Rightarrow> Command \<Rightarrow> pworld \<Rightarrow> (err + Response option) \<times> pworld) option"

definition on_db :: "(pitr_db \<Rightarrow> 'a \<times> pitr_db) \<Rightarrow> pworld \<Rightarrow> 'a \<times> pworld" where
  "on_db f w = (case f (w_db w) of (r, db) \<Rightarrow> (r, w\<lparr>w_db := db\<rparr>))"

definition publish :: "string \<Rightarrow> StreamEvent \<Rightarrow> pworld \<Rightarrow> pworld" where
  "publish opID ev w = w\<lparr>w_bus := bus_Publish opID ev (w_bus w)\<rparr>"

definition previewFor :: "string \<Rightarrow> pworld \<Rightarrow> opPreview" where
  "previewFor opID w = (case w_previews w opID of None \<Rightarrow> fresh_preview | Some p \<Rightarrow> p)"

definition put_preview :: "string \<Rightarrow> opPreview \<Rightarrow> pworld \<Rightarrow> pworld" where
  "put_preview opID p w = w\<lparr>w_previews := (w_previews w)(opID \<mapsto> p)\<rparr>"

definition snapshot :: "string \<Rightarrow> pworld \<Rightarrow> opPreview option" where
  "snapshot opID w = map_option snapshot_of (w_previews w opID)"

definition forgetPreview :: "string \<Rightarrow> pworld \<Rightarrow> pworld" where
  "forgetPreview opID w = w\<lparr>w_previews := (w_previews w)(opID := None)\<rparr>"

definition previewTruncated :: "string \<Rightarrow> pworld \<Rightarrow> bool" where
  "previewTruncated opID w = (case w_previews w opID of None \<Rightarrow> False | Some p \<Rightarrow> pv_truncated p)"

definition stageTxMeta :: "string \<Rightarrow> txMetaWire \<Rightarrow> pworld \<Rightarrow> pworld" where
  "stageTxMeta opID meta w = put_preview opID (stage_meta meta (previewFor opID w)) w"

definition stageSQL :: "string \<Rightarrow> StatementWire list \<Rightarrow> pworld \<Rightarrow> pworld" where
  "stageSQL opID wires w = put_preview opID (fold stage_wire wires (previewFor opID w)) w"

definition joinTableRefs :: "TableRef list \<Rightarrow> string" where
  "joinTableRefs tables = str_join (map (\<lambda>t. tr_Schema t @ ''.'' @ tr_Table t) tables) '', ''"

definition appendAudit :: "Operation \<Rightarrow> OperationState \<Rightarrow> string \<Rightarrow> string \<Rightarrow> int \<Rightarrow> pworld \<Rightarrow> pworld" where
  "appendAudit op state operator details rows w =
     (let recovery = (case f_TimeRange (op_Filter op) of None \<Rightarrow> zero_time | Some tr \<Rightarrow> tr_End tr);
          tables = (if op_TargetTables op = [] then f_Tables (op_Filter op) else op_TargetTables op) in
      w\<lparr>w_audits := audit_Append (w_now w)
          \<lparr>au_OperationID = op_ID op, au_Operator = operator, au_Timestamp = w_now w, au_OrgID = op_OrgID op,
           au_AgentID = op_AgentID op, au_TargetTable = joinTableRefs tables, au_RecoveryTime = recovery,
           au_RowsAffected = rows, au_Status = state_string state, au_ErrorDetails = details\<rparr> (w_audits w)\<rparr>)"

subsection \<open>Transitions\<close>

text \<open>
  \<open>transitionTo\<close>: the result, the operation record (rolled back when the compare-and-swap loses) and the
  world. \<open>op\<close> is the caller's snapshot; the world may have moved on since it was read.
\<close>

definition transitionTo :: "Operation \<Rightarrow> OperationState \<Rightarrow> pworld \<Rightarrow> (err + bool) \<times> Operation \<times> pworld" where
  "transitionTo op to_s w =
     (let from_s = op_Status op in
      case TryTransitionErr from_s to_s of
        Some e \<Rightarrow> (Inl e, op, w)
      | None \<Rightarrow>
          (let op1 = op\<lparr>op_Status := to_s, op_UpdatedAt := w_now w\<rparr> in
           case on_db (store_UpdateIfStatus (w_now w) op1 from_s) w of
             (Inl e, w1) \<Rightarrow> (Inl e, op1\<lparr>op_Status := from_s\<rparr>, w1)
           | (Inr ok, w1) \<Rightarrow> (if \<not> ok then (Inr False, op1\<lparr>op_Status := from_s\<rparr>, w1) else (Inr True, op1, w1))))"

definition failOperation :: "Operation \<Rightarrow> string \<Rightarrow> pworld \<Rightarrow> pworld" where
  "failOperation op details w =
     (case transitionTo op StateFailed w of
        (Inl _, _, w1) \<Rightarrow> w1
      | (Inr ok, op1, w1) \<Rightarrow>
          (if \<not> ok then forgetPreview (op_ID op1) w1
           else forgetPreview (op_ID op1) (appendAudit op1 StateFailed ''agent'' details 0 w1)))"

definition blockOperation :: "Operation \<Rightarrow> string \<Rightarrow> pworld \<Rightarrow> pworld" where
  "blockOperation op details w =
     (case transitionTo op StateBlocked w of
        (Inl _, _, w1) \<Rightarrow> w1
      | (Inr ok, op1, w1) \<Rightarrow>
          (if \<not> ok then w1
           else forgetPreview (op_ID op1) (appendAudit op1 StateBlocked ''system'' details 0 w1)))"

definition in_flight :: "OperationState list" where
  "in_flight = [StateScanning, StateExecuting]"

fun disconnect_loop :: "gtid_lib \<Rightarrow> string \<Rightarrow> OperationState list \<Rightarrow> pworld \<Rightarrow> pworld" where
  "disconnect_loop G agentID [] w = w"
| "disconnect_loop G agentID (st # sts) w =
     (case on_db (store_ListByStatus G st) w of
        (Inl _, w1) \<Rightarrow> disconnect_loop G agentID sts w1
      | (Inr ops, w1) \<Rightarrow>
          disconnect_loop G agentID sts
            (fold (\<lambda>op w. if op_AgentID op \<noteq> agentID then w else blockOperation op ''agent disconnected'' w) ops w1))"

definition HandleAgentDisconnect :: "gtid_lib \<Rightarrow> string \<Rightarrow> pworld \<Rightarrow> pworld" where
  "HandleAgentDisconnect G agentID w = disconnect_loop G agentID in_flight w"

fun reconcile_loop :: "gtid_lib \<Rightarrow> OperationState list \<Rightarrow> pworld \<Rightarrow> err option \<times> pworld" where
  "reconcile_loop G [] w = (None, w)"
| "reconcile_loop G (st # sts) w =
     (case on_db (store_ListByStatus G st) w of
        (Inl e, w1) \<Rightarrow> (Some (Wrap ''pitr: startup reconcile: list %s operations: %w'' [state_string st] e), w1)
      | (Inr ops, w1) \<Rightarrow>
          reconcile_loop G sts
            (fold (\<lambda>op. blockOperation op ''server restart -- operation blocked; retry after the agent reconnects'') ops w1))"

definition ReconcileOnStartup :: "gtid_lib \<Rightarrow> pworld \<Rightarrow> err option \<times> pworld" where
  "ReconcileOnStartup G w = reconcile_loop G in_flight w"

subsection \<open>Lemmas\<close>

abbreviation w_status :: "pworld \<Rightarrow> string \<Rightarrow> OperationState option" where
  "w_status w i \<equiv> db_status (w_db w) i"

definition w_ok :: "pworld \<Rightarrow> bool" where
  "w_ok w = ids_distinct (w_db w)"

lemma world_frame [simp]:
  "w_db (publish i ev w) = w_db w" "w_audits (publish i ev w) = w_audits w" "w_previews (publish i ev w) = w_previews w"
  "w_db (put_preview i p w) = w_db w" "w_audits (put_preview i p w) = w_audits w" "w_bus (put_preview i p w) = w_bus w"
  "w_db (forgetPreview i w) = w_db w" "w_audits (forgetPreview i w) = w_audits w" "w_bus (forgetPreview i w) = w_bus w"
  "w_db (appendAudit op s a d n w) = w_db w" "w_previews (appendAudit op s a d n w) = w_previews w"
  "w_bus (appendAudit op s a d n w) = w_bus w"
  "w_db (stageTxMeta i m w) = w_db w" "w_db (stageSQL i ws w) = w_db w"
  "w_audits (stageTxMeta i m w) = w_audits w" "w_audits (stageSQL i ws w) = w_audits w"
  by (simp_all add: publish_def put_preview_def forgetPreview_def appendAudit_def stageTxMeta_def stageSQL_def Let_def)

lemma transitionTo_valid:
  assumes "op_move (op_Status op) to_s"
    and "store_UpdateIfStatus (w_now w) (op\<lparr>op_Status := to_s, op_UpdatedAt := w_now w\<rparr>) (op_Status op) (w_db w) = (r, db')"
  shows "transitionTo op to_s w =
    (r, op\<lparr>op_Status := (if r = Inr True then to_s else op_Status op), op_UpdatedAt := w_now w\<rparr>, w\<lparr>w_db := db'\<rparr>)"
proof -
  have n: "TryTransitionErr (op_Status op) to_s = None" using assms(1) by simp
  show ?thesis unfolding transitionTo_def Let_def n
    using assms(2) by (cases r) (simp_all add: on_db_def)
qed

lemma transitionTo_invalid: "\<not> op_move (op_Status op) to_s \<Longrightarrow> \<exists>e. transitionTo op to_s w = (Inl e, op, w)"
  by (cases "TryTransitionErr (op_Status op) to_s") (auto simp: transitionTo_def)

text \<open>
  The only way \<open>transitionTo\<close> changes the world is a legal move of exactly this operation, made from the
  status that the caller saw.
\<close>

lemma transitionTo_cases:
  assumes "transitionTo op to_s w = (r, op', w')" and "w_ok w"
  shows "(\<exists>e. r = Inl e \<and> op_Status op' = op_Status op \<and> q_data (w_db w') = q_data (w_db w)) \<or>
    (r = Inr False \<and> op_Status op' = op_Status op \<and> q_data (w_db w') = q_data (w_db w) \<and>
       w_status w (op_ID op) \<noteq> Some (op_Status op)) \<or>
    (r = Inr True \<and> op_Status op' = to_s \<and> op_move (op_Status op) to_s \<and>
       w_status w (op_ID op) = Some (op_Status op) \<and> db_status (w_db w') = (db_status (w_db w))(op_ID op \<mapsto> to_s))"
proof (cases "op_move (op_Status op) to_s")
  case False
  then show ?thesis using assms(1) transitionTo_invalid[of op to_s w] by auto
next
  case True
  let ?op1 = "op\<lparr>op_Status := to_s, op_UpdatedAt := w_now w\<rparr>"
  obtain r1 db' where u: "store_UpdateIfStatus (w_now w) ?op1 (op_Status op) (w_db w) = (r1, db')" by fastforce
  from UpdateIfStatus_cases[OF u] assms transitionTo_valid[OF True u] True show ?thesis
    by (auto simp: w_ok_def)
qed

lemma transitionTo_frame:
  assumes "transitionTo op to_s w = (r, op', w')"
  shows "op_ID op' = op_ID op" "w_audits w' = w_audits w" "w_previews w' = w_previews w" "w_bus w' = w_bus w"
    "w_ok w \<Longrightarrow> w_ok w'" "op_Filter op' = op_Filter op" "op_SelectedTxIDs op' = op_SelectedTxIDs op" "op_Mode op' = op_Mode op"
proof -
  obtain r1 db' where u: "store_UpdateIfStatus (w_now w) (op\<lparr>op_Status := to_s, op_UpdatedAt := w_now w\<rparr>)
      (op_Status op) (w_db w) = (r1, db')" by fastforce
  have *: "w' = w\<lparr>w_db := db'\<rparr> \<or> w' = w" "op_ID op' = op_ID op \<and> op_Filter op' = op_Filter op \<and>
      op_SelectedTxIDs op' = op_SelectedTxIDs op \<and> op_Mode op' = op_Mode op"
    using assms transitionTo_valid[OF _ u] transitionTo_invalid[of op to_s w] by (cases "op_move (op_Status op) to_s"; auto)+
  then show "op_ID op' = op_ID op" "w_audits w' = w_audits w" "w_previews w' = w_previews w" "w_bus w' = w_bus w"
    "op_Filter op' = op_Filter op" "op_SelectedTxIDs op' = op_SelectedTxIDs op" "op_Mode op' = op_Mode op"
    by auto
  show "w_ok w \<Longrightarrow> w_ok w'" using *(1) UpdateIfStatus_distinct[OF u] by (auto simp: w_ok_def)
qed

end
