(* ===== verification/Pitr_Stream.thy ===== *)
theory Pitr_Stream
  imports Pitr_World
begin

text \<open>
  \<open>internal/server/pitr\<close> (\<open>handler.go\<close>): the stream events that an agent pushes for an operation, one
  definition per kind. The hub calls \<open>HandleStreamEvent\<close> in a goroutine per event. The parts after
  the store read take the snapshot \<open>op\<close> as an argument of its own: theorems about them hold for a
  snapshot that is out of date, so for every interleaving with other handlers at that point.
\<close>

definition maxErrorSummaryEntries :: nat where
  "maxErrorSummaryEntries = 5"

fun summary_entries :: "nat \<Rightarrow> StmtError list \<Rightarrow> string" where
  "summary_entries k [] = []"
| "summary_entries k (e # es) =
     (if k \<ge> maxErrorSummaryEntries then '' ...''
      else '' #'' @ show_nat (se_Statement e) @ '' '' @ se_Err e @ summary_entries (Suc k) es)"

definition errorSummary :: "StmtError list \<Rightarrow> string" where
  "errorSummary errs =
     (if errs = [] then [] else show_nat (length errs) @ '' statement(s) failed:'' @ summary_entries 0 errs)"

text \<open>\<open>errorDetailsFromEvent\<close>: a JSON string is its text, anything else is the raw JSON.\<close>

fun errorDetailsFromEvent :: "(wire_data \<Rightarrow> string) \<Rightarrow> wire_data \<Rightarrow> string" where
  "errorDetailsFromEvent raw_json (DText s) = s"
| "errorDetailsFromEvent raw_json DNull = []"
| "errorDetailsFromEvent raw_json d = raw_json d"

subsection \<open>Statements of a selection\<close>

text \<open>\<open>txIndex\<close>: the position of a transaction in the preview, the last one when an id repeats.\<close>

fun txIndex :: "nat \<Rightarrow> txMetaWire list \<Rightarrow> string \<Rightarrow> nat option" where
  "txIndex k [] i = None"
| "txIndex k (m # ms) i =
     (case txIndex (Suc k) ms i of
        Some j \<Rightarrow> Some j
      | None \<Rightarrow> if tm_w_TxID m = i then Some k else None)"

definition tx_index :: "opPreview \<Rightarrow> string \<Rightarrow> nat" where
  "tx_index snap i = (case txIndex 0 (pv_metas snap) i of None \<Rightarrow> 0 | Some k \<Rightarrow> k)"

definition mk_stmt :: "nat \<Rightarrow> nat \<Rightarrow> StatementWire \<Rightarrow> OpStatement" where
  "mk_stmt txi k w = \<lparr>ost_TxIndex = txi, ost_StmtIndex = k, ost_SQL = sw_SQL w, ost_TxID = sw_TxID w,
     ost_TxOrder = sw_TxOrder w, ost_Warnings = sw_Warnings w, ost_Status = ''pending''\<rparr>"

fun mk_stmts :: "nat \<Rightarrow> nat \<Rightarrow> StatementWire list \<Rightarrow> OpStatement list" where
  "mk_stmts txi k [] = []"
| "mk_stmts txi k (w # ws) = mk_stmt txi k w # mk_stmts txi (Suc k) ws"

text \<open>The loop of \<open>persistSelectedStatements\<close>: transactions without staged SQL are skipped.\<close>

fun collect_stmts :: "opPreview \<Rightarrow> string list \<Rightarrow> nat \<Rightarrow> OpStatement list" where
  "collect_stmts snap [] k = []"
| "collect_stmts snap (i # is) k =
     (if sql_of snap i = [] then collect_stmts snap is k
      else mk_stmts (tx_index snap i) k (sql_of snap i) @ collect_stmts snap is (k + length (sql_of snap i)))"

definition persistSelectedStatements :: "Operation \<Rightarrow> pworld \<Rightarrow> pworld" where
  "persistSelectedStatements op w =
     (if op_Mode op \<noteq> ''selected'' \<or> op_SelectedTxIDs op = [] then w
      else (case snapshot (op_ID op) w of
              None \<Rightarrow> w
            | Some snap \<Rightarrow>
                snd (on_db (store_SaveStatements (op_ID op) (collect_stmts snap (op_SelectedTxIDs op) 0)) w)))"

subsection \<open>The kinds\<close>

definition on_tx_meta :: "string \<Rightarrow> StreamEvent \<Rightarrow> pworld \<Rightarrow> pworld" where
  "on_tx_meta opID ev w =
     (case decode_meta (sv_Data ev) of
        None \<Rightarrow> w
      | Some meta \<Rightarrow> publish opID ev (stageTxMeta opID meta w))"

definition on_sql :: "string \<Rightarrow> StreamEvent \<Rightarrow> pworld \<Rightarrow> pworld" where
  "on_sql opID ev w =
     (case decode_sql (sv_Data ev) of
        None \<Rightarrow> w
      | Some wires \<Rightarrow> publish opID ev (stageSQL opID wires w))"

text \<open>
  The fallback that treats a \<open>ready\<close> operation as \<open>mid\<close> (scanning for \<open>scan_done\<close>, executing for
  \<open>op_done\<close>): the compare-and-swap may lose, the snapshot is \<open>mid\<close> either way. \<open>None\<close> is a store error.
\<close>

definition ready_fallback :: "OperationState \<Rightarrow> Operation \<Rightarrow> pworld \<Rightarrow> Operation option \<times> pworld" where
  "ready_fallback mid op w =
     (if op_Status op = StateReady then
        (let op1 = op\<lparr>op_Status := mid, op_UpdatedAt := w_now w\<rparr> in
         case on_db (store_UpdateIfStatus (w_now w) op1 StateReady) w of
           (Inl _, w1) \<Rightarrow> (None, w1)
         | (Inr _, w1) \<Rightarrow> (Some op1, w1))
      else (Some op, w))"

definition on_scan_done :: "Operation \<Rightarrow> string \<Rightarrow> StreamEvent \<Rightarrow> pworld \<Rightarrow> pworld" where
  "on_scan_done op0 opID ev w =
     (case ready_fallback StateScanning op0 w of
        (None, w1) \<Rightarrow> w1
      | (Some op, w1) \<Rightarrow>
          (case transitionTo op StateReady w1 of
             (Inl _, _, w2) \<Rightarrow> w2
           | (Inr ok, op2, w2) \<Rightarrow>
               (if \<not> ok then w2
                else publish opID ev (persistSelectedStatements op2 (appendAudit op2 StateReady ''agent'' [] 0 w2)))))"

definition on_progress :: "string \<Rightarrow> StreamEvent \<Rightarrow> pworld \<Rightarrow> pworld" where
  "on_progress opID ev w =
     (case decode_progress (sv_Data ev) of
        None \<Rightarrow> publish opID ev w
      | Some prog \<Rightarrow>
          publish opID ev (snd (on_db (store_SaveCheckpoint opID (pw_Done prog) (pw_Total prog) (pw_Errors prog)) w)))"

definition publish_paused :: "Operation \<Rightarrow> string \<Rightarrow> opDonePayload \<Rightarrow> pworld \<Rightarrow> pworld" where
  "publish_paused op opID report w =
     publish opID \<lparr>sv_ID = opID, sv_Kind = EvOpPaused,
                   sv_Data = DStatus (state_string (op_Status op)) (Some (od_Done report, od_Total report))\<rparr>
       (appendAudit op StatePaused ''agent'' [] (od_RowsAffected report) w)"

definition confirmPause :: "Operation \<Rightarrow> string \<Rightarrow> opDonePayload \<Rightarrow> pworld \<Rightarrow> pworld" where
  "confirmPause op opID report w =
     (case op_Status op of
        StatePaused \<Rightarrow> publish_paused op opID report w
      | StateExecuting \<Rightarrow>
          (case transitionTo op StatePaused w of
             (Inl _, _, w1) \<Rightarrow> w1
           | (Inr ok, op1, w1) \<Rightarrow> (if \<not> ok then w1 else publish_paused op1 opID report w1))
      | _ \<Rightarrow> w)"

definition on_op_done :: "Operation \<Rightarrow> string \<Rightarrow> StreamEvent \<Rightarrow> pworld \<Rightarrow> pworld" where
  "on_op_done op0 opID ev w =
     (let report = (case decode_done (sv_Data ev) of None \<Rightarrow> zero_done | Some r \<Rightarrow> r) in
      if od_Paused report then confirmPause op0 opID report w
      else
        (case ready_fallback StateExecuting op0 w of
           (None, w1) \<Rightarrow> w1
         | (Some op, w1) \<Rightarrow>
             (case transitionTo op StateDone w1 of
                (Inl _, _, w2) \<Rightarrow> w2
              | (Inr ok, op2, w2) \<Rightarrow>
                  (if \<not> ok then w2
                   else publish opID ev (forgetPreview opID
                          (appendAudit op2 StateDone ''agent'' (errorSummary (od_Errors report)) (od_RowsAffected report) w2))))))"

definition on_op_error :: "(wire_data \<Rightarrow> string) \<Rightarrow> Operation \<Rightarrow> string \<Rightarrow> StreamEvent \<Rightarrow> pworld \<Rightarrow> pworld" where
  "on_op_error raw_json op opID ev w =
     (case transitionTo op StateFailed w of
        (Inl _, _, w1) \<Rightarrow> w1
      | (Inr ok, op1, w1) \<Rightarrow>
          (if \<not> ok then w1
           else publish opID ev (forgetPreview opID
                  (appendAudit op1 StateFailed ''agent'' (errorDetailsFromEvent raw_json (sv_Data ev)) 0 w1))))"

definition dispatch_event ::
  "(wire_data \<Rightarrow> string) \<Rightarrow> Operation \<Rightarrow> string \<Rightarrow> StreamEvent \<Rightarrow> pworld \<Rightarrow> pworld" where
  "dispatch_event raw_json op opID ev w =
     (if sv_Kind ev = EvTxMeta then on_tx_meta opID ev w
      else if sv_Kind ev = EvSQL then on_sql opID ev w
      else if sv_Kind ev = EvScanDone then on_scan_done op opID ev w
      else if sv_Kind ev = EvProgress then on_progress opID ev w
      else if sv_Kind ev = EvOpDone then on_op_done op opID ev w
      else if sv_Kind ev = EvOpError then on_op_error raw_json op opID ev w
      else w)"

definition HandleStreamEvent :: "pitr_env \<Rightarrow> string \<Rightarrow> Command \<Rightarrow> pworld \<Rightarrow> pworld" where
  "HandleStreamEvent E agentID cmd w =
     (case cm_Params cmd of
        PStream opID kind data \<Rightarrow>
          (if opID = [] then w
           else if kind = [] then w
           else (case on_db (store_Get (pe_gtid E) opID) w of
                   (Inl _, w1) \<Rightarrow> w1
                 | (Inr op, w1) \<Rightarrow>
                     (if op_AgentID op \<noteq> agentID then w1
                      else dispatch_event (pe_raw_json E) op opID \<lparr>sv_ID = opID, sv_Kind = kind, sv_Data = data\<rparr> w1)))
      | _ \<Rightarrow> w)"

end
