(* ===== verification/Time_Format.thy ===== *)
theory Time_Format
  imports Reverse
begin

text \<open>
  \<open>time.Parse(time.RFC3339, s)\<close> and \<open>Format(time.RFC3339)\<close>: the wire form of time bounds. A parsed
  time is an instant here, so \<open>format_rfc3339\<close> writes it in UTC; Go writes it in the zone it was
  parsed with, which denotes the same second.
\<close>

definition digits_at :: "string \<Rightarrow> nat \<Rightarrow> nat \<Rightarrow> int option" where
  "digits_at s i n =
     (let ds = take n (drop i s) in
      if length ds = n \<and> list_all is_digit ds
      then Some (foldl (\<lambda>a c. 10 * a + (of_char c - 48)) 0 ds)
      else None)"

definition char_at :: "string \<Rightarrow> nat \<Rightarrow> char \<Rightarrow> bool" where
  "char_at s i c = (i < length s \<and> s ! i = c)"

definition leap_year :: "int \<Rightarrow> bool" where
  "leap_year y = (y mod 4 = 0 \<and> (y mod 100 \<noteq> 0 \<or> y mod 400 = 0))"

definition days_in_month :: "int \<Rightarrow> int \<Rightarrow> int" where
  "days_in_month y m =
     (if m = 2 then (if leap_year y then 29 else 28) else if m \<in> {4, 6, 9, 11} then 30 else 31)"

definition days_from_civil :: "int \<Rightarrow> int \<Rightarrow> int \<Rightarrow> int" where
  "days_from_civil y0 m d =
     (let y = (if m \<le> 2 then y0 - 1 else y0);
          era = y div 400;
          yoe = y mod 400;
          doy = (153 * (if m > 2 then m - 3 else m + 9) + 2) div 5 + d - 1;
          doe = yoe * 365 + yoe div 4 - yoe div 100 + doy
      in era * 146097 + doe - 719468)"

text \<open>The optional fraction after the seconds (nine digits count) and what follows it.\<close>

definition parse_fraction :: "string \<Rightarrow> int \<times> string" where
  "parse_fraction s =
     (case s of
        c # s' \<Rightarrow>
          (if (c = CHR ''.'' \<or> c = CHR '','') \<and> s' \<noteq> [] \<and> is_digit (hd s')
           then (let ds = takeWhile is_digit s'; ks = take 9 (ds @ replicate 9 (CHR ''0'')) in
                 (foldl (\<lambda>a c. 10 * a + (of_char c - 48)) 0 ks, dropWhile is_digit s'))
           else (0, s))
      | [] \<Rightarrow> (0, s))"

text \<open>The zone: \<open>Z\<close> or a signed \<open>hh:mm\<close>; its offset in seconds.\<close>

definition parse_zone :: "string \<Rightarrow> int option" where
  "parse_zone s =
     (if s = ''Z'' then Some 0
      else if length s = 6 \<and> (s ! 0 = CHR ''+'' \<or> s ! 0 = CHR ''-'') \<and> char_at s 3 (CHR '':'')
      then (case (digits_at s 1 2, digits_at s 4 2) of
              (Some h, Some m) \<Rightarrow>
                (if h \<le> 24 \<and> m < 60 then Some ((if s ! 0 = CHR ''-'' then -1 else 1) * (h * 3600 + m * 60)) else None)
            | _ \<Rightarrow> None)
      else None)"

definition parse_date :: "string \<Rightarrow> int option" where
  "parse_date s =
     (case (digits_at s 0 4, digits_at s 5 2, digits_at s 8 2) of
        (Some y, Some m, Some d) \<Rightarrow>
          (if char_at s 4 (CHR ''-'') \<and> char_at s 7 (CHR ''-'') \<and> 1 \<le> m \<and> m \<le> 12 \<and> 1 \<le> d \<and> d \<le> days_in_month y m
           then Some (days_from_civil y m d) else None)
      | _ \<Rightarrow> None)"

definition parse_clock :: "string \<Rightarrow> int option" where
  "parse_clock s =
     (case (digits_at s 11 2, digits_at s 14 2, digits_at s 17 2) of
        (Some h, Some m, Some sec) \<Rightarrow>
          (if char_at s 10 (CHR ''T'') \<and> char_at s 13 (CHR '':'') \<and> char_at s 16 (CHR '':'') \<and> h < 24 \<and> m < 60 \<and> sec < 60
           then Some (h * 3600 + m * 60 + sec) else None)
      | _ \<Rightarrow> None)"

definition parse_rfc3339 :: "string \<Rightarrow> time option" where
  "parse_rfc3339 s =
     (case (parse_date s, parse_clock s) of
        (Some days, Some secs) \<Rightarrow>
          (case parse_fraction (drop 19 s) of (nanos, rest) \<Rightarrow>
             (case parse_zone rest of
                Some off \<Rightarrow> Some ((days * 86400 + secs - off) * 1000000000 + nanos)
              | None \<Rightarrow> None))
      | _ \<Rightarrow> None)"

definition format_rfc3339 :: "time \<Rightarrow> string" where
  "format_rfc3339 t =
     (let secs = t div 1000000000; days = secs div 86400; sod = secs mod 86400 in
      case civil_from_days days of (y, m, d) \<Rightarrow>
        pad_digits 4 (nat y) @ ''-'' @ pad_digits 2 (nat m) @ ''-'' @ pad_digits 2 (nat d) @ ''T'' @
        pad_digits 2 (nat (sod div 3600)) @ '':'' @ pad_digits 2 (nat (sod div 60 mod 60)) @ '':'' @
        pad_digits 2 (nat (sod mod 60)) @ ''Z'')"

lemma parse_rfc3339_examples:
  "parse_rfc3339 ''1970-01-01T00:00:01Z'' = Some 1000000000"
  "parse_rfc3339 ''2024-02-29T23:59:59.5+08:00'' = Some 1709222399500000000"
  "parse_rfc3339 ''2023-02-29T00:00:00Z'' = None"
  "parse_rfc3339 ''2024-01-01'' = None"
  "parse_rfc3339 ''0001-01-01T00:00:00Z'' = Some zero_time"
  "format_rfc3339 1709222399500000000 = ''2024-02-29T15:59:59Z''"
  by code_simp+

end
