(* ===== verification/Pitr_Handler.thy ===== *)
theory Pitr_Handler
  imports Pitr_Stream Time_Format
begin

text \<open>
  \<open>internal/server/pitr\<close> (\<open>handler.go\<close>): the HTTP handlers. A handler takes the authenticated caller and the
  decoded body (\<open>None\<close> when it does not decode) and returns the response and the world. Error
  bodies hold the error value instead of its text.
\<close>

subsection \<open>Requests and responses\<close>

record http_req =
  rq_UserID :: string
  rq_Email :: string
  rq_OpID :: string

record startRequest =
  st_AgentID :: string
  st_Type :: string
  st_Mode :: string
  st_Filter :: ScanFilter
  st_MaxPreview :: int

record statusResponse =
  sp_Op :: Operation
  sp_PreviewTruncated :: bool
  sp_CheckpointDone :: int
  sp_CheckpointTotal :: int

record operationView =
  ov_Op :: Operation
  ov_Filter :: ScanFilter
  ov_AgentConnected :: bool

datatype http_body =
    BError err
  | BState string OperationState
  | BStatus statusResponse
  | BTransactions string OperationState "(txMetaWire \<times> StatementWire list) list" bool
  | BSelected string OperationState "string list" nat
  | BRescan string OperationState "string list"
  | BExecuted string OperationState nat
  | BOperations "operationView list"
  | BStream "StreamEvent option"

record http_resp =
  ht_Status :: nat
  ht_Body :: http_body

definition http_error :: "nat \<Rightarrow> err \<Rightarrow> http_resp" where
  "http_error st e = \<lparr>ht_Status = st, ht_Body = BError e\<rparr>"

definition http_msg :: "nat \<Rightarrow> string \<Rightarrow> http_resp" where
  "http_msg st m = http_error st (Err m [])"

definition http_ok :: "nat \<Rightarrow> http_body \<Rightarrow> http_resp" where
  "http_ok st b = \<lparr>ht_Status = st, ht_Body = b\<rparr>"

definition concurrent_change :: http_resp where
  "concurrent_change = http_msg 409 ''operation state changed concurrently -- reload and retry''"

subsection \<open>Authorization\<close>

definition orgMemberContains :: "Member list \<Rightarrow> string \<Rightarrow> bool" where
  "orgMemberContains members userID = list_ex (\<lambda>m. mb_UserID m = userID) members"

definition on_orgs :: "(org_db \<Rightarrow> 'a \<times> org_db) \<Rightarrow> pworld \<Rightarrow> 'a \<times> pworld" where
  "on_orgs f w = (case f (w_orgs w) of (r, db) \<Rightarrow> (r, w\<lparr>w_orgs := db\<rparr>))"

definition on_agents :: "(agent_db \<Rightarrow> 'a \<times> agent_db) \<Rightarrow> pworld \<Rightarrow> 'a \<times> pworld" where
  "on_agents f w = (case f (w_agents w) of (r, db) \<Rightarrow> (r, w\<lparr>w_agents := db\<rparr>))"

definition authorizeOp :: "gtid_lib \<Rightarrow> http_req \<Rightarrow> pworld \<Rightarrow> (http_resp + Operation) \<times> pworld" where
  "authorizeOp G rq w =
     (if rq_UserID rq = [] then (Inl (http_msg 401 ''not authenticated''), w)
      else if rq_OpID rq = [] then (Inl (http_msg 400 ''missing operation id''), w)
      else (case on_db (store_Get G (rq_OpID rq)) w of
              (Inl e, w1) \<Rightarrow> (Inl (http_error 404 e), w1)
            | (Inr op, w1) \<Rightarrow>
                (case on_orgs (sql_ListMembers (op_OrgID op)) w1 of
                   (Inl _, w2) \<Rightarrow> (Inl (http_msg 404 ''organisation not found''), w2)
                 | (Inr members, w2) \<Rightarrow>
                     (if \<not> orgMemberContains members (rq_UserID rq)
                      then (Inl (http_msg 403 ''not a member of this organisation''), w2)
                      else (Inr op, w2)))))"

definition sendCommand :: "pitr_env \<Rightarrow> string \<Rightarrow> Command \<Rightarrow> pworld \<Rightarrow> (err + Response option) \<times> pworld" where
  "sendCommand E agentID cmd w =
     (case pe_commander E of
        None \<Rightarrow> (Inl (Err ''pitr: agent command channel not configured'' []), w)
      | Some send \<Rightarrow> send agentID cmd w)"

definition agentConnected :: "pitr_env \<Rightarrow> string \<Rightarrow> pworld \<Rightarrow> bool" where
  "agentConnected E agentID w = (pe_commander E \<noteq> None \<and> w_connected w agentID)"

text \<open>The error of a response with status \<open>error\<close>.\<close>

definition rejected :: "Response option \<Rightarrow> string option" where
  "rejected resp =
     (case resp of
        None \<Rightarrow> None
      | Some r \<Rightarrow> if rs_Status r = StatusError then Some (rs_Error r) else None)"

subsection \<open>Filters\<close>

definition parse_or_zero :: "string \<Rightarrow> time" where
  "parse_or_zero s = (case parse_rfc3339 s of None \<Rightarrow> zero_time | Some t \<Rightarrow> t)"

definition scanFilterToBinlog :: "gtid_lib \<Rightarrow> ScanFilter \<Rightarrow> Filter" where
  "scanFilterToBinlog G f =
     \<lparr>f_BinlogDir = [],
      f_Tables = map (\<lambda>t. \<lparr>tr_Schema = wj_Schema t, tr_Table = wj_Table t\<rparr>) (sf_Tables f),
      f_TimeRange =
        (if sf_TimeStart f \<noteq> [] \<or> sf_TimeEnd f \<noteq> []
         then Some \<lparr>tr_Start = (if sf_TimeStart f \<noteq> [] then parse_or_zero (sf_TimeStart f) else zero_time),
                    tr_End = (if sf_TimeEnd f \<noteq> [] then parse_or_zero (sf_TimeEnd f) else zero_time)\<rparr>
         else None),
      f_GTIDSet = (if sf_GTIDSet f \<noteq> [] then lib_ParseGTIDSet G ''mysql'' (sf_GTIDSet f) else None),
      f_StartPos = (if sf_StartFile f \<noteq> [] then \<lparr>pos_Name = sf_StartFile f, pos_Pos = sf_StartPos f\<rparr> else zero_pos),
      f_EndPos = (if sf_EndFile f \<noteq> [] then \<lparr>pos_Name = sf_EndFile f, pos_Pos = sf_EndPos f\<rparr> else zero_pos),
      f_MaxRowsPerTx = (if sf_MaxRowsPerTx f > 0 then sf_MaxRowsPerTx f else 0),
      f_SelectedTxIDs = sf_SelectedTxIDs f\<rparr>"

definition binlogFilterToWire :: "Filter \<Rightarrow> ScanFilter" where
  "binlogFilterToWire f =
     \<lparr>sf_Tables = map (\<lambda>t. \<lparr>wj_Schema = tr_Schema t, wj_Table = tr_Table t\<rparr>) (f_Tables f),
      sf_TimeStart = (case f_TimeRange f of None \<Rightarrow> []
         | Some tr \<Rightarrow> if \<not> time_is_zero (tr_Start tr) then format_rfc3339 (tr_Start tr) else []),
      sf_TimeEnd = (case f_TimeRange f of None \<Rightarrow> []
         | Some tr \<Rightarrow> if \<not> time_is_zero (tr_End tr) then format_rfc3339 (tr_End tr) else []),
      sf_GTIDSet = (case f_GTIDSet f of None \<Rightarrow> [] | Some g \<Rightarrow> gtid_text g),
      sf_StartFile = pos_Name (f_StartPos f),
      sf_StartPos = (if pos_Name (f_StartPos f) \<noteq> [] then pos_Pos (f_StartPos f) else 0),
      sf_EndFile = pos_Name (f_EndPos f),
      sf_EndPos = (if pos_Name (f_EndPos f) \<noteq> [] then pos_Pos (f_EndPos f) else 0),
      sf_MaxRowsPerTx = f_MaxRowsPerTx f,
      sf_SelectedTxIDs = f_SelectedTxIDs f\<rparr>"

definition maxRowsPerTxCap :: int where
  "maxRowsPerTxCap = 1000000"

definition validateScanFilter :: "gtid_lib \<Rightarrow> ScanFilter \<Rightarrow> err option" where
  "validateScanFilter G f =
     (if sf_TimeStart f \<noteq> [] \<and> parse_rfc3339 (sf_TimeStart f) = None
      then Some (Err ''invalid filter.timeStart %q: expected RFC3339'' [sf_TimeStart f])
      else if sf_TimeEnd f \<noteq> [] \<and> parse_rfc3339 (sf_TimeEnd f) = None
      then Some (Err ''invalid filter.timeEnd %q: expected RFC3339'' [sf_TimeEnd f])
      else if sf_GTIDSet f \<noteq> [] \<and> lib_ParseGTIDSet G ''mysql'' (sf_GTIDSet f) = None \<and>
              lib_ParseGTIDSet G ''mariadb'' (sf_GTIDSet f) = None
      then Some (Err ''invalid filter.gtidSet %q'' [sf_GTIDSet f])
      else if sf_MaxRowsPerTx f > maxRowsPerTxCap
      then Some (Err ''filter.maxRowsPerTx %d exceeds the maximum %d'' [show_int (sf_MaxRowsPerTx f), show_int maxRowsPerTxCap])
      else None)"

text \<open>\<open>tablesOfSelected\<close>: each table of a selected transaction once, in the order first seen.\<close>

fun add_tables :: "TableRefJSON list \<Rightarrow> TableRef list \<Rightarrow> TableRef list" where
  "add_tables [] out = out"
| "add_tables (t # ts) out =
     (let ref = \<lparr>tr_Schema = wj_Schema t, tr_Table = wj_Table t\<rparr> in
      add_tables ts (if ref \<in> set out then out else out @ [ref]))"

fun tables_loop :: "txMetaWire list \<Rightarrow> string list \<Rightarrow> TableRef list \<Rightarrow> TableRef list" where
  "tables_loop [] txIDs out = out"
| "tables_loop (m # ms) txIDs out =
     (if tm_w_TxID m \<notin> set txIDs then tables_loop ms txIDs out
      else tables_loop ms txIDs (add_tables (tm_w_Tables m) out))"

definition tablesOfSelected :: "txMetaWire list \<Rightarrow> string list \<Rightarrow> TableRef list" where
  "tablesOfSelected metas txIDs = tables_loop metas txIDs []"

definition statementsToWire :: "OpStatement list \<Rightarrow> StatementWire list" where
  "statementsToWire stmts =
     map (\<lambda>s. \<lparr>sw_SQL = ost_SQL s, sw_TxID = ost_TxID s, sw_TxOrder = ost_TxOrder s, sw_Warnings = ost_Warnings s\<rparr>) stmts"

subsection \<open>Reading\<close>

definition in_list_range :: "string \<Rightarrow> string \<Rightarrow> Operation \<Rightarrow> bool" where
  "in_list_range fromStr toStr op =
     (\<not> (fromStr \<noteq> [] \<and> (case parse_rfc3339 fromStr of None \<Rightarrow> False | Some t \<Rightarrow> op_CreatedAt op < t)) \<and>
      \<not> (toStr \<noteq> [] \<and> (case parse_rfc3339 toStr of None \<Rightarrow> False | Some t \<Rightarrow> op_CreatedAt op > t)))"

definition List_ops :: "pitr_env \<Rightarrow> http_req \<Rightarrow> string \<Rightarrow> string \<Rightarrow> string \<Rightarrow> pworld \<Rightarrow> http_resp \<times> pworld" where
  "List_ops E rq orgID fromStr toStr w =
     (if rq_UserID rq = [] then (http_msg 401 ''not authenticated'', w)
      else if orgID = [] then (http_msg 400 ''org_id query parameter is required'', w)
      else (case on_orgs (sql_ListMembers orgID) w of
              (Inl _, w1) \<Rightarrow> (http_msg 404 ''organisation not found'', w1)
            | (Inr members, w1) \<Rightarrow>
                (if \<not> orgMemberContains members (rq_UserID rq)
                 then (http_msg 403 ''not a member of this organisation'', w1)
                 else (case on_db (store_ListByOrg (pe_gtid E) orgID) w1 of
                         (Inl e, w2) \<Rightarrow> (http_error 500 e, w2)
                       | (Inr ops, w2) \<Rightarrow>
                           (http_ok 200 (BOperations
                              (map (\<lambda>op. \<lparr>ov_Op = op, ov_Filter = binlogFilterToWire (op_Filter op),
                                          ov_AgentConnected = agentConnected E (op_AgentID op) w2\<rparr>)
                                 (filter (in_list_range fromStr toStr) ops))), w2)))))"

definition Status :: "pitr_env \<Rightarrow> http_req \<Rightarrow> pworld \<Rightarrow> http_resp \<times> pworld" where
  "Status E rq w =
     (case authorizeOp (pe_gtid E) rq w of
        (Inl r, w1) \<Rightarrow> (r, w1)
      | (Inr op, w1) \<Rightarrow>
          (let resp = \<lparr>sp_Op = op, sp_PreviewTruncated = previewTruncated (op_ID op) w1,
                       sp_CheckpointDone = 0, sp_CheckpointTotal = 0\<rparr> in
           if IsTerminal (op_Status op)
           then (case on_db (store_LoadCheckpoint (op_ID op)) w1 of
                   (Inr (Some (lastStmt, tot, _)), w2) \<Rightarrow>
                     (http_ok 200 (BStatus (resp\<lparr>sp_CheckpointDone := lastStmt, sp_CheckpointTotal := tot\<rparr>)), w2)
                 | (_, w2) \<Rightarrow> (http_ok 200 (BStatus resp), w2))
           else (http_ok 200 (BStatus resp), w1)))"

definition Transactions :: "pitr_env \<Rightarrow> http_req \<Rightarrow> pworld \<Rightarrow> http_resp \<times> pworld" where
  "Transactions E rq w =
     (case authorizeOp (pe_gtid E) rq w of
        (Inl r, w1) \<Rightarrow> (r, w1)
      | (Inr op, w1) \<Rightarrow>
          (case snapshot (op_ID op) w1 of
             None \<Rightarrow> (http_ok 200 (BTransactions (op_ID op) (op_Status op) [] False), w1)
           | Some snap \<Rightarrow>
               (http_ok 200 (BTransactions (op_ID op) (op_Status op)
                  (map (\<lambda>m. (m, sql_of snap (tm_w_TxID m))) (pv_metas snap)) (pv_truncated snap)), w1)))"

subsection \<open>Starting\<close>

definition start_types :: "string list" where
  "start_types = [''flashback'', ''update_rollback'', ''pitr'', ''tx_rollback'']"

definition start_modes :: "string list" where
  "start_modes = [''meta'', ''sql'', ''selected'']"

text \<open>From the created record on: preview slot, \<open>scanning\<close>, the command, its answer.\<close>

definition start_scan :: "pitr_env \<Rightarrow> startRequest \<Rightarrow> Operation \<Rightarrow> pworld \<Rightarrow> http_resp \<times> pworld" where
  "start_scan E req op0 w =
     (let w1 = put_preview (op_ID op0) ((previewFor (op_ID op0) w)\<lparr>pv_maxEntries := previewCap (st_MaxPreview req)\<rparr>) w in
      case transitionTo op0 StateScanning w1 of
        (Inl e, _, w2) \<Rightarrow> (http_error 500 e, w2)
      | (Inr ok, op, w2) \<Rightarrow>
          (if \<not> ok then (concurrent_change, w2)
           else if \<not> agentConnected E (st_AgentID req) w2
           then (http_msg 409 ''agent is offline -- start it with `mysql-pitr-agent serve` first'',
                 snd (snd (transitionTo op StateBlocked w2)))
           else (case sendCommand E (op_AgentID op)
                        \<lparr>cm_Cmd = op_ID op, cm_Type = CmdScan,
                         cm_Params = PScan \<lparr>sr_Filter = st_Filter req, sr_Mode = st_Mode req,
                                            sr_MaxPreview = st_MaxPreview req\<rparr>\<rparr> w2 of
                   (Inl e, w3) \<Rightarrow> (http_error 502 (Wrap ''start scan: %v'' [] e), failOperation op (pe_error_text E e) w3)
                 | (Inr resp, w3) \<Rightarrow>
                     (case rejected resp of
                        Some msg \<Rightarrow> (http_error 502 (Err ''agent rejected scan: %s'' [msg]), failOperation op msg w3)
                      | None \<Rightarrow> (http_ok 201 (BState (op_ID op) (op_Status op)), w3)))))"

text \<open>From the validated request on: agent, membership, approval, the record.\<close>

definition start_validated :: "pitr_env \<Rightarrow> http_req \<Rightarrow> startRequest \<Rightarrow> pworld \<Rightarrow> http_resp \<times> pworld" where
  "start_validated E rq req w =
     (case on_agents (sql_agent_Get (st_AgentID req)) w of
        (Inl _, w1) \<Rightarrow> (http_msg 404 ''agent not found'', w1)
      | (Inr agt, w1) \<Rightarrow>
          (case on_orgs (sql_ListMembers (ar_OrgID agt)) w1 of
             (Inl _, w2) \<Rightarrow> (http_msg 404 ''organisation not found'', w2)
           | (Inr members, w2) \<Rightarrow>
               (if \<not> orgMemberContains members (rq_UserID rq)
                then (http_msg 403 ''not a member of the agent's organisation'', w2)
                else if \<not> ar_Approved agt then (http_msg 409 ''agent is not approved'', w2)
                else (case on_db (store_Create (w_now w2) (w_rnd w2)
                             \<lparr>op_ID = [], op_OrgID = ar_OrgID agt, op_AgentID = st_AgentID req,
                              op_Type = st_Type req, op_Mode = st_Mode req,
                              op_Filter = scanFilterToBinlog (pe_gtid E) (st_Filter req),
                              op_Status = StateCreated, op_CreatedBy = rq_UserID rq,
                              op_CreatedAt = zero_time, op_UpdatedAt = zero_time,
                              op_SelectedTxIDs = [], op_TargetTables = []\<rparr>) w2 of
                        (Inl e, w3) \<Rightarrow> (http_error 500 e, w3)
                      | (Inr op, w3) \<Rightarrow> start_scan E req op w3))))"

definition Start :: "pitr_env \<Rightarrow> http_req \<Rightarrow> startRequest option \<Rightarrow> pworld \<Rightarrow> http_resp \<times> pworld" where
  "Start E rq body w =
     (if rq_UserID rq = [] then (http_msg 401 ''not authenticated'', w)
      else case body of
        None \<Rightarrow> (http_msg 400 ''invalid request body'', w)
      | Some req0 \<Rightarrow>
          (if st_AgentID req0 = [] then (http_msg 400 ''agentId is required'', w)
           else let req1 = (if st_Type req0 = [] then req0\<lparr>st_Type := ''pitr''\<rparr> else req0) in
           if st_Type req1 \<notin> set start_types
           then (http_msg 400 ''type must be one of flashback, update_rollback, pitr, or tx_rollback'', w)
           else if st_Mode req1 \<notin> set start_modes
           then (http_msg 400 ''mode must be one of meta, sql, or selected'', w)
           else case validateScanFilter (pe_gtid E) (st_Filter req1) of
             Some e \<Rightarrow> (http_error 400 e, w)
           | None \<Rightarrow>
               start_validated E rq
                 (if sf_MaxRowsPerTx (st_Filter req1) < 0
                  then req1\<lparr>st_Filter := (st_Filter req1)\<lparr>sf_MaxRowsPerTx := 0\<rparr>\<rparr> else req1) w))"

end
