(* ===== verification/Pitr_Actions.thy ===== *)
theory Pitr_Actions
  imports Pitr_Handler
begin

text \<open>
  \<open>internal/server/pitr\<close> (\<open>handler.go\<close>): the handlers that move an operation after its scan - select,
  execute, resume, pause, cancel - and the server-sent event stream.
\<close>

subsection \<open>Select\<close>

definition unknown_ids :: "opPreview \<Rightarrow> string list \<Rightarrow> string list" where
  "unknown_ids snap txIDs = filter (\<lambda>i. txIndex 0 (pv_metas snap) i = None) txIDs"

text \<open>The statements in the requested order with a global counter; the first transaction without SQL ends it.\<close>

fun select_stmts :: "opPreview \<Rightarrow> string list \<Rightarrow> nat \<Rightarrow> string + OpStatement list" where
  "select_stmts snap [] k = Inr []"
| "select_stmts snap (i # is) k =
     (if sql_of snap i = [] then Inl i
      else (case select_stmts snap is (k + length (sql_of snap i)) of
              Inl j \<Rightarrow> Inl j
            | Inr rest \<Rightarrow> Inr (mk_stmts (tx_index snap i) k (sql_of snap i) @ rest)))"

text \<open>
  \<open>selectRescan\<close> after the command was accepted: the move to \<open>scanning\<close>, and the check whether the rescan
  was over before it.
\<close>

definition rescan_settle :: "pitr_env \<Rightarrow> Operation \<Rightarrow> pworld \<Rightarrow> OperationState \<times> pworld" where
  "rescan_settle E op w =
     (case on_db (store_Get (pe_gtid E) (op_ID op)) w of
        (Inl _, w1) \<Rightarrow> (op_Status op, w1)
      | (Inr cur, w1) \<Rightarrow>
          (if op_Status cur \<noteq> StateScanning then (op_Status cur, w1)
           else (case on_db (store_LoadStatements (op_ID op)) w1 of
                   (Inl _, w2) \<Rightarrow> (op_Status op, w2)
                 | (Inr stmts, w2) \<Rightarrow>
                     (if stmts = [] then (op_Status op, w2)
                      else (case transitionTo op StateReady w2 of
                              (r, op1, w3) \<Rightarrow>
                                (if r = Inr True then (op_Status op1, w3)
                                 else (case on_db (store_Get (pe_gtid E) (op_ID op)) w3 of
                                         (Inl _, w4) \<Rightarrow> (op_Status op1, w4)
                                       | (Inr cur2, w4) \<Rightarrow> (op_Status cur2, w4))))))))"

definition rescan_finish :: "pitr_env \<Rightarrow> Operation \<Rightarrow> string list \<Rightarrow> pworld \<Rightarrow> http_resp \<times> pworld" where
  "rescan_finish E op txIDs w =
     (case transitionTo op StateScanning w of
        (Inl e, _, w1) \<Rightarrow> (http_error 500 e, w1)
      | (Inr ok, op1, w1) \<Rightarrow>
          (if \<not> ok then (concurrent_change, w1)
           else (case rescan_settle E op1 w1 of
                   (status, w2) \<Rightarrow> (http_ok 200 (BRescan (op_ID op) status txIDs), w2))))"

definition rescan_command :: "Operation \<Rightarrow> string list \<Rightarrow> Command" where
  "rescan_command op txIDs =
     \<lparr>cm_Cmd = op_ID op, cm_Type = CmdScan,
      cm_Params = PScan \<lparr>sr_Filter = (binlogFilterToWire (op_Filter op))\<lparr>sf_SelectedTxIDs := txIDs\<rparr>,
                         sr_Mode = ''selected'', sr_MaxPreview = 0\<rparr>\<rparr>"

text \<open>\<open>selectRescan\<close> from the write of the selection on; \<open>op\<close> is the snapshot read at the start of the request.\<close>

definition rescan_persist :: "pitr_env \<Rightarrow> Operation \<Rightarrow> string list \<Rightarrow> pworld \<Rightarrow> http_resp \<times> pworld" where
  "rescan_persist E op txIDs w =
     (case on_db (store_Update (w_now w) op) w of
        (Inl e, w1) \<Rightarrow> (http_error 500 e, w1)
      | (Inr _, w1) \<Rightarrow>
          (case on_db (store_SaveStatements (op_ID op) []) w1 of
             (Inl e, w2) \<Rightarrow> (http_error 500 e, w2)
           | (Inr _, w2) \<Rightarrow>
               (case sendCommand E (op_AgentID op) (rescan_command op txIDs) w2 of
                  (Inl e, w3) \<Rightarrow> (http_error 502 (Wrap ''send rescan: %v'' [] e), w3)
                | (Inr resp, w3) \<Rightarrow>
                    (case rejected resp of
                       Some msg \<Rightarrow> (http_error 502 (Err ''agent rejected rescan: %s'' [msg]), w3)
                     | None \<Rightarrow> rescan_finish E op txIDs w3))))"

definition selectRescan :: "pitr_env \<Rightarrow> Operation \<Rightarrow> string list \<Rightarrow> pworld \<Rightarrow> http_resp \<times> pworld" where
  "selectRescan E op0 txIDs w =
     (case snapshot (op_ID op0) w of
        None \<Rightarrow> (http_msg 409 ''no scan preview available for this operation'', w)
      | Some snap \<Rightarrow>
          (if unknown_ids snap txIDs \<noteq> []
           then (http_error 400 (Err ''transaction(s) not in scan preview: %s'' (unknown_ids snap txIDs)), w)
           else rescan_persist E
                  (op0\<lparr>op_SelectedTxIDs := txIDs, op_TargetTables := tablesOfSelected (pv_metas snap) txIDs,
                       op_UpdatedAt := w_now w\<rparr>) txIDs w))"

definition select_persist :: "Operation \<Rightarrow> string list \<Rightarrow> pworld \<Rightarrow> http_resp \<times> pworld" where
  "select_persist op txIDs w =
     (case snapshot (op_ID op) w of
        None \<Rightarrow> (http_msg 409 ''no scan preview available for this operation'', w)
      | Some snap \<Rightarrow>
          (if unknown_ids snap txIDs \<noteq> []
           then (http_error 400 (Err ''transaction(s) not in scan preview: %s'' (unknown_ids snap txIDs)), w)
           else (case select_stmts snap txIDs 0 of
                   Inl i \<Rightarrow>
                     (http_error 409 (Err ''no SQL statements available for transaction %s (scan produced metadata only)'' [i]), w)
                 | Inr stmts \<Rightarrow>
                     (case on_db (store_SaveStatementsAndSelect (w_now w) (op_ID op) stmts txIDs
                                    (tablesOfSelected (pv_metas snap) txIDs)) w of
                        (Inl e, w1) \<Rightarrow> (http_error 500 e, w1)
                      | (Inr _, w1) \<Rightarrow> (http_ok 200 (BSelected (op_ID op) (op_Status op) txIDs (length stmts)), w1)))))"

definition SelectOp :: "pitr_env \<Rightarrow> http_req \<Rightarrow> string list option \<Rightarrow> pworld \<Rightarrow> http_resp \<times> pworld" where
  "SelectOp E rq body w =
     (case authorizeOp (pe_gtid E) rq w of
        (Inl r, w1) \<Rightarrow> (r, w1)
      | (Inr op, w1) \<Rightarrow>
          (case body of
             None \<Rightarrow> (http_msg 400 ''invalid request body'', w1)
           | Some txIDs \<Rightarrow>
               (if txIDs = [] then (http_msg 400 ''txIds is required'', w1)
                else if op_Status op \<noteq> StateReady
                then (http_error 409 (Err ''operation must be in state \"ready\" to select transactions (current state %q)''
                        [state_string (op_Status op)]), w1)
                else if op_Mode op = ''selected'' then selectRescan E op txIDs w1
                else select_persist op txIDs w1)))"

subsection \<open>Execute and resume\<close>

definition execute_command :: "Operation \<Rightarrow> OpStatement list \<Rightarrow> int \<Rightarrow> string \<Rightarrow> Command" where
  "execute_command op stmts batchSize cmdType =
     \<lparr>cm_Cmd = op_ID op, cm_Type = cmdType,
      cm_Params = PExecute \<lparr>er_OperationID = op_ID op, er_Statements = statementsToWire stmts, er_BatchSize = batchSize\<rparr>\<rparr>"

definition sendExecute ::
  "pitr_env \<Rightarrow> Operation \<Rightarrow> int \<Rightarrow> string \<Rightarrow> OperationState \<Rightarrow> pworld \<Rightarrow> http_resp \<times> pworld" where
  "sendExecute E op batchSize cmdType to_s w =
     (case on_db (store_LoadStatements (op_ID op)) w of
        (Inl e, w1) \<Rightarrow> (http_error 500 e, w1)
      | (Inr stmts, w1) \<Rightarrow>
          (if stmts = [] then (http_msg 409 ''no selected statements to execute -- select transactions first'', w1)
           else (case sendCommand E (op_AgentID op) (execute_command op stmts batchSize cmdType) w1 of
                   (Inl e, w2) \<Rightarrow> (http_error 502 (Wrap ''send execute: %v'' [] e), failOperation op (pe_error_text E e) w2)
                 | (Inr resp, w2) \<Rightarrow>
                     (case rejected resp of
                        Some msg \<Rightarrow> (http_error 502 (Err ''agent rejected execute: %s'' [msg]), failOperation op msg w2)
                      | None \<Rightarrow>
                          (case transitionTo op to_s w2 of
                             (Inl e, _, w3) \<Rightarrow> (http_error 409 e, w3)
                           | (Inr ok, op1, w3) \<Rightarrow>
                               (if \<not> ok then (concurrent_change, w3)
                                else (http_ok 200 (BExecuted (op_ID op1) (op_Status op1) (length stmts)), w3)))))))"

text \<open>The body of \<open>Execute\<close>: \<open>None\<close> when it does not decode; an empty body is batch size 0.\<close>

definition ExecuteOp :: "pitr_env \<Rightarrow> http_req \<Rightarrow> int option \<Rightarrow> pworld \<Rightarrow> http_resp \<times> pworld" where
  "ExecuteOp E rq body w =
     (case authorizeOp (pe_gtid E) rq w of
        (Inl r, w1) \<Rightarrow> (r, w1)
      | (Inr op, w1) \<Rightarrow>
          (if op_Status op \<noteq> StateReady
           then (http_error 409 (Err ''operation must be in state \"ready\" to execute (current state %q)''
                   [state_string (op_Status op)]), w1)
           else (case body of
                   None \<Rightarrow> (http_msg 400 ''invalid request body'', w1)
                 | Some batchSize \<Rightarrow> sendExecute E op batchSize CmdExecute StateExecuting w1)))"

definition ResumeOp :: "pitr_env \<Rightarrow> http_req \<Rightarrow> pworld \<Rightarrow> http_resp \<times> pworld" where
  "ResumeOp E rq w =
     (case authorizeOp (pe_gtid E) rq w of
        (Inl r, w1) \<Rightarrow> (r, w1)
      | (Inr op, w1) \<Rightarrow>
          (if op_Status op \<noteq> StatePaused
           then (http_error 409 (Err ''only paused operations can be resumed (current state %q)''
                   [state_string (op_Status op)]), w1)
           else sendExecute E op 0 CmdResume StateExecuting w1))"

subsection \<open>Pause and cancel\<close>

definition cancel_command :: "Operation \<Rightarrow> Command" where
  "cancel_command op = \<lparr>cm_Cmd = op_ID op, cm_Type = CmdCancel, cm_Params = PCancel (op_ID op)\<rparr>"

definition PauseOp :: "pitr_env \<Rightarrow> http_req \<Rightarrow> pworld \<Rightarrow> http_resp \<times> pworld" where
  "PauseOp E rq w =
     (case authorizeOp (pe_gtid E) rq w of
        (Inl r, w1) \<Rightarrow> (r, w1)
      | (Inr op, w1) \<Rightarrow>
          (if op_Status op \<noteq> StateExecuting
           then (http_error 409 (Err ''only executing operations can be paused (current state %q)''
                   [state_string (op_Status op)]), w1)
           else (case sendCommand E (op_AgentID op) (cancel_command op) w1 of
                   (Inl e, w2) \<Rightarrow> (http_error 502 (Wrap ''send pause: %v'' [] e), w2)
                 | (Inr resp, w2) \<Rightarrow>
                     (case rejected resp of
                        Some msg \<Rightarrow> (http_error 502 (Err ''agent rejected pause: %s'' [msg]), failOperation op msg w2)
                      | None \<Rightarrow>
                          (case transitionTo op StatePaused w2 of
                             (Inl e, _, w3) \<Rightarrow> (http_error 409 e, w3)
                           | (Inr ok, op1, w3) \<Rightarrow>
                               (if \<not> ok then (concurrent_change, w3)
                                else (http_ok 200 (BState (op_ID op1) (op_Status op1)), w3)))))))"

definition CancelOp :: "pitr_env \<Rightarrow> http_req \<Rightarrow> pworld \<Rightarrow> http_resp \<times> pworld" where
  "CancelOp E rq w =
     (case authorizeOp (pe_gtid E) rq w of
        (Inl r, w1) \<Rightarrow> (r, w1)
      | (Inr op, w1) \<Rightarrow>
          (if \<not> TransitionValid (op_Status op) StateCancelled
           then (http_error 409 (Err ''cannot cancel operation in state %q'' [state_string (op_Status op)]), w1)
           else (case sendCommand E (op_AgentID op) (cancel_command op) w1 of
                   (_, w2) \<Rightarrow>
                     (case transitionTo op StateCancelled w2 of
                        (Inl e, _, w3) \<Rightarrow> (http_error 500 e, w3)
                      | (Inr ok, op1, w3) \<Rightarrow>
                          (if \<not> ok then (concurrent_change, w3)
                           else (http_ok 200 (BState (op_ID op1) (op_Status op1)),
                                 appendAudit op1 StateCancelled (rq_Email rq) [] 0 (forgetPreview (op_ID op1) w3)))))))"

subsection \<open>Server-sent events\<close>

definition isTerminalKind :: "string \<Rightarrow> bool" where
  "isTerminalKind kind = (kind = EvOpDone \<or> kind = EvOpError)"

definition syntheticTerminalEvent :: "Operation \<Rightarrow> pworld \<Rightarrow> StreamEvent \<times> pworld" where
  "syntheticTerminalEvent op w =
     (let kind = (if op_Status op \<in> {StateFailed, StateBlocked} then EvOpError else EvOpDone) in
      case on_db (store_LoadCheckpoint (op_ID op)) w of
        (Inr (Some (lastStmt, tot, _)), w1) \<Rightarrow>
          (\<lparr>sv_ID = op_ID op, sv_Kind = kind, sv_Data = DStatus (state_string (op_Status op)) (Some (lastStmt, tot))\<rparr>, w1)
      | (_, w1) \<Rightarrow>
          (\<lparr>sv_ID = op_ID op, sv_Kind = kind, sv_Data = DStatus (state_string (op_Status op)) None\<rparr>, w1))"

text \<open>
  The loop of \<open>Events\<close>. What wakes the \<open>select\<close>, and what the rest of the server did before that, are inputs:
  a schedule. \<open>Wake_recv\<close> only fires with an event buffered; the frames written so far accumulate.
\<close>

datatype sse_wake = Wake_recv | Wake_tick | Wake_gone

fun sse_loop ::
  "gtid_lib \<Rightarrow> string \<Rightarrow> nat \<Rightarrow> ((pworld \<Rightarrow> pworld) \<times> sse_wake) list \<Rightarrow> StreamEvent list \<Rightarrow> pworld \<Rightarrow>
     StreamEvent list \<times> pworld" where
  "sse_loop G i ch [] frames w = (frames, w)"
| "sse_loop G i ch ((others, wake) # rest) frames w0 =
     (let w = others w0 in
      case wake of
        Wake_gone \<Rightarrow> (frames, w\<lparr>w_bus := bus_Unsubscribe i ch (w_bus w)\<rparr>)
      | Wake_recv \<Rightarrow>
          (case bus_recv i ch (w_bus w) of
             (None, _) \<Rightarrow> sse_loop G i ch rest frames w
           | (Some ev, b) \<Rightarrow>
               (let w1 = w\<lparr>w_bus := b\<rparr> in
                if isTerminalKind (sv_Kind ev)
                then (frames @ [ev], w1\<lparr>w_bus := bus_Unsubscribe i ch (w_bus w1)\<rparr>)
                else sse_loop G i ch rest (frames @ [ev]) w1))
      | Wake_tick \<Rightarrow>
          (case on_db (store_Get G i) w of
             (Inl _, w1) \<Rightarrow> sse_loop G i ch rest frames w1
           | (Inr cur, w1) \<Rightarrow>
               (if IsTerminal (op_Status cur)
                then (case syntheticTerminalEvent cur w1 of
                        (ev, w2) \<Rightarrow> (frames @ [ev], w2\<lparr>w_bus := bus_Unsubscribe i ch (w_bus w2)\<rparr>))
                else sse_loop G i ch rest frames w1)))"

definition Events ::
  "pitr_env \<Rightarrow> http_req \<Rightarrow> ((pworld \<Rightarrow> pworld) \<times> sse_wake) list \<Rightarrow> pworld \<Rightarrow> (http_resp + StreamEvent list) \<times> pworld" where
  "Events E rq schedule w =
     (case authorizeOp (pe_gtid E) rq w of
        (Inl r, w1) \<Rightarrow> (Inl r, w1)
      | (Inr op, w1) \<Rightarrow>
          (if IsTerminal (op_Status op)
           then (case syntheticTerminalEvent op w1 of (ev, w2) \<Rightarrow> (Inr [ev], w2))
           else (case bus_Subscribe (op_ID op) (w_bus w1) of
                   (ch, b) \<Rightarrow>
                     (case sse_loop (pe_gtid E) (op_ID op) ch schedule [] (w1\<lparr>w_bus := b\<rparr>) of
                        (frames, w2) \<Rightarrow> (Inr frames, w2)))))"

end
