(* ===== verification/Pitr_Legal.thy ===== *)
theory Pitr_Legal
  imports Pitr_Actions
begin

text \<open>
  The server against its state machine: every handler and every stream event moves the persisted status of
  every operation along \<open>op_move\<close> only. \<open>legal w w'\<close> is the preorder that says so; one lemma per store call
  and per handler, composed by transitivity.
\<close>

definition legal :: "pworld \<Rightarrow> pworld \<Rightarrow> bool" where
  "legal w w' \<longleftrightarrow> (w_ok w \<longrightarrow> w_ok w' \<and>
     (\<forall>i s. w_status w i = Some s \<longrightarrow> (\<exists>t. w_status w' i = Some t \<and> op_move\<^sup>*\<^sup>* s t)))"

lemma legal_refl [simp]: "legal w w"
  by (auto simp: legal_def)

lemma legal_trans [trans]: "legal w1 w2 \<Longrightarrow> legal w2 w3 \<Longrightarrow> legal w1 w3"
  unfolding legal_def by (meson rtranclp_trans)

lemma legal_trans3: "legal a b \<Longrightarrow> legal b c \<Longrightarrow> legal c d \<Longrightarrow> legal a d"
  by (rule legal_trans[OF legal_trans])

lemma legal_db: "map (\<lambda>r. (row_ID r, row_Status r)) (pt_ops (q_data (w_db w'))) =
    map (\<lambda>r. (row_ID r, row_Status r)) (pt_ops (q_data (w_db w))) \<Longrightarrow> legal w w'"
proof -
  let ?m = "map (\<lambda>r. (row_ID r, row_Status r))"
  have st: "map_option row_Status (row_of i t) = map_of (?m t) i" for i t
    unfolding row_of_def by (induction t) auto
  have ids: "map row_ID t = map fst (?m t)" for t by simp
  assume "?m (pt_ops (q_data (w_db w'))) = ?m (pt_ops (q_data (w_db w)))"
  then show ?thesis
    by (auto simp: legal_def w_ok_def ids_distinct_def db_status_def status_of_def st ids)
qed

lemma legal_data: "q_data (w_db w') = q_data (w_db w) \<Longrightarrow> legal w w'"
  by (rule legal_db) simp

lemma legal_same [simp]:
  "legal w (publish i ev w)" "legal w (put_preview i p w)" "legal w (forgetPreview i w)"
  "legal w (appendAudit op s a d n w)" "legal w (stageTxMeta i m w)" "legal w (stageSQL i ws w)"
  "legal w (w\<lparr>w_bus := b\<rparr>)" "legal w (w\<lparr>w_orgs := os\<rparr>)" "legal w (w\<lparr>w_agents := as\<rparr>)"
  by (simp_all add: legal_data)

lemma legal_publish: "legal w w' \<Longrightarrow> legal w (publish i ev w')"
  and legal_put_preview: "legal w w' \<Longrightarrow> legal w (put_preview i p w')"
  and legal_forget: "legal w w' \<Longrightarrow> legal w (forgetPreview i w')"
  and legal_audit: "legal w w' \<Longrightarrow> legal w (appendAudit op s a d n w')"
  by (auto intro: legal_trans)

lemmas legal_wrap = legal_publish legal_put_preview legal_forget legal_audit

subsection \<open>Store calls\<close>

lemma legal_read:
  assumes "\<And>db. q_data (snd (f db)) = q_data db" and "on_db f w = (r, w')"
  shows "legal w w'"
  using assms(2) assms(1)[of "w_db w"] by (auto simp: on_db_def intro: legal_data split: prod.splits)

lemma store_reads [simp]:
  "q_data (snd (store_list G P db)) = q_data db" "q_data (snd (store_ListByOrg G o_id db)) = q_data db"
  "q_data (snd (store_ListByStatus G st db)) = q_data db" "q_data (snd (store_LoadStatements i db)) = q_data db"
  by (simp_all add: store_list_def store_ListByOrg_def store_ListByStatus_def store_LoadStatements_def sql_run_data)

lemma store_LoadCheckpoint_data [simp]: "q_data (snd (store_LoadCheckpoint i db)) = q_data db"
  by (auto simp: store_LoadCheckpoint_def sql_run_def split: sum.splits option.splits prod.splits)

lemma on_db_pt_ops:
  assumes "\<And>db. map (\<lambda>r. (row_ID r, row_Status r)) (pt_ops (q_data (snd (f db)))) =
    map (\<lambda>r. (row_ID r, row_Status r)) (pt_ops (q_data db))" and "on_db f w = (r, w')"
  shows "legal w w'"
  using assms(2) assms(1)[of "w_db w"] by (auto simp: on_db_def intro: legal_db split: prod.splits)

lemma SaveStatements_ops [simp]: "pt_ops (q_data (snd (store_SaveStatements i sts db))) = pt_ops (q_data db)"
  by (auto simp: store_SaveStatements_def sql_run_def replace_stmts_def split: sum.splits)

lemma SaveCheckpoint_ops [simp]: "pt_ops (q_data (snd (store_SaveCheckpoint i a b c db))) = pt_ops (q_data db)"
  by (auto simp: store_SaveCheckpoint_def sql_run_def Let_def split: sum.splits prod.splits)

lemma sql_update_statuses:
  "(\<And>r. P r \<Longrightarrow> row_ID (f r) = row_ID r \<and> row_Status (f r) = row_Status r) \<Longrightarrow>
   map (\<lambda>r. (row_ID r, row_Status r)) (sql_update P f t) = map (\<lambda>r. (row_ID r, row_Status r)) t"
  by (auto simp: sql_update_def)

lemma SaveSelect_statuses:
  "map (\<lambda>r. (row_ID r, row_Status r)) (pt_ops (q_data (snd (store_SaveStatementsAndSelect now i sts txs tabs db)))) =
   map (\<lambda>r. (row_ID r, row_Status r)) (pt_ops (q_data db))"
  by (auto simp: store_SaveStatementsAndSelect_def sql_run_def replace_stmts_def sql_update_statuses split: sum.splits)

text \<open>\<open>Update\<close> writes the whole record: it is legal when the snapshot is up to date.\<close>

lemma legal_Update:
  assumes "on_db (store_Update now op) w = (r, w')" and "w_status w (op_ID op) = Some (op_Status op)"
  shows "legal w w'"
proof (cases "w_ok w")
  case True
  have "row_ID (op_row (op\<lparr>op_UpdatedAt := u\<rparr>)) = op_ID op \<and> row_Status (op_row (op\<lparr>op_UpdatedAt := u\<rparr>)) = op_Status op" for u
    by (simp add: op_row_def)
  moreover have "row_ID (op_row op) = op_ID op \<and> row_Status (op_row op) = op_Status op" by (simp add: op_row_def)
  moreover have "row_Status r = op_Status op" if "r \<in> set (pt_ops (q_data (w_db w)))" "row_ID r = op_ID op" for r
    using that True assms(2) row_of_mem[of "pt_ops (q_data (w_db w))" r]
    by (auto simp: w_ok_def ids_distinct_def db_status_def status_of_def)
  ultimately show ?thesis using assms(1)
    by (intro legal_db)
      (auto simp: on_db_def store_Update_def sql_run_def Let_def sql_update_def split: prod.splits if_splits)
qed (simp add: legal_def)

lemma legal_UpdateIfStatus:
  assumes "on_db (store_UpdateIfStatus now op from_s) w = (r, w')" and "op_move from_s (op_Status op)"
  shows "legal w w'"
proof (cases "w_ok w")
  case True
  obtain db' where u: "store_UpdateIfStatus now op from_s (w_db w) = (r, db')" and w': "w' = w\<lparr>w_db := db'\<rparr>"
    using assms(1) by (auto simp: on_db_def split: prod.splits)
  from UpdateIfStatus_cases[OF u] True have "db_status db' = db_status (w_db w) \<or>
      (db_status (w_db w) (op_ID op) = Some from_s \<and> db_status db' = (db_status (w_db w))(op_ID op \<mapsto> op_Status op))"
    by (auto simp: w_ok_def db_status_def)
  moreover have "w_ok w'" using UpdateIfStatus_distinct[OF u] True w' by (simp add: w_ok_def)
  ultimately show ?thesis using assms(2) w' by (auto simp: legal_def)
qed (simp add: legal_def)

lemma legal_transitionTo:
  assumes "transitionTo op to_s w = (r, op', w')"
  shows "legal w w'"
proof (cases "w_ok w")
  case True
  from transitionTo_cases[OF assms True] transitionTo_frame(5)[OF assms True] show ?thesis
    by (auto simp: legal_def db_status_def)
qed (simp add: legal_def)

lemma legal_snd_transitionTo [simp]: "legal w (snd (snd (transitionTo op to_s w)))"
  using legal_transitionTo[of op to_s w] by (metis prod.collapse)

lemma legal_failOperation [simp]: "legal w (failOperation op d w)"
  by (auto simp: failOperation_def intro!: legal_wrap dest: legal_transitionTo split: prod.split sum.split)

lemma legal_blockOperation [simp]: "legal w (blockOperation op d w)"
  by (auto simp: blockOperation_def intro!: legal_wrap dest: legal_transitionTo split: prod.split sum.split)

lemma legal_fold: "(\<And>x w. legal w (f x w)) \<Longrightarrow> legal w (fold f xs w)"
proof (induction xs arbitrary: w)
  case (Cons x xs)
  then show ?case using legal_trans[of w "f x w"] by simp
qed simp

lemma legal_Get: "on_db (store_Get G i) w = (r, w') \<Longrightarrow> legal w w'"
  by (rule legal_read[of "store_Get G i"]) simp

lemma legal_ListByStatus: "on_db (store_ListByStatus G st) w = (r, w') \<Longrightarrow> legal w w'"
  by (rule legal_read[of "store_ListByStatus G st"]) simp

lemma legal_disconnect: "legal w (disconnect_loop G a sts w)"
proof (induction sts arbitrary: w)
  case (Cons st sts)
  obtain r w1 where l: "on_db (store_ListByStatus G st) w = (r, w1)" by fastforce
  have f: "legal w1 (fold (\<lambda>op w. if op_AgentID op \<noteq> a then w else blockOperation op ''agent disconnected'' w) ops w1)" for ops
    by (rule legal_fold) simp
  show ?case
  proof (cases r)
    case (Inl e)
    then show ?thesis using legal_trans[OF legal_ListByStatus[OF l] Cons.IH] legal_ListByStatus[OF l] l by simp
  next
    case (Inr ops)
    then show ?thesis using legal_trans3[OF legal_ListByStatus[OF l] f Cons.IH] l by simp
  qed
qed simp

lemma legal_reconcile: "legal w (snd (reconcile_loop G sts w))"
proof (induction sts arbitrary: w)
  case (Cons st sts)
  obtain r w1 where l: "on_db (store_ListByStatus G st) w = (r, w1)" by fastforce
  have f: "legal w1 (fold (\<lambda>op. blockOperation op d) ops w1)" for ops d
    by (rule legal_fold) simp
  show ?case
  proof (cases r)
    case (Inl e)
    then show ?thesis using legal_trans[OF legal_ListByStatus[OF l] Cons.IH] legal_ListByStatus[OF l] l by simp
  next
    case (Inr ops)
    then show ?thesis using legal_trans3[OF legal_ListByStatus[OF l] f Cons.IH] l by simp
  qed
qed simp

subsection \<open>Stream events\<close>

lemma legal_persistSelected: "legal w w1 \<Longrightarrow> legal w (persistSelectedStatements op w1)"
proof -
  assume w: "legal w w1"
  have "legal w1 (snd (on_db (store_SaveStatements (op_ID op) sts) w1))" for sts
    by (rule on_db_pt_ops[of "store_SaveStatements (op_ID op) sts"]) (simp_all add: prod_eq_iff)
  with w show ?thesis by (auto simp: persistSelectedStatements_def intro: legal_trans split: option.split)
qed

lemma legal_on_progress: "legal w (on_progress i ev w)"
proof -
  have "legal w (snd (on_db (store_SaveCheckpoint i a b c) w))" for a b c
    by (rule on_db_pt_ops[of "store_SaveCheckpoint i a b c"]) (simp_all add: prod_eq_iff)
  then show ?thesis by (auto simp: on_progress_def intro!: legal_wrap split: option.split)
qed

lemma legal_ready_fallback:
  assumes "ready_fallback mid op w = (r, w')" and "op_move StateReady mid"
  shows "legal w w'"
proof (cases "op_Status op = StateReady")
  case True
  let ?op1 = "op\<lparr>op_Status := mid, op_UpdatedAt := w_now w\<rparr>"
  obtain r1 w1 where u: "on_db (store_UpdateIfStatus (w_now w) ?op1 StateReady) w = (r1, w1)" by fastforce
  have "legal w w1" by (rule legal_UpdateIfStatus[OF u]) (use assms(2) in simp)
  then show ?thesis using assms(1) True u by (auto simp: ready_fallback_def Let_def split: sum.splits)
qed (use assms(1) in \<open>simp add: ready_fallback_def\<close>)

lemma legal_on_scan_done: "legal w (on_scan_done op i ev w)"
proof -
  obtain o1 w1 where f: "ready_fallback StateScanning op w = (o1, w1)" by fastforce
  have l1: "legal w w1" by (rule legal_ready_fallback[OF f]) simp
  show ?thesis
  proof (cases o1)
    case (Some op1)
    obtain r op2 w2 where t: "transitionTo op1 StateReady w1 = (r, op2, w2)" using prod_cases3 by blast
    have l2: "legal w w2" by (rule legal_trans[OF l1 legal_transitionTo[OF t]])
    show ?thesis using f Some t l2
      by (auto simp: on_scan_done_def intro!: legal_wrap legal_persistSelected split: sum.split)
  qed (use f l1 in \<open>simp add: on_scan_done_def\<close>)
qed

lemma legal_confirmPause: "legal w (confirmPause op i rep w)"
proof -
  obtain r op2 w2 where t: "transitionTo op StatePaused w = (r, op2, w2)" using prod_cases3 by blast
  show ?thesis using legal_transitionTo[OF t] t
    by (auto simp: confirmPause_def publish_paused_def intro!: legal_wrap split: sum.split OperationState.split)
qed

lemma legal_on_op_done: "legal w (on_op_done op i ev w)"
proof -
  obtain o1 w1 where f: "ready_fallback StateExecuting op w = (o1, w1)" by fastforce
  have l1: "legal w w1" by (rule legal_ready_fallback[OF f]) simp
  show ?thesis
  proof (cases o1)
    case (Some op1)
    obtain r op2 w2 where t: "transitionTo op1 StateDone w1 = (r, op2, w2)" using prod_cases3 by blast
    have l2: "legal w w2" by (rule legal_trans[OF l1 legal_transitionTo[OF t]])
    show ?thesis using f Some t l2
      by (auto simp: on_op_done_def Let_def legal_confirmPause intro!: legal_wrap split: sum.split)
  qed (use f l1 in \<open>simp add: on_op_done_def Let_def legal_confirmPause\<close>)
qed

lemma legal_on_op_error: "legal w (on_op_error raw op i ev w)"
proof -
  obtain r op2 w2 where t: "transitionTo op StateFailed w = (r, op2, w2)" using prod_cases3 by blast
  show ?thesis using legal_transitionTo[OF t] t
    by (auto simp: on_op_error_def intro!: legal_wrap split: sum.split)
qed

lemma legal_dispatch: "legal w (dispatch_event raw op i ev w)"
  by (auto simp: dispatch_event_def on_tx_meta_def on_sql_def legal_on_scan_done legal_on_progress legal_on_op_done
      legal_on_op_error intro!: legal_wrap split: option.split)

lemma legal_HandleStreamEvent: "legal w (HandleStreamEvent E a cmd w)"
proof (cases "cm_Params cmd")
  case (PStream i kind data)
  obtain r w1 where g: "on_db (store_Get (pe_gtid E) i) w = (r, w1)" by fastforce
  note l = legal_Get[OF g]
  have "legal w (dispatch_event (pe_raw_json E) op i ev w1)" for op ev
    by (rule legal_trans[OF l legal_dispatch])
  then show ?thesis using PStream g l by (simp add: HandleStreamEvent_def split: sum.split)
qed (simp_all add: HandleStreamEvent_def)

subsection \<open>Handlers\<close>

text \<open>The commander may do anything legal while a command is under way.\<close>

definition legal_commander :: "pitr_env \<Rightarrow> bool" where
  "legal_commander E = (case pe_commander E of None \<Rightarrow> True
     | Some send \<Rightarrow> \<forall>a cmd w. legal w (snd (send a cmd w)))"

lemma legal_send:
  assumes "legal_commander E" and "sendCommand E a cmd w = (r, w')"
  shows "legal w w'"
  using assms by (auto simp: legal_commander_def sendCommand_def split: option.splits) (metis snd_conv)

lemma legal_authorize:
  assumes "authorizeOp G rq w = (r, w')"
  shows "legal w w' \<and> (\<forall>op. r = Inr op \<longrightarrow> op_ID op = rq_OpID rq \<and> w_status w' (op_ID op) = Some (op_Status op))"
proof (cases "rq_UserID rq = [] \<or> rq_OpID rq = []")
  case False
  obtain g w1 where g: "on_db (store_Get G (rq_OpID rq)) w = (g, w1)" by fastforce
  note l = legal_Get[OF g]
  show ?thesis
  proof (cases g)
    case (Inr op)
    obtain db' where gdb: "store_Get G (rq_OpID rq) (w_db w) = (Inr op, db')" and w1: "w1 = w\<lparr>w_db := db'\<rparr>"
      using g Inr by (auto simp: on_db_def split: prod.splits)
    obtain m w2 where m: "on_orgs (sql_ListMembers (op_OrgID op)) w1 = (m, w2)" by fastforce
    then have "w_db w2 = w_db w1" by (auto simp: on_orgs_def split: prod.splits)
    then have "w_status w2 i = w_status w i" "legal w1 w2" for i
      using store_Get_Inr[OF gdb] w1 by (auto simp: db_status_def intro: legal_data)
    then show ?thesis using assms False g Inr m l store_Get_Inr[OF gdb] legal_trans[OF l, of w2]
      by (auto simp: authorizeOp_def split: sum.splits if_splits)
  qed (use assms False g l in \<open>auto simp: authorizeOp_def\<close>)
qed (use assms in \<open>auto simp: authorizeOp_def split: if_splits\<close>)

lemma legal_sendExecute:
  assumes "legal_commander E"
  shows "legal w (snd (sendExecute E op b ty to_s w))"
proof -
  obtain r w1 where l: "on_db (store_LoadStatements (op_ID op)) w = (r, w1)" by fastforce
  have l1: "legal w w1" by (rule legal_read[OF _ l]) simp
  show ?thesis
  proof (cases r)
    case (Inr stmts)
    obtain s w2 where s: "sendCommand E (op_AgentID op) (execute_command op stmts b ty) w1 = (s, w2)" by fastforce
    have l2: "legal w w2" by (rule legal_trans[OF l1 legal_send[OF assms s]])
    obtain tr op1 w3 where t: "transitionTo op to_s w2 = (tr, op1, w3)" using prod_cases3 by blast
    have l3: "legal w w3" by (rule legal_trans[OF l2 legal_transitionTo[OF t]])
    show ?thesis using l Inr s t l1 l2 l3 legal_trans[OF l2 legal_failOperation]
      by (simp add: sendExecute_def split: sum.split option.split)
  qed (use l l1 in \<open>simp add: sendExecute_def\<close>)
qed

lemma legal_rescan_settle: "legal w (snd (rescan_settle E op w))"
proof -
  obtain g w1 where g: "on_db (store_Get (pe_gtid E) (op_ID op)) w = (g, w1)" by fastforce
  note l1 = legal_Get[OF g]
  obtain ls w2 where ls: "on_db (store_LoadStatements (op_ID op)) w1 = (ls, w2)" by fastforce
  have l2: "legal w w2" by (rule legal_trans[OF l1 legal_read[OF _ ls]]) simp
  obtain tr op1 w3 where t: "transitionTo op StateReady w2 = (tr, op1, w3)" using prod_cases3 by blast
  have l3: "legal w w3" by (rule legal_trans[OF l2 legal_transitionTo[OF t]])
  obtain g2 w4 where g2: "on_db (store_Get (pe_gtid E) (op_ID op)) w3 = (g2, w4)" by fastforce
  have l4: "legal w w4" by (rule legal_trans[OF l3 legal_Get[OF g2]])
  show ?thesis using g ls t g2 l1 l2 l3 l4 by (simp add: rescan_settle_def split: sum.split)
qed

lemma legal_rescan_finish: "legal w (snd (rescan_finish E op txs w))"
proof -
  obtain tr op1 w1 where t: "transitionTo op StateScanning w = (tr, op1, w1)" using prod_cases3 by blast
  obtain st w2 where s: "rescan_settle E op1 w1 = (st, w2)" by fastforce
  have "legal w w2" using legal_trans[OF legal_transitionTo[OF t] legal_rescan_settle[of w1 E op1]] s by simp
  then show ?thesis using t s legal_transitionTo[OF t] by (simp add: rescan_finish_def split: sum.split)
qed

lemma legal_rescan_persist:
  assumes "legal_commander E" and "w_status w (op_ID op) = Some (op_Status op)"
  shows "legal w (snd (rescan_persist E op txs w))"
proof -
  obtain u w1 where u: "on_db (store_Update (w_now w) op) w = (u, w1)" by fastforce
  note l1 = legal_Update[OF u assms(2)]
  obtain s w2 where s: "on_db (store_SaveStatements (op_ID op) []) w1 = (s, w2)" by fastforce
  have "legal w1 w2" by (rule on_db_pt_ops[OF _ s]) simp
  then have l2: "legal w w2" by (rule legal_trans[OF l1])
  obtain c w3 where c: "sendCommand E (op_AgentID op) (rescan_command op txs) w2 = (c, w3)" by fastforce
  have l3: "legal w w3" by (rule legal_trans[OF l2 legal_send[OF assms(1) c]])
  show ?thesis using u s c l1 l2 l3 legal_trans[OF l3 legal_rescan_finish[of w3 E op txs]]
    by (simp add: rescan_persist_def split: sum.split option.split)
qed

lemma legal_selectRescan:
  assumes "legal_commander E" and "w_status w (op_ID op) = Some (op_Status op)"
  shows "legal w (snd (selectRescan E op txs w))"
  using legal_rescan_persist[OF assms(1), of w] assms(2)
  by (simp add: selectRescan_def split: option.split)

lemma legal_select_persist: "legal w (snd (select_persist op txs w))"
proof -
  have "legal w w1" if "on_db (store_SaveStatementsAndSelect n i sts txs tabs) w = (r, w1)" for n i sts tabs r w1
    by (rule on_db_pt_ops[OF _ that]) (rule SaveSelect_statuses)
  then show ?thesis
    by (auto simp: select_persist_def split: option.split sum.split prod.split)
qed

lemma legal_SelectOp:
  assumes "legal_commander E"
  shows "legal w (snd (SelectOp E rq b w))"
proof -
  obtain r w1 where a: "authorizeOp (pe_gtid E) rq w = (r, w1)" by fastforce
  note l = legal_authorize[OF a]
  show ?thesis
  proof (cases r)
    case (Inr op)
    have "legal w (snd (selectRescan E op txs w1))" "legal w (snd (select_persist op txs w1))" for txs
      using l Inr legal_selectRescan[OF assms, of w1 op txs] legal_select_persist[of w1 op txs]
      by (auto intro: legal_trans)
    then show ?thesis using a Inr l by (simp add: SelectOp_def split: option.split)
  qed (use a l in \<open>simp add: SelectOp_def\<close>)
qed

lemma legal_ExecuteOp:
  assumes "legal_commander E"
  shows "legal w (snd (ExecuteOp E rq b w))"
proof -
  obtain r w1 where a: "authorizeOp (pe_gtid E) rq w = (r, w1)" by fastforce
  note l = legal_authorize[OF a]
  then have "legal w (snd (sendExecute E op n ty to_s w1))" for op n ty to_s
    using legal_sendExecute[OF assms, of w1 op n ty to_s] by (auto intro: legal_trans)
  then show ?thesis using a l by (simp add: ExecuteOp_def split: sum.split option.split)
qed

lemma legal_ResumeOp:
  assumes "legal_commander E"
  shows "legal w (snd (ResumeOp E rq w))"
proof -
  obtain r w1 where a: "authorizeOp (pe_gtid E) rq w = (r, w1)" by fastforce
  note l = legal_authorize[OF a]
  then have "legal w (snd (sendExecute E op n ty to_s w1))" for op n ty to_s
    using legal_sendExecute[OF assms, of w1 op n ty to_s] by (auto intro: legal_trans)
  then show ?thesis using a l by (simp add: ResumeOp_def split: sum.split)
qed

lemma legal_PauseOp:
  assumes "legal_commander E"
  shows "legal w (snd (PauseOp E rq w))"
proof -
  obtain r w1 where a: "authorizeOp (pe_gtid E) rq w = (r, w1)" by fastforce
  note l = legal_authorize[OF a]
  show ?thesis
  proof (cases r)
    case (Inr op)
    obtain s w2 where s: "sendCommand E (op_AgentID op) (cancel_command op) w1 = (s, w2)" by fastforce
    have l2: "legal w w2" using l legal_send[OF assms s] by (auto intro: legal_trans)
    obtain tr op1 w3 where t: "transitionTo op StatePaused w2 = (tr, op1, w3)" using prod_cases3 by blast
    have l3: "legal w w3" by (rule legal_trans[OF l2 legal_transitionTo[OF t]])
    show ?thesis using a Inr l s t l2 l3 legal_trans[OF l2 legal_failOperation]
      by (simp add: PauseOp_def split: sum.split option.split)
  qed (use a l in \<open>simp add: PauseOp_def\<close>)
qed

lemma legal_CancelOp:
  assumes "legal_commander E"
  shows "legal w (snd (CancelOp E rq w))"
proof -
  obtain r w1 where a: "authorizeOp (pe_gtid E) rq w = (r, w1)" by fastforce
  note l = legal_authorize[OF a]
  show ?thesis
  proof (cases r)
    case (Inr op)
    obtain s w2 where s: "sendCommand E (op_AgentID op) (cancel_command op) w1 = (s, w2)" by fastforce
    have l2: "legal w w2" using l legal_send[OF assms s] by (auto intro: legal_trans)
    obtain tr op1 w3 where t: "transitionTo op StateCancelled w2 = (tr, op1, w3)" using prod_cases3 by blast
    have l3: "legal w w3" by (rule legal_trans[OF l2 legal_transitionTo[OF t]])
    show ?thesis using a Inr l s t l3
      by (simp add: CancelOp_def legal_forget legal_audit split: sum.split)
  qed (use a l in \<open>simp add: CancelOp_def\<close>)
qed

lemma legal_start_scan:
  assumes "legal_commander E"
  shows "legal w (snd (start_scan E req op w))"
proof -
  define w1 where "w1 = put_preview (op_ID op) ((previewFor (op_ID op) w)\<lparr>pv_maxEntries := previewCap (st_MaxPreview req)\<rparr>) w"
  obtain tr op1 w2 where t: "transitionTo op StateScanning w1 = (tr, op1, w2)" using prod_cases3 by blast
  have "legal w w1" by (simp add: w1_def)
  then have l2: "legal w w2" by (rule legal_trans[OF _ legal_transitionTo[OF t]])
  define cmd where "cmd = \<lparr>cm_Cmd = op_ID op1, cm_Type = CmdScan, cm_Params = PScan \<lparr>sr_Filter = st_Filter req,
    sr_Mode = st_Mode req, sr_MaxPreview = st_MaxPreview req\<rparr>\<rparr>"
  obtain s w3 where s: "sendCommand E (op_AgentID op1) cmd w2 = (s, w3)" by fastforce
  have l3: "legal w w3" by (rule legal_trans[OF l2 legal_send[OF assms s]])
  show ?thesis using t s l2 l3 legal_trans[OF l3 legal_failOperation] legal_trans[OF l2 legal_snd_transitionTo]
    by (simp add: start_scan_def w1_def[symmetric] cmd_def[symmetric] split: sum.split option.split)
qed

lemma legal_Create:
  assumes "on_db (store_Create now rnd op0) w = (r, w')"
  shows "legal w w'"
proof -
  obtain op where op: "store_Create now rnd op0 = (\<lambda>db. sql_run (\<lambda>d. case sql_insert row_ID (op_row op) (pt_ops d) of
                     (Inl e, _) \<Rightarrow> (Inl e, d) | (Inr _, t) \<Rightarrow> (Inr op, d\<lparr>pt_ops := t\<rparr>)) db)"
    unfolding store_Create_def Let_def by blast
  have "q_data (w_db w') = q_data (w_db w) \<or>
    (row_ID (op_row op) \<notin> row_ID ` set (pt_ops (q_data (w_db w))) \<and>
     pt_ops (q_data (w_db w')) = pt_ops (q_data (w_db w)) @ [op_row op])"
    using assms by (auto simp: on_db_def op sql_run_def sql_insert_def split: prod.splits if_splits)
  then show ?thesis
  proof
    assume n: "row_ID (op_row op) \<notin> row_ID ` set (pt_ops (q_data (w_db w))) \<and>
      pt_ops (q_data (w_db w')) = pt_ops (q_data (w_db w)) @ [op_row op]"
    then have "w_ok w \<Longrightarrow> w_ok w'" by (simp add: w_ok_def ids_distinct_def)
    moreover have "w_status w i = Some s \<Longrightarrow> w_status w' i = Some s" for i s
      using n by (auto simp: db_status_def status_of_def row_of_append)
    ultimately show ?thesis by (auto simp: legal_def)
  qed (rule legal_data)
qed

lemma legal_on_agents: "on_agents f w1 = (r, w2) \<Longrightarrow> legal w1 w2"
  by (auto simp: on_agents_def intro: legal_data split: prod.splits)

lemma legal_on_orgs: "on_orgs f w1 = (r, w2) \<Longrightarrow> legal w1 w2"
  by (auto simp: on_orgs_def intro: legal_data split: prod.splits)

lemma legal_start_validated:
  assumes "legal_commander E"
  shows "legal w (snd (start_validated E rq req w))"
proof -
  obtain g w1 where g: "on_agents (sql_agent_Get (st_AgentID req)) w = (g, w1)" by fastforce
  note l1 = legal_on_agents[OF g]
  show ?thesis
  proof (cases g)
    case (Inr agt)
    obtain m w2 where m: "on_orgs (sql_ListMembers (ar_OrgID agt)) w1 = (m, w2)" by fastforce
    have l2: "legal w w2" by (rule legal_trans[OF l1 legal_on_orgs[OF m]])
    define op0 where "op0 = \<lparr>op_ID = [], op_OrgID = ar_OrgID agt, op_AgentID = st_AgentID req,
      op_Type = st_Type req, op_Mode = st_Mode req, op_Filter = scanFilterToBinlog (pe_gtid E) (st_Filter req),
      op_Status = StateCreated, op_CreatedBy = rq_UserID rq, op_CreatedAt = zero_time, op_UpdatedAt = zero_time,
      op_SelectedTxIDs = [], op_TargetTables = []\<rparr>"
    obtain c w3 where c: "on_db (store_Create (w_now w2) (w_rnd w2) op0) w2 = (c, w3)" by fastforce
    have l3: "legal w w3" by (rule legal_trans[OF l2 legal_Create[OF c]])
    show ?thesis using g Inr m c l2 l3 legal_trans[OF l3 legal_start_scan[OF assms]]
      by (simp add: start_validated_def op0_def[symmetric] split: sum.split)
  qed (use g l1 in \<open>simp add: start_validated_def\<close>)
qed

lemma legal_Start:
  assumes "legal_commander E"
  shows "legal w (snd (Start E rq b w))"
  using legal_start_validated[OF assms] by (simp add: Start_def Let_def split: option.split)

subsection \<open>Every call\<close>

text \<open>What can happen to the server: a request, an event from an agent, an agent lost, a restart.\<close>

datatype pitr_call =
    CStart http_req "startRequest option"
  | CStatus http_req
  | CTransactions http_req
  | CList http_req string string string
  | CSelect http_req "string list option"
  | CExecute http_req "int option"
  | CResume http_req
  | CPause http_req
  | CCancel http_req
  | CStream string Command
  | CDisconnect string
  | CReconcile

fun pitr_do :: "pitr_env \<Rightarrow> pitr_call \<Rightarrow> pworld \<Rightarrow> pworld" where
  "pitr_do E (CStart rq b) w = snd (Start E rq b w)"
| "pitr_do E (CStatus rq) w = snd (Status E rq w)"
| "pitr_do E (CTransactions rq) w = snd (Transactions E rq w)"
| "pitr_do E (CList rq o_id f t) w = snd (List_ops E rq o_id f t w)"
| "pitr_do E (CSelect rq b) w = snd (SelectOp E rq b w)"
| "pitr_do E (CExecute rq b) w = snd (ExecuteOp E rq b w)"
| "pitr_do E (CResume rq) w = snd (ResumeOp E rq w)"
| "pitr_do E (CPause rq) w = snd (PauseOp E rq w)"
| "pitr_do E (CCancel rq) w = snd (CancelOp E rq w)"
| "pitr_do E (CStream a cmd) w = HandleStreamEvent E a cmd w"
| "pitr_do E (CDisconnect a) w = HandleAgentDisconnect (pe_gtid E) a w"
| "pitr_do E CReconcile w = snd (ReconcileOnStartup (pe_gtid E) w)"

lemma legal_Status: "legal w (snd (Status E rq w))"
proof -
  obtain r w1 where a: "authorizeOp (pe_gtid E) rq w = (r, w1)" by fastforce
  note l = legal_authorize[OF a]
  show ?thesis
  proof (cases r)
    case (Inr op)
    obtain c w2 where c: "on_db (store_LoadCheckpoint (op_ID op)) w1 = (c, w2)" by fastforce
    have "legal w w2" using l legal_read[OF _ c] by (auto intro: legal_trans)
    then show ?thesis using a Inr c l by (simp add: Status_def Let_def split: sum.split option.split)
  qed (use a l in \<open>simp add: Status_def\<close>)
qed

lemma legal_Transactions: "legal w (snd (Transactions E rq w))"
proof -
  obtain r w1 where a: "authorizeOp (pe_gtid E) rq w = (r, w1)" by fastforce
  show ?thesis using legal_authorize[OF a] a by (simp add: Transactions_def split: sum.split option.split)
qed

lemma legal_List: "legal w (snd (List_ops E rq o_id f t w))"
proof -
  obtain m w1 where m: "on_orgs (sql_ListMembers o_id) w = (m, w1)" by fastforce
  note l1 = legal_on_orgs[OF m]
  obtain c w2 where c: "on_db (store_ListByOrg (pe_gtid E) o_id) w1 = (c, w2)" by fastforce
  have "legal w w2" by (rule legal_trans[OF l1 legal_read[OF _ c]]) simp
  then show ?thesis using m c l1 by (simp add: List_ops_def split: sum.split)
qed

lemma legal_pitr_do: "legal_commander E \<Longrightarrow> legal w (pitr_do E c w)"
  by (cases c)
    (simp_all add: legal_Start legal_Status legal_Transactions legal_List legal_SelectOp legal_ExecuteOp legal_ResumeOp
      legal_PauseOp legal_CancelOp legal_HandleStreamEvent HandleAgentDisconnect_def ReconcileOnStartup_def
      legal_disconnect legal_reconcile)

lemma legal_pitr_run: "legal_commander E \<Longrightarrow> legal w (fold (pitr_do E) cs w)"
  by (rule legal_fold) (rule legal_pitr_do)

end
