(* ===== verification/Pitr_Props.thy ===== *)
theory Pitr_Props
  imports Pitr_Legal
begin

text \<open>The properties of the recovery workflow, and the scenarios where it departs from its comments.\<close>

subsection \<open>An example server\<close>

definition ex_filter :: Filter where
  "ex_filter = \<lparr>f_BinlogDir = [], f_Tables = [\<lparr>tr_Schema = ''shop'', tr_Table = ''orders''\<rparr>], f_TimeRange = None,
     f_GTIDSet = None, f_StartPos = zero_pos, f_EndPos = zero_pos, f_MaxRowsPerTx = 0, f_SelectedTxIDs = []\<rparr>"

definition ex_op :: "string \<Rightarrow> OperationState \<Rightarrow> Operation" where
  "ex_op mode s = \<lparr>op_ID = ''op1'', op_OrgID = ''acme'', op_AgentID = ''ag1'', op_Type = ''pitr'', op_Mode = mode,
     op_Filter = ex_filter, op_Status = s, op_CreatedBy = ''u1'', op_CreatedAt = 1, op_UpdatedAt = 1,
     op_SelectedTxIDs = [], op_TargetTables = []\<rparr>"

definition ex_meta :: "string \<Rightarrow> txMetaWire" where
  "ex_meta i = zero_meta\<lparr>tm_w_TxID := i, tm_w_Tables := [\<lparr>wj_Schema = ''shop'', wj_Table = ''orders''\<rparr>]\<rparr>"

definition ex_wire :: "string \<Rightarrow> int \<Rightarrow> string \<Rightarrow> StatementWire" where
  "ex_wire i k s = \<lparr>sw_SQL = s, sw_TxID = i, sw_TxOrder = k, sw_Warnings = []\<rparr>"

definition ex_preview :: opPreview where
  "ex_preview = \<lparr>pv_metas = [ex_meta ''t1'', ex_meta ''t2''],
     pv_sqlByTx = [''t1'' \<mapsto> [ex_wire ''t1'' 0 ''A'', ex_wire ''t1'' 1 ''B''], ''t2'' \<mapsto> [ex_wire ''t2'' 0 ''C'']],
     pv_known = {''t1'', ''t2''}, pv_maxEntries = 500, pv_truncated = False\<rparr>"

definition ex_world :: "string \<Rightarrow> OperationState \<Rightarrow> OpStatement list \<Rightarrow> pworld" where
  "ex_world mode s sts = \<lparr>
     w_db = \<lparr>q_data = \<lparr>pt_ops = [op_row (ex_op mode s)],
                       pt_stmts = map (\<lambda>st. \<lparr>srow_OpID = ''op1'', srow_Stmt = st\<rparr>) sts, pt_cps = []\<rparr>,
             q_clock = 0, q_fault = (\<lambda>_. False)\<rparr>,
     w_orgs = \<lparr>q_data = \<lparr>ot_orgs = [\<lparr>og_ID = ''acme'', og_Name = ''Acme'', og_CreatedAt = 1\<rparr>],
                         ot_members = [\<lparr>mb_UserID = ''u1'', mb_OrgID = ''acme'', mb_Role = ''admin'', mb_JoinedAt = 1\<rparr>],
                         ot_invites = []\<rparr>,
               q_clock = 0, q_fault = (\<lambda>_. False)\<rparr>,
     w_agents = \<lparr>q_data = [], q_clock = 0, q_fault = (\<lambda>_. False)\<rparr>,
     w_audits = [], w_bus = NewEventBus, w_previews = [''op1'' \<mapsto> ex_preview], w_connected = (\<lambda>_. True),
     w_now = 5, w_rnd = ''r''\<rparr>"

definition ex_gtid :: gtid_lib where
  "ex_gtid = \<lparr>parse_mysql = (\<lambda>s. if has_prefix s ''0-'' then None else Some s),
     parse_mariadb = (\<lambda>s. if has_prefix s ''0-'' then Some s else None), set_contain = (\<lambda>_ _. True)\<rparr>"

definition ex_rq :: http_req where
  "ex_rq = \<lparr>rq_UserID = ''u1'', rq_Email = ''u1@acme'', rq_OpID = ''op1''\<rparr>"

definition stream_cmd :: "string \<Rightarrow> string \<Rightarrow> wire_data \<Rightarrow> Command" where
  "stream_cmd i kind d = \<lparr>cm_Cmd = ''ev-'' @ i, cm_Type = CmdStreamEvent, cm_Params = PStream i kind d\<rparr>"

text \<open>An agent that accepts every command and reports \<open>evs\<close> before its answer arrives.\<close>

definition env0 :: pitr_env where
  "env0 = \<lparr>pe_gtid = ex_gtid, pe_error_text = (\<lambda>_. ''error''), pe_raw_json = (\<lambda>_. ''{}''), pe_commander = None\<rparr>"

definition racing_send :: "(string \<times> wire_data) list \<Rightarrow> string \<Rightarrow> Command \<Rightarrow> pworld \<Rightarrow> (err + Response option) \<times> pworld" where
  "racing_send evs a cmd w =
     (Inr (Some \<lparr>rs_Cmd = cm_Cmd cmd, rs_Status = StatusOK, rs_Result = DNull, rs_Error = []\<rparr>),
      fold (\<lambda>(kind, d). HandleStreamEvent env0 a (stream_cmd (cm_Cmd cmd) kind d)) evs w)"

definition racing_env :: "(string \<times> wire_data) list \<Rightarrow> pitr_env" where
  "racing_env evs = env0\<lparr>pe_commander := Some (racing_send evs)\<rparr>"

lemma racing_env_legal: "legal_commander (racing_env evs)"
  by (auto simp: legal_commander_def racing_env_def racing_send_def legal_HandleStreamEvent intro!: legal_fold split: prod.split)

lemma ex_world_ok [simp]: "w_ok (ex_world mode s sts)"
  by (simp add: w_ok_def ids_distinct_def ex_world_def)

lemma ex_world_status [simp]: "w_status (ex_world mode s sts) ''op1'' = Some s"
  by (simp add: ex_world_def db_status_def status_of_def row_of_def op_row_def ex_op_def)

subsection \<open>State machine\<close>

text \<open>The agent finishes before the execute request records \<open>executing\<close>: the operation is \<open>done\<close>, and stays so.\<close>

lemma execute_race_ends_done:
  "w_status (fold (pitr_do (racing_env [(EvOpDone, DReport zero_done)])) [CExecute ex_rq (Some 0), CCancel ex_rq]
      (ex_world ''sql'' StateReady [mk_stmt 0 0 (ex_wire ''t1'' 0 ''A'')])) ''op1'' = Some StateDone"
  by code_simp

subsection \<open>Audit entries\<close>

text \<open>The entry says what is true: the operation has the status that it records.\<close>

definition audit_true :: "string \<Rightarrow> pworld \<Rightarrow> AuditEntry \<Rightarrow> bool" where
  "audit_true i w e = (au_OperationID e = i \<and>
     (case w_status w i of None \<Rightarrow> False | Some s \<Rightarrow> au_Status e = state_string s))"

definition audits_grow :: "string \<Rightarrow> pworld \<Rightarrow> pworld \<Rightarrow> bool" where
  "audits_grow i w w' = (w_audits w' = w_audits w \<or> (\<exists>e. w_audits w' = w_audits w @ [e] \<and> audit_true i w' e))"

lemma audits_grow_same: "w_audits w' = w_audits w \<Longrightarrow> audits_grow i w w'"
  by (simp add: audits_grow_def)

lemma audits_grow_append:
  assumes "op_ID op = i" and "w_status w1 i = Some s" and "w_audits w1 = w_audits w"
    and "w_audits w2 = w_audits (appendAudit op s a d n w1)" and "w_status w2 i = w_status w1 i"
  shows "audits_grow i w w2"
  using assms
  by (auto simp: audits_grow_def audit_true_def appendAudit_def audit_Append_def Let_def)

lemma transitionTo_won:
  "transitionTo op to_s w = (Inr True, op', w') \<Longrightarrow> w_ok w \<Longrightarrow>
   w_status w' (op_ID op) = Some to_s \<and> op_ID op' = op_ID op \<and> w_audits w' = w_audits w"
  using transitionTo_cases[of op to_s w "Inr True" op' w'] transitionTo_frame[of op to_s w "Inr True" op' w']
  by (auto simp: db_status_def)

lemma persist_frame:
  "w_audits (persistSelectedStatements op w) = w_audits w"
  "w_status (persistSelectedStatements op w) i = w_status w i"
  by (auto simp: persistSelectedStatements_def on_db_def db_status_def status_of_def split: option.split prod.split)
    (metis SaveStatements_ops snd_conv)

lemma fallback_frame:
  assumes "ready_fallback mid op w = (r, w')" and "op_move StateReady mid"
  shows "w_audits w' = w_audits w" "w_previews w' = w_previews w" "w_bus w' = w_bus w" "w_ok w \<Longrightarrow> w_ok w'"
    "r = Some op' \<Longrightarrow> op_ID op' = op_ID op"
  using assms legal_ready_fallback[OF assms]
  by (auto simp: ready_fallback_def on_db_def Let_def legal_def split: if_splits prod.splits sum.splits)

lemma audits_scan_done:
  assumes "w_ok w" and "op_ID op = i"
  shows "audits_grow i w (on_scan_done op i ev w)"
proof -
  obtain o1 w1 where f: "ready_fallback StateScanning op w = (o1, w1)" by fastforce
  note ff = fallback_frame[OF f, simplified]
  show ?thesis
  proof (cases o1)
    case (Some op1)
    obtain r op2 w2 where t: "transitionTo op1 StateReady w1 = (r, op2, w2)" using prod_cases3 by blast
    note tf = transitionTo_frame[OF t]
    show ?thesis
    proof (cases "r = Inr True")
      case True
      then have "w_status w2 i = Some StateReady" "op_ID op2 = i" "w_audits w2 = w_audits w"
        using transitionTo_won[of op1 StateReady w1 op2 w2] t ff assms Some by auto
      then show ?thesis using f Some t True
        by (auto simp: on_scan_done_def persist_frame intro!: audits_grow_append)
    qed (use f Some t ff tf in \<open>auto simp: on_scan_done_def intro!: audits_grow_same split: sum.split\<close>)
  qed (use f ff in \<open>auto simp: on_scan_done_def intro!: audits_grow_same\<close>)
qed

lemma audits_confirmPause:
  assumes "w_ok w" and "op_ID op = i" and "w_status w i = Some (op_Status op)"
  shows "audits_grow i w (confirmPause op i rep w)"
proof -
  obtain r op2 w2 where t: "transitionTo op StatePaused w = (r, op2, w2)" using prod_cases3 by blast
  note tf = transitionTo_frame[OF t]
  consider "op_Status op = StatePaused" | "op_Status op = StateExecuting" "r = Inr True"
    | "op_Status op = StateExecuting" "r \<noteq> Inr True" | "op_Status op \<notin> {StatePaused, StateExecuting}" by blast
  then show ?thesis
  proof cases
    case 1
    then show ?thesis using assms
      by (auto simp: confirmPause_def publish_paused_def intro!: audits_grow_append)
  next
    case 2
    then have "w_status w2 i = Some StatePaused" "op_ID op2 = i" "w_audits w2 = w_audits w"
      using transitionTo_won[of op StatePaused w op2 w2] t assms by auto
    then show ?thesis using t 2
      by (auto simp: confirmPause_def publish_paused_def intro!: audits_grow_append)
  next
    case 3
    then show ?thesis using t tf by (auto simp: confirmPause_def intro!: audits_grow_same split: sum.split)
  next
    case 4
    then show ?thesis by (auto simp: confirmPause_def intro!: audits_grow_same split: OperationState.split)
  qed
qed

lemma audits_op_done:
  assumes "w_ok w" and "op_ID op = i" and "w_status w i = Some (op_Status op)"
  shows "audits_grow i w (on_op_done op i ev w)"
proof -
  obtain o1 w1 where f: "ready_fallback StateExecuting op w = (o1, w1)" by fastforce
  note ff = fallback_frame[OF f, simplified]
  define rep where "rep = (case decode_done (sv_Data ev) of None \<Rightarrow> zero_done | Some r \<Rightarrow> r)"
  show ?thesis
  proof (cases "od_Paused rep")
    case True
    then show ?thesis using audits_confirmPause[OF assms] by (simp add: on_op_done_def rep_def)
  next
    case False
    show ?thesis
    proof (cases o1)
      case (Some op1)
      obtain r op2 w2 where t: "transitionTo op1 StateDone w1 = (r, op2, w2)" using prod_cases3 by blast
      note tf = transitionTo_frame[OF t]
      show ?thesis
      proof (cases "r = Inr True")
        case True
        then have "w_status w2 i = Some StateDone" "op_ID op2 = i" "w_audits w2 = w_audits w"
          using transitionTo_won[of op1 StateDone w1 op2 w2] t ff assms Some by auto
        then show ?thesis using f Some t True False
          by (auto simp: on_op_done_def rep_def[symmetric] Let_def intro!: audits_grow_append)
      qed (use f Some t ff tf False in \<open>auto simp: on_op_done_def rep_def[symmetric] Let_def intro!: audits_grow_same split: sum.split\<close>)
    qed (use f ff False in \<open>auto simp: on_op_done_def rep_def[symmetric] Let_def intro!: audits_grow_same\<close>)
  qed
qed

lemma audits_op_error:
  assumes "w_ok w" and "op_ID op = i"
  shows "audits_grow i w (on_op_error raw op i ev w)"
proof -
  obtain r op2 w2 where t: "transitionTo op StateFailed w = (r, op2, w2)" using prod_cases3 by blast
  note tf = transitionTo_frame[OF t]
  show ?thesis
  proof (cases "r = Inr True")
    case True
    then have "w_status w2 i = Some StateFailed" "op_ID op2 = i" "w_audits w2 = w_audits w"
      using transitionTo_won[of op StateFailed w op2 w2] t assms by auto
    then show ?thesis using t True by (auto simp: on_op_error_def intro!: audits_grow_append)
  qed (use t tf in \<open>auto simp: on_op_error_def intro!: audits_grow_same split: sum.split\<close>)
qed

lemma on_progress_audits: "w_audits (on_progress i ev w) = w_audits w"
  by (auto simp: on_progress_def on_db_def split: option.split prod.split)

lemma audits_dispatch:
  assumes "w_ok w" and "op_ID op = i" and "w_status w i = Some (op_Status op)"
  shows "audits_grow i w (dispatch_event raw op i ev w)"
  using audits_scan_done[OF assms(1,2)] audits_op_done[OF assms] audits_op_error[OF assms(1,2)]
  by (auto simp: dispatch_event_def on_tx_meta_def on_sql_def on_progress_audits audits_grow_def split: option.split)

text \<open>
  C21. The audit log is truthful: a stream event appends at most one entry, for the operation it names, and
  the operation then has the status that the entry records. No transition, no entry of a new status.
\<close>

theorem audit_entries_are_true:
  assumes "w_ok w" and "cm_Params cmd = PStream i kind d"
  shows "w_audits (HandleStreamEvent E a cmd w) = w_audits w \<or>
    (\<exists>e s. w_audits (HandleStreamEvent E a cmd w) = w_audits w @ [e] \<and> au_OperationID e = i \<and>
       w_status (HandleStreamEvent E a cmd w) i = Some s \<and> au_Status e = state_string s)"
proof -
  obtain r w1 where g: "on_db (store_Get (pe_gtid E) i) w = (r, w1)" by fastforce
  have fr: "w_audits w1 = w_audits w" "w_ok w1" using g legal_Get[OF g] assms(1)
    by (auto simp: on_db_def legal_def split: prod.splits)
  have "audits_grow i w (HandleStreamEvent E a cmd w)"
  proof (cases r)
    case (Inr op)
    obtain db' where "store_Get (pe_gtid E) i (w_db w) = (Inr op, db')" "w1 = w\<lparr>w_db := db'\<rparr>"
      using g Inr by (auto simp: on_db_def split: prod.splits)
    then have "op_ID op = i" "w_status w1 i = Some (op_Status op)"
      using store_Get_Inr[of "pe_gtid E" i "w_db w" op db'] by (auto simp: db_status_def)
    from audits_dispatch[OF fr(2) this] show ?thesis using assms(2) g Inr fr
      by (auto simp: HandleStreamEvent_def audits_grow_def)
  qed (use assms(2) g fr in \<open>auto simp: HandleStreamEvent_def audits_grow_def\<close>)
  then show ?thesis by (auto simp: audits_grow_def audit_true_def split: option.splits)
qed

lemma audit_entries_are_true_witness:
  "let w = HandleStreamEvent env0 ''ag1'' (stream_cmd ''op1'' EvScanDone DNull) (ex_world ''sql'' StateScanning []) in
   map au_Status (w_audits w) = [''ready''] \<and> w_status w ''op1'' = Some StateReady"
proof -
  let ?w = "HandleStreamEvent env0 ''ag1'' (stream_cmd ''op1'' EvScanDone DNull) (ex_world ''sql'' StateScanning [])"
  have "map au_Status (w_audits ?w) = [''ready'']" by code_simp
  moreover have "w_audits (ex_world ''sql'' StateScanning []) = []" by (simp add: ex_world_def)
  moreover have "cm_Params (stream_cmd ''op1'' EvScanDone DNull) = PStream ''op1'' EvScanDone DNull"
    by (simp add: stream_cmd_def)
  ultimately obtain s where "w_status ?w ''op1'' = Some s" "state_string s = ''ready''"
    using audit_entries_are_true[OF ex_world_ok[of "''sql''" StateScanning "[]"], of "stream_cmd ''op1'' EvScanDone DNull"
      "''op1''" EvScanDone DNull env0 "''ag1''"] by auto
  then have "w_status ?w ''op1'' = Some StateReady" using state_string_inject[of s StateReady] by simp
  with \<open>map au_Status (w_audits ?w) = [''ready'']\<close> show ?thesis by (simp add: Let_def)
qed

subsection \<open>Late events\<close>

lemma store_Get_same: "store_Get G i db = (r, db') \<Longrightarrow> q_data db' = q_data db"
  by (metis snd_conv store_Get_data)

text \<open>
  C22. A late \<open>scan_done\<close>, \<open>op_done\<close> (paused or not) or \<open>op_error\<close> for an operation in a terminal state has
  no effect: the tables, the audit log, the previews and the subscribers stay as they are.
\<close>

theorem late_events_change_nothing:
  assumes "w_status w i = Some s" and "IsTerminal s"
    and "cm_Params cmd = PStream i kind d" and "kind \<in> {EvScanDone, EvOpDone, EvOpError}"
  shows "let w' = HandleStreamEvent E a cmd w in
    q_data (w_db w') = q_data (w_db w) \<and> w_audits w' = w_audits w \<and> w_previews w' = w_previews w \<and> w_bus w' = w_bus w"
proof -
  obtain r w1 where g: "on_db (store_Get (pe_gtid E) i) w = (r, w1)" by fastforce
  have fr: "q_data (w_db w1) = q_data (w_db w) \<and> w_audits w1 = w_audits w \<and> w_previews w1 = w_previews w \<and> w_bus w1 = w_bus w"
    using g by (auto simp: on_db_def dest: store_Get_same split: prod.splits)
  show ?thesis
  proof (cases r)
    case (Inr op)
    obtain db' where "store_Get (pe_gtid E) i (w_db w) = (Inr op, db')"
      using g Inr by (auto simp: on_db_def split: prod.splits)
    then have st: "op_Status op = s" using store_Get_Inr[of "pe_gtid E" i "w_db w" op db'] assms(1) by auto
    then have nt: "op_Status op \<notin> {StateReady, StatePaused, StateExecuting}" using assms(2) by (auto simp: IsTerminal_def)
    have tr: "\<exists>e. transitionTo op to_s w1 = (Inl e, op, w1)" for to_s
      by (rule transitionTo_invalid) (use st assms(2) IsTerminal_no_move in blast)
    have "on_scan_done op i ev w1 = w1" "confirmPause op i rep w1 = w1" "on_op_done op i ev w1 = w1"
      "on_op_error raw op i ev w1 = w1" for ev rep raw
      using tr[of StateReady] tr[of StateDone] tr[of StateFailed] nt
      by (auto simp: on_scan_done_def on_op_done_def on_op_error_def confirmPause_def ready_fallback_def Let_def
          split: OperationState.split)
    then have "dispatch_event raw op i \<lparr>sv_ID = i, sv_Kind = kind, sv_Data = d\<rparr> w1 = w1" for raw
      using assms(4) by (auto simp: dispatch_event_def ws_consts)
    then show ?thesis using assms(3) g Inr fr by (simp add: HandleStreamEvent_def Let_def)
  qed (use assms(3) g fr in \<open>auto simp: HandleStreamEvent_def Let_def\<close>)
qed

lemma late_events_change_nothing_witness:
  "w_audits (HandleStreamEvent env0 ''ag1'' (stream_cmd ''op1'' EvOpDone (DReport zero_done)) (ex_world ''sql'' StateCancelled []))
    = w_audits (ex_world ''sql'' StateCancelled [])"
  using late_events_change_nothing[of "ex_world ''sql'' StateCancelled []" "''op1''" StateCancelled
      "stream_cmd ''op1'' EvOpDone (DReport zero_done)" EvOpDone "DReport zero_done" env0 "''ag1''"]
  by (simp add: Let_def IsTerminal_def stream_cmd_def)

end
