(* ===== verification/Pitr_Flow.thy ===== *)
theory Pitr_Flow
  imports Pitr_Props
begin

text \<open>Preview, selection, execution, start, disconnect and authorization: the functional properties of the workflow.\<close>

subsection \<open>The preview stays bounded and free of duplicates\<close>




lemma sql_of_update [simp]:
  "sql_of (p\<lparr>pv_sqlByTx := (pv_sqlByTx p)(i \<mapsto> ws)\<rparr>) j = (if j = i then ws else sql_of p j)"
  "sql_of (p\<lparr>pv_metas := ms, pv_known := k\<rparr>) j = sql_of p j" "sql_of (p\<lparr>pv_truncated := b\<rparr>) j = sql_of p j"
  "sql_of (p\<lparr>pv_maxEntries := n\<rparr>) j = sql_of p j"
  by (simp_all add: sql_of_def)






subsection \<open>What is selected is what is executed\<close>

lemma statementsToWire_simps [simp]:
  "statementsToWire [] = []" "statementsToWire (xs @ ys) = statementsToWire xs @ statementsToWire ys"
  by (simp_all add: statementsToWire_def)

lemma mk_stmts_wire [simp]: "statementsToWire (mk_stmts t k ws) = ws"
  by (induction ws arbitrary: k) (simp_all add: mk_stmt_def statementsToWire_def)

lemma mk_stmts_index [simp]: "map ost_StmtIndex (mk_stmts t k ws) = [k..<k + length ws]"
  by (induction ws arbitrary: k) (simp_all add: mk_stmt_def upt_rec)

lemma upt_join: "i \<le> j \<Longrightarrow> j \<le> k \<Longrightarrow> [i..<j] @ [j..<k] = [i..<k]"
  using upt_add_eq_append[of i j "k - j"] by simp

lemma select_stmts_Inr:
  "select_stmts snap is k = Inr sts \<Longrightarrow>
   statementsToWire sts = concat (map (sql_of snap) is) \<and> map ost_StmtIndex sts = [k..<k + length sts] \<and>
   length sts = length (concat (map (sql_of snap) is)) \<and> (\<forall>i\<in>set is. sql_of snap i \<noteq> [])"
proof (induction "is" arbitrary: k sts)
  case (Cons i "is")
  then obtain rest where r: "select_stmts snap is (k + length (sql_of snap i)) = Inr rest"
    and s: "sts = mk_stmts (tx_index snap i) k (sql_of snap i) @ rest" and n: "sql_of snap i \<noteq> []"
    by (auto split: if_splits sum.splits)
  have l: "length (mk_stmts t k' ws) = length ws" for t k' ws
    by (induction ws arbitrary: k') simp_all
  show ?case using Cons.IH[OF r] s n by (simp add: l upt_join add.assoc)
qed simp

lemma sql_of_snapshot [simp]: "sql_of (snapshot_of p) = sql_of p"
  by (rule ext) (simp add: snapshot_of_def sql_of_def)

lemma select_persist_outcome:
  assumes "select_persist op txIDs w = (resp, w1)" and "w_previews w (op_ID op) = Some p"
  shows "(ht_Status resp \<noteq> 200 \<longrightarrow> q_data (w_db w1) = q_data (w_db w)) \<and>
    (ht_Status resp = 200 \<longrightarrow>
       ht_Body resp = BSelected (op_ID op) (op_Status op) txIDs (length (concat (map (sql_of p) txIDs))) \<and>
       (\<exists>stmts. fst (store_LoadStatements (op_ID op) ((w_db w1)\<lparr>q_fault := (\<lambda>_. False)\<rparr>)) = Inr stmts \<and>
          statementsToWire stmts = concat (map (sql_of p) txIDs) \<and>
          cm_Params (execute_command op stmts b ty) =
            PExecute \<lparr>er_OperationID = op_ID op, er_Statements = concat (map (sql_of p) txIDs), er_BatchSize = b\<rparr>))"
proof -
  let ?snap = "snapshot_of p"
  have sn: "snapshot (op_ID op) w = Some ?snap" using assms(2) by (simp add: snapshot_def)
  show ?thesis
  proof (cases "unknown_ids ?snap txIDs = []")
    case False
    then show ?thesis using assms(1) sn by (auto simp: select_persist_def http_error_def)
  next
    case True
    show ?thesis
    proof (cases "select_stmts ?snap txIDs 0")
      case (Inl i)
      then show ?thesis using assms(1) sn True by (auto simp: select_persist_def http_error_def)
    next
      case (Inr sts)
      note s = select_stmts_Inr[OF Inr]
      let ?save = "store_SaveStatementsAndSelect (w_now w) (op_ID op) sts txIDs (tablesOfSelected (pv_metas ?snap) txIDs)"
      obtain r db' where sv: "?save (w_db w) = (r, db')" by fastforce
      then have on: "on_db ?save w = (r, w\<lparr>w_db := db'\<rparr>)" by (simp add: on_db_def)
      show ?thesis
      proof (cases r)
        case (Inl e)
        have "q_data db' = q_data (w_db w)" using sv Inl
          by (auto simp: store_SaveStatementsAndSelect_def sql_run_def split: if_splits sum.splits prod.splits)
        then show ?thesis using assms(1) sn True Inr on Inl by (auto simp: select_persist_def http_error_def)
      next
        case ok: (Inr u)
        obtain d where d: "replace_stmts (op_ID op) sts (q_data (w_db w)) = Inr d" "pt_stmts (q_data db') = pt_stmts d"
          using sv ok by (auto simp: store_SaveStatementsAndSelect_def sql_run_def split: if_splits sum.splits)
        have "sorted (map ost_StmtIndex sts)" using s by simp
        then have "stmts_of (op_ID op) (pt_stmts (q_data db')) = sts" using stmts_of_replace[OF d(1)] d(2) by simp
        then show ?thesis using assms(1) sn True Inr on ok s
          by (auto simp: select_persist_def http_ok_def store_LoadStatements_def sql_run_def execute_command_def)
      qed
    qed
  qed
qed

text \<open>
  A successful \<open>Select\<close> in \<open>sql\<close> mode stores exactly the staged statements of the chosen transactions in
  the order of the request; the statements that \<open>Execute\<close> and \<open>Resume\<close> then load and send are those, and
  a failing \<open>Select\<close> leaves the tables alone.
\<close>

theorem selection_is_what_executes:
  assumes "select_persist op txIDs w = (resp, w1)" and "w_previews w (op_ID op) = Some p"
  shows "(ht_Status resp \<noteq> 200 \<longrightarrow> q_data (w_db w1) = q_data (w_db w)) \<and>
    (ht_Status resp = 200 \<longrightarrow>
       ht_Body resp = BSelected (op_ID op) (op_Status op) txIDs (length (concat (map (sql_of p) txIDs))) \<and>
       (\<exists>stmts. fst (store_LoadStatements (op_ID op) ((w_db w1)\<lparr>q_fault := (\<lambda>_. False)\<rparr>)) = Inr stmts \<and>
          statementsToWire stmts = concat (map (sql_of p) txIDs) \<and>
          cm_Params (execute_command op stmts b ty) =
            PExecute \<lparr>er_OperationID = op_ID op, er_Statements = concat (map (sql_of p) txIDs), er_BatchSize = b\<rparr>))"
  using assms by (rule select_persist_outcome)

lemma selection_is_what_executes_witness:
  "let (resp, w1) = select_persist (ex_op ''sql'' StateReady) [''t2'', ''t1''] (ex_world ''sql'' StateReady []) in
   ht_Status resp = 200 \<and>
   (\<exists>stmts. fst (store_LoadStatements ''op1'' ((w_db w1)\<lparr>q_fault := (\<lambda>_. False)\<rparr>)) = Inr stmts \<and>
      map sw_SQL (statementsToWire stmts) = [''C'', ''A'', ''B''])"
proof -
  obtain resp w1 where s: "select_persist (ex_op ''sql'' StateReady) [''t2'', ''t1''] (ex_world ''sql'' StateReady []) = (resp, w1)"
    by fastforce
  have "ht_Status (fst (select_persist (ex_op ''sql'' StateReady) [''t2'', ''t1''] (ex_world ''sql'' StateReady []))) = 200"
    by code_simp
  then have "ht_Status resp = 200" using s by simp
  moreover have "w_previews (ex_world ''sql'' StateReady []) (op_ID (ex_op ''sql'' StateReady)) = Some ex_preview"
    by (simp add: ex_world_def ex_op_def)
  moreover have "map sw_SQL (concat (map (sql_of ex_preview) [''t2'', ''t1''])) = [''C'', ''A'', ''B'']"
    by code_simp
  ultimately show ?thesis using selection_is_what_executes[OF s, of ex_preview 0 CmdExecute] s
    by (auto simp: ex_op_def)
qed

end
