(* ===== verification/Pitr_Races.thy ===== *)
theory Pitr_Races
  imports Pitr_Props
begin

text \<open>
  The races that the handlers are written against - a scan that ends before the transition that announces it,
  an agent that disconnects, a caller without membership - and the windows that remain open.
\<close>

definition no_db_faults :: "pworld \<Rightarrow> bool" where
  "no_db_faults w = (q_fault (w_db w) = (\<lambda>_. False))"

subsection \<open>A transition that succeeds\<close>

text \<open>The world after operation \<open>i\<close> moved from \<open>s\<close> to \<open>t\<close>: nothing else in the tables changes.\<close>

definition moved :: "string \<Rightarrow> OperationState \<Rightarrow> OperationState \<Rightarrow> pworld \<Rightarrow> pworld" where
  "moved i s t w = w\<lparr>w_db := (w_db w)\<lparr>q_clock := Suc (q_clock (w_db w)),
     q_data := (q_data (w_db w))\<lparr>pt_ops := sql_update (\<lambda>r. row_ID r = i \<and> row_Status r = s)
       (\<lambda>r. r\<lparr>row_Status := t, row_UpdatedAt := w_now w\<rparr>) (pt_ops (q_data (w_db w)))\<rparr>\<rparr>\<rparr>"

lemma transitionTo_moved:
  assumes "no_db_faults w" and "w_ok w" and "w_status w (op_ID op) = Some (op_Status op)" and "op_move (op_Status op) t"
  shows "transitionTo op t w = (Inr True, op\<lparr>op_Status := t, op_UpdatedAt := w_now w\<rparr>, moved (op_ID op) (op_Status op) t w)"
proof -
  let ?op1 = "op\<lparr>op_Status := t, op_UpdatedAt := w_now w\<rparr>"
  obtain r where "row_of (op_ID op) (pt_ops (q_data (w_db w))) = Some r" "row_Status r = op_Status op"
    using assms(3) by (auto simp: db_status_def status_of_def)
  then have c: "0 < sql_count (\<lambda>r. row_ID r = op_ID op \<and> row_Status r = op_Status op) (pt_ops (q_data (w_db w)))"
    using sql_count_cas[of "pt_ops (q_data (w_db w))"] assms(2) by (auto simp: w_ok_def ids_distinct_def)
  have "store_UpdateIfStatus (w_now w) ?op1 (op_Status op) (w_db w) = (Inr True, w_db (moved (op_ID op) (op_Status op) t w))"
    using assms(1) c by (cases "time_is_zero (w_now w)") (simp_all add: store_UpdateIfStatus_def sql_run_def no_db_faults_def moved_def)
  from transitionTo_valid[OF assms(4) this] show ?thesis by (simp add: moved_def)
qed

lemma moved_simps [simp]:
  "pt_stmts (q_data (w_db (moved i s t w))) = pt_stmts (q_data (w_db w))"
  "no_db_faults (moved i s t w) = no_db_faults w" "w_ok (moved i s t w) = w_ok w"
  "w_audits (moved i s t w) = w_audits w" "w_previews (moved i s t w) = w_previews w" "w_now (moved i s t w) = w_now w"
  "w_bus (moved i s t w) = w_bus w" "w_connected (moved i s t w) = w_connected w"
  by (simp_all add: moved_def no_db_faults_def w_ok_def ids_distinct_def)

lemma moved_row:
  "row_of i (pt_ops (q_data (w_db (moved i s t w)))) =
     map_option (\<lambda>r. if row_Status r = s then r\<lparr>row_Status := t, row_UpdatedAt := w_now w\<rparr> else r)
       (row_of i (pt_ops (q_data (w_db w))))"
  by (cases "row_of i (pt_ops (q_data (w_db w)))") (auto simp: moved_def row_of_update dest: row_of_Some)

lemma moved_other: "j \<noteq> i \<Longrightarrow> w_status (moved i s t w) j = w_status w j"
  by (cases "row_of j (pt_ops (q_data (w_db w)))")
    (auto simp: moved_def db_status_def status_of_def row_of_update dest: row_of_Some)

lemma moved_status: "w_status w i = Some s \<Longrightarrow> w_status (moved i s t w) i = Some t"
  by (auto simp: db_status_def status_of_def moved_row)

definition tick :: "pworld \<Rightarrow> pworld" where
  "tick w = w\<lparr>w_db := (w_db w)\<lparr>q_clock := Suc (q_clock (w_db w))\<rparr>\<rparr>"

lemma tick_simps [simp]:
  "q_data (w_db (tick w)) = q_data (w_db w)" "no_db_faults (tick w) = no_db_faults w" "w_ok (tick w) = w_ok w"
  "w_status (tick w) i = w_status w i"
  by (simp_all add: tick_def no_db_faults_def w_ok_def ids_distinct_def db_status_def)

lemma on_db_Get:
  "no_db_faults w \<Longrightarrow> row_of i (pt_ops (q_data (w_db w))) = Some r \<Longrightarrow>
   on_db (store_Get G i) w = (scanOperation G r, tick w)"
  by (simp add: on_db_def store_Get_def sql_run_def no_db_faults_def tick_def)

lemma on_db_LoadStatements:
  "no_db_faults w \<Longrightarrow> on_db (store_LoadStatements i) w = (Inr (stmts_of i (pt_stmts (q_data (w_db w)))), tick w)"
  by (simp add: on_db_def store_LoadStatements_def sql_run_def no_db_faults_def tick_def)

lemma scanOperation_status:
  "scanOperation G r = Inr op \<Longrightarrow> scanOperation G (r\<lparr>row_Status := t, row_UpdatedAt := u\<rparr>) =
     Inr (op\<lparr>op_Status := t, op_UpdatedAt := u\<rparr>)"
  by (auto simp: scanOperation_def split: sum.splits)

subsection \<open>A rescan that ends early\<close>

text \<open>
  The second half of \<open>selectRescan\<close>, entered with the operation still \<open>ready\<close> on disk (the rescan's
  \<open>scan_done\<close> has either not arrived, or has arrived and gone through \<open>scanning\<close> back to \<open>ready\<close>):
  without store errors the operation ends \<open>ready\<close> when that \<open>scan_done\<close> persisted statements, and \<open>scanning\<close>
  otherwise. So a completed rescan that staged no SQL leaves it \<open>scanning\<close> with no event to come.
\<close>

theorem rescan_finish_outcome:
  assumes "no_db_faults w" and "w_ok w" and "op_Status op = StateReady"
    and "row_of (op_ID op) (pt_ops (q_data (w_db w))) = Some r" and "row_Status r = StateReady"
    and "scanOperation (pe_gtid E) r = Inr cur"
  shows "let (resp, w') = rescan_finish E op txIDs w;
             final = (if stmts_of (op_ID op) (pt_stmts (q_data (w_db w))) = [] then StateScanning else StateReady) in
    w_status w' (op_ID op) = Some final \<and> resp = http_ok 200 (BRescan (op_ID op) final txIDs)"
proof -
  let ?i = "op_ID op"
  let ?op1 = "op\<lparr>op_Status := StateScanning, op_UpdatedAt := w_now w\<rparr>"
  let ?w1 = "moved ?i StateReady StateScanning w"
  have st: "w_status w ?i = Some (op_Status op)" using assms(3-5) by (simp add: db_status_def status_of_def)
  have t: "transitionTo op StateScanning w = (Inr True, ?op1, ?w1)"
    using transitionTo_moved[OF assms(1,2) st, of StateScanning] assms(3) by simp
  have row1: "row_of ?i (pt_ops (q_data (w_db ?w1))) = Some (r\<lparr>row_Status := StateScanning, row_UpdatedAt := w_now w\<rparr>)"
    using assms(4,5) by (simp add: moved_row)
  have g: "on_db (store_Get (pe_gtid E) ?i) ?w1 = (Inr (cur\<lparr>op_Status := StateScanning, op_UpdatedAt := w_now w\<rparr>), tick ?w1)"
    using on_db_Get[of ?w1 ?i _ "pe_gtid E"] row1 assms(1) scanOperation_status[OF assms(6)] by simp
  have l: "on_db (store_LoadStatements ?i) (tick ?w1) = (Inr (stmts_of ?i (pt_stmts (q_data (w_db w)))), tick (tick ?w1))"
    using on_db_LoadStatements[of "tick ?w1" ?i] assms(1) by simp
  have st1: "w_status ?w1 ?i = Some StateScanning" using moved_status[of w ?i StateReady] st assms(3) by simp
  show ?thesis
  proof (cases "stmts_of ?i (pt_stmts (q_data (w_db w))) = []")
    case True
    then show ?thesis using t g l st1 by (simp add: rescan_finish_def rescan_settle_def Let_def)
  next
    case False
    let ?w2 = "tick (tick ?w1)"
    have "transitionTo ?op1 StateReady ?w2 = (Inr True, ?op1\<lparr>op_Status := StateReady, op_UpdatedAt := w_now ?w2\<rparr>,
        moved ?i StateScanning StateReady ?w2)"
      using transitionTo_moved[of ?w2 ?op1 StateReady] assms(1,2) st1 by simp
    moreover have "w_status (moved ?i StateScanning StateReady ?w2) ?i = Some StateReady"
      by (rule moved_status) (use st1 in simp)
    ultimately show ?thesis using False t g l by (simp add: rescan_finish_def rescan_settle_def Let_def)
  qed
qed

lemma ex_world_stmts: "stmts_of ''op1'' (pt_stmts (q_data (w_db (ex_world mode s sts)))) = sort_key ost_StmtIndex sts"
  by (simp add: ex_world_def stmts_of_def o_def)

lemma rescan_finish_outcome_witness:
  "w_status (snd (rescan_finish env0 (ex_op ''selected'' StateReady) [''t1'']
     (ex_world ''selected'' StateReady [mk_stmt 0 0 (ex_wire ''t1'' 0 ''A'')]))) ''op1'' = Some StateReady \<and>
   w_status (snd (rescan_finish env0 (ex_op ''selected'' StateReady) [''t1''] (ex_world ''selected'' StateReady []))) ''op1''
     = Some StateScanning"
proof -
  have r: "row_of ''op1'' (pt_ops (q_data (w_db (ex_world ''selected'' StateReady sts)))) = Some (op_row (ex_op ''selected'' StateReady))"
    for sts by (simp add: ex_world_def row_of_def op_row_def ex_op_def)
  have s: "scanOperation (pe_gtid env0) (op_row (ex_op ''selected'' StateReady)) = Inr (ex_op ''selected'' StateReady)"
    by (rule scanOperation_op_row) (simp add: gtid_storable_def ex_op_def ex_filter_def)
  have n: "no_db_faults (ex_world ''selected'' StateReady sts)" for sts by (simp add: no_db_faults_def ex_world_def)
  have e: "op_ID (ex_op ''selected'' StateReady) = ''op1''" "op_Status (ex_op ''selected'' StateReady) = StateReady"
    "row_Status (op_row (ex_op ''selected'' StateReady)) = StateReady"
    by (simp_all add: ex_op_def op_row_def)
  have "w_status (snd (rescan_finish env0 (ex_op ''selected'' StateReady) [''t1''] (ex_world ''selected'' StateReady sts))) ''op1'' =
      Some (if stmts_of ''op1'' (pt_stmts (q_data (w_db (ex_world ''selected'' StateReady sts)))) = []
        then StateScanning else StateReady)" for sts
    using rescan_finish_outcome[OF n[of sts] ex_world_ok e(2), unfolded e, OF r e(3) s, of "[''t1'']"]
    by (simp add: Let_def split_beta)
  then show ?thesis by (simp add: ex_world_stmts)
qed

subsection \<open>Start\<close>

text \<open>
  \<open>Start\<close> loses no \<open>scan_done\<close>: when the scan command leaves, the operation is \<open>scanning\<close> on disk and its
  preview slot has the requested cap, and once the agent accepted, \<open>Start\<close> writes nothing more, so a scan
  that was over before the answer arrived stays \<open>ready\<close>.
\<close>

theorem start_scans_before_dispatch:
  assumes "no_db_faults w" and "w_ok w" and "op_Status op = StateCreated" and "w_status w (op_ID op) = Some StateCreated"
    and "pe_commander E = Some send" and "w_connected w (st_AgentID req)"
  shows "\<exists>cmd w2. w_status w2 (op_ID op) = Some StateScanning \<and>
    map_option pv_maxEntries (w_previews w2 (op_ID op)) = Some (previewCap (st_MaxPreview req)) \<and>
    cm_Type cmd = CmdScan \<and> cm_Cmd cmd = op_ID op \<and>
    (case send (op_AgentID op) cmd w2 of
       (Inl e, w3) \<Rightarrow> ht_Status (fst (start_scan E req op w)) = 502
     | (Inr resp, w3) \<Rightarrow> if rejected resp = None then start_scan E req op w = (http_ok 201 (BState (op_ID op) StateScanning), w3)
                        else ht_Status (fst (start_scan E req op w)) = 502)"
proof -
  let ?w1 = "put_preview (op_ID op) ((previewFor (op_ID op) w)\<lparr>pv_maxEntries := previewCap (st_MaxPreview req)\<rparr>) w"
  let ?op1 = "op\<lparr>op_Status := StateScanning, op_UpdatedAt := w_now ?w1\<rparr>"
  let ?w2 = "moved (op_ID op) StateCreated StateScanning ?w1"
  let ?cmd = "\<lparr>cm_Cmd = op_ID op, cm_Type = CmdScan, cm_Params = PScan \<lparr>sr_Filter = st_Filter req,
    sr_Mode = st_Mode req, sr_MaxPreview = st_MaxPreview req\<rparr>\<rparr>"
  have fr: "no_db_faults ?w1" "w_ok ?w1" "w_status ?w1 (op_ID op) = Some (op_Status op)" "w_connected ?w1 = w_connected w"
    using assms by (simp_all add: put_preview_def no_db_faults_def w_ok_def)
  have t: "transitionTo op StateScanning ?w1 = (Inr True, ?op1, ?w2)"
    using transitionTo_moved[OF fr(1-3), of StateScanning] assms(3) by simp
  have c: "agentConnected E (st_AgentID req) ?w2" using assms(5,6) fr(4) by (simp add: agentConnected_def)
  have "w_status ?w2 (op_ID op) = Some StateScanning" by (rule moved_status) (use fr(3) assms(3) in simp)
  moreover have "map_option pv_maxEntries (w_previews ?w2 (op_ID op)) = Some (previewCap (st_MaxPreview req))"
    by (simp add: put_preview_def)
  moreover have "case send (op_AgentID op) ?cmd ?w2 of
       (Inl e, w3) \<Rightarrow> ht_Status (fst (start_scan E req op w)) = 502
     | (Inr resp, w3) \<Rightarrow> if rejected resp = None then start_scan E req op w = (http_ok 201 (BState (op_ID op) StateScanning), w3)
                        else ht_Status (fst (start_scan E req op w)) = 502"
    using t c assms(5)
    by (simp add: start_scan_def Let_def sendCommand_def http_error_def split: prod.split sum.split option.split)
  ultimately show ?thesis by (intro exI[of _ ?cmd] exI[of _ ?w2]) simp
qed

definition ex_start :: startRequest where
  "ex_start = \<lparr>st_AgentID = ''ag1'', st_Type = ''pitr'', st_Mode = ''sql'', st_Filter =
     \<lparr>sf_Tables = [], sf_TimeStart = [], sf_TimeEnd = [], sf_GTIDSet = [], sf_StartFile = [], sf_StartPos = 0,
      sf_EndFile = [], sf_EndPos = 0, sf_MaxRowsPerTx = 0, sf_SelectedTxIDs = []\<rparr>, st_MaxPreview = 10\<rparr>"

lemma start_scans_before_dispatch_witness:
  "(\<exists>(cmd :: Command) w2. w_status w2 ''op1'' = Some StateScanning \<and> cm_Type cmd = CmdScan \<and> cm_Cmd cmd = ''op1'') \<and>
   w_status (snd (start_scan (racing_env [(EvScanDone, DNull)]) ex_start (ex_op ''sql'' StateCreated)
     (ex_world ''sql'' StateCreated []))) ''op1'' = Some StateReady"
proof -
  let ?w = "ex_world ''sql'' StateCreated []" and ?op = "ex_op ''sql'' StateCreated"
  have e: "op_ID ?op = ''op1''" "op_Status ?op = StateCreated" by (simp_all add: ex_op_def)
  have c: "pe_commander (racing_env [(EvScanDone, DNull)]) = Some (racing_send [(EvScanDone, DNull)])"
    by (simp add: racing_env_def)
  have n: "no_db_faults ?w" "w_connected ?w (st_AgentID ex_start)" by (simp_all add: no_db_faults_def ex_world_def)
  have "\<exists>(cmd :: Command) w2. w_status w2 ''op1'' = Some StateScanning \<and> cm_Type cmd = CmdScan \<and> cm_Cmd cmd = ''op1''"
    using start_scans_before_dispatch[OF n(1) ex_world_ok e(2), unfolded e(1), OF ex_world_status c n(2)] by blast
  moreover have "w_status (snd (start_scan (racing_env [(EvScanDone, DNull)]) ex_start ?op ?w)) ''op1'' = Some StateReady"
    by code_simp
  ultimately show ?thesis by simp
qed

subsection \<open>Disconnects\<close>

definition block_state :: "OperationState \<Rightarrow> OperationState" where
  "block_state s = (if s \<in> set in_flight then StateBlocked else s)"

text \<open>Blocking one operation, from an up-to-date snapshot.\<close>

lemma blockOperation_moved:
  assumes "no_db_faults w" and "w_ok w" and "w_status w (op_ID op) = Some (op_Status op)" and "op_move (op_Status op) StateBlocked"
  shows "w_db (blockOperation op d w) = w_db (moved (op_ID op) (op_Status op) StateBlocked w)"
  using transitionTo_moved[OF assms] by (simp add: blockOperation_def)

definition decodable :: "gtid_lib \<Rightarrow> pworld \<Rightarrow> bool" where
  "decodable G w = (\<forall>r\<in>set (pt_ops (q_data (w_db w))). \<exists>op. scanOperation G r = Inr op)"

lemma decodable_moved:
  assumes "decodable G w"
  shows "decodable G (moved i s t w)"
  unfolding decodable_def
proof
  fix r assume "r \<in> set (pt_ops (q_data (w_db (moved i s t w))))"
  then obtain r0 where r0: "r0 \<in> set (pt_ops (q_data (w_db w)))"
    and r: "r = r0 \<or> r = r0\<lparr>row_Status := t, row_UpdatedAt := w_now w\<rparr>"
    by (auto simp: moved_def sql_update_def)
  then obtain op where "scanOperation G r0 = Inr op" using assms by (auto simp: decodable_def)
  then show "\<exists>op. scanOperation G r = Inr op" using r scanOperation_status by blast
qed

lemma decodable_scan_rows:
  "\<forall>r\<in>set rs. \<exists>op. scanOperation G r = Inr op \<Longrightarrow> \<exists>ops. scan_rows G rs = Inr ops"
  by (induction rs) auto

text \<open>Blocking a list of operations, except those of agents with \<open>Q\<close>.\<close>

lemma block_fold:
  assumes "list_all2 (\<lambda>r op. scanOperation G r = Inr op) rs ops" and "no_db_faults w" and "w_ok w"
    and "op_move st StateBlocked" and "distinct (map row_ID rs)"
    and "\<forall>r\<in>set rs. w_status w (row_ID r) = Some st" and "\<forall>r\<in>set rs. row_Status r = st" and "decodable G w"
  shows "let w' = fold (\<lambda>op w. if Q (op_AgentID op) then w else blockOperation op d w) ops w in
    no_db_faults w' \<and> w_ok w' \<and> decodable G w' \<and> pt_stmts (q_data (w_db w')) = pt_stmts (q_data (w_db w)) \<and>
    (\<forall>i. w_status w' i = (if \<exists>r\<in>set rs. row_ID r = i \<and> \<not> Q (row_AgentID r) then Some StateBlocked else w_status w i)) \<and>
    (\<forall>i. map_option row_AgentID (row_of i (pt_ops (q_data (w_db w')))) = map_option row_AgentID (row_of i (pt_ops (q_data (w_db w)))))"
  using assms
proof (induction rs ops arbitrary: w rule: list_all2_induct)
  case (Cons r rs op ops)
  note f = scanOperation_fields[OF Cons.hyps(1)]
  have dis: "distinct (map row_ID rs)" "row_ID r \<notin> row_ID ` set rs" using Cons.prems by auto
  show ?case
  proof (cases "Q (row_AgentID r)")
    case True
    then show ?thesis using Cons.IH[OF Cons.prems(1-3) dis(1)] Cons.prems f by (simp add: Let_def)
  next
    case False
    let ?w1 = "blockOperation op d w"
    have "w_status w (op_ID op) = Some (op_Status op)" "op_Status op = st" using Cons.prems f by auto
    note b = blockOperation_moved[OF Cons.prems(1,2) this(1), of d] this
    then have wd: "w_db ?w1 = w_db (moved (row_ID r) st StateBlocked w)" using Cons.prems(3) f by simp
    have fr: "no_db_faults ?w1" "w_ok ?w1" "pt_stmts (q_data (w_db ?w1)) = pt_stmts (q_data (w_db w))"
      using wd Cons.prems(1,2) moved_simps(1-3)[of "row_ID r" st StateBlocked w] by (simp_all add: no_db_faults_def w_ok_def)
    have st: "w_status ?w1 i = (if i = row_ID r then Some StateBlocked else w_status w i)" for i
      using wd moved_status[of w "row_ID r" st StateBlocked] moved_other[of i "row_ID r" st StateBlocked w] Cons.prems(5) by auto
    have "map_option row_AgentID (row_of i (pt_ops (q_data (w_db ?w1)))) =
        map_option row_AgentID (row_of i (pt_ops (q_data (w_db w))))" for i
      unfolding wd by (cases "row_of i (pt_ops (q_data (w_db w)))") (auto simp: moved_def row_of_update)
    moreover have "\<forall>r'\<in>set rs. w_status ?w1 (row_ID r') = Some st" using st dis(2) Cons.prems(5) by (metis image_eqI list.set_intros(2))
    moreover have "decodable G ?w1" using Cons.prems(7) decodable_moved wd by (simp add: decodable_def)
    ultimately show ?thesis using Cons.IH[OF fr(1,2) Cons.prems(3) dis(1)] Cons.prems(6) fr(3) st False f
      by (auto simp: Let_def)
  qed
qed simp

lemma on_db_ListByStatus:
  assumes "no_db_faults w" and "decodable G w"
  shows "\<exists>ops. on_db (store_ListByStatus G st) w = (Inr ops, tick w) \<and>
    list_all2 (\<lambda>r op. scanOperation G r = Inr op) (filter (\<lambda>r. row_Status r = st) (pt_ops (q_data (w_db w)))) ops"
proof -
  have "\<forall>r\<in>set (filter (\<lambda>r. row_Status r = st) (pt_ops (q_data (w_db w)))). \<exists>op. scanOperation G r = Inr op"
    using assms(2) by (auto simp: decodable_def)
  then obtain ops where ops: "scan_rows G (filter (\<lambda>r. row_Status r = st) (pt_ops (q_data (w_db w)))) = Inr ops"
    using decodable_scan_rows by blast
  then show ?thesis using scan_rows_Inr[OF ops] assms(1)
    by (simp add: on_db_def store_ListByStatus_def store_list_def sql_run_def no_db_faults_def tick_def)
qed

definition agent_of :: "pworld \<Rightarrow> string \<Rightarrow> string option" where
  "agent_of w i = map_option row_AgentID (row_of i (pt_ops (q_data (w_db w))))"

text \<open>One status of the loops: what the list call gives, and the world after the operations on it are blocked.\<close>

lemma block_round:
  assumes "no_db_faults w" and "w_ok w" and "decodable G w" and "op_move st StateBlocked"
  obtains ops w' where "on_db (store_ListByStatus G st) w = (Inr ops, tick w)"
    "fold (\<lambda>op w. if Q (op_AgentID op) then w else blockOperation op d w) ops (tick w) = w'"
    "no_db_faults w'" "w_ok w'" "decodable G w'" "agent_of w' = agent_of w"
    "\<And>i. w_status w' i = (if w_status w i = Some st \<and> (\<exists>a. agent_of w i = Some a \<and> \<not> Q a) then Some StateBlocked else w_status w i)"
proof -
  let ?rs = "filter (\<lambda>r. row_Status r = st) (pt_ops (q_data (w_db w)))"
  obtain ops where l: "on_db (store_ListByStatus G st) w = (Inr ops, tick w)"
    and a2: "list_all2 (\<lambda>r op. scanOperation G r = Inr op) ?rs ops"
    using on_db_ListByStatus[OF assms(1,3)] by blast
  define w' where "w' = fold (\<lambda>op w. if Q (op_AgentID op) then w else blockOperation op d w) ops (tick w)"
  have dd: "distinct (map row_ID (pt_ops (q_data (w_db w))))" using assms(2) by (simp add: w_ok_def ids_distinct_def)
  have row: "row_of (row_ID r) (pt_ops (q_data (w_db w))) = Some r" if "r \<in> set (pt_ops (q_data (w_db w)))" for r
    using row_of_mem[OF dd that] .
  have dr: "distinct (map row_ID ?rs)" using dd by (rule distinct_map_filter)
  have sr: "\<forall>r\<in>set ?rs. w_status (tick w) (row_ID r) = Some st" using row by (auto simp: db_status_def status_of_def tick_def)
  have ss: "\<forall>r\<in>set ?rs. row_Status r = st" by simp
  have nf: "no_db_faults (tick w)" and ok: "w_ok (tick w)" using assms(1,2) by simp_all
  have dec: "decodable G (tick w)" using assms(3) by (simp add: decodable_def)
  have f: "no_db_faults w' \<and> w_ok w' \<and> decodable G w' \<and>
    (\<forall>i. w_status w' i = (if \<exists>r\<in>set ?rs. row_ID r = i \<and> \<not> Q (row_AgentID r) then Some StateBlocked else w_status (tick w) i)) \<and>
    (\<forall>i. map_option row_AgentID (row_of i (pt_ops (q_data (w_db w')))) = map_option row_AgentID (row_of i (pt_ops (q_data (w_db (tick w))))))"
    using block_fold[OF a2 nf ok assms(4) dr sr ss dec, of Q d, unfolded Let_def, folded w'_def]
    by (elim conjE) (intro conjI, assumption+)
  have iff: "(\<exists>r\<in>set ?rs. row_ID r = i \<and> \<not> Q (row_AgentID r)) \<longleftrightarrow>
      w_status w i = Some st \<and> (\<exists>a. agent_of w i = Some a \<and> \<not> Q a)" for i
  proof
    assume "\<exists>r\<in>set ?rs. row_ID r = i \<and> \<not> Q (row_AgentID r)"
    then obtain r where "row_of i (pt_ops (q_data (w_db w))) = Some r" "row_Status r = st" "\<not> Q (row_AgentID r)"
      using row by auto
    then show "w_status w i = Some st \<and> (\<exists>a. agent_of w i = Some a \<and> \<not> Q a)" by (simp add: db_status_def status_of_def agent_of_def)
  next
    assume "w_status w i = Some st \<and> (\<exists>a. agent_of w i = Some a \<and> \<not> Q a)"
    then obtain r where r: "row_of i (pt_ops (q_data (w_db w))) = Some r" "row_Status r = st" "\<not> Q (row_AgentID r)"
      by (auto simp: db_status_def status_of_def agent_of_def)
    from row_of_Some[OF r(1)] r(2,3) show "\<exists>r\<in>set ?rs. row_ID r = i \<and> \<not> Q (row_AgentID r)" by auto
  qed
  have st: "w_status w' i = (if w_status w i = Some st \<and> (\<exists>a. agent_of w i = Some a \<and> \<not> Q a) then Some StateBlocked else w_status w i)" for i
  proof -
    have "w_status (tick w) i = w_status w i" by (simp add: tick_def db_status_def)
    then show ?thesis using f[THEN conjunct2, THEN conjunct2, THEN conjunct2, THEN conjunct1, rule_format, of i, unfolded iff] by (simp only:)
  qed
  have ag: "agent_of w' = agent_of w"
    unfolding agent_of_def
    using f[THEN conjunct2, THEN conjunct2, THEN conjunct2, THEN conjunct2] by (simp add: fun_eq_iff)
  show thesis using that[OF l w'_def[symmetric] _ _ _ ag st] f by blast
qed


lemma reconcile_round:
  assumes "no_db_faults w" and "w_ok w" and "decodable G w" and "op_move st StateBlocked"
  shows "\<exists>w'. reconcile_loop G (st # sts) w = reconcile_loop G sts w' \<and> no_db_faults w' \<and> w_ok w' \<and> decodable G w' \<and>
    (\<forall>i. w_status w' i = (if w_status w i = Some st then Some StateBlocked else w_status w i))"
proof -
  let ?d = "''server restart -- operation blocked; retry after the agent reconnects''"
  show ?thesis
  proof (rule block_round[OF assms, of "\<lambda>x. False" ?d])
    fix ops w'
    assume l: "on_db (store_ListByStatus G st) w = (Inr ops, tick w)"
      "fold (\<lambda>op w. if False then w else blockOperation op ?d w) ops (tick w) = w'"
      and rest: "no_db_faults w'" "w_ok w'" "decodable G w'"
      and st: "\<And>i. w_status w' i = (if w_status w i = Some st \<and> (\<exists>x. agent_of w i = Some x \<and> \<not> False) then Some StateBlocked else w_status w i)"
    have "reconcile_loop G (st # sts) w = reconcile_loop G sts w'" using l by simp
    moreover have "w_status w' i = (if w_status w i = Some st then Some StateBlocked else w_status w i)" for i
      unfolding st by (auto simp: agent_of_def db_status_def status_of_def)
    ultimately show ?thesis using rest by (intro exI[of _ w']) simp
  qed
qed

text \<open>A restart blocks whatever was in flight.\<close>

lemma reconcile_blocks_in_flight:
  assumes "no_db_faults w" and "w_ok w" and "decodable G w"
  shows "w_status (snd (ReconcileOnStartup G w)) i = map_option block_state (w_status w i)"
proof -
  obtain w1 where w1: "reconcile_loop G [StateScanning, StateExecuting] w = reconcile_loop G [StateExecuting] w1"
    "no_db_faults w1" "w_ok w1" "decodable G w1"
    "\<forall>i. w_status w1 i = (if w_status w i = Some StateScanning then Some StateBlocked else w_status w i)"
    using reconcile_round[OF assms, of StateScanning "[StateExecuting]"] by auto
  obtain w2 where w2: "reconcile_loop G [StateExecuting] w1 = reconcile_loop G [] w2"
    "\<forall>i. w_status w2 i = (if w_status w1 i = Some StateExecuting then Some StateBlocked else w_status w1 i)"
    using reconcile_round[OF w1(2-4), of StateExecuting "[]"] by auto
  show ?thesis using w1 w2
    by (cases "w_status w i") (auto simp: ReconcileOnStartup_def in_flight_def block_state_def)
qed



end
