(* ===== verification/Pitr_Access.thy ===== *)
theory Pitr_Access
  imports Pitr_Races
begin

text \<open>Who may act on an operation, and four places where the handlers fall short of what their comments say.\<close>

subsection \<open>Membership\<close>

definition acts_on_op :: "http_req \<Rightarrow> pitr_call \<Rightarrow> bool" where
  "acts_on_op rq c = (c = CStatus rq \<or> c = CTransactions rq \<or> (\<exists>b. c = CSelect rq b) \<or> (\<exists>b. c = CExecute rq b) \<or>
     c = CResume rq \<or> c = CPause rq \<or> c = CCancel rq)"

definition unchanged :: "pworld \<Rightarrow> pworld \<Rightarrow> bool" where
  "unchanged w w' = (q_data (w_db w') = q_data (w_db w) \<and> w_audits w' = w_audits w \<and>
     w_previews w' = w_previews w \<and> w_bus w' = w_bus w)"

lemma orgMemberContains_iff: "orgMemberContains ms u = has_user u ms"
  by (auto simp: orgMemberContains_def has_user_iff list_ex_iff)

lemma ListMembers_Inr:
  "sql_ListMembers i db = (Inr ms, db') \<Longrightarrow> ms = members_of i (q_data db)"
  using sql_org.list_ok[of i db ms db'] by (simp add: sql_org_view_def)

lemma authorize_denied:
  assumes "\<And>r. row_of (rq_OpID rq) (pt_ops (q_data (w_db w))) = Some r \<Longrightarrow>
    \<not> has_user (rq_UserID rq) (members_of (row_OrgID r) (q_data (w_orgs w)))"
  shows "\<exists>e w'. authorizeOp G rq w = (Inl e, w') \<and> unchanged w w' \<and> ht_Status e \<in> {400, 401, 403, 404}"
proof (cases "rq_UserID rq = [] \<or> rq_OpID rq = []")
  case True
  then show ?thesis by (auto simp: authorizeOp_def unchanged_def http_msg_def http_error_def)
next
  case False
  obtain r1 db1 where g: "store_Get G (rq_OpID rq) (w_db w) = (r1, db1)" by fastforce
  have q: "q_data db1 = q_data (w_db w)" by (rule store_Get_same[OF g])
  show ?thesis
  proof (cases r1)
    case (Inl e)
    then show ?thesis using False g q by (auto simp: authorizeOp_def on_db_def unchanged_def http_error_def)
  next
    case (Inr op)
    obtain r where r: "row_of (rq_OpID rq) (pt_ops (q_data (w_db w))) = Some r" "scanOperation G r = Inr op"
      using store_Get_Inr[of G "rq_OpID rq" "w_db w" op db1] g Inr by auto
    obtain m od where m: "sql_ListMembers (op_OrgID op) (w_orgs w) = (m, od)" by fastforce
    have "m = Inr ms \<Longrightarrow> \<not> orgMemberContains ms (rq_UserID rq)" for ms
      using assms[OF r(1)] ListMembers_Inr[of "op_OrgID op" "w_orgs w" ms od] m scanOperation_fields[OF r(2)]
      by (simp add: orgMemberContains_iff)
    then show ?thesis using False g q Inr m
      by (cases m) (auto simp: authorizeOp_def on_db_def on_orgs_def unchanged_def http_msg_def http_error_def)
  qed
qed

lemma denied_changes_nothing:
  assumes "acts_on_op rq c"
    and "\<forall>r. row_of (rq_OpID rq) (pt_ops (q_data (w_db w))) = Some r \<longrightarrow>
      \<not> has_user (rq_UserID rq) (members_of (row_OrgID r) (q_data (w_orgs w)))"
  shows "unchanged w (pitr_do E c w) \<and> pitr_do E c w = pitr_do (E\<lparr>pe_commander := None\<rparr>) c w"
proof -
  obtain e w' where a: "authorizeOp (pe_gtid E) rq w = (Inl e, w')" and u: "unchanged w w'"
    using authorize_denied[of rq w "pe_gtid E"] assms(2) by blast
  then show ?thesis using assms(1)
    by (auto simp: acts_on_op_def Status_def Transactions_def SelectOp_def ExecuteOp_def ResumeOp_def PauseOp_def CancelOp_def)
qed

text \<open>
  C28. Only members act: for a caller who is not a member of the operation's organisation, reading, selecting,
  executing, resuming, pausing and cancelling change neither tables nor audit log nor previews nor
  subscriptions, and send nothing - the result is the same without a commander.
\<close>

theorem only_members_act:
  assumes "acts_on_op rq c"
    and "\<forall>r. row_of (rq_OpID rq) (pt_ops (q_data (w_db w))) = Some r \<longrightarrow>
      \<not> has_user (rq_UserID rq) (members_of (row_OrgID r) (q_data (w_orgs w)))"
  shows "unchanged w (pitr_do E c w) \<and> pitr_do E c w = pitr_do (E\<lparr>pe_commander := None\<rparr>) c w"
  using assms by (rule denied_changes_nothing)

lemma only_members_act_witness:
  "unchanged (ex_world ''sql'' StateExecuting [])
     (pitr_do (racing_env []) (CPause (ex_rq\<lparr>rq_UserID := ''mallory''\<rparr>)) (ex_world ''sql'' StateExecuting []))"
proof -
  have h: "\<forall>r. row_of (rq_OpID (ex_rq\<lparr>rq_UserID := ''mallory''\<rparr>)) (pt_ops (q_data (w_db (ex_world ''sql'' StateExecuting [])))) = Some r \<longrightarrow>
      \<not> has_user (rq_UserID (ex_rq\<lparr>rq_UserID := ''mallory''\<rparr>)) (members_of (row_OrgID r) (q_data (w_orgs (ex_world ''sql'' StateExecuting []))))"
    by (simp add: ex_world_def row_of_def op_row_def ex_op_def ex_rq_def has_user_def members_of_def)
  have "acts_on_op (ex_rq\<lparr>rq_UserID := ''mallory''\<rparr>) (CPause (ex_rq\<lparr>rq_UserID := ''mallory''\<rparr>))"
    by (simp add: acts_on_op_def)
  from only_members_act[OF this h] show ?thesis by (rule conjunct1)
qed

subsection \<open>Open windows\<close>

text \<open>
  \<open>Execute\<close> hands the statements to the agent before its compare-and-swap. A second request that read the
  operation as \<open>ready\<close> therefore dispatches the same statements again, and only then answers 409.
\<close>

theorem second_execute_is_dispatched:
  assumes "no_db_faults w" and "stmts_of (op_ID op) (pt_stmts (q_data (w_db w))) \<noteq> []" and "op_Status op = StateReady"
    and "sendCommand E (op_AgentID op)
      (execute_command op (stmts_of (op_ID op) (pt_stmts (q_data (w_db w)))) b CmdExecute) (tick w) = (Inr resp, w2)"
    and "rejected resp = None" and "no_db_faults w2" and "w_ok w2" and "w_status w2 (op_ID op) = Some StateExecuting"
  shows "fst (sendExecute E op b CmdExecute StateExecuting w) = concurrent_change \<and>
    q_data (w_db (snd (sendExecute E op b CmdExecute StateExecuting w))) = q_data (w_db w2)"
proof -
  obtain r op' w3 where t: "transitionTo op StateExecuting w2 = (r, op', w3)" using prod_cases3 by blast
  have "r = Inr False \<and> q_data (w_db w3) = q_data (w_db w2)"
  proof -
    have mv: "op_move (op_Status op) StateExecuting" using assms(3) by simp
    obtain r1 db' where u: "store_UpdateIfStatus (w_now w2) (op\<lparr>op_Status := StateExecuting, op_UpdatedAt := w_now w2\<rparr>)
        (op_Status op) (w_db w2) = (r1, db')" by fastforce
    have "\<exists>ok. r1 = Inr ok" using u assms(6)
      by (auto simp: store_UpdateIfStatus_def sql_run_def no_db_faults_def Let_def split: if_splits)
    then show ?thesis using transitionTo_cases[OF t assms(7)] transitionTo_valid[OF mv u] t assms(3,8) by auto
  qed
  then show ?thesis using on_db_LoadStatements[OF assms(1), of "op_ID op"] assms(2,4,5) t
    by (simp add: sendExecute_def)
qed

lemma second_execute_is_dispatched_witness:
  "fst (sendExecute (racing_env []) (ex_op ''sql'' StateReady) 0 CmdExecute StateExecuting
     (ex_world ''sql'' StateExecuting [mk_stmt 0 0 (ex_wire ''t1'' 0 ''A'')])) = concurrent_change"
proof -
  let ?w = "ex_world ''sql'' StateExecuting [mk_stmt 0 0 (ex_wire ''t1'' 0 ''A'')]"
  let ?op = "ex_op ''sql'' StateReady"
  let ?resp = "Some \<lparr>rs_Cmd = ''op1'', rs_Status = StatusOK, rs_Result = DNull, rs_Error = []\<rparr>"
  have e: "op_ID ?op = ''op1''" "op_Status ?op = StateReady" by (simp_all add: ex_op_def)
  have n: "no_db_faults ?w" by (simp add: no_db_faults_def ex_world_def)
  have s: "sendCommand (racing_env []) (op_AgentID ?op) (execute_command ?op sts 0 CmdExecute) (tick ?w) = (Inr ?resp, tick ?w)" for sts
    by (simp add: sendCommand_def racing_env_def racing_send_def execute_command_def e)
  have "stmts_of (op_ID ?op) (pt_stmts (q_data (w_db ?w))) \<noteq> []" by (simp add: e ex_world_stmts)
  moreover have "rejected ?resp = None" by (simp add: rejected_def StatusOK_def StatusError_def)
  ultimately show ?thesis
    using second_execute_is_dispatched[of ?w ?op "racing_env []" 0 ?resp "tick ?w"] n s e by simp
qed

text \<open>
  \<open>selectRescan\<close> records the selection with \<open>Update\<close>, which writes the whole row from the snapshot the
  request read, its status included. A cancel that lands between that read and the write is undone: the
  operation leaves the terminal state and is \<open>ready\<close> again.
\<close>

theorem stale_selection_undoes_cancel:
  assumes "no_db_faults w" and "w_status w (op_ID op) = Some StateCancelled" and "op_Status op = StateReady"
    and "pe_commander E = None"
  shows "w_status (snd (rescan_persist E op txIDs w)) (op_ID op) = Some StateReady"
proof -
  let ?i = "op_ID op"
  obtain r where r: "row_of ?i (pt_ops (q_data (w_db w))) = Some r"
    using assms(2) by (auto simp: db_status_def status_of_def)
  obtain u w1 where u: "on_db (store_Update (w_now w) op) w = (u, w1)" by fastforce
  obtain x where x: "row_Status x = StateReady" "row_ID x = ?i" and
    d: "u = Inr ()" "pt_ops (q_data (w_db w1)) = sql_update (\<lambda>r. row_ID r = ?i) (\<lambda>_. x) (pt_ops (q_data (w_db w)))"
    and nf: "no_db_faults w1"
  proof -
    define op' where "op' = (if time_is_zero (op_UpdatedAt op) then op\<lparr>op_UpdatedAt := w_now w\<rparr> else op)"
    have "op_ID op' = ?i" "op_Status op' = StateReady" using assms(3) by (simp_all add: op'_def)
    moreover have "sql_count (\<lambda>r. row_ID r = ?i) (pt_ops (q_data (w_db w))) \<noteq> 0" using r by (simp add: sql_count_id)
    moreover have "q_fault (w_db w) n = False" for n using assms(1) by (simp add: no_db_faults_def)
    ultimately show ?thesis using that[of "op_row op'"] u assms(1)
      by (auto simp: on_db_def store_Update_def sql_run_def Let_def op'_def[symmetric] op_row_def no_db_faults_def)
  qed
  have s1: "w_status w1 ?i = Some StateReady"
    using r x row_of_Some[OF r] by (simp add: db_status_def status_of_def d(2) row_of_update)
  obtain s w2 where s: "on_db (store_SaveStatements ?i []) w1 = (s, w2)" by fastforce
  have "pt_ops (q_data (w_db w2)) = pt_ops (q_data (w_db w1))"
    using s SaveStatements_ops[of ?i "[]" "w_db w1"] by (cases "store_SaveStatements ?i [] (w_db w1)") (auto simp: on_db_def)
  then have "w_status w2 ?i = Some StateReady" using s1 by (simp add: db_status_def status_of_def)
  then show ?thesis using u d(1) s assms(4) s1 by (simp add: rescan_persist_def sendCommand_def split: sum.split)
qed

lemma stale_selection_undoes_cancel_witness:
  "w_status (snd (rescan_persist env0 (ex_op ''selected'' StateReady) [''t1''] (ex_world ''selected'' StateCancelled []))) ''op1''
    = Some StateReady"
proof -
  have "op_ID (ex_op ''selected'' StateReady) = ''op1''" by (simp add: ex_op_def)
  then show ?thesis
    using stale_selection_undoes_cancel[of "ex_world ''selected'' StateCancelled []" "ex_op ''selected'' StateReady" env0 "[''t1'']"]
    by (simp add: no_db_faults_def ex_world_def[of _ StateCancelled] env0_def db_status_def status_of_def row_of_def op_row_def ex_op_def)
qed

text \<open>
  \<open>forgetPreview\<close> is not final: a late \<open>tx_meta\<close> of an operation in a terminal state creates its preview
  again, with the default cap, and no later event of the operation removes it.
\<close>

theorem late_meta_recreates_preview:
  assumes "no_db_faults w" and "row_of i (pt_ops (q_data (w_db w))) = Some r" and "scanOperation (pe_gtid E) r = Inr op"
    and "row_AgentID r = a" and "i \<noteq> []" and "w_previews w i = None"
    and "cm_Params cmd = PStream i EvTxMeta (DTxMeta m)"
  shows "\<exists>p. w_previews (HandleStreamEvent E a cmd w) i = Some p \<and> pv_metas p = [m] \<and> pv_maxEntries p = defaultMaxPreview"
  using on_db_Get[OF assms(1,2), of "pe_gtid E"] scanOperation_fields[OF assms(3)] assms(3-7)
  by (simp add: HandleStreamEvent_def dispatch_event_def ws_consts on_tx_meta_def stageTxMeta_def previewFor_def
      put_preview_def publish_def stage_meta_def fresh_preview_def defaultMaxPreview_def tick_def)

lemma late_meta_recreates_preview_witness:
  "\<exists>p. w_previews (HandleStreamEvent env0 ''ag1'' (stream_cmd ''op1'' EvTxMeta (DTxMeta (ex_meta ''t9'')))
      (forgetPreview ''op1'' (ex_world ''sql'' StateCancelled []))) ''op1'' = Some p \<and> pv_metas p = [ex_meta ''t9''] \<and>
      pv_maxEntries p = defaultMaxPreview"
proof -
  let ?w = "forgetPreview ''op1'' (ex_world ''sql'' StateCancelled [])"
  have "row_of ''op1'' (pt_ops (q_data (w_db ?w))) = Some (op_row (ex_op ''sql'' StateCancelled))"
    by (simp add: ex_world_def row_of_def op_row_def ex_op_def)
  moreover have "scanOperation (pe_gtid env0) (op_row (ex_op ''sql'' StateCancelled)) = Inr (ex_op ''sql'' StateCancelled)"
    by (rule scanOperation_op_row) (simp add: gtid_storable_def ex_op_def ex_filter_def)
  moreover have "row_AgentID (op_row (ex_op ''sql'' StateCancelled)) = ''ag1''" by (simp add: op_row_def ex_op_def)
  moreover have "no_db_faults ?w" "w_previews ?w ''op1'' = None"
    by (simp_all add: no_db_faults_def ex_world_def forgetPreview_def)
  ultimately show ?thesis
    using late_meta_recreates_preview[of ?w "''op1''" _ env0 _ "''ag1''"
        "stream_cmd ''op1'' EvTxMeta (DTxMeta (ex_meta ''t9''))" "ex_meta ''t9''"]
    by (simp add: stream_cmd_def)
qed

text \<open>
  \<open>validateScanFilter\<close> accepts MariaDB GTID sets, but \<open>scanFilterToBinlog\<close> parses the MySQL syntax only:
  an accepted MariaDB set is dropped from the recorded filter, and from the rescan that is built from it.
\<close>

theorem mariadb_gtid_filter_is_dropped:
  assumes "validateScanFilter G f = None" and "sf_GTIDSet f \<noteq> []" and "parse_mysql G (sf_GTIDSet f) = None"
  shows "parse_mariadb G (sf_GTIDSet f) \<noteq> None \<and> f_GTIDSet (scanFilterToBinlog G f) = None \<and>
    sf_GTIDSet (binlogFilterToWire (scanFilterToBinlog G f)) = []"
  using assms
  by (auto simp: validateScanFilter_def scanFilterToBinlog_def binlogFilterToWire_def lib_ParseGTIDSet_def split: if_splits)

lemma mariadb_gtid_filter_is_dropped_witness:
  "f_GTIDSet (scanFilterToBinlog ex_gtid ((st_Filter ex_start)\<lparr>sf_GTIDSet := ''0-1-100''\<rparr>)) = None"
proof -
  let ?f = "(st_Filter ex_start)\<lparr>sf_GTIDSet := ''0-1-100''\<rparr>"
  have "validateScanFilter ex_gtid ?f = None" by code_simp
  moreover have "parse_mysql ex_gtid (sf_GTIDSet ?f) = None" by code_simp
  ultimately show ?thesis using mariadb_gtid_filter_is_dropped[of ex_gtid ?f] by simp
qed

end
