(* ===== verification/Fk_Order.thy ===== *)
theory Fk_Order
  imports Prelude "HOL-Library.AList"
begin

text \<open>
  \<open>connector/fk.go\<close>: tables in an order in which every referenced table comes before the tables that reference it,
  by Kahn's algorithm. The map \<open>inDegree\<close> is an association list (a missing key reads as 0), \<open>children\<close> a function.
\<close>

subsection \<open>The code\<close>

record FKConstraint =
  fk_TableName :: string
  fk_RefTableName :: string

definition deg_of :: "(string \<times> int) list \<Rightarrow> string \<Rightarrow> int" where
  "deg_of deg t = (case map_of deg t of None \<Rightarrow> 0 | Some d \<Rightarrow> d)"

text \<open>The loop over the constraints: edges with both ends among the tables are recorded.\<close>

fun add_constraints :: "FKConstraint list \<Rightarrow> (string \<times> int) list \<times> (string \<Rightarrow> string list) \<Rightarrow>
    (string \<times> int) list \<times> (string \<Rightarrow> string list)" where
  "add_constraints [] s = s"
| "add_constraints (c # cs) (deg, children) =
     (if map_of deg (fk_RefTableName c) = None then add_constraints cs (deg, children)
      else if map_of deg (fk_TableName c) = None then add_constraints cs (deg, children)
      else add_constraints cs
             (AList.update (fk_TableName c) (deg_of deg (fk_TableName c) + 1) deg,
              children(fk_RefTableName c := children (fk_RefTableName c) @ [fk_TableName c])))"

text \<open>The inner loop: the children of a node lose an edge, those without edges are queued.\<close>

fun relax :: "string list \<Rightarrow> (string \<times> int) list \<times> string list \<Rightarrow> (string \<times> int) list \<times> string list" where
  "relax [] s = s"
| "relax (c # cs) (deg, queue) =
     (let d = deg_of deg c - 1 in
      relax cs (AList.update c d deg, if d = 0 then queue @ [c] else queue))"

definition positives :: "(string \<times> int) list \<Rightarrow> nat" where
  "positives deg = length (filter (\<lambda>p. 0 < snd p) deg)"

lemma positives_update:
  "positives (AList.update c (deg_of deg c - 1) deg) + (if deg_of deg c - 1 = 0 then 1 else 0) \<le> positives deg"
  by (induction deg) (auto simp: positives_def deg_of_def)

lemma relax_measure: "2 * positives (fst (relax cs (deg, q))) + length (snd (relax cs (deg, q))) \<le> 2 * positives deg + length q"
proof (induction cs arbitrary: deg q)
  case (Cons c cs)
  let ?q = "if deg_of deg c - 1 = 0 then q @ [c] else q"
  have "2 * positives (AList.update c (deg_of deg c - 1) deg) + length ?q \<le> 2 * positives deg + length q"
    using positives_update[of c deg] by (auto split: if_splits)
  then show ?case using Cons.IH[of "AList.update c (deg_of deg c - 1) deg" ?q] by (simp add: Let_def)
qed simp

text \<open>The outer loop ends, whatever the graph: a pass takes a node from the queue or uses up a positive degree.\<close>

function kahn :: "(string \<Rightarrow> string list) \<Rightarrow> (string \<times> int) list \<Rightarrow> string list \<Rightarrow> string list \<Rightarrow> string list" where
  "kahn children deg [] ordered = ordered"
| "kahn children deg (node # queue) ordered =
     (let s = relax (children node) (deg, queue) in kahn children (fst s) (snd s) (ordered @ [node]))"
  by pat_completeness auto

termination
proof (relation "measure (\<lambda>(_, deg, q, _). 2 * positives deg + length q)", goal_cases)
  case (2 children deg node queue ordered s)
  then show ?case using relax_measure[of "children node" deg queue] by simp
qed simp

definition topoSort :: "string list \<Rightarrow> FKConstraint list \<Rightarrow> string list" where
  "topoSort tables constraints =
     (if tables = [] then []
      else (let (deg, children) = add_constraints constraints (map (\<lambda>t. (t, 0)) tables, \<lambda>_. []);
                ordered = kahn children deg (filter (\<lambda>t. deg_of deg t = 0) tables) [] in
            ordered @ filter (\<lambda>t. t \<notin> set ordered) tables))"

text \<open>
  The last loop of \<open>topoSort\<close> does not add to \<open>seen\<close>, so a table that is listed twice and not in \<open>ordered\<close> is
  appended twice; \<open>filter\<close> does the same.
\<close>

text \<open>\<open>GetFKOrder\<close>; \<open>query\<close> is \<open>queryFKConstraints\<close> on the tables.\<close>

definition GetFKOrder :: "(string list \<Rightarrow> err + FKConstraint list) \<Rightarrow> string list \<Rightarrow> err + string list" where
  "GetFKOrder query tables =
     (if tables = [] then Inr []
      else (case query tables of Inl e \<Rightarrow> Inl e | Inr cs \<Rightarrow> Inr (topoSort tables cs)))"

subsection \<open>The graph\<close>

definition fk_edges :: "string list \<Rightarrow> FKConstraint list \<Rightarrow> FKConstraint list" where
  "fk_edges tables cs = filter (\<lambda>c. fk_RefTableName c \<in> set tables \<and> fk_TableName c \<in> set tables) cs"

text \<open>The relation from referenced tables to the tables that reference them.\<close>

definition fk_rel :: "FKConstraint list \<Rightarrow> (string \<times> string) set" where
  "fk_rel es = (\<lambda>c. (fk_RefTableName c, fk_TableName c)) ` set es"

definition edges_into :: "FKConstraint list \<Rightarrow> string set \<Rightarrow> string \<Rightarrow> nat" where
  "edges_into es done_set t = length (filter (\<lambda>c. fk_TableName c = t \<and> fk_RefTableName c \<notin> done_set) es)"

definition edge_children :: "FKConstraint list \<Rightarrow> string \<Rightarrow> string list" where
  "edge_children es p = map fk_TableName (filter (\<lambda>c. fk_RefTableName c = p) es)"

lemma deg_of_update [simp]: "deg_of (AList.update k v al) t = (if t = k then v else deg_of al t)"
  by (simp add: deg_of_def update_conv')

lemma add_constraints_edges:
  assumes "dom (map_of deg) = set tables"
  shows "let (deg', ch') = add_constraints cs (deg, ch) in
    (\<forall>t. deg_of deg' t = deg_of deg t + int (edges_into (fk_edges tables cs) {} t)) \<and>
    (\<forall>p. ch' p = ch p @ edge_children (fk_edges tables cs) p)"
  using assms
proof (induction cs arbitrary: deg ch)
  case (Cons c cs)
  have N: "map_of deg t = None \<longleftrightarrow> t \<notin> set tables" for t using Cons.prems by (auto simp: domIff)
  show ?case
  proof (cases "fk_RefTableName c \<in> set tables \<and> fk_TableName c \<in> set tables")
    case True
    let ?deg = "AList.update (fk_TableName c) (deg_of deg (fk_TableName c) + 1) deg"
    let ?ch = "ch(fk_RefTableName c := ch (fk_RefTableName c) @ [fk_TableName c])"
    have d: "dom (map_of ?deg) = set tables" using Cons.prems True by (simp add: update_conv' insert_absorb)
    obtain deg' ch' where r: "add_constraints cs (?deg, ?ch) = (deg', ch')" by fastforce
    then have "add_constraints (c # cs) (deg, ch) = (deg', ch')" using True by (simp add: N)
    moreover have "fk_edges tables (c # cs) = c # fk_edges tables cs" using True by (simp add: fk_edges_def)
    ultimately show ?thesis using Cons.IH[OF d, of ?ch] unfolding r
      by (auto simp: edges_into_def edge_children_def)
  next
    case False
    then show ?thesis using Cons.IH[OF Cons.prems] by (auto simp: N fk_edges_def)
  qed
qed (simp add: fk_edges_def edges_into_def edge_children_def)

lemma count_edge_children: "count_list (edge_children es p) t = length (filter (\<lambda>c. fk_TableName c = t \<and> fk_RefTableName c = p) es)"
  by (induction es) (auto simp: edge_children_def)

lemma edges_into_insert:
  "p \<notin> S \<Longrightarrow> edges_into es S t = edges_into es (insert p S) t + count_list (edge_children es p) t"
  unfolding edges_into_def count_edge_children by (induction es) auto

lemma edges_into_0: "edges_into es S t = 0 \<longleftrightarrow> (\<forall>p. (p, t) \<in> fk_rel es \<longrightarrow> p \<in> S)"
  by (auto simp: edges_into_def fk_rel_def filter_empty_conv)

lemma relax_degrees:
  assumes "\<forall>t. int (count_list cs t) \<le> deg_of deg t \<or> t \<notin> set cs"
  shows "\<exists>deg' news. relax cs (deg, q) = (deg', q @ news) \<and> (\<forall>t. deg_of deg' t = deg_of deg t - int (count_list cs t)) \<and>
    distinct news \<and> set news = {t \<in> set cs. deg_of deg t = int (count_list cs t)}"
  using assms
proof (induction cs arbitrary: deg q)
  case (Cons c cs)
  let ?d = "deg_of deg c - 1"
  let ?deg = "AList.update c ?d deg"
  let ?q = "if ?d = 0 then q @ [c] else q"
  have le: "int (count_list cs t) \<le> deg_of ?deg t \<or> t \<notin> set cs" for t
    using Cons.prems[rule_format, of t] by (auto split: if_splits)
  then obtain deg' news where r: "relax cs (?deg, ?q) = (deg', ?q @ news)"
    "\<forall>t. deg_of deg' t = deg_of ?deg t - int (count_list cs t)" "distinct news"
    "set news = {t \<in> set cs. deg_of ?deg t = int (count_list cs t)}" using Cons.IH[of ?deg ?q] by auto
  have c0: "c \<notin> set cs \<Longrightarrow> count_list cs c = 0" by (simp add: count_list_0_iff)
  have pos: "c \<in> set cs \<Longrightarrow> count_list cs c \<noteq> 0" by (simp add: count_list_0_iff)
  show ?case
  proof (cases "?d = 0")
    case True
    then have "c \<notin> set cs" using le[of c] pos by fastforce
    then show ?thesis using r True c0
      by (intro exI[of _ deg'] exI[of _ "c # news"]) (auto simp: Let_def)
  next
    case False
    then show ?thesis using r c0 by (intro exI[of _ deg'] exI[of _ news]) (auto simp: Let_def)
  qed
qed simp

subsection \<open>The order\<close>

text \<open>Every table of the list comes after all the tables it references.\<close>

definition parents_first :: "FKConstraint list \<Rightarrow> string list \<Rightarrow> bool" where
  "parents_first es l \<longleftrightarrow> (\<forall>i<length l. \<forall>p. (p, l ! i) \<in> fk_rel es \<longrightarrow> p \<in> set (take i l))"

lemma parents_first_snoc: "parents_first es (l @ [n]) \<longleftrightarrow> parents_first es l \<and> (\<forall>p. (p, n) \<in> fk_rel es \<longrightarrow> p \<in> set l)"
  by (auto simp: parents_first_def nth_append less_Suc_eq)

definition kahn_inv :: "string set \<Rightarrow> FKConstraint list \<Rightarrow> (string \<times> int) list \<Rightarrow> string list \<Rightarrow> string list \<Rightarrow> bool" where
  "kahn_inv T es deg q l \<longleftrightarrow> distinct (l @ q) \<and> set l \<union> set q = {t \<in> T. deg_of deg t = 0} \<and>
     (\<forall>t\<in>T. deg_of deg t = int (edges_into es (set l) t)) \<and> parents_first es l"

lemma kahn_step:
  assumes "kahn_inv T es deg (n # q) l" and "fk_TableName ` set es \<subseteq> T"
  defines "s \<equiv> relax (edge_children es n) (deg, q)"
  shows "kahn_inv T es (fst s) (snd s) (l @ [n])"
proof -
  let ?cs = "edge_children es n"
  have i: "distinct (l @ n # q)" "set l \<union> set (n # q) = {t \<in> T. deg_of deg t = 0}"
    "\<And>t. t \<in> T \<Longrightarrow> deg_of deg t = int (edges_into es (set l) t)" "parents_first es l"
    using assms(1) by (auto simp: kahn_inv_def)
  have nl: "n \<notin> set l" using i(1) by simp
  have sub: "set ?cs \<subseteq> T" using assms(2) by (auto simp: edge_children_def)
  have dec: "deg_of deg t = int (edges_into es (insert n (set l)) t) + int (count_list ?cs t)" if "t \<in> T" for t
    using i(3)[OF that] edges_into_insert[OF nl, of es t] by simp
  then have "\<forall>t. int (count_list ?cs t) \<le> deg_of deg t \<or> t \<notin> set ?cs" using sub by fastforce
  from relax_degrees[OF this, of q] obtain deg' news where "relax ?cs (deg, q) = (deg', q @ news)" and s: "distinct news"
    "\<And>t. deg_of deg' t = deg_of deg t - int (count_list ?cs t)" "set news = {t \<in> set ?cs. deg_of deg t = int (count_list ?cs t)}"
    by blast
  then have s_eq: "s = (deg', q @ news)" by (simp add: s_def)
  have deg': "deg_of deg' t = int (edges_into es (set (l @ [n])) t)" if "t \<in> T" for t
    using dec[OF that] s(2) by simp
  have pos: "0 < deg_of deg t" if "t \<in> set ?cs" for t
  proof -
    have "count_list ?cs t \<noteq> 0" using that by (simp add: count_list_0_iff)
    then show ?thesis using dec[of t] sub that by auto
  qed
  have zero: "deg_of deg' t = 0 \<longleftrightarrow> deg_of deg t = 0 \<or> t \<in> set news" if "t \<in> T" for t
  proof (cases "t \<in> set ?cs")
    case True
    then show ?thesis using pos[OF True] s(2)[of t] by (simp add: s(3))
  next
    case False
    then show ?thesis using s(2,3) by (simp add: count_list_0_iff)
  qed
  have "set (l @ [n]) \<union> set (q @ news) = {t \<in> T. deg_of deg' t = 0}" using i(2) zero s(3) sub by auto
  moreover have "set news \<inter> set (l @ n # q) = {}" using i(2) pos s(3) by fastforce
  moreover have "\<forall>p. (p, n) \<in> fk_rel es \<longrightarrow> p \<in> set l"
  proof -
    have "n \<in> T" "deg_of deg n = 0" using i(2) by auto
    then show ?thesis using i(3) edges_into_0 by fastforce
  qed
  ultimately show ?thesis using i(1,4) s(1) s_eq deg' by (auto simp: kahn_inv_def parents_first_snoc)
qed

lemma kahn_result:
  assumes "kahn_inv T es deg q l" and "fk_TableName ` set es \<subseteq> T"
  shows "\<exists>deg'. kahn_inv T es deg' [] (kahn (edge_children es) deg q l)"
  using assms(1)
proof (induction "edge_children es" deg q l rule: kahn.induct)
  case (2 deg n q l)
  then show ?case using kahn_step[OF 2(2) assms(2)] by (simp add: Let_def)
qed auto

text \<open>What the loop leaves over has a parent that is left over too, so it lies on a cycle or below one.\<close>

definition below_cycle :: "(string \<times> string) set \<Rightarrow> string \<Rightarrow> bool" where
  "below_cycle R t \<longleftrightarrow> (\<exists>x. (x, x) \<in> R\<^sup>+ \<and> (x, t) \<in> R\<^sup>*)"

lemma leftover_below_cycle:
  assumes "finite M" and "\<And>x. x \<in> M \<Longrightarrow> \<exists>p\<in>M. (p, x) \<in> R" and "t \<in> M"
  shows "below_cycle R t"
proof (rule ccontr)
  assume n: "\<not> below_cycle R t"
  define A where "A = {y \<in> M. (y, t) \<in> R\<^sup>*}"
  let ?R = "R \<inter> A \<times> A"
  have "acyclic ?R"
  proof (rule acyclicI, rule allI, rule notI)
    fix x assume "(x, x) \<in> ?R\<^sup>+"
    then have "(x, x) \<in> R\<^sup>+" "x \<in> A" using trancl_mono[of "(x, x)" ?R R] by (auto elim: tranclE)
    then show False using n by (auto simp: A_def below_cycle_def)
  qed
  moreover have "finite ?R" using assms(1) by (simp add: A_def)
  ultimately have "wf ?R" by (rule finite_acyclic_wf[rotated])
  moreover have "t \<in> A" using assms(3) by (simp add: A_def)
  ultimately obtain m where m: "m \<in> A" "\<And>y. (y, m) \<in> ?R \<Longrightarrow> y \<notin> A" by (meson wfE_min)
  then obtain p where p: "p \<in> M" "(p, m) \<in> R" using assms(2) by (auto simp: A_def)
  then have "p \<in> A" using m(1) by (auto simp: A_def intro: converse_rtrancl_into_rtrancl)
  then show False using m p by blast
qed

lemma topoSort_shape:
  fixes cs :: "FKConstraint list"
  assumes "distinct tables"
  defines "es \<equiv> fk_edges tables cs"
  shows "\<exists>l. topoSort tables cs = l @ filter (\<lambda>t. t \<notin> set l) tables \<and> distinct l \<and> set l \<subseteq> set tables \<and> parents_first es l \<and>
    (\<forall>t \<in> set tables - set l. below_cycle (fk_rel es) t)"
proof -
  let ?deg0 = "map (\<lambda>t. (t, 0 :: int)) tables"
  obtain deg ch where a: "add_constraints cs (?deg0, \<lambda>_. []) = (deg, ch)" by fastforce
  have d0: "dom (map_of ?deg0) = set tables" "deg_of ?deg0 t = 0" for t
    by (auto simp: dom_map_of_conv_image_fst image_iff deg_of_def split: option.split dest: map_of_SomeD)
  have deg: "\<And>t. deg_of deg t = int (edges_into es {} t)" and ch: "ch = edge_children es"
    using add_constraints_edges[OF d0(1), of cs "\<lambda>_. []"] a by (auto simp: d0(2) es_def)
  have ends: "fk_TableName ` set es \<subseteq> set tables" by (auto simp: es_def fk_edges_def)
  let ?q = "filter (\<lambda>t. deg_of deg t = 0) tables"
  have "kahn_inv (set tables) es deg ?q []" using assms(1) deg by (auto simp: kahn_inv_def parents_first_def)
  from kahn_result[OF this ends] obtain deg' where k: "kahn_inv (set tables) es deg' [] (kahn ch deg ?q [])"
    unfolding ch by blast
  let ?l = "kahn ch deg ?q []"
  have l: "distinct ?l" "set ?l = {t \<in> set tables. deg_of deg' t = 0}" "parents_first es ?l"
    "\<And>t. t \<in> set tables \<Longrightarrow> deg_of deg' t = int (edges_into es (set ?l) t)" using k by (auto simp: kahn_inv_def)
  have out: "topoSort tables cs = ?l @ filter (\<lambda>t. t \<notin> set ?l) tables"
    using a by (cases "tables = []") (auto simp: topoSort_def Let_def)
  have "\<exists>p \<in> set tables - set ?l. (p, t) \<in> fk_rel es" if t: "t \<in> set tables - set ?l" for t
  proof -
    have "edges_into es (set ?l) t \<noteq> 0" using t l(2) l(4)[of t] by auto
    then have "\<not> (\<forall>p. (p, t) \<in> fk_rel es \<longrightarrow> p \<in> set ?l)" unfolding edges_into_0 .
    then obtain p where "(p, t) \<in> fk_rel es" "p \<notin> set ?l" by auto
    moreover then have "p \<in> set tables" by (auto simp: fk_rel_def es_def fk_edges_def)
    ultimately show ?thesis by blast
  qed
  then have "below_cycle (fk_rel es) t" if "t \<in> set tables - set ?l" for t
    using leftover_below_cycle[of "set tables - set ?l" "fk_rel es" t] that by auto
  moreover have "set ?l \<subseteq> set tables" using l(2) by auto
  ultimately show ?thesis using out l(1,3) by blast
qed

lemma parents_first_before:
  assumes "parents_first es l" "(p, c) \<in> fk_rel es" "c \<in> set l"
  shows "\<exists>i j. i < j \<and> j < length l \<and> l ! i = p \<and> l ! j = c"
proof -
  obtain j where j: "j < length l" "l ! j = c" using assms(3) by (auto simp: in_set_conv_nth)
  then have "p \<in> set (take j l)" using assms(1,2) by (auto simp: parents_first_def)
  then obtain i where "i < length (take j l)" "take j l ! i = p" by (metis in_set_conv_nth)
  then show ?thesis using j by (intro exI[of _ i] exI[of _ j]) simp
qed

text \<open>
  C29. The foreign key order is a topological sort. For tables listed once, the result holds the same tables, each
  once, and a table that does not depend on a cycle of references comes after every table that it references.
  (A table that references itself is such a cycle, and everything that references it depends on it.)
\<close>

theorem referenced_tables_come_first:
  assumes "distinct tables"
  shows "distinct (topoSort tables cs) \<and> set (topoSort tables cs) = set tables \<and>
    (\<forall>c \<in> set (fk_edges tables cs). \<not> below_cycle (fk_rel (fk_edges tables cs)) (fk_TableName c) \<longrightarrow>
       (\<exists>i j. i < j \<and> j < length (topoSort tables cs) \<and> topoSort tables cs ! i = fk_RefTableName c \<and>
          topoSort tables cs ! j = fk_TableName c))"
proof -
  obtain l where l: "topoSort tables cs = l @ filter (\<lambda>t. t \<notin> set l) tables" "distinct l" "set l \<subseteq> set tables"
    "parents_first (fk_edges tables cs) l" "\<forall>t \<in> set tables - set l. below_cycle (fk_rel (fk_edges tables cs)) t"
    using topoSort_shape[OF assms, of cs] by blast
  have "\<exists>i j. i < j \<and> j < length (topoSort tables cs) \<and> topoSort tables cs ! i = fk_RefTableName c \<and>
      topoSort tables cs ! j = fk_TableName c"
    if c: "c \<in> set (fk_edges tables cs)" "\<not> below_cycle (fk_rel (fk_edges tables cs)) (fk_TableName c)" for c
  proof -
    have "fk_TableName c \<in> set l" using c l(5) by (auto simp: fk_edges_def)
    moreover have "(fk_RefTableName c, fk_TableName c) \<in> fk_rel (fk_edges tables cs)" using c(1) by (simp add: fk_rel_def)
    ultimately obtain i j where "i < j" "j < length l" "l ! i = fk_RefTableName c" "l ! j = fk_TableName c"
      using parents_first_before[OF l(4)] by blast
    then show ?thesis unfolding l(1) by (intro exI[of _ i] exI[of _ j]) (simp add: nth_append)
  qed
  then show ?thesis using l(1-3) assms by auto
qed

definition fk_ex :: "FKConstraint list" where
  "fk_ex = [\<lparr>fk_TableName = ''item'', fk_RefTableName = ''order''\<rparr>, \<lparr>fk_TableName = ''order'', fk_RefTableName = ''user''\<rparr>]"

lemma fk_ex_sorted: "topoSort [''item'', ''order'', ''user''] fk_ex = [''user'', ''order'', ''item'']"
  by code_simp

lemma referenced_tables_come_first_witness:
  "distinct (topoSort [''item'', ''order'', ''user''] fk_ex) \<and>
   topoSort [''item'', ''order'', ''user''] fk_ex = [''user'', ''order'', ''item'']"
  using referenced_tables_come_first[of "[''item'', ''order'', ''user'']" fk_ex] fk_ex_sorted by auto

text \<open>A table that is listed twice breaks the order: its second copy is processed again, and releases a child too early.\<close>

lemma repeated_table_breaks_the_order:
  "topoSort [''a'', ''a'', ''b'', ''y'', ''z'']
     [\<lparr>fk_TableName = ''b'', fk_RefTableName = ''a''\<rparr>, \<lparr>fk_TableName = ''b'', fk_RefTableName = ''z''\<rparr>,
      \<lparr>fk_TableName = ''z'', fk_RefTableName = ''y''\<rparr>] = [''a'', ''a'', ''y'', ''b'', ''z'']"
  by code_simp

end
