(* ===== verification/Hub.thy ===== *)
theory Hub
  imports Prelude Ws_Types "HOL-Library.AList"
begin

text \<open>
  \<open>internal/ws/hub\<close>: the server's end of the agents' WebSocket connections.

  \<^item> A connection is a number; \<open>hb_pumps\<close> holds the connections whose read pump runs, with what \<open>agentConn\<close> keeps of
    them. \<open>hb_conns\<close> is the map \<open>conns\<close> from agents to connections (an association list: \<open>Range\<close> walks it).
  \<^item> \<open>SendToAgent\<close> blocks: it is a step that registers the call and writes the command (\<open>send_start\<close>), and a
    step that takes the answer from the call's channel (\<open>send_end\<close>). \<open>hb_calls\<close> are the calls in between.
  \<^item> The pump's loop is a step per message, its deferred function the step \<open>pump_end\<close>.
  \<^item> The handlers that the hub starts in goroutines are recorded in \<open>hb_events\<close> and \<open>hb_progress\<close>, the lifecycle hooks
    in \<open>hb_hooks\<close>, what is written to the sockets in \<open>hb_wire\<close>.
\<close>

subsection \<open>State\<close>

record agentConn =
  hc_agentID :: string
  hc_connectedAt :: time
  hc_lastSeen :: time
  hc_pending :: "(string \<times> nat) list"

text \<open>A waiting \<open>SendToAgent\<close>: its connection, the command's id, its channel.\<close>

record call =
  ca_conn :: nat
  ca_cmd :: string
  ca_chan :: nat

datatype hub_out = OutCommand Command | OutResponse Response

datatype hub_hook = OnConnect string | OnDisconnect string

record hub =
  hb_conns :: "(string \<times> nat) list"
  hb_pumps :: "nat \<rightharpoonup> agentConn"
  hb_next :: nat
  hb_chans :: "nat \<Rightarrow> chan"
  hb_next_chan :: nat
  hb_calls :: "call list"
  hb_wire :: "(nat \<times> hub_out) list"
  hb_hooks :: "hub_hook list"
  hb_events :: "(string \<times> Command) list"
  hb_progress :: "(string \<times> Command) list"
  hb_closed :: bool

text \<open>\<open>CSRHandler\<close>, if one is set: signing a request and the revocation list.\<close>

record csr_handler =
  ch_SignCSR :: "string \<Rightarrow> string \<Rightarrow> err + string"
  ch_IsRevoked :: "string \<Rightarrow> bool"

record hub_env =
  he_csr :: "csr_handler option"
  he_text :: "err \<Rightarrow> string"

definition NewHub :: hub where
  "NewHub = \<lparr>hb_conns = [], hb_pumps = Map.empty, hb_next = 0, hb_chans = (\<lambda>_. Empty), hb_next_chan = 0, hb_calls = [],
     hb_wire = [], hb_hooks = [], hb_events = [], hb_progress = [], hb_closed = False\<rparr>"

subsection \<open>Connections\<close>

text \<open>The TLS state of the request: none, or the peer's certificates with common name and serial number.\<close>

type_synonym peer = "(string \<times> string) list option"

definition extractAgentID :: "peer \<Rightarrow> string" where
  "extractAgentID p = (case p of Some ((cn, _) # _) \<Rightarrow> cn | _ \<Rightarrow> [])"

definition peer_revoked :: "hub_env \<Rightarrow> peer \<Rightarrow> bool" where
  "peer_revoked E p =
     (case (he_csr E, p) of (Some h, Some ((_, serial) # _)) \<Rightarrow> ch_IsRevoked h serial | _ \<Rightarrow> False)"

definition IsConnected :: "string \<Rightarrow> hub \<Rightarrow> bool" where
  "IsConnected agentID h = (map_of (hb_conns h) agentID \<noteq> None)"

text \<open>\<open>HandleConnection\<close>; \<open>deadline_err\<close>: setting the read deadline fails.\<close>

definition HandleConnection :: "hub_env \<Rightarrow> peer \<Rightarrow> time \<Rightarrow> bool \<Rightarrow> hub \<Rightarrow> hub" where
  "HandleConnection E p now deadline_err h =
     (let agentID = extractAgentID p in
      if agentID = [] then h
      else if peer_revoked E p then h
      else if IsConnected agentID h then h
      else if deadline_err then h\<lparr>hb_next := Suc (hb_next h), hb_conns := AList.delete agentID (hb_conns h)\<rparr>
      else h\<lparr>hb_next := Suc (hb_next h), hb_conns := AList.update agentID (hb_next h) (hb_conns h),
             hb_pumps := (hb_pumps h)(hb_next h \<mapsto>
               \<lparr>hc_agentID = agentID, hc_connectedAt = now, hc_lastSeen = now, hc_pending = []\<rparr>),
             hb_hooks := hb_hooks h @ [OnConnect agentID]\<rparr>)"

text \<open>The deferred function of \<open>readPump\<close>.\<close>

definition pump_end :: "nat \<Rightarrow> hub \<Rightarrow> hub" where
  "pump_end c h =
     (case hb_pumps h c of
        None \<Rightarrow> h
      | Some ac \<Rightarrow>
          h\<lparr>hb_conns := AList.delete (hc_agentID ac) (hb_conns h), hb_pumps := (hb_pumps h)(c := None),
            hb_chans := (\<lambda>k. if k \<in> snd ` set (hc_pending ac) then chan_close (hb_chans h k) else hb_chans h k),
            hb_hooks := hb_hooks h @ [OnDisconnect (hc_agentID ac)]\<rparr>)"

subsection \<open>Messages\<close>

text \<open>A message as the pump reads it: a response, a command, or neither.\<close>

datatype hub_msg = MsgResponse Response | MsgCommand Command | MsgOther string

definition sendResponse :: "nat \<Rightarrow> Response \<Rightarrow> hub \<Rightarrow> hub" where
  "sendResponse c resp h = h\<lparr>hb_wire := hb_wire h @ [(c, OutResponse resp)]\<rparr>"

definition handleCertRenewal :: "hub_env \<Rightarrow> nat \<Rightarrow> string \<Rightarrow> Command \<Rightarrow> hub \<Rightarrow> hub" where
  "handleCertRenewal E c agentID cmd h =
     (let err = (\<lambda>msg. \<lparr>rs_Cmd = cm_Cmd cmd, rs_Status = StatusError, rs_Result = DNull, rs_Error = msg\<rparr>) in
      sendResponse c
        (case he_csr E of
           None \<Rightarrow> err ''certificate renewal not supported''
         | Some ch \<Rightarrow>
             (case cm_Params cmd of
                PCsr csr \<Rightarrow>
                  (case ch_SignCSR ch csr agentID of
                     Inl e \<Rightarrow> err (''sign CSR: '' @ he_text E e)
                   | Inr cert \<Rightarrow>
                       \<lparr>rs_Cmd = cm_Cmd cmd, rs_Status = StatusOK, rs_Result = DFields [(''certificate'', DText cert)], rs_Error = []\<rparr>)
              | _ \<Rightarrow> err ''missing csr parameter'')) h)"

text \<open>One round of the loop of \<open>readPump\<close>: the message that connection \<open>c\<close> delivered.\<close>

definition pump_message :: "hub_env \<Rightarrow> nat \<Rightarrow> hub_msg \<Rightarrow> time \<Rightarrow> hub \<Rightarrow> hub" where
  "pump_message E c msg now h =
     (case hb_pumps h c of
        None \<Rightarrow> h
      | Some ac \<Rightarrow>
          (let h1 = h\<lparr>hb_pumps := (hb_pumps h)(c \<mapsto> ac\<lparr>hc_lastSeen := now\<rparr>)\<rparr>; agentID = hc_agentID ac in
           case msg of
             MsgResponse resp \<Rightarrow>
               (if rs_Cmd resp = [] \<or> rs_Status resp = [] then h1
                else (case map_of (hc_pending ac) (rs_Cmd resp) of
                        None \<Rightarrow> h1
                      | Some k \<Rightarrow> h1\<lparr>hb_chans := (hb_chans h)(k := chan_offer resp (hb_chans h k))\<rparr>))
           | MsgCommand cmd \<Rightarrow>
               (if cm_Type cmd = CmdCertRenewal then handleCertRenewal E c agentID cmd h1
                else if cm_Type cmd = CmdPITRProgress then h1\<lparr>hb_progress := hb_progress h @ [(agentID, cmd)]\<rparr>
                else if cm_Type cmd = CmdStreamEvent then h1\<lparr>hb_events := hb_events h @ [(agentID, cmd)]\<rparr>
                else h1)
           | MsgOther _ \<Rightarrow> h1))"

subsection \<open>Sending commands\<close>

text \<open>The deferred \<open>delete(ac.pending, cmd.Cmd)\<close>.\<close>

definition forget_pending :: "nat \<Rightarrow> string \<Rightarrow> hub \<Rightarrow> hub" where
  "forget_pending c i h =
     (case hb_pumps h c of
        None \<Rightarrow> h
      | Some ac \<Rightarrow> h\<lparr>hb_pumps := (hb_pumps h)(c \<mapsto> ac\<lparr>hc_pending := AList.delete i (hc_pending ac)\<rparr>)\<rparr>)"

text \<open>
  \<open>SendToAgent\<close> up to the point where it waits: an error, or the channel it waits on. The connection that the
  map holds has a running pump (\<open>hub_ok\<close> in \<open>Hub_Props\<close>), the other case is for totality.
\<close>

definition send_start :: "string \<Rightarrow> Command \<Rightarrow> write_result \<Rightarrow> hub \<Rightarrow> (err + nat) \<times> hub" where
  "send_start agentID cmd wr h =
     (let gone = (Inl (Err ''hub: agent %s not connected'' [agentID]), h) in
      case map_of (hb_conns h) agentID of
        None \<Rightarrow> gone
      | Some c \<Rightarrow>
          (case hb_pumps h c of
             None \<Rightarrow> gone
           | Some ac \<Rightarrow>
               (let k = hb_next_chan h;
                    h1 = h\<lparr>hb_next_chan := Suc k, hb_chans := (hb_chans h)(k := Empty),
                           hb_pumps := (hb_pumps h)(c \<mapsto> ac\<lparr>hc_pending := AList.update (cm_Cmd cmd) k (hc_pending ac)\<rparr>)\<rparr> in
                case wr of
                  Written \<Rightarrow>
                    (Inr k, h1\<lparr>hb_calls := hb_calls h @ [\<lparr>ca_conn = c, ca_cmd = cm_Cmd cmd, ca_chan = k\<rparr>],
                               hb_wire := hb_wire h @ [(c, OutCommand cmd)]\<rparr>)
                | DeadlineError e \<Rightarrow>
                    (Inl (Wrap ''hub: set write deadline: %w'' [] e), forget_pending c (cm_Cmd cmd) h1)
                | WriteError e \<Rightarrow>
                    (Inl (Wrap ''hub: write to agent %s: %w'' [agentID] e),
                     forget_pending c (cm_Cmd cmd) (h1\<lparr>hb_conns := AList.delete agentID (hb_conns h)\<rparr>)))))"

text \<open>What a waiting call may wake up for: its channel, the end of its context, the closing of the hub.\<close>

datatype wake = ByChannel | ByContext err | ByClose

definition wake_result :: "chan \<Rightarrow> bool \<Rightarrow> wake \<Rightarrow> (err + Response) option" where
  "wake_result ch closed how =
     (case how of
        ByChannel \<Rightarrow>
          (case ch of
             Empty \<Rightarrow> None
           | Got resp \<Rightarrow> Some (Inr resp)
           | Closed \<Rightarrow> Some (Inl (Err ''hub: agent %s disconnected while awaiting response'' [])))
      | ByContext e \<Rightarrow> Some (Inl e)
      | ByClose \<Rightarrow> (if closed then Some (Inl (Err ''hub: closed'' [])) else None))"

definition send_end :: "call \<Rightarrow> wake \<Rightarrow> hub \<Rightarrow> (err + Response) option \<times> hub" where
  "send_end call how h =
     (case wake_result (hb_chans h (ca_chan call)) (hb_closed h) how of
        None \<Rightarrow> (None, h)
      | Some r \<Rightarrow> (Some r, forget_pending (ca_conn call) (ca_cmd call)
                     (h\<lparr>hb_calls := filter (\<lambda>x. ca_chan x \<noteq> ca_chan call) (hb_calls h)\<rparr>)))"

subsection \<open>Status and shutdown\<close>

record AgentInfo =
  ai_ID :: string
  ai_ConnectedAt :: time
  ai_LastSeen :: time
  ai_Status :: string

definition GetConnectedAgents :: "hub \<Rightarrow> AgentInfo list" where
  "GetConnectedAgents h =
     List.map_filter (\<lambda>(_, c). map_option (\<lambda>ac. \<lparr>ai_ID = hc_agentID ac, ai_ConnectedAt = hc_connectedAt ac,
        ai_LastSeen = hc_lastSeen ac, ai_Status = ''online''\<rparr>) (hb_pumps h c)) (hb_conns h)"

text \<open>\<open>Close\<close> closes the sockets; the pumps then end one by one.\<close>

definition hub_Close :: "hub \<Rightarrow> hub" where
  "hub_Close h = h\<lparr>hb_closed := True\<rparr>"

end
