(* ===== verification/Hub_Props.thy ===== *)
theory Hub_Props
  imports Hub
begin

text \<open>The hub as a labelled transition system, its invariant, and what it means for the callers of \<open>SendToAgent\<close>.\<close>

datatype hub_act =
    Connects peer time bool
  | PumpEnds nat
  | Message nat hub_msg time
  | SendStarts string Command write_result
  | SendEnds call wake
  | Closes

inductive hub_step :: "hub_env \<Rightarrow> hub \<Rightarrow> hub_act \<Rightarrow> hub \<Rightarrow> bool" for E where
  connects: "hub_step E h (Connects p now de) (HandleConnection E p now de h)"
| pump_ends: "hub_step E h (PumpEnds c) (pump_end c h)"
| message: "hub_step E h (Message c msg now) (pump_message E c msg now h)"
| send_starts: "hub_step E h (SendStarts a cmd wr) (snd (send_start a cmd wr h))"
| send_ends: "call \<in> set (hb_calls h) \<Longrightarrow> hub_step E h (SendEnds call how) (snd (send_end call how h))"
| closes: "hub_step E h Closes (hub_Close h)"

inductive_cases hub_stepE: "hub_step E h act h'"

text \<open>The callers' side: two calls that wait on one connection have different command ids.\<close>

fun id_is_fresh :: "hub \<Rightarrow> hub_act \<Rightarrow> bool" where
  "id_is_fresh h (SendStarts a cmd wr) =
     list_all (\<lambda>call. map_of (hb_conns h) a = Some (ca_conn call) \<longrightarrow> ca_cmd call \<noteq> cm_Cmd cmd) (hb_calls h)"
| "id_is_fresh h _ = True"

inductive hub_reach :: "hub_env \<Rightarrow> hub \<Rightarrow> bool" for E where
  start: "hub_reach E NewHub"
| step: "hub_reach E h \<Longrightarrow> hub_step E h act h' \<Longrightarrow> id_is_fresh h act \<Longrightarrow> hub_reach E h'"

subsection \<open>The invariant\<close>

definition call_ok :: "hub \<Rightarrow> call \<Rightarrow> bool" where
  "call_ok h call \<longleftrightarrow> ca_chan call < hb_next_chan h \<and>
     (case hb_chans h (ca_chan call) of
        Empty \<Rightarrow> (\<exists>ac. hb_pumps h (ca_conn call) = Some ac \<and> map_of (hc_pending ac) (ca_cmd call) = Some (ca_chan call))
      | Got resp \<Rightarrow> rs_Cmd resp = ca_cmd call
      | Closed \<Rightarrow> True)"

definition pump_ok :: "hub \<Rightarrow> nat \<Rightarrow> agentConn \<Rightarrow> bool" where
  "pump_ok h c ac \<longleftrightarrow> c < hb_next h \<and> distinct (map fst (hc_pending ac)) \<and>
     (\<forall>(i, k) \<in> set (hc_pending ac). \<lparr>ca_conn = c, ca_cmd = i, ca_chan = k\<rparr> \<in> set (hb_calls h))"

definition hub_ok :: "hub \<Rightarrow> bool" where
  "hub_ok h \<longleftrightarrow>
     (\<forall>a c. map_of (hb_conns h) a = Some c \<longrightarrow> (\<exists>ac. hb_pumps h c = Some ac \<and> hc_agentID ac = a)) \<and>
     (\<forall>c ac. hb_pumps h c = Some ac \<longrightarrow> pump_ok h c ac) \<and>
     distinct (map ca_chan (hb_calls h)) \<and> distinct (map (\<lambda>x. (ca_conn x, ca_cmd x)) (hb_calls h)) \<and> (\<forall>call\<in>set (hb_calls h). call_ok h call)"

lemma hub_okD:
  assumes "hub_ok h"
  shows "map_of (hb_conns h) a = Some c \<Longrightarrow> \<exists>ac. hb_pumps h c = Some ac \<and> hc_agentID ac = a"
    and "hb_pumps h c = Some ac \<Longrightarrow> pump_ok h c ac" and "distinct (map ca_chan (hb_calls h))"
    and "call \<in> set (hb_calls h) \<Longrightarrow> call_ok h call" and "distinct (map (\<lambda>x. (ca_conn x, ca_cmd x)) (hb_calls h))"
  using assms by (auto simp: hub_ok_def)

lemma alist_maps [simp]: "map_of (AList.update k v al) = (map_of al)(k \<mapsto> v)" "map_of (AList.delete k al) = (map_of al)(k := None)"
  by (rule update_conv', rule delete_conv')

lemma call_unique: "hub_ok h \<Longrightarrow> x \<in> set (hb_calls h) \<Longrightarrow> y \<in> set (hb_calls h) \<Longrightarrow> ca_chan x = ca_chan y \<Longrightarrow> x = y"
  by (auto simp: hub_ok_def distinct_map inj_on_def)

lemma NewHub_ok: "hub_ok NewHub"
  by (simp add: hub_ok_def NewHub_def)

lemma HandleConnection_ok:
  assumes "hub_ok h"
  shows "hub_ok (HandleConnection E p now de h)"
proof -
  let ?a = "extractAgentID p"
  let ?ac = "\<lparr>hc_agentID = ?a, hc_connectedAt = now, hc_lastSeen = now, hc_pending = []\<rparr>"
  let ?h1 = "h\<lparr>hb_next := Suc (hb_next h), hb_conns := AList.delete ?a (hb_conns h)\<rparr>"
  let ?h2 = "h\<lparr>hb_next := Suc (hb_next h), hb_conns := AList.update ?a (hb_next h) (hb_conns h),
    hb_pumps := (hb_pumps h)(hb_next h \<mapsto> ?ac), hb_hooks := hb_hooks h @ [OnConnect ?a]\<rparr>"
  have h: "HandleConnection E p now de h =
      (if ?a = [] \<or> peer_revoked E p \<or> IsConnected ?a h then h else if de then ?h1 else ?h2)"
    unfolding HandleConnection_def Let_def
    by simp
  have "hub_ok ?h1"
  proof -
    have "\<exists>ac'. hb_pumps ?h1 c = Some ac' \<and> hc_agentID ac' = a" if "map_of (hb_conns ?h1) a = Some c" for a c
      using that hub_okD(1)[OF assms, of a c] by (auto split: if_splits)
    moreover have "pump_ok ?h1 c ac'" if "hb_pumps ?h1 c = Some ac'" for c ac'
      using that hub_okD(2)[OF assms, of c ac'] by (auto simp: pump_ok_def)
    moreover have "call_ok ?h1 call" if "call \<in> set (hb_calls h)" for call
      using hub_okD(4)[OF assms that] by (auto simp: call_ok_def split: chan.splits)
    ultimately show ?thesis using hub_okD(3,5)[OF assms] by (simp add: hub_ok_def)
  qed
  moreover have "hub_ok ?h2"
  proof -
    have fresh: "hb_pumps h (hb_next h) = None"
      using hub_okD(2)[OF assms, of "hb_next h"] by (cases "hb_pumps h (hb_next h)") (auto simp: pump_ok_def)
    have "\<exists>ac'. hb_pumps ?h2 c = Some ac' \<and> hc_agentID ac' = a" if "map_of (hb_conns ?h2) a = Some c" for a c
      using that fresh hub_okD(1)[OF assms, of a c] by (auto split: if_splits)
    moreover have "pump_ok ?h2 c ac'" if "hb_pumps ?h2 c = Some ac'" for c ac'
      using that hub_okD(2)[OF assms, of c ac'] by (auto simp: pump_ok_def split: if_splits)
    moreover have "call_ok ?h2 call" if "call \<in> set (hb_calls h)" for call
      using hub_okD(4)[OF assms that] fresh by (auto simp: call_ok_def split: chan.splits)
    ultimately show ?thesis using hub_okD(3,5)[OF assms] by (simp add: hub_ok_def)
  qed
  ultimately show ?thesis using assms h by simp
qed

lemma call_unique_id:
  "hub_ok h \<Longrightarrow> x \<in> set (hb_calls h) \<Longrightarrow> y \<in> set (hb_calls h) \<Longrightarrow> ca_conn x = ca_conn y \<Longrightarrow> ca_cmd x = ca_cmd y \<Longrightarrow> x = y"
  by (auto simp: hub_ok_def distinct_map inj_on_def)

lemma pending_iff: "pump_ok h c ac \<Longrightarrow> (i, k) \<in> set (hc_pending ac) \<longleftrightarrow> map_of (hc_pending ac) i = Some k"
  by (auto simp: pump_ok_def)

lemma hub_ok_frame:
  "hb_conns h' = hb_conns h \<Longrightarrow> hb_pumps h' = hb_pumps h \<Longrightarrow> hb_next h' = hb_next h \<Longrightarrow> hb_chans h' = hb_chans h \<Longrightarrow>
   hb_next_chan h' = hb_next_chan h \<Longrightarrow> hb_calls h' = hb_calls h \<Longrightarrow> hub_ok h' = hub_ok h"
  by (simp add: hub_ok_def pump_ok_def call_ok_def cong: chan.case_cong)

text \<open>The deferred function of the pump: whoever waits for this connection finds its channel closed or answered.\<close>

lemma pump_end_ok:
  assumes "hub_ok h"
  shows "hub_ok (pump_end c h)"
proof (cases "hb_pumps h c")
  case (Some ac)
  let ?h = "pump_end c h"
  have sel: "hb_conns ?h = AList.delete (hc_agentID ac) (hb_conns h)" "hb_pumps ?h = (hb_pumps h)(c := None)"
    "hb_chans ?h = (\<lambda>k. if k \<in> snd ` set (hc_pending ac) then chan_close (hb_chans h k) else hb_chans h k)"
    "hb_next ?h = hb_next h" "hb_calls ?h = hb_calls h" "hb_next_chan ?h = hb_next_chan h"
    by (simp_all add: pump_end_def Some)
  have "\<exists>ac'. hb_pumps ?h c' = Some ac' \<and> hc_agentID ac' = a" if "map_of (hb_conns ?h) a = Some c'" for a c'
    using that hub_okD(1)[OF assms, of a c'] Some by (auto simp: sel split: if_splits)
  moreover have "pump_ok ?h c' ac'" if "hb_pumps ?h c' = Some ac'" for c' ac'
    using that hub_okD(2)[OF assms, of c' ac'] by (auto simp: sel pump_ok_def split: if_splits)
  moreover have "call_ok ?h call" if "call \<in> set (hb_calls h)" for call
  proof -
    have "ca_chan call \<in> snd ` set (hc_pending ac)"
      if "ca_conn call = c" "map_of (hc_pending ac) (ca_cmd call) = Some (ca_chan call)"
      using map_of_SomeD[OF that(2)] by force
    then show ?thesis using hub_okD(4)[OF assms that] Some
      by (auto simp: call_ok_def sel chan_close_def split: chan.splits if_splits)
  qed
  ultimately show ?thesis using hub_okD(3,5)[OF assms] by (auto simp: hub_ok_def sel)
qed (simp add: pump_end_def assms)

lemma seen_ok:
  assumes "hub_ok h" "hb_pumps h c = Some ac" "hc_agentID ac' = hc_agentID ac" "hc_pending ac' = hc_pending ac"
  shows "hub_ok (h\<lparr>hb_pumps := (hb_pumps h)(c \<mapsto> ac')\<rparr>)"
proof -
  let ?h = "h\<lparr>hb_pumps := (hb_pumps h)(c \<mapsto> ac')\<rparr>"
  have "\<exists>x. hb_pumps ?h c' = Some x \<and> hc_agentID x = a" if "map_of (hb_conns h) a = Some c'" for a c'
    using hub_okD(1)[OF assms(1) that] assms(2,3) by auto
  moreover have "pump_ok ?h c' x" if "hb_pumps ?h c' = Some x" for c' x
    using that hub_okD(2)[OF assms(1), of c'] assms(2,4) by (auto simp: pump_ok_def split: if_splits)
  moreover have "call_ok ?h call" if "call \<in> set (hb_calls h)" for call
    using hub_okD(4)[OF assms(1) that] assms(2,4) by (auto simp: call_ok_def split: chan.splits)
  ultimately show ?thesis using hub_okD(3,5)[OF assms(1)] by (simp add: hub_ok_def)
qed

lemma answer_ok:
  assumes "hub_ok h" "hb_pumps h c = Some ac" "map_of (hc_pending ac) (rs_Cmd resp) = Some k"
  shows "hub_ok (h\<lparr>hb_chans := (hb_chans h)(k := chan_offer resp (hb_chans h k))\<rparr>)"
proof -
  let ?h = "h\<lparr>hb_chans := (hb_chans h)(k := chan_offer resp (hb_chans h k))\<rparr>"
  have mine: "\<lparr>ca_conn = c, ca_cmd = rs_Cmd resp, ca_chan = k\<rparr> \<in> set (hb_calls h)"
    using hub_okD(2)[OF assms(1,2)] map_of_SomeD[OF assms(3)] by (auto simp: pump_ok_def)
  have "call_ok ?h call" if "call \<in> set (hb_calls h)" for call
  proof -
    have "ca_cmd call = rs_Cmd resp" if "ca_chan call = k"
      using call_unique[OF assms(1) \<open>call \<in> set (hb_calls h)\<close> mine] that by simp
    then show ?thesis using hub_okD(4)[OF assms(1) that] by (auto simp: call_ok_def chan_offer_def split: chan.splits)
  qed
  then show ?thesis using hub_okD[OF assms(1)] by (auto simp: hub_ok_def pump_ok_def)
qed

lemma pump_message_ok:
  assumes "hub_ok h"
  shows "hub_ok (pump_message E c msg now h)"
proof (cases "hb_pumps h c")
  case (Some ac)
  let ?ac = "ac\<lparr>hc_lastSeen := now\<rparr>"
  let ?h = "h\<lparr>hb_pumps := (hb_pumps h)(c \<mapsto> ?ac)\<rparr>"
  have h1: "hub_ok ?h" by (rule seen_ok[OF assms Some]) simp_all
  have "hub_ok (?h\<lparr>hb_chans := (hb_chans ?h)(k := chan_offer resp (hb_chans ?h k))\<rparr>)"
    if "map_of (hc_pending ac) (rs_Cmd resp) = Some k" for resp k
    by (rule answer_ok[OF h1, of c ?ac]) (use that in simp_all)
  moreover have "hub_ok (handleCertRenewal E c (hc_agentID ac) cmd ?h)" for cmd
    using h1 hub_ok_frame[of "handleCertRenewal E c (hc_agentID ac) cmd ?h" ?h]
    by (simp add: handleCertRenewal_def sendResponse_def Let_def)
  moreover have "hub_ok (?h\<lparr>hb_progress := l\<rparr>)" "hub_ok (?h\<lparr>hb_events := l\<rparr>)" for l
    using h1 hub_ok_frame[of "?h\<lparr>hb_progress := l\<rparr>" ?h] hub_ok_frame[of "?h\<lparr>hb_events := l\<rparr>" ?h] by simp_all
  ultimately show ?thesis using h1
    by (simp add: pump_message_def Some Let_def split: hub_msg.split option.split)
qed (simp add: pump_message_def assms)

text \<open>Changing the pending map of one connection: what has to hold of the new map and the waiting calls.\<close>

lemma pending_change_ok:
  assumes "hub_ok h" "hb_pumps h c = Some ac" "distinct (map fst P)"
    and "hb_pumps h' = (hb_pumps h)(c \<mapsto> ac\<lparr>hc_pending := P\<rparr>)"
    and "\<And>a x. map_of (hb_conns h') a = Some x \<Longrightarrow> map_of (hb_conns h) a = Some x"
    and "hb_next h' = hb_next h" "distinct (map ca_chan (hb_calls h'))" "distinct (map (\<lambda>x. (ca_conn x, ca_cmd x)) (hb_calls h'))"
    and "\<And>i k. map_of P i = Some k \<Longrightarrow> \<lparr>ca_conn = c, ca_cmd = i, ca_chan = k\<rparr> \<in> set (hb_calls h')"
    and "\<And>x. x \<in> set (hb_calls h) \<Longrightarrow> ca_conn x \<noteq> c \<Longrightarrow> x \<in> set (hb_calls h')"
    and "\<And>call. call \<in> set (hb_calls h') \<Longrightarrow> call_ok h' call"
  shows "hub_ok h'"
proof -
  have "\<exists>x. hb_pumps h' c' = Some x \<and> hc_agentID x = a" if "map_of (hb_conns h') a = Some c'" for a c'
    using hub_okD(1)[OF assms(1) assms(5)[OF that]] assms(2,4) by auto
  moreover have "pump_ok h' c' x" if x: "hb_pumps h' c' = Some x" for c' x
  proof (cases "c' = c")
    case True
    have "\<lparr>ca_conn = c, ca_cmd = i, ca_chan = k\<rparr> \<in> set (hb_calls h')" if "(i, k) \<in> set P" for i k
      using assms(3,9) that by simp
    then show ?thesis using x True assms(2-4,6) hub_okD(2)[OF assms(1,2)] by (auto simp: pump_ok_def)
  next
    case False
    then show ?thesis using x assms(4,6,10) hub_okD(2)[OF assms(1), of c' x] by (fastforce simp: pump_ok_def)
  qed
  ultimately show ?thesis using assms(7,8,11) by (auto simp: hub_ok_def)
qed

lemma send_start_ok:
  assumes "hub_ok h" "id_is_fresh h (SendStarts a cmd wr)"
  shows "hub_ok (snd (send_start a cmd wr h))"
proof (cases "map_of (hb_conns h) a")
  case (Some c)
  then obtain ac where ac: "hb_pumps h c = Some ac" using hub_okD(1)[OF assms(1)] by blast
  let ?k = "hb_next_chan h" and ?i = "cm_Cmd cmd"
  have lt: "ca_chan x < ?k" if "x \<in> set (hb_calls h)" for x using hub_okD(4)[OF assms(1) that] by (simp add: call_ok_def)
  have other: "ca_cmd x \<noteq> ?i" if "x \<in> set (hb_calls h)" "ca_conn x = c" for x
    using assms(2) that Some by (auto simp: list_all_iff)
  note pend = hub_okD(2)[OF assms(1) ac]
  have calls: "\<lparr>ca_conn = c, ca_cmd = i, ca_chan = k\<rparr> \<in> set (hb_calls h)" if "map_of (hc_pending ac) i = Some k" for i k
    using pend map_of_SomeD[OF that] by (auto simp: pump_ok_def)
  have keep: "call_ok h' x" if x: "x \<in> set (hb_calls h)" and h': "hb_next_chan h' = Suc ?k" "hb_chans h' = (hb_chans h)(?k := Empty)"
      "hb_pumps h' = (hb_pumps h)(c \<mapsto> ac\<lparr>hc_pending := P\<rparr>)" "\<And>i. i \<noteq> ?i \<Longrightarrow> map_of P i = map_of (hc_pending ac) i" for x h' P
    using hub_okD(4)[OF assms(1) x] lt[OF x] other[OF x] ac h' by (auto simp: call_ok_def less_Suc_eq split: chan.splits if_splits)
  let ?P = "AList.update ?i ?k (hc_pending ac)"
  have dP: "distinct (map fst ?P)" "distinct (map fst (AList.delete ?i ?P))"
    using pend by (simp_all add: pump_ok_def distinct_update distinct_delete)
  show ?thesis
  proof (cases wr)
    case Written
    let ?call = "\<lparr>ca_conn = c, ca_cmd = ?i, ca_chan = ?k\<rparr>"
    let ?h = "snd (send_start a cmd wr h)"
    have sel: "hb_pumps ?h = (hb_pumps h)(c \<mapsto> ac\<lparr>hc_pending := ?P\<rparr>)" "hb_calls ?h = hb_calls h @ [?call]"
      "hb_conns ?h = hb_conns h" "hb_next ?h = hb_next h" "hb_next_chan ?h = Suc ?k" "hb_chans ?h = (hb_chans h)(?k := Empty)"
      by (simp_all add: send_start_def Some ac Written Let_def)
    show ?thesis
    proof (rule pending_change_ok[OF assms(1) ac dP(1) sel(1)])
      show "distinct (map ca_chan (hb_calls ?h))" using hub_okD(3)[OF assms(1)] lt by (force simp: sel)
      show "distinct (map (\<lambda>x. (ca_conn x, ca_cmd x)) (hb_calls ?h))"
        using hub_okD(5)[OF assms(1)] other by (force simp: sel)
      show "call_ok ?h x" if "x \<in> set (hb_calls ?h)" for x
      proof (cases "x = ?call")
        case True
        then show ?thesis by (simp add: call_ok_def sel)
      next
        case False
        then have "x \<in> set (hb_calls h)" using that by (simp add: sel)
        then show ?thesis by (rule keep[OF _ sel(5,6,1)]) simp
      qed
      show "\<lparr>ca_conn = c, ca_cmd = i, ca_chan = k\<rparr> \<in> set (hb_calls ?h)" if "map_of ?P i = Some k" for i k
        using that calls by (auto simp: sel split: if_splits)
    qed (auto simp: sel)
  next
    case (DeadlineError e)
    let ?h = "snd (send_start a cmd wr h)"
    have sel: "hb_pumps ?h = (hb_pumps h)(c \<mapsto> ac\<lparr>hc_pending := AList.delete ?i ?P\<rparr>)" "hb_calls ?h = hb_calls h"
      "hb_conns ?h = hb_conns h" "hb_next ?h = hb_next h" "hb_next_chan ?h = Suc ?k" "hb_chans ?h = (hb_chans h)(?k := Empty)"
      by (simp_all add: send_start_def Some ac DeadlineError Let_def forget_pending_def)
    show ?thesis
      by (rule pending_change_ok[OF assms(1) ac dP(2) sel(1)])
        (use hub_okD(3,5)[OF assms(1)] calls keep[OF _ sel(5,6,1)] in \<open>auto simp: sel split: if_splits\<close>)
  next
    case (WriteError e)
    let ?h = "snd (send_start a cmd wr h)"
    have sel: "hb_pumps ?h = (hb_pumps h)(c \<mapsto> ac\<lparr>hc_pending := AList.delete ?i ?P\<rparr>)" "hb_calls ?h = hb_calls h"
      "hb_conns ?h = AList.delete a (hb_conns h)" "hb_next ?h = hb_next h" "hb_next_chan ?h = Suc ?k"
      "hb_chans ?h = (hb_chans h)(?k := Empty)"
      by (simp_all add: send_start_def Some ac WriteError Let_def forget_pending_def)
    show ?thesis
      by (rule pending_change_ok[OF assms(1) ac dP(2) sel(1)])
        (use hub_okD(3,5)[OF assms(1)] calls keep[OF _ sel(5,6,1)] in \<open>auto simp: sel split: if_splits\<close>)
  qed
qed (simp add: send_start_def assms(1))

lemma send_end_ok:
  assumes "hub_ok h" "call \<in> set (hb_calls h)"
  shows "hub_ok (snd (send_end call how h))"
proof (cases "wake_result (hb_chans h (ca_chan call)) (hb_closed h) how")
  case (Some r)
  let ?C = "filter (\<lambda>x. ca_chan x \<noteq> ca_chan call) (hb_calls h)" and ?h = "snd (send_end call how h)"
  have C: "x \<in> set ?C \<longleftrightarrow> x \<in> set (hb_calls h) \<and> x \<noteq> call" for x
    using call_unique[OF assms(1) _ assms(2)] by auto
  have ds: "distinct (map ca_chan ?C)" "distinct (map (\<lambda>x. (ca_conn x, ca_cmd x)) ?C)"
    using hub_okD(3,5)[OF assms(1)] by (auto intro: distinct_map_fst_filter)
  show ?thesis
  proof (cases "hb_pumps h (ca_conn call)")
    case None
    then have h: "?h = h\<lparr>hb_calls := ?C\<rparr>" by (simp add: send_end_def Some forget_pending_def)
    have "pump_ok ?h c ac" if c: "hb_pumps h c = Some ac" for c ac
    proof -
      have "c \<noteq> ca_conn call" using c None by auto
      then have "\<lparr>ca_conn = c, ca_cmd = i, ca_chan = k\<rparr> \<noteq> call" for i k by auto
      then show ?thesis using hub_okD(2)[OF assms(1) c] C by (fastforce simp: pump_ok_def h)
    qed
    moreover have "call_ok ?h x" if "x \<in> set ?C" for x
      using hub_okD(4)[OF assms(1), of x] that by (simp add: call_ok_def h cong: chan.case_cong)
    ultimately show ?thesis using hub_okD(1)[OF assms(1)] ds by (auto simp: hub_ok_def h)
  next
    case ac: (Some ac)
    let ?P = "AList.delete (ca_cmd call) (hc_pending ac)"
    have sel: "hb_pumps ?h = (hb_pumps h)(ca_conn call \<mapsto> ac\<lparr>hc_pending := ?P\<rparr>)" "hb_calls ?h = ?C" "hb_conns ?h = hb_conns h"
      "hb_next ?h = hb_next h" "hb_next_chan ?h = hb_next_chan h" "hb_chans ?h = hb_chans h"
      by (simp_all add: send_end_def Some forget_pending_def ac)
    note pend = hub_okD(2)[OF assms(1) ac]
    show ?thesis
    proof (rule pending_change_ok[OF assms(1) ac _ sel(1)])
      show "distinct (map fst ?P)" using pend by (simp add: pump_ok_def distinct_delete)
      show "\<lparr>ca_conn = ca_conn call, ca_cmd = i, ca_chan = k\<rparr> \<in> set (hb_calls ?h)" if "map_of ?P i = Some k" for i k
      proof -
        have i: "i \<noteq> ca_cmd call" "map_of (hc_pending ac) i = Some k" using that by (auto split: if_splits)
        then have "\<lparr>ca_conn = ca_conn call, ca_cmd = i, ca_chan = k\<rparr> \<noteq> call" by (cases call) auto
        moreover have "\<lparr>ca_conn = ca_conn call, ca_cmd = i, ca_chan = k\<rparr> \<in> set (hb_calls h)"
          using pend map_of_SomeD[OF i(2)] by (auto simp: pump_ok_def)
        ultimately show ?thesis unfolding sel(2) C by simp
      qed
      show "call_ok ?h x" if "x \<in> set (hb_calls ?h)" for x
      proof -
        have x: "x \<in> set (hb_calls h)" "x \<noteq> call" using that unfolding sel(2) C by auto
        then have "ca_cmd x \<noteq> ca_cmd call" if "ca_conn x = ca_conn call"
          using call_unique_id[OF assms(1) x(1) assms(2) that] by auto
        then show ?thesis using hub_okD(4)[OF assms(1) x(1)] ac by (auto simp: call_ok_def sel split: chan.splits)
      qed
      show "x \<in> set (hb_calls ?h)" if "x \<in> set (hb_calls h)" "ca_conn x \<noteq> ca_conn call" for x
        unfolding sel(2) C using that by auto
    qed (use ds in \<open>auto simp: sel\<close>)
  qed
qed (simp add: send_end_def assms(1))

lemma hub_Close_ok: "hub_ok (hub_Close h) = hub_ok h"
  by (rule hub_ok_frame) (simp_all add: hub_Close_def)

lemma hub_step_ok: "hub_ok h \<Longrightarrow> hub_step E h act h' \<Longrightarrow> id_is_fresh h act \<Longrightarrow> hub_ok h'"
  by (elim hub_stepE)
    (simp_all add: HandleConnection_ok pump_end_ok pump_message_ok send_start_ok send_end_ok hub_Close_ok
      del: id_is_fresh.simps)

lemma hub_reach_ok: "hub_reach E h \<Longrightarrow> hub_ok h"
  by (induction rule: hub_reach.induct) (use NewHub_ok hub_step_ok in blast)+

subsection \<open>What callers rely on\<close>

lemma send_end_value: "fst (send_end call how k) = wake_result (hb_chans k (ca_chan call)) (hb_closed k) how"
  by (simp add: send_end_def split: option.split)

lemma response_reaches_call:
  assumes "hub_reach E h" and "call \<in> set (hb_calls h)" and "ca_cmd call \<noteq> []"
    and "fst (send_end call ByChannel h) = None" and "rs_Cmd resp = ca_cmd call" and "rs_Status resp \<noteq> []"
  shows "fst (send_end call ByChannel (pump_message E (ca_conn call) (MsgResponse resp) now h)) = Some (Inr resp)"
proof -
  have "hb_chans h (ca_chan call) = Empty" using assms(4) by (auto simp: send_end_value wake_result_def split: chan.splits)
  then show ?thesis using hub_okD(4)[OF hub_reach_ok[OF assms(1)] assms(2)] assms(3,5,6)
    by (auto simp: send_end_value call_ok_def wake_result_def pump_message_def chan_offer_def Let_def)
qed

text \<open>
  C32. \<open>SendToAgent\<close> gets the answer to its own command and never hangs on a connection that is gone. In every state
  that the hub can reach by connections, messages, disconnects, write errors and concurrent calls with
  different ids: a response that a waiting call receives carries the id of its command; while it waits, the next
  response with its id on its connection reaches it; and when the connection's read pump has ended, the
  call returns, with the response that came before the end or with an error.
\<close>

theorem waiting_calls_are_answered:
  assumes "hub_reach E h" and "call \<in> set (hb_calls h)" and "ca_cmd call \<noteq> []"
  shows "(fst (send_end call ByChannel h) = Some (Inr resp) \<longrightarrow> rs_Cmd resp = ca_cmd call) \<and>
    (fst (send_end call ByChannel h) = None \<longrightarrow> rs_Cmd resp = ca_cmd call \<longrightarrow> rs_Status resp \<noteq> [] \<longrightarrow>
       fst (send_end call ByChannel (pump_message E (ca_conn call) (MsgResponse resp) now h)) = Some (Inr resp)) \<and>
    fst (send_end call ByChannel (pump_end (ca_conn call) h)) \<noteq> None \<and>
    (hb_pumps h (ca_conn call) = None \<longrightarrow> fst (send_end call ByChannel h) \<noteq> None)"
proof -
  note ok = hub_reach_ok[OF assms(1)]
  note c = hub_okD(4)[OF ok assms(2)]
  note e = send_end_value[of call ByChannel]
  have "fst (send_end call ByChannel (pump_end (ca_conn call) h)) \<noteq> None"
  proof (cases "hb_chans h (ca_chan call)")
    case Empty
    then obtain ac where ac: "hb_pumps h (ca_conn call) = Some ac" "map_of (hc_pending ac) (ca_cmd call) = Some (ca_chan call)"
      using c by (auto simp: call_ok_def)
    then have "ca_chan call \<in> snd ` set (hc_pending ac)" using map_of_SomeD[OF ac(2)] by force
    then show ?thesis unfolding e using ac Empty by (simp add: pump_end_def wake_result_def chan_close_def)
  qed (unfold e, simp_all add: pump_end_def wake_result_def chan_close_def split: option.split)
  moreover have "fst (send_end call ByChannel (pump_message E (ca_conn call) (MsgResponse resp) now h)) = Some (Inr resp)"
    if "fst (send_end call ByChannel h) = None" "rs_Cmd resp = ca_cmd call" "rs_Status resp \<noteq> []"
    using response_reaches_call[OF assms that] .
  ultimately show ?thesis using c unfolding e[of h] by (auto simp: call_ok_def wake_result_def split: chan.splits)
qed

subsection \<open>Two windows\<close>

text \<open>
  A write error removes the agent from the map while the old read pump still runs. When the agent connects again
  before that pump ends, its end removes the new connection from the map: the agent is connected, but commands
  are refused, and the disconnect hook has run for it.
\<close>

lemma late_pump_end_removes_new_connection:
  fixes p :: peer and E :: hub_env and cmd :: Command and t1 t2 :: time and e :: err
  defines "a \<equiv> extractAgentID p" and "h1 \<equiv> HandleConnection E p t1 False NewHub"
  defines "h2 \<equiv> HandleConnection E p t2 False (snd (send_start a cmd (WriteError e) h1))"
  assumes "a \<noteq> []" and "\<not> peer_revoked E p"
  shows "IsConnected a h2 \<and> hb_pumps (pump_end 0 h2) 1 \<noteq> None \<and> \<not> IsConnected a (pump_end 0 h2) \<and>
    last (hb_hooks (pump_end 0 h2)) = OnDisconnect a \<and> (\<exists>x. fst (send_start a cmd Written (pump_end 0 h2)) = Inl x)"
  using assms(4,5) unfolding h2_def h1_def a_def
  by (simp add: HandleConnection_def NewHub_def IsConnected_def send_start_def forget_pending_def pump_end_def Let_def)

text \<open>
  Two commands with the same id on one connection (the server uses the operation's id for all of them): the second
  takes over the entry of the first, gets both answers, and the first call waits for its context to end, even
  when the connection ends.
\<close>

lemma reused_id_orphans_the_first_call:
  assumes "hb_pumps h c = Some ac" and "map_of (hb_conns h) a = Some c" and "cm_Cmd cmd1 = i" "cm_Cmd cmd2 = i"
    and "rs_Cmd resp = i" "rs_Status resp \<noteq> []" "i \<noteq> []" "hc_pending ac = []"
  shows "let h2 = snd (send_start a cmd2 Written (snd (send_start a cmd1 Written h)));
             h3 = pump_message E c (MsgResponse resp) now h2;
             first = \<lparr>ca_conn = c, ca_cmd = i, ca_chan = hb_next_chan h\<rparr>;
             second = \<lparr>ca_conn = c, ca_cmd = i, ca_chan = Suc (hb_next_chan h)\<rparr>;
             h4 = snd (send_end second ByChannel h3) in
    fst (send_end second ByChannel h3) = Some (Inr resp) \<and> fst (send_end first ByChannel h3) = None \<and>
    fst (send_end first ByChannel (pump_end c h4)) = None"
  using assms by (simp add: send_start_def pump_message_def send_end_def wake_result_def chan_offer_def forget_pending_def
      pump_end_def Let_def)

subsection \<open>An example\<close>

definition hub_env0 :: hub_env where
  "hub_env0 = \<lparr>he_csr = None, he_text = (\<lambda>_. [])\<rparr>"

definition ex_hub :: hub where
  "ex_hub = snd (send_start ''ag1'' \<lparr>cm_Cmd = ''op1'', cm_Type = CmdScan, cm_Params = PNone\<rparr> Written
     (HandleConnection hub_env0 (Some [(''ag1'', ''07'')]) 5 False NewHub))"

lemma ex_hub_reached: "hub_reach hub_env0 ex_hub"
  unfolding ex_hub_def
  by (rule hub_reach.step[OF hub_reach.step[OF hub_reach.start connects] send_starts])
    (simp_all add: HandleConnection_def NewHub_def extractAgentID_def peer_revoked_def hub_env0_def IsConnected_def Let_def)

lemma ex_hub_calls: "hb_calls ex_hub = [\<lparr>ca_conn = 0, ca_cmd = ''op1'', ca_chan = 0\<rparr>]" "hb_chans ex_hub 0 = Empty"
  by (simp_all add: ex_hub_def HandleConnection_def NewHub_def extractAgentID_def peer_revoked_def hub_env0_def
      IsConnected_def send_start_def Let_def)

lemma waiting_calls_are_answered_witness:
  "fst (send_end \<lparr>ca_conn = 0, ca_cmd = ''op1'', ca_chan = 0\<rparr> ByChannel (pump_message hub_env0 0
     (MsgResponse \<lparr>rs_Cmd = ''op1'', rs_Status = StatusOK, rs_Result = DNull, rs_Error = []\<rparr>) 6 ex_hub)) =
   Some (Inr \<lparr>rs_Cmd = ''op1'', rs_Status = StatusOK, rs_Result = DNull, rs_Error = []\<rparr>)"
  using waiting_calls_are_answered[OF ex_hub_reached, of "\<lparr>ca_conn = 0, ca_cmd = ''op1'', ca_chan = 0\<rparr>"
      "\<lparr>rs_Cmd = ''op1'', rs_Status = StatusOK, rs_Result = DNull, rs_Error = []\<rparr>" 6] ex_hub_calls
  by (simp add: send_end_def wake_result_def StatusOK_def)

end
