(* ===== verification/Daemon.thy ===== *)
theory Daemon
  imports Scan Executor Collector Ws_Types Time_Format
begin

text \<open>
  \<open>internal/daemon\<close>: what the agent does with scan, execute, resume and cancel commands.

  \<^item> A command starts a job, a goroutine with a context of its own; the registry maps the command's id to the
    cancel function of that context. Contexts are numbered in the order of their creation.
  \<^item> What a job sends is a list of stream events, computed from what it observes: the results of the scan, the
    executor's progress reports and result, and where it sees its context cancelled.
  \<^item> The executor is an interface (\<open>executor.Executor\<close>): a run is a function of the plan and of the points where the
    context is found cancelled. \<open>json.Marshal\<close> does not fail on these types.
\<close>

subsection \<open>Conversions\<close>

definition errNoSuchOp :: "string \<Rightarrow> err" where
  "errNoSuchOp i = Err ''daemon: no running op %q'' [i]"

text \<open>\<open>scanMode\<close>\<close>

definition scanMode :: "string \<Rightarrow> err + Mode" where
  "scanMode m =
     (if m = [] \<or> m = ''meta'' then Inr ModeMetaOnly
      else if m = ''sql'' then Inr ModeWithSQL
      else if m = ''selected'' then Inr ModeSelectedSQL
      else Inl (Err ''daemon: unknown scan mode %q'' [m]))"

text \<open>\<open>timeRangeFarFuture\<close>: 9999-12-31T23:59:59Z.\<close>

definition timeRangeFarFuture :: time where
  "timeRangeFarFuture = time_unix (days_from_civil 9999 12 31 * 86400 + 86399)"

text \<open>A bound of the time range: absent, unreadable or an instant.\<close>

definition time_bound :: "string \<Rightarrow> string \<Rightarrow> time \<Rightarrow> err + time" where
  "time_bound name text absent =
     (if text = [] then Inr absent
      else (case parse_rfc3339 text of
              None \<Rightarrow> Inl (Err (''daemon: parse '' @ name @ '' %q: %w'') [text])
            | Some t \<Rightarrow> Inr t))"

definition wsFilterToBinlog :: "gtid_lib \<Rightarrow> ScanFilter \<Rightarrow> err + Filter" where
  "wsFilterToBinlog G f =
     (let build = (\<lambda>tr gs.
            \<lparr>f_BinlogDir = [],
             f_Tables = map (\<lambda>t. \<lparr>tr_Schema = wj_Schema t, tr_Table = wj_Table t\<rparr>) (sf_Tables f),
             f_TimeRange = tr, f_GTIDSet = gs,
             f_StartPos = (if sf_StartFile f \<noteq> [] then \<lparr>pos_Name = sf_StartFile f, pos_Pos = sf_StartPos f\<rparr> else zero_pos),
             f_EndPos = (if sf_EndFile f \<noteq> [] then \<lparr>pos_Name = sf_EndFile f, pos_Pos = sf_EndPos f\<rparr> else zero_pos),
             f_MaxRowsPerTx = sf_MaxRowsPerTx f, f_SelectedTxIDs = sf_SelectedTxIDs f\<rparr>);
          with_gtids = (\<lambda>tr.
            if sf_GTIDSet f = [] then Inr (build tr None)
            else (case ParseGTIDSet G ''mysql'' (sf_GTIDSet f) of Inl e \<Rightarrow> Inl e | Inr gs \<Rightarrow> Inr (build tr (Some gs)))) in
      if sf_TimeStart f = [] \<and> sf_TimeEnd f = [] then with_gtids None
      else (case time_bound ''timeStart'' (sf_TimeStart f) zero_time of
              Inl e \<Rightarrow> Inl e
            | Inr s \<Rightarrow>
                (case time_bound ''timeEnd'' (sf_TimeEnd f) timeRangeFarFuture of
                   Inl e \<Rightarrow> Inl e
                 | Inr t \<Rightarrow> with_gtids (Some \<lparr>tr_Start = s, tr_End = t\<rparr>))))"

text \<open>\<open>validateOperationID\<close>: the id becomes the name of a checkpoint file.\<close>

definition validateOperationID :: "string \<Rightarrow> err option" where
  "validateOperationID opID =
     (if opID = [] then Some (Err ''daemon: operationID is required'' [])
      else if path_base opID \<noteq> opID
      then Some (Err ''daemon: unsafe operationID %q: must not contain path separators'' [opID])
      else if str_contains opID ''..''
      then Some (Err ''daemon: unsafe operationID %q: must not contain dots'' [opID])
      else None)"

text \<open>
  The JSON forms that the server reads. \<open>etext\<close> is \<open>Error()\<close>; warnings are texts on the wire and their values here.
\<close>

definition meta_wire :: "TxMeta \<Rightarrow> txMetaWire" where
  "meta_wire m = \<lparr>tm_w_TxID = tm_TxID m, tm_w_GTID = tm_GTID m, tm_w_XID = tm_XID m, tm_w_CommitTime = tm_CommitTime m,
     tm_w_Schema = tm_Schema m, tm_w_Tables = map (\<lambda>t. \<lparr>wj_Schema = tr_Schema t, wj_Table = tr_Table t\<rparr>) (tm_Tables m),
     tm_w_RowCount = int (tm_RowCount m), tm_w_Truncated = tm_Truncated m\<rparr>"

definition stmt_wire :: "(err \<Rightarrow> string) \<Rightarrow> Statement \<Rightarrow> StatementWire" where
  "stmt_wire etext s = \<lparr>sw_SQL = st_SQL s, sw_TxID = st_TxID s, sw_TxOrder = int (st_TxOrder s),
     sw_Warnings = map etext (st_Warnings s)\<rparr>"

definition exec_error_wire :: "(err \<Rightarrow> string) \<Rightarrow> ExecError \<Rightarrow> StmtError" where
  "exec_error_wire etext e = \<lparr>se_Statement = ee_Statement e, se_Err = etext (ee_Err e)\<rparr>"

definition progress_wire :: "(err \<Rightarrow> string) \<Rightarrow> Progress \<Rightarrow> ProgressWire" where
  "progress_wire etext p = \<lparr>pw_Done = int (pg_Done p), pw_Total = int (pg_Total p),
     pw_Errors = map (exec_error_wire etext) (pg_Errors p)\<rparr>"

definition report_wire :: "(err \<Rightarrow> string) \<Rightarrow> FinalReport \<Rightarrow> opDonePayload" where
  "report_wire etext r = \<lparr>od_Done = int (fr_Done r), od_Total = int (fr_Total r), od_RowsAffected = fr_RowsAffected r,
     od_Paused = fr_Paused r, od_Errors = map (exec_error_wire etext) (fr_Errors r)\<rparr>"

text \<open>\<open>planFromExecuteRequest\<close>: the plan's statements have no source row.\<close>

definition planFromExecuteRequest :: "ExecuteRequest \<Rightarrow> Plan" where
  "planFromExecuteRequest req =
     \<lparr>pl_OperationID = er_OperationID req,
      pl_Statements = map (\<lambda>s. \<lparr>st_SQL = sw_SQL s, st_TxID = sw_TxID s, st_TxOrder = nat (sw_TxOrder s),
                                st_SourceRow = None, st_Warnings = map (\<lambda>t. Err t []) (sw_Warnings s)\<rparr>) (er_Statements req),
      pl_BatchSize = er_BatchSize req\<rparr>"

subsection \<open>What a job sends\<close>

definition result_events :: "(err \<Rightarrow> string) \<Rightarrow> string \<Rightarrow> Result \<Rightarrow> StreamEvent list" where
  "result_events etext i r =
     \<lparr>sv_ID = i, sv_Kind = EvTxMeta, sv_Data = DTxMeta (meta_wire (r_Meta r))\<rparr> #
     (if r_SQL r = [] then []
      else [\<lparr>sv_ID = i, sv_Kind = EvSQL, sv_Data = DSQL (map (stmt_wire etext) (r_SQL r))\<rparr>])"

definition error_event :: "(err \<Rightarrow> string) \<Rightarrow> string \<Rightarrow> err \<Rightarrow> StreamEvent" where
  "error_event etext i e = \<lparr>sv_ID = i, sv_Kind = EvOpError, sv_Data = DText (etext e)\<rparr>"

text \<open>The goroutine of \<open>Scan\<close>, from the results of the stream and its final error.\<close>

definition scan_events :: "(err \<Rightarrow> string) \<Rightarrow> string \<Rightarrow> Result list \<times> err option \<Rightarrow> StreamEvent list" where
  "scan_events etext i out =
     (case out of (results, final) \<Rightarrow>
        concat (map (result_events etext i) results) @
        [case final of
           Some e \<Rightarrow> error_event etext i e
         | None \<Rightarrow> \<lparr>sv_ID = i, sv_Kind = EvScanDone, sv_Data = DFields []\<rparr>])"

text \<open>The goroutine of \<open>runExecute\<close>, from the progress reports, the final report and the error of the executor.\<close>

definition execute_events :: "(err \<Rightarrow> string) \<Rightarrow> string \<Rightarrow> Progress list \<times> FinalReport \<times> err option \<Rightarrow> StreamEvent list" where
  "execute_events etext i out =
     (case out of (progress, report, final) \<Rightarrow>
        map (\<lambda>p. \<lparr>sv_ID = i, sv_Kind = EvProgress, sv_Data = DProgress (progress_wire etext p)\<rparr>) progress @
        [case final of
           Some e \<Rightarrow> error_event etext i e
         | None \<Rightarrow> \<lparr>sv_ID = i, sv_Kind = EvOpDone, sv_Data = DReport (report_wire etext report)\<rparr>])"

subsection \<open>Jobs and their registry\<close>

text \<open>\<open>jb_work\<close>: what the job sends, given at which of its checks it finds its context cancelled.\<close>

record job =
  jb_ID :: string
  jb_ctx :: nat
  jb_work :: "(nat \<Rightarrow> bool) \<Rightarrow> StreamEvent list"

record agent_daemon =
  dm_ops :: "string \<rightharpoonup> nat"
  dm_next :: nat
  dm_cancelled :: "nat set"
  dm_closed :: bool
  dm_jobs :: "job list"
  dm_sent :: "StreamEvent list"

text \<open>
  The dependencies of the daemon. What a scan finds in the archive and what a run of the executor does may
  differ from job to job, so both also take the number of the job's context; \<open>de_exec\<close> is \<open>None\<close> when no executor is
  configured, its flag chooses \<open>Resume\<close>.
\<close>

record daemon_env =
  de_engine :: "nat \<Rightarrow> engine"
  de_reader :: "nat \<Rightarrow> reader_env"
  de_readdir :: "nat \<Rightarrow> err + (string \<times> bool) list"
  de_ArchiveDir :: string
  de_SchemaFetcher :: schema_fetcher
  de_MaxRowsPerTx :: int
  de_exec :: "(nat \<Rightarrow> bool \<Rightarrow> Plan \<Rightarrow> (nat \<Rightarrow> bool) \<Rightarrow> Progress list \<times> FinalReport \<times> err option) option"
  de_gtid :: gtid_lib
  de_text :: "err \<Rightarrow> string"

definition NewDaemon :: agent_daemon where
  "NewDaemon = \<lparr>dm_ops = Map.empty, dm_next = 0, dm_cancelled = {}, dm_closed = False, dm_jobs = [], dm_sent = []\<rparr>"

definition registerOp :: "string \<Rightarrow> nat \<Rightarrow> agent_daemon \<Rightarrow> agent_daemon" where
  "registerOp i c d = d\<lparr>dm_ops := (dm_ops d)(i \<mapsto> c)\<rparr>"

definition unregisterOp :: "string \<Rightarrow> agent_daemon \<Rightarrow> agent_daemon" where
  "unregisterOp i d = d\<lparr>dm_ops := (dm_ops d)(i := None)\<rparr>"

definition cancel_ctx :: "nat \<Rightarrow> agent_daemon \<Rightarrow> agent_daemon" where
  "cancel_ctx c d = d\<lparr>dm_cancelled := insert c (dm_cancelled d)\<rparr>"

definition cancelOp :: "string \<Rightarrow> agent_daemon \<Rightarrow> err option \<times> agent_daemon" where
  "cancelOp i d = (case dm_ops d i of None \<Rightarrow> (Some (errNoSuchOp i), d) | Some c \<Rightarrow> (None, cancel_ctx c d))"

text \<open>Context, registration and goroutine, common to scans and executions.\<close>

definition start_job :: "string \<Rightarrow> ((nat \<Rightarrow> bool) \<Rightarrow> StreamEvent list) \<Rightarrow> agent_daemon \<Rightarrow> agent_daemon" where
  "start_job i work d =
     (let c = dm_next d; d1 = registerOp i c (d\<lparr>dm_next := Suc c\<rparr>) in
      d1\<lparr>dm_jobs := dm_jobs d1 @ [\<lparr>jb_ID = i, jb_ctx = c, jb_work = work\<rparr>]\<rparr>)"

definition scan_work :: "daemon_env \<Rightarrow> nat \<Rightarrow> string \<Rightarrow> scan_config \<Rightarrow> (nat \<Rightarrow> bool) \<Rightarrow> StreamEvent list" where
  "scan_work E c i cfg seen =
     scan_events (de_text E) i
       (Stream (de_engine E c) (de_reader E c) (de_readdir E c) (\<lambda>k. if seen k then Some ctx_canceled else None) cfg)"

definition daemon_Scan :: "daemon_env \<Rightarrow> string \<Rightarrow> ScanRequest \<Rightarrow> agent_daemon \<Rightarrow> err option \<times> agent_daemon" where
  "daemon_Scan E i req d =
     (case wsFilterToBinlog (de_gtid E) (sr_Filter req) of
        Inl e \<Rightarrow> (Some e, d)
      | Inr flt \<Rightarrow>
          (case scanMode (sr_Mode req) of
             Inl e \<Rightarrow> (Some e, d)
           | Inr mode \<Rightarrow>
               (None, start_job i (scan_work E (dm_next d) i
                        \<lparr>sg_ArchiveDir = de_ArchiveDir E, sg_Filter = flt, sg_Mode = mode,
                         sg_MaxPreview = sr_MaxPreview req, sg_SchemaFetcher = de_SchemaFetcher E,
                         sg_MaxRowsPerTx = de_MaxRowsPerTx E\<rparr>) d)))"

definition runExecute :: "daemon_env \<Rightarrow> string \<Rightarrow> ExecuteRequest \<Rightarrow> bool \<Rightarrow> agent_daemon \<Rightarrow> err option \<times> agent_daemon" where
  "runExecute E i req resume d =
     (case de_exec E of
        None \<Rightarrow> (Some (Err ''daemon: executor not configured'' []), d)
      | Some run \<Rightarrow>
          (None, start_job i (\<lambda>seen. execute_events (de_text E) i (run (dm_next d) resume (planFromExecuteRequest req) seen)) d))"

definition daemon_Execute :: "daemon_env \<Rightarrow> string \<Rightarrow> ExecuteRequest \<Rightarrow> agent_daemon \<Rightarrow> err option \<times> agent_daemon" where
  "daemon_Execute E i req d =
     (case validateOperationID (er_OperationID req) of Some e \<Rightarrow> (Some e, d) | None \<Rightarrow> runExecute E i req False d)"

definition daemon_Resume :: "daemon_env \<Rightarrow> string \<Rightarrow> ExecuteRequest \<Rightarrow> agent_daemon \<Rightarrow> err option \<times> agent_daemon" where
  "daemon_Resume E i req d =
     (case validateOperationID (er_OperationID req) of Some e \<Rightarrow> (Some e, d) | None \<Rightarrow> runExecute E i req True d)"

text \<open>
  The goroutine with context \<open>c\<close> runs to its end. It can find its context cancelled (at the checks \<open>seen\<close>) only when
  it was cancelled or the agent is shutting down; afterwards it cancels its context and removes its registration.
\<close>

definition job_end :: "nat \<Rightarrow> (nat \<Rightarrow> bool) \<Rightarrow> agent_daemon \<Rightarrow> agent_daemon" where
  "job_end c seen d =
     (case find_key jb_ctx c (dm_jobs d) of
        None \<Rightarrow> d
      | Some j \<Rightarrow>
          (let observed = (if c \<in> dm_cancelled d \<or> dm_closed d then seen else (\<lambda>_. False)) in
           unregisterOp (jb_ID j) (cancel_ctx c
             (d\<lparr>dm_jobs := filter (\<lambda>k. jb_ctx k \<noteq> c) (dm_jobs d), dm_sent := dm_sent d @ jb_work j observed\<rparr>))))"

end
