(* ===== verification/Connector.thy ===== *)
theory Connector
  imports Executor Archive "HOL-Library.Word"
begin

text \<open>
  \<open>internal/connector\<close> (\<open>types.go\<close>, \<open>mysql.go\<close>): what the program asks of a MySQL server.

  \<^item> The server is the record \<open>mysql\<close> of its answers. A query with rows answers an error, or what scanning each row gives
    and the error that ends the iteration. \<open>database/sql\<close> and the driver are below this interface.
  \<^item> \<open>m.db\<close> is \<open>None\<close> until \<open>Connect\<close> succeeds and after \<open>Close\<close>.
  \<^item> A map of parameters is the list of its pairs in the order of the iteration. \<open>int\<close> is a 64-bit word in \<open>itoa\<close>.
\<close>

subsection \<open>Connection settings\<close>

record ConnConfig =
  cc_Host :: string
  cc_Port :: int
  cc_User :: string
  cc_Password :: string
  cc_Database :: string
  cc_Params :: "(string \<times> string) list"

text \<open>\<open>itoa\<close>: the digits are written from the end of a buffer; negating the least integer leaves it negative.\<close>

fun itoa_digits :: "nat \<Rightarrow> string" where
  "itoa_digits n = (if n = 0 then [] else itoa_digits (n div 10) @ [digit_char (n mod 10)])"

declare itoa_digits.simps [simp del]

definition itoa :: "64 word \<Rightarrow> string" where
  "itoa i =
     (if i = 0 then ''0''
      else (let neg = sint i < 0; j = (if neg then - i else i);
                ds = itoa_digits (if 0 < sint j then nat (sint j) else 0) in
            if neg then CHR ''-'' # ds else ds))"

definition default_host :: "ConnConfig \<Rightarrow> string" where
  "default_host c = (if cc_Host c = [] then ''127.0.0.1'' else cc_Host c)"

definition default_port :: "ConnConfig \<Rightarrow> int" where
  "default_port c = (if cc_Port c = 0 then 3306 else cc_Port c)"

fun dsn_params :: "bool \<Rightarrow> (string \<times> string) list \<Rightarrow> string" where
  "dsn_params first [] = []"
| "dsn_params first ((k, v) # ps) = (if first then ''?'' else ''&'') @ k @ ''='' @ v @ dsn_params False ps"

definition DSN :: "ConnConfig \<Rightarrow> string" where
  "DSN c =
     cc_User c @ '':'' @ cc_Password c @ ''@tcp('' @ default_host c @ '':'' @ itoa (word_of_int (default_port c)) @ '')/'' @
     cc_Database c @ dsn_params True (cc_Params c)"

subsection \<open>The server and the connector\<close>

type_synonym 'r rows = "err + (err + 'r) list \<times> err option"

record BinlogFile =
  bf_Name :: string
  bf_Size :: int

record mysql =
  my_version :: "err + string"
  my_variable :: "string \<Rightarrow> err + string"
  my_binary_logs :: "BinlogFile rows"
  my_columns :: "err option"
  my_master :: "err + string \<times> nat"
  my_grants :: "string rows"
  my_table_columns :: "string \<Rightarrow> string \<Rightarrow> ColumnDef rows"
  my_primary_key :: "string \<Rightarrow> string \<Rightarrow> string rows"
  my_size :: "string \<Rightarrow> err + int option"
  my_all_columns :: "string \<Rightarrow> string rows"
  my_foreign_keys :: "string \<Rightarrow> string rows"

record MySQLConnector =
  mc_db :: "mysql option"
  mc_config :: ConnConfig

definition NewMySQLConnector :: "ConnConfig \<Rightarrow> MySQLConnector" where
  "NewMySQLConnector zero = \<lparr>mc_db = None, mc_config = zero\<rparr>"

text \<open>\<open>Connect\<close>: \<open>open_db\<close> and \<open>ping\<close> are what the driver makes of the settings; optional parameters that do not
  parse are ignored there.\<close>

definition Connect :: "(ConnConfig \<Rightarrow> err + mysql) \<Rightarrow> (ConnConfig \<Rightarrow> err option) \<Rightarrow> ConnConfig \<Rightarrow> MySQLConnector \<Rightarrow>
    err option \<times> MySQLConnector" where
  "Connect open_db ping cfg m =
     (case open_db cfg of
        Inl e \<Rightarrow> (Some (Wrap ''connector: sql.Open: %w'' [] e), m)
      | Inr db \<Rightarrow>
          (case ping cfg of
             Some e \<Rightarrow> (Some (Wrap ''connector: ping failed: %w'' [] e), m)
           | None \<Rightarrow> (None, \<lparr>mc_db = Some db, mc_config = cfg\<rparr>)))"

definition connector_Close :: "MySQLConnector \<Rightarrow> MySQLConnector" where
  "connector_Close m = m\<lparr>mc_db := None\<rparr>"

definition no_connection :: err where
  "no_connection = Err ''connector: not connected'' []"

text \<open>The loop over a result: the first row that does not scan ends it, then the iteration's own error counts.\<close>

fun scan_all_rows :: "(err + 'r) list \<Rightarrow> err + 'r list" where
  "scan_all_rows [] = Inr []"
| "scan_all_rows (Inl e # rs) = Inl e"
| "scan_all_rows (Inr r # rs) = (case scan_all_rows rs of Inl e \<Rightarrow> Inl e | Inr xs \<Rightarrow> Inr (r # xs))"

definition read_rows :: "string \<Rightarrow> string \<Rightarrow> string \<Rightarrow> 'r rows \<Rightarrow> err + 'r list" where
  "read_rows query_msg scan_msg iter_msg rows =
     (case rows of
        Inl e \<Rightarrow> Inl (Wrap query_msg [] e)
      | Inr (rs, final) \<Rightarrow>
          (case scan_all_rows rs of
             Inl e \<Rightarrow> Inl (Wrap scan_msg [] e)
           | Inr xs \<Rightarrow> (case final of Some e \<Rightarrow> Inl (Wrap iter_msg [] e) | None \<Rightarrow> Inr xs)))"

subsection \<open>Queries\<close>

text \<open>The names of the columns decide whether a third value is scanned and dropped.\<close>

definition GetBinlogFiles :: "MySQLConnector \<Rightarrow> err + BinlogFile list" where
  "GetBinlogFiles m =
     (case mc_db m of
        None \<Rightarrow> Inl no_connection
      | Some db \<Rightarrow>
          (case my_binary_logs db of
             Inl e \<Rightarrow> Inl (Wrap ''connector: SHOW BINARY LOGS: %w'' [] e)
           | Inr rows \<Rightarrow>
               (case my_columns db of
                  Some e \<Rightarrow> Inl (Wrap ''connector: columns: %w'' [] e)
                | None \<Rightarrow> read_rows [] ''connector: scan: %w'' ''connector: rows iteration: %w'' (Inr rows))))"

definition ListBinlogs :: "MySQLConnector \<Rightarrow> err + ManifestFile list" where
  "ListBinlogs m =
     (case GetBinlogFiles m of
        Inl e \<Rightarrow> Inl e
      | Inr files \<Rightarrow> Inr (map (\<lambda>f. \<lparr>mf_Name = bf_Name f, mf_Size = bf_Size f\<rparr>) files))"

definition sql_ErrNoRows :: err where
  "sql_ErrNoRows = Err ''sql: no rows in result set'' []"

definition MasterPosition :: "MySQLConnector \<Rightarrow> err + string \<times> nat" where
  "MasterPosition m =
     (case mc_db m of
        None \<Rightarrow> Inl no_connection
      | Some db \<Rightarrow>
          (case my_master db of
             Inl e \<Rightarrow> Inl (if errors_is e sql_ErrNoRows
                          then Err ''connector: SHOW MASTER STATUS returned no rows (binary logging may be disabled)'' []
                          else Wrap ''connector: SHOW MASTER STATUS: %w'' [] e)
           | Inr (name, pos) \<Rightarrow>
               (if name = [] then Inl (Err ''connector: SHOW MASTER STATUS returned empty binlog file name'' [])
                else Inr (name, pos))))"

text \<open>\<open>filepath.Dir\<close> of a path whose directory part is clean: \<open>.\<close> without a separator.\<close>

definition path_dir :: "string \<Rightarrow> string" where
  "path_dir p =
     (case last_index p CHR ''/'' of
        None \<Rightarrow> ''.''
      | Some i \<Rightarrow> (let d = rev (strip_slashes (rev (take i p))) in if d = [] then ''/'' else d))"

definition GetBinlogDir :: "MySQLConnector \<Rightarrow> err + string" where
  "GetBinlogDir m =
     (case mc_db m of
        None \<Rightarrow> Inl no_connection
      | Some db \<Rightarrow>
          (case my_variable db ''log_bin_basename'' of
             Inl e \<Rightarrow> Inl (Wrap ''connector: query log_bin_basename: %w'' [] e)
           | Inr value \<Rightarrow>
               (if value = [] then Inl (Err ''connector: log_bin_basename is empty'' [])
                else (let dir = path_dir value in if dir \<noteq> ''.'' then Inr (dir @ ''/'') else Inr []))))"

definition GetBasedir :: "MySQLConnector \<Rightarrow> err + string" where
  "GetBasedir m =
     (case mc_db m of
        None \<Rightarrow> Inl no_connection
      | Some db \<Rightarrow>
          (case my_variable db ''basedir'' of
             Inl e \<Rightarrow> Inl (Wrap ''connector: query basedir: %w'' [] e)
           | Inr basedir \<Rightarrow> (if basedir = [] then Inl (Err ''connector: basedir is empty'' []) else Inr basedir)))"

definition fetchPrimaryKey :: "mysql \<Rightarrow> string \<Rightarrow> string \<Rightarrow> err + string list" where
  "fetchPrimaryKey db schema table =
     read_rows ''connector: query primary key: %w'' ''connector: scan primary key: %w'' ''connector: rows iteration: %w''
       (my_primary_key db schema table)"

definition connector_FetchSchema :: "MySQLConnector \<Rightarrow> string \<Rightarrow> string \<Rightarrow> err + TableSchema" where
  "connector_FetchSchema m schema table =
     (case mc_db m of
        None \<Rightarrow> Inl no_connection
      | Some db \<Rightarrow>
          (case read_rows ''connector: query schema: %w'' ''connector: scan column: %w'' ''connector: rows iteration: %w''
                  (my_table_columns db schema table) of
             Inl e \<Rightarrow> Inl e
           | Inr cols \<Rightarrow>
               (if cols = [] then Inl (Err ''connector: table %s.%s not found'' [schema, table])
                else (case fetchPrimaryKey db schema table of
                        Inl e \<Rightarrow> Inl e
                      | Inr pk \<Rightarrow>
                          Inr \<lparr>ts_Schema = schema, ts_Table = table, ts_Columns = cols, ts_PrimaryKey = pk\<rparr>))))"

text \<open>\<open>ParseBinlog\<close> only checks that the files exist; its result is empty.\<close>

definition ParseBinlog :: "MySQLConnector \<Rightarrow> string list \<Rightarrow> err + unit" where
  "ParseBinlog m files =
     (if mc_db m = None then Inl no_connection
      else if files = [] then Inl (Err ''connector: no binlog files specified'' [])
      else (case GetBinlogFiles m of
              Inl e \<Rightarrow> Inl (Wrap ''connector: cannot list binlog files: %w'' [] e)
            | Inr available \<Rightarrow>
                (let missing = filter (\<lambda>f. f \<notin> bf_Name ` set available) files in
                 if missing \<noteq> [] then Inl (Err ''connector: binlog files not found: %s'' [str_join missing '', ''])
                 else Inr ())))"

subsection \<open>Rollback in batches\<close>

record ExecResult =
  er_RowsAffected :: int
  er_BatchesCompleted :: nat
  er_Errors :: "err list"

definition truncate :: "string \<Rightarrow> nat \<Rightarrow> string" where
  "truncate s maxLen = (if length s \<le> maxLen then s else take maxLen s @ ''...'')"

fun exec_all :: "'d db_driver \<Rightarrow> string list \<Rightarrow> 'd \<Rightarrow> err option \<times> 'd" where
  "exec_all D [] d = (None, d)"
| "exec_all D (s # ss) d =
     (case dr_exec D d s of
        (Inl e, d1) \<Rightarrow> (Some (Wrap ''exec %q: %w'' [truncate s 80] e), d1)
      | (Inr _, d1) \<Rightarrow> exec_all D ss d1)"

text \<open>\<open>executeBatch\<close>; \<open>i\<close> is the index of the first statement. A transaction that is not committed leaves nothing.\<close>

definition executeBatch :: "'d db_driver \<Rightarrow> nat \<Rightarrow> string list \<Rightarrow> 'd \<Rightarrow> err option \<times> 'd" where
  "executeBatch D i ss d =
     (case dr_begin D i of
        Some e \<Rightarrow> (Some (Wrap ''begin tx: %w'' [] e), d)
      | None \<Rightarrow>
          (case exec_all D ss d of
             (Some e, _) \<Rightarrow> (Some e, d)
           | (None, d1) \<Rightarrow> (case dr_commit D i of Some e \<Rightarrow> (Some e, d) | None \<Rightarrow> (None, d1))))"

function rollback_batches :: "'d db_driver \<Rightarrow> nat \<Rightarrow> nat \<Rightarrow> string list \<Rightarrow> ExecResult \<Rightarrow> 'd \<Rightarrow> ExecResult \<times> 'd" where
  "rollback_batches D bs i sqls res d =
     (if bs = 0 \<or> length sqls \<le> i then (res, d)
      else (case executeBatch D i (take bs (drop i sqls)) d of
              (Some e, d1) \<Rightarrow>
                rollback_batches D bs (i + bs) sqls
                  (res\<lparr>er_Errors := er_Errors res @ [Wrap ''batch %d: %v'' [show_nat (er_BatchesCompleted res)] e]\<rparr>) d1
            | (None, d1) \<Rightarrow>
                rollback_batches D bs (i + bs) sqls (res\<lparr>er_BatchesCompleted := Suc (er_BatchesCompleted res)\<rparr>) d1))"
  by pat_completeness auto

termination by (relation "measure (\<lambda>(_, bs, i, sqls, _, _). length sqls - i)") auto

declare rollback_batches.simps [simp del]

definition zero_result :: ExecResult where
  "zero_result = \<lparr>er_RowsAffected = 0, er_BatchesCompleted = 0, er_Errors = []\<rparr>"

definition ExecuteRollback :: "'d db_driver \<Rightarrow> MySQLConnector \<Rightarrow> string list \<Rightarrow> int \<Rightarrow> bool \<Rightarrow> 'd \<Rightarrow> (err + ExecResult) \<times> 'd" where
  "ExecuteRollback D m sqls batchSize dryRun d =
     (if mc_db m = None then (Inl no_connection, d)
      else if sqls = [] then (Inr zero_result, d)
      else (let bs = (if batchSize \<le> 0 then 100 else nat batchSize) in
            if dryRun then (Inr zero_result, d)
            else (case rollback_batches D bs 0 sqls zero_result d of (res, d1) \<Rightarrow> (Inr res, d1))))"

subsection \<open>The number printer\<close>

lemma itoa_digits_show: "0 < n \<Longrightarrow> itoa_digits n = show_nat n"
proof (induction n rule: itoa_digits.induct)
  case (1 n)
  show ?case
  proof (cases "n < 10")
    case True
    then show ?thesis using 1(2) by (simp add: itoa_digits.simps[of n] itoa_digits.simps[of 0] show_nat.simps[of n])
  next
    case False
    then show ?thesis using 1 by (simp add: itoa_digits.simps[of n] show_nat.simps[of n])
  qed
qed

lemma sint_uminus: "sint i \<noteq> - (2 ^ 63) \<Longrightarrow> sint (- i :: 64 word) = - sint i"
proof -
  assume a: "sint i \<noteq> - (2 ^ 63)"
  have "- (2 ^ 63) \<le> sint i" "sint i < 2 ^ 63" using sint_range_size[of i] by (simp_all add: word_size)
  then have "sint (word_of_int (- sint i) :: 64 word) = - sint i" using a
    by (subst signed_of_int) (simp add: signed_take_bit_int_eq_self)
  moreover have "- i = word_of_int (- sint i)" by simp
  ultimately show ?thesis by metis
qed

text \<open>\<open>itoa\<close> prints every number but the least one, of which only the sign remains.\<close>

lemma itoa_correct:
  assumes "sint i \<noteq> - (2 ^ 63)"
  shows "itoa i = show_int (sint i)"
proof (cases "i = 0")
  case False
  then have n: "sint i \<noteq> 0" using signed_eq_0_iff[of i] by blast
  then show ?thesis using False sint_uminus[OF assms] itoa_digits_show[of "nat (sint i)"] itoa_digits_show[of "nat (- sint i)"]
    by (auto simp: itoa_def show_int_def Let_def)
qed (simp add: itoa_def show_int_def show_nat.simps digit_char_def)

lemma itoa_least: "itoa (word_of_int (- (2 ^ 63))) = ''-''"
  by (simp add: itoa_def itoa_digits.simps Let_def)

end
