(* ===== verification/Preflight.thy ===== *)
theory Preflight
  imports Connector
begin

text \<open>
  The readiness checks of \<open>connector/mysql.go\<close> (\<open>Preflight\<close>) and their result types (\<open>types.go\<close>). Messages are kept as
  format and arguments. \<open>strings.ToUpper\<close> is taken on ASCII letters.
\<close>

subsection \<open>Results\<close>

datatype PreflightStatus = PreflightPass | PreflightWarn | PreflightFail

record PreflightCheck =
  pk_Name :: string
  pk_Status :: PreflightStatus
  pk_Message :: err

record PreflightResult =
  pr_Status :: PreflightStatus
  pr_Version :: err
  pr_Checks :: "PreflightCheck list"

definition no_message :: err where
  "no_message = Err [] []"

definition EnsureOK :: "PreflightResult \<Rightarrow> err option" where
  "EnsureOK r = (if pr_Status r = PreflightFail then Some (Err ''preflight FAILED'' []) else None)"

subsection \<open>Versions\<close>

text \<open>\<open>strings.SplitN(s, c, n)\<close>: at most \<open>n\<close> parts, the last one is the rest.\<close>

fun split_n :: "nat \<Rightarrow> char \<Rightarrow> string \<Rightarrow> string \<Rightarrow> string list" where
  "split_n n c part [] = [part]"
| "split_n n c part (x # xs) =
     (if x = c \<and> 1 < n then part # split_n (n - 1) c [] xs else split_n n c (part @ [x]) xs)"

definition digit_val :: "char \<Rightarrow> nat" where
  "digit_val c = of_char c - 48"

text \<open>\<open>fmt.Sscanf(s, "%d", &x)\<close> into an \<open>int\<close> that is 0: blanks, a sign, digits; out of range or no digits leave 0.\<close>

fun drop_blanks :: "string \<Rightarrow> string" where
  "drop_blanks [] = []"
| "drop_blanks (c # s) = (if c = CHR '' '' \<or> c = CHR 0x09 then drop_blanks s else c # s)"

definition scan_digits :: "string \<Rightarrow> int option" where
  "scan_digits s =
     (let ds = takeWhile is_digit s in
      if ds = [] then None else Some (int (foldl (\<lambda>n c. 10 * n + digit_val c) 0 ds)))"

definition sscanf_int :: "string \<Rightarrow> int" where
  "sscanf_int s =
     (let t = drop_blanks s;
          r = (case t of
                 [] \<Rightarrow> None
               | c # cs \<Rightarrow> (if c = CHR ''-'' then map_option uminus (scan_digits cs)
                            else if c = CHR ''+'' then scan_digits cs else scan_digits t)) in
      case r of None \<Rightarrow> 0 | Some x \<Rightarrow> if - (2 ^ 63) \<le> x \<and> x < 2 ^ 63 then x else 0)"

definition version_prefix :: "string \<Rightarrow> string" where
  "version_prefix v =
     (let p = takeWhile (\<lambda>c. c = CHR ''.'' \<or> is_digit c) v in if p \<noteq> [] then p else v)"

definition parseVersion :: "string \<Rightarrow> int \<times> int \<times> int" where
  "parseVersion v =
     (let parts = split_n 4 CHR ''.'' [] (version_prefix v);
          part = (\<lambda>i. if i < length parts then sscanf_int (parts ! i) else 0) in
      (part 0, part 1, part 2))"

subsection \<open>Sizes\<close>

text \<open>
  \<open>formatBytes\<close>: plain bytes, or the number, its divisor and the letter of the unit; the division is a floating point one
  and its rendering is left out.
\<close>

function unit_loop :: "int \<Rightarrow> int \<Rightarrow> nat \<Rightarrow> int \<times> nat" where
  "unit_loop n div_by ex = (if 1024 \<le> n then unit_loop (n div 1024) (div_by * 1024) (Suc ex) else (div_by, ex))"
  by pat_completeness auto

termination by (relation "measure (\<lambda>(n, _, _). nat n)") auto

declare unit_loop.simps [simp del]

definition formatBytes :: "int \<Rightarrow> int + int \<times> int \<times> char" where
  "formatBytes b =
     (if b < 1024 then Inl b
      else (case unit_loop (b div 1024) 1024 0 of (div_by, ex) \<Rightarrow> Inr (b, div_by, ''KMGTPE'' ! ex)))"

subsection \<open>The checks\<close>

definition fail_check :: "string \<Rightarrow> err \<Rightarrow> PreflightCheck" where
  "fail_check name msg = \<lparr>pk_Name = name, pk_Status = PreflightFail, pk_Message = msg\<rparr>"

definition warn_check :: "string \<Rightarrow> err \<Rightarrow> PreflightCheck" where
  "warn_check name msg = \<lparr>pk_Name = name, pk_Status = PreflightWarn, pk_Message = msg\<rparr>"

definition pass_check :: "string \<Rightarrow> err \<Rightarrow> PreflightCheck" where
  "pass_check name msg = \<lparr>pk_Name = name, pk_Status = PreflightPass, pk_Message = msg\<rparr>"

definition checkVersion :: "mysql \<Rightarrow> PreflightCheck" where
  "checkVersion db =
     (let name = ''MySQL Version'' in
      case my_version db of
        Inl e \<Rightarrow> fail_check name (Wrap ''cannot query version: %v'' [] e)
      | Inr version \<Rightarrow>
          (if fst (parseVersion version) < 8
           then fail_check name (Err ''MySQL %s detected; MySQL 8.0+ required'' [version])
           else pass_check name (Err version [])))"

definition upper_char :: "char \<Rightarrow> char" where
  "upper_char c = (if CHR ''a'' \<le> c \<and> c \<le> CHR ''z'' then char_of (of_char c - (32 :: nat)) else c)"

definition to_upper :: "string \<Rightarrow> string" where
  "to_upper s = map upper_char s"

definition checkBinlogFormat :: "mysql \<Rightarrow> PreflightCheck" where
  "checkBinlogFormat db =
     (let name = ''Binlog Format'' in
      case my_variable db ''binlog_format'' of
        Inl e \<Rightarrow> fail_check name (Wrap ''cannot query binlog_format: %v'' [] e)
      | Inr v \<Rightarrow>
          (if to_upper v \<noteq> ''ROW'' then fail_check name (Err ''binlog_format is %s; ROW required for PITR'' [v])
           else pass_check name (Err ''binlog_format is ROW'' [])))"

definition checkLogBin :: "mysql \<Rightarrow> PreflightCheck" where
  "checkLogBin db =
     (let name = ''Binary Logging Enabled'' in
      case my_variable db ''log_bin'' of
        Inl e \<Rightarrow> fail_check name (Wrap ''cannot query log_bin: %v'' [] e)
      | Inr v \<Rightarrow>
          (if to_upper v \<noteq> ''ON'' \<and> v \<noteq> ''1''
           then fail_check name (Err ''binary logging is not enabled (log_bin is OFF)'' [])
           else pass_check name (Err ''binary logging is ON'' [])))"

definition checkRequiredPrivileges :: "string list \<Rightarrow> string list" where
  "checkRequiredPrivileges grants =
     (let grantUpper = to_upper (str_join grants '' '') in
      filter (\<lambda>priv. \<not> str_contains grantUpper priv \<and> \<not> str_contains grantUpper ''ALL PRIVILEGES'' \<and> \<not> str_contains grantUpper ''ALL'')
        [''SELECT'', ''REPLICATION SLAVE'', ''REPLICATION CLIENT''])"

definition checkPrivileges :: "mysql \<Rightarrow> PreflightCheck" where
  "checkPrivileges db =
     (let name = ''User Privileges'' in
      case read_rows ''cannot query grants: %v'' ''cannot scan grant: %v'' ''rows iteration: %v'' (my_grants db) of
        Inl e \<Rightarrow> fail_check name e
      | Inr grants \<Rightarrow>
          (let missing = checkRequiredPrivileges grants in
           if missing \<noteq> [] then warn_check name (Err ''missing recommended privileges: %s'' [str_join missing '', ''])
           else pass_check name (Err ''required privileges granted'' [])))"

definition checkDatabaseSize :: "ConnConfig \<Rightarrow> mysql \<Rightarrow> PreflightCheck" where
  "checkDatabaseSize cfg db =
     (let name = ''Database Size''; dbName = cc_Database cfg in
      if dbName = [] then warn_check name (Err ''no database configured; skipping size check'' [])
      else (case my_size db dbName of
              Inl e \<Rightarrow> warn_check name (Wrap ''cannot estimate database size: %v'' [] e)
            | Inr None \<Rightarrow> warn_check name (Err ''database appears empty or has no tables'' [])
            | Inr (Some size_bytes) \<Rightarrow>
                pass_check name (Err ''estimated database size: %d bytes (%s)'' [show_int size_bytes,
                  (case formatBytes size_bytes of Inl b \<Rightarrow> show_int b @ '' B'' | Inr (b, d, u) \<Rightarrow> show_int b @ ''/'' @ show_int d @ '' '' @ [u] @ ''B'')])))"

text \<open>\<open>checkColumnMetadata\<close>: rows that do not scan are skipped; a table is counted when its name differs from the last one.\<close>

fun count_columns :: "(err + string) list \<Rightarrow> string \<Rightarrow> nat \<Rightarrow> nat \<Rightarrow> nat \<times> nat" where
  "count_columns [] lastTable tables columns = (tables, columns)"
| "count_columns (Inl e # rs) lastTable tables columns = count_columns rs lastTable tables columns"
| "count_columns (Inr t # rs) lastTable tables columns =
     count_columns rs t (if t \<noteq> lastTable then Suc tables else tables) (Suc columns)"

definition checkColumnMetadata :: "ConnConfig \<Rightarrow> mysql \<Rightarrow> PreflightCheck" where
  "checkColumnMetadata cfg db =
     (let name = ''Column Metadata''; dbName = cc_Database cfg in
      if dbName = [] then warn_check name (Err ''no database configured; skipping column metadata check'' [])
      else (case my_all_columns db dbName of
              Inl e \<Rightarrow> fail_check name (Wrap ''cannot query column metadata: %v'' [] e)
            | Inr (rs, _) \<Rightarrow>
                (case count_columns rs [] 0 0 of (tables, columns) \<Rightarrow>
                   pass_check name (Err ''found %d tables with %d columns in database %q'' [show_nat tables, show_nat columns, dbName]))))"

definition checkForeignKeys :: "ConnConfig \<Rightarrow> mysql \<Rightarrow> PreflightCheck" where
  "checkForeignKeys cfg db =
     (let name = ''Foreign Key Dependencies''; dbName = cc_Database cfg in
      if dbName = [] then warn_check name (Err ''no database configured; skipping FK check'' [])
      else (case my_foreign_keys db dbName of
              Inl e \<Rightarrow> warn_check name (Wrap ''cannot query FK constraints: %v'' [] e)
            | Inr (rs, _) \<Rightarrow>
                pass_check name (if rs \<noteq> [] then Err ''found %d foreign key constraint(s) in database %q'' [show_nat (length rs), dbName]
                                 else Err ''no foreign key constraints in database %q'' [dbName])))"

subsection \<open>Preflight\<close>

text \<open>Only the first four checks can fail the result.\<close>

definition worsen :: "PreflightCheck \<Rightarrow> PreflightStatus \<Rightarrow> PreflightStatus" where
  "worsen c s = (if pk_Status c = PreflightFail then PreflightFail else s)"

definition Preflight :: "MySQLConnector \<Rightarrow> err + PreflightResult" where
  "Preflight m =
     (case mc_db m of
        None \<Rightarrow> Inl no_connection
      | Some db \<Rightarrow>
          (let cfg = mc_config m; ver = checkVersion db; bf = checkBinlogFormat db; lb = checkLogBin db; priv = checkPrivileges db;
               status = worsen priv (worsen lb (worsen bf (worsen ver PreflightPass)));
               rest = [bf, lb, priv, checkDatabaseSize cfg db, checkColumnMetadata cfg db, checkForeignKeys cfg db] in
           if pk_Status ver = PreflightPass
           then Inr \<lparr>pr_Status = status, pr_Version = pk_Message ver, pr_Checks = ver\<lparr>pk_Message := no_message\<rparr> # rest\<rparr>
           else Inr \<lparr>pr_Status = status, pr_Version = no_message, pr_Checks = ver # rest\<rparr>))"

subsection \<open>Facts\<close>

lemma unit_loop_bound:
  assumes "n < 1024 ^ Suc k"
  shows "snd (unit_loop n d ex) \<le> ex + k"
  using assms
proof (induction k arbitrary: n d ex)
  case (Suc k)
  have "n div 1024 < 1024 ^ Suc k" using Suc.prems by (simp add: div_less_iff_less_mult mult.commute)
  then show ?case using Suc.IH[of "n div 1024" "d * 1024" "Suc ex"] by (subst unit_loop.simps) auto
qed (simp add: unit_loop.simps)

text \<open>The index into the letters of the units stays in range for every 64-bit size.\<close>

lemma formatBytes_unit_in_range:
  assumes "b < 2 ^ 63"
  shows "snd (unit_loop (b div 1024) 1024 0) < length ''KMGTPE''"
proof -
  have "b div 1024 < 1024 ^ Suc 5" using assms by (simp add: div_less_iff_less_mult)
  from unit_loop_bound[OF this, of 1024 0] show ?thesis by simp
qed

lemma Preflight_status:
  assumes "Preflight m = Inr r" "mc_db m = Some db"
  shows "pr_Status r = (if PreflightFail \<in> pk_Status ` {checkVersion db, checkBinlogFormat db, checkLogBin db, checkPrivileges db}
                        then PreflightFail else PreflightPass)"
  using assms by (auto simp: Preflight_def worsen_def Let_def split: if_splits)

text \<open>
  Any grant with the letters \<open>ALL\<close> in it, in any place, counts as all privileges.
\<close>

lemma all_inside_a_name_counts_as_all_privileges:
  "checkRequiredPrivileges [''GRANT USAGE ON *.* TO `wallet`@`%`''] = []"
  by code_simp

end
