(* ===== verification/Agent_Commands.thy ===== *)
theory Agent_Commands
  imports Daemon Preflight
begin

text \<open>
  The agent's command interface: \<open>ws/agent/dispatcher.go\<close> and the command handlers of \<open>cmd/agent/serve.go\<close>. A command
  arrives over the WebSocket, its handler answers at once, and the jobs it started report through the
  sink as stream events (\<open>streamEventCommand\<close>).
\<close>

subsection \<open>The dispatcher\<close>

type_synonym 's handler = "Command \<Rightarrow> 's \<Rightarrow> Response \<times> 's"

type_synonym 's dispatcher = "string \<rightharpoonup> 's handler"

definition NewDispatcher :: "'s dispatcher" where
  "NewDispatcher = Map.empty"

definition RegisterHandler :: "string \<Rightarrow> 's handler \<Rightarrow> 's dispatcher \<Rightarrow> 's dispatcher" where
  "RegisterHandler cmdType h D = D(cmdType \<mapsto> h)"

definition Dispatch :: "'s dispatcher \<Rightarrow> 's handler" where
  "Dispatch D cmd s =
     (case D (cm_Type cmd) of
        None \<Rightarrow> (\<lparr>rs_Cmd = cm_Cmd cmd, rs_Status = StatusError, rs_Result = DNull,
                  rs_Error = ''unknown command type: '' @ cm_Type cmd\<rparr>, s)
      | Some h \<Rightarrow> h cmd s)"

subsection \<open>Requests and answers\<close>

definition okResp :: "Command \<Rightarrow> wire_data \<Rightarrow> Response" where
  "okResp cmd result = \<lparr>rs_Cmd = cm_Cmd cmd, rs_Status = StatusOK, rs_Result = result, rs_Error = []\<rparr>"

definition errResp :: "Command \<Rightarrow> string \<Rightarrow> Response" where
  "errResp cmd msg = \<lparr>rs_Cmd = cm_Cmd cmd, rs_Status = StatusError, rs_Result = DNull, rs_Error = msg\<rparr>"

text \<open>\<open>decodeParams\<close>: fields that the request does not have are ignored, missing ones are zero.\<close>

definition zero_scan_filter :: ScanFilter where
  "zero_scan_filter = \<lparr>sf_Tables = [], sf_TimeStart = [], sf_TimeEnd = [], sf_GTIDSet = [], sf_StartFile = [], sf_StartPos = 0,
     sf_EndFile = [], sf_EndPos = 0, sf_MaxRowsPerTx = 0, sf_SelectedTxIDs = []\<rparr>"

fun decode_scan_request :: "cmd_params \<Rightarrow> ScanRequest" where
  "decode_scan_request (PScan req) = req"
| "decode_scan_request _ = \<lparr>sr_Filter = zero_scan_filter, sr_Mode = [], sr_MaxPreview = 0\<rparr>"

fun decode_execute_request :: "cmd_params \<Rightarrow> ExecuteRequest" where
  "decode_execute_request (PExecute req) = req"
| "decode_execute_request (PCancel i) = \<lparr>er_OperationID = i, er_Statements = [], er_BatchSize = 0\<rparr>"
| "decode_execute_request _ = \<lparr>er_OperationID = [], er_Statements = [], er_BatchSize = 0\<rparr>"

text \<open>\<open>paramString\<close> of \<open>operationId\<close>\<close>

fun operation_param :: "cmd_params \<Rightarrow> string" where
  "operation_param (PCancel i) = trim_space i"
| "operation_param (PExecute req) = trim_space (er_OperationID req)"
| "operation_param _ = []"

definition streamEventCommand :: "StreamEvent \<Rightarrow> Command" where
  "streamEventCommand ev =
     \<lparr>cm_Cmd = ''ev-'' @ sv_ID ev, cm_Type = CmdStreamEvent, cm_Params = PStream (sv_ID ev) (sv_Kind ev) (sv_Data ev)\<rparr>"

subsection \<open>The agent\<close>

text \<open>\<open>serveDaemon\<close>: the jobs, the archive loop's state, if it was started, and whether a shutdown was asked for.\<close>

record agent =
  ag_daemon :: agent_daemon
  ag_loop :: "ArchiveState option"
  ag_stopped :: bool

text \<open>
  The environment: the daemon's, the configuration, and the local MySQL server: whether the connector connects, and its
  answers. \<open>ae_mysql_error\<close> finds a \<open>mysql.MySQLError\<close> in an error (\<open>errors.As\<close>): its number and message.
\<close>

record archive_config =
  ac_Dir :: string
  ac_ServerID :: nat
  ac_RetentionDays :: int

record agent_env =
  ae_daemon :: daemon_env
  ae_agentID :: string
  ae_uptime :: string
  ae_startedAt :: string
  ae_connCfg :: ConnConfig
  ae_BinlogDir :: string
  ae_archive :: "archive_config option"
  ae_mkdir :: "err option"
  ae_mysql_error :: "err \<Rightarrow> (nat \<times> string) option"
  ae_connect :: "err option"
  ae_open :: "err option"
  ae_mysql :: mysql

text \<open>\<open>archiveDir\<close>\<close>

definition archiveDir :: "agent_env \<Rightarrow> string" where
  "archiveDir E = (case ae_archive E of None \<Rightarrow> [] | Some c \<Rightarrow> ac_Dir c)"

definition friendlyConnError :: "agent_env \<Rightarrow> err \<Rightarrow> err" where
  "friendlyConnError E e =
     (case ae_mysql_error E e of
        Some (number, message) \<Rightarrow>
          (if number = 1045
           then Err ''MySQL access denied (user %q, database %q): %s. The MySQL account must be allowed from this agent's host''
                  [cc_User (ae_connCfg E), cc_Database (ae_connCfg E), message, cc_User (ae_connCfg E), cc_User (ae_connCfg E),
                   cc_Database (ae_connCfg E), cc_User (ae_connCfg E)]
           else e)
      | None \<Rightarrow> e)"

text \<open>\<open>resolveDataDir\<close>: a connection of its own, \<open>ae_open\<close> is the error of opening it.\<close>

definition resolveDataDir :: "agent_env \<Rightarrow> err + string" where
  "resolveDataDir E =
     (case ae_open E of
        Some e \<Rightarrow> Inl (Wrap ''connect: %w'' [] e)
      | None \<Rightarrow>
          (case my_variable (ae_mysql E) ''log_bin_basename'' of
             Inl e \<Rightarrow> Inl (Wrap ''query log_bin_basename: %w'' [] e)
           | Inr value \<Rightarrow>
               (if value = [] then Inl (Err ''log_bin_basename is empty -- binary logging may not be enabled'' [])
                else (let dir = path_dir value in Inr (if dir \<noteq> ''.'' then dir @ ''/'' else [])))))"

definition binlogDir :: "agent_env \<Rightarrow> err + string" where
  "binlogDir E =
     (if ae_BinlogDir E \<noteq> [] then Inr (ae_BinlogDir E)
      else (case resolveDataDir E of
              Inl e \<Rightarrow> Inl (Wrap ''serve: resolve binlog directory (set config binlog_dir to override): %w'' [] e)
            | Inr dir \<Rightarrow> Inr dir))"

text \<open>\<open>startArchiveLoop\<close>: the loop then runs on its own (\<open>Collector\<close>).\<close>

definition startArchiveLoop :: "agent_env \<Rightarrow> agent \<Rightarrow> err option \<times> agent" where
  "startArchiveLoop E a =
     (if archiveDir E = [] then (Some (Err ''serve: config field archive.dir is required'' []), a)
      else if (case ae_archive E of Some c \<Rightarrow> ac_ServerID c = 0 | None \<Rightarrow> True)
      then (Some (Err ''serve: config field archive.server_id is required'' []), a)
      else (case ae_mkdir E of
              Some e \<Rightarrow> (Some (Wrap ''serve: create archive dir %s: %w'' [archiveDir E] e), a)
            | None \<Rightarrow>
                (case binlogDir E of
                   Inl e \<Rightarrow> (Some e, a)
                 | Inr _ \<Rightarrow>
                     (case ae_connect E of
                        Some e \<Rightarrow> (Some (friendlyConnError E e), a)
                      | None \<Rightarrow> (None, a\<lparr>ag_loop := Some zero_state\<rparr>)))))"

definition accepted :: "Command \<Rightarrow> Response" where
  "accepted cmd = okResp cmd (DFields [(''accepted'', DBool True), (''operationId'', DText (cm_Cmd cmd))])"

definition started :: "agent_env \<Rightarrow> string \<Rightarrow> Command \<Rightarrow> (agent_daemon \<Rightarrow> err option \<times> agent_daemon) \<Rightarrow> agent \<Rightarrow> Response \<times> agent" where
  "started E name cmd start a =
     (case start (ag_daemon a) of
        (Some e, d) \<Rightarrow> (errResp cmd (name @ '': '' @ de_text (ae_daemon E) e), a\<lparr>ag_daemon := d\<rparr>)
      | (None, d) \<Rightarrow> (accepted cmd, a\<lparr>ag_daemon := d\<rparr>))"

definition handleScan :: "agent_env \<Rightarrow> agent handler" where
  "handleScan E cmd a = started E ''scan'' cmd (daemon_Scan (ae_daemon E) (cm_Cmd cmd) (decode_scan_request (cm_Params cmd))) a"

definition handleExecute :: "agent_env \<Rightarrow> agent handler" where
  "handleExecute E cmd a =
     started E ''execute'' cmd (daemon_Execute (ae_daemon E) (cm_Cmd cmd) (decode_execute_request (cm_Params cmd))) a"

definition handleResume :: "agent_env \<Rightarrow> agent handler" where
  "handleResume E cmd a =
     started E ''resume'' cmd (daemon_Resume (ae_daemon E) (cm_Cmd cmd) (decode_execute_request (cm_Params cmd))) a"

definition handleCancel :: "agent_env \<Rightarrow> agent handler" where
  "handleCancel E cmd a =
     (let opID = operation_param (cm_Params cmd) in
      if opID = [] then (errResp cmd (''cancel: missing required param '' @ [CHR 0x27] @ ''operationId'' @ [CHR 0x27]), a)
      else (case cancelOp opID (ag_daemon a) of
              (Some e, d) \<Rightarrow> (errResp cmd (''cancel: '' @ de_text (ae_daemon E) e), a\<lparr>ag_daemon := d\<rparr>)
            | (None, d) \<Rightarrow>
                (okResp cmd (DFields [(''cancelled'', DBool True), (''operationId'', DText opID)]), a\<lparr>ag_daemon := d\<rparr>)))"

text \<open>\<open>loopState\<close> and \<open>ArchiveStatus\<close>: the zero state while the loop has not been started.\<close>

definition ArchiveStatus :: "agent \<Rightarrow> ArchiveState" where
  "ArchiveStatus a = (case ag_loop a of None \<Rightarrow> zero_state | Some st \<Rightarrow> st)"

definition handleArchiveStatus :: "agent handler" where
  "handleArchiveStatus cmd a =
     (let st = ArchiveStatus a in
      (okResp cmd (DFields [(''last_file'', DText (as_LastFile st)), (''last_pos'', DInt (int (as_LastPos st))),
          (''last_gtid'', DText (as_LastGTID st)), (''updated_at'', DInt (as_UpdatedAt st))]), a))"

definition checkMySQL :: "agent_env \<Rightarrow> wire_data" where
  "checkMySQL E =
     DFields (case ae_connect E of
        Some e \<Rightarrow> [(''connected'', DBool False), (''error'', DText (de_text (ae_daemon E) (friendlyConnError E e)))]
      | None \<Rightarrow> [(''connected'', DBool True), (''host'', DText (cc_Host (ae_connCfg E))), (''port'', DInt (cc_Port (ae_connCfg E))),
                  (''database'', DText (cc_Database (ae_connCfg E)))])"

definition handleStatus :: "agent_env \<Rightarrow> agent handler" where
  "handleStatus E cmd a =
     (okResp cmd (DFields [(''agentId'', DText (ae_agentID E)), (''uptime'', DText (ae_uptime E)),
        (''startedAt'', DText (ae_startedAt E)), (''mysql'', checkMySQL E)]), a)"

text \<open>\<open>handleShutdown\<close> cancels the root context: the archive loop stops; the jobs run on until the client closes.\<close>

definition handleShutdown :: "agent handler" where
  "handleShutdown cmd a = (okResp cmd (DText ''shutting down''), a\<lparr>ag_stopped := True\<rparr>)"

text \<open>The JSON forms of the preflight result.\<close>

fun status_text :: "PreflightStatus \<Rightarrow> string" where
  "status_text PreflightPass = ''PASS''"
| "status_text PreflightWarn = ''WARN''"
| "status_text PreflightFail = ''FAIL''"

definition preflight_wire :: "(err \<Rightarrow> string) \<Rightarrow> PreflightResult \<Rightarrow> wire_data" where
  "preflight_wire etext r =
     DFields [(''status'', DText (status_text (pr_Status r))), (''version'', DText (etext (pr_Version r))),
       (''checks'', DList (map (\<lambda>c. DFields [(''name'', DText (pk_Name c)), (''status'', DText (status_text (pk_Status c))),
          (''message'', DText (etext (pk_Message c)))]) (pr_Checks r)))]"

definition handlePreflight :: "agent_env \<Rightarrow> agent handler" where
  "handlePreflight E cmd a =
     (let etext = de_text (ae_daemon E); conn = \<lparr>mc_db = Some (ae_mysql E), mc_config = ae_connCfg E\<rparr> in
      case ae_connect E of
        Some e \<Rightarrow> (errResp cmd (''connect to MySQL: '' @ etext (friendlyConnError E e)), a)
      | None \<Rightarrow>
          (case Preflight conn of
             Inl e \<Rightarrow> (errResp cmd (''preflight: '' @ etext e), a)
           | Inr pfRes \<Rightarrow>
               (case GetBinlogFiles conn of
                  Inl e \<Rightarrow> (errResp cmd (''list binlog files: '' @ etext e), a)
                | Inr binlogs \<Rightarrow>
                    (let dir = (if ae_BinlogDir E = [] then (case resolveDataDir E of Inr dir \<Rightarrow> dir | Inl _ \<Rightarrow> [])
                                else ae_BinlogDir E) in
                     (okResp cmd (DFields [(''preflight'', preflight_wire etext pfRes),
                        (''binlogFiles'', DList (map (DText \<circ> bf_Name) binlogs)),
                        (''totalSize'', DInt (sum_list (map bf_Size binlogs))), (''binlogDir'', DText dir)]), a)))))"

definition agent_dispatcher :: "agent_env \<Rightarrow> agent dispatcher" where
  "agent_dispatcher E =
     RegisterHandler CmdArchiveStatus handleArchiveStatus
     (RegisterHandler CmdCancel (handleCancel E)
     (RegisterHandler CmdResume (handleResume E)
     (RegisterHandler CmdExecute (handleExecute E)
     (RegisterHandler CmdScan (handleScan E)
     (RegisterHandler CmdPreflight (handlePreflight E)
     (RegisterHandler CmdShutdown handleShutdown
     (RegisterHandler CmdStatus (handleStatus E) NewDispatcher)))))))"

end
