(* ===== verification/Ws_Client.thy ===== *)
theory Ws_Client
  imports Agent_Commands "HOL-Library.Word" "HOL-Library.AList"
begin

text \<open>
  \<open>ws/agent/client.go\<close> and \<open>renewal.go\<close>: the agent's end of the connection. Sockets are numbers; dialling and writing
  are outcomes given as arguments. The manager's loop walks a list of rounds, one for each connection or failed dial. \<open>time.Duration\<close> is a 64-bit integer here, because the backoff multiplies
  without a bound. A panic is the result \<open>None\<close>.
\<close>

unbundle bit_operations_syntax

subsection \<open>State\<close>

text \<open>\<open>Client\<close>; \<open>wc_sent\<close> is what was written to which socket, \<open>wc_waits\<close> the waits before dialling.\<close>

datatype client_out = ClientCommand Command | ClientResponse Response

record client =
  wc_conn :: "nat option"
  wc_next :: nat
  wc_pending :: "(string \<times> nat) list"
  wc_chans :: "nat \<Rightarrow> chan"
  wc_next_chan :: nat
  wc_attempt :: nat
  wc_closed :: bool
  wc_sent :: "(nat \<times> client_out) list"
  wc_waits :: "int list"

definition setConn :: "nat \<Rightarrow> client \<Rightarrow> client" where
  "setConn c w = w\<lparr>wc_conn := Some c\<rparr>"

definition compareAndSwapConn :: "nat option \<Rightarrow> nat option \<Rightarrow> client \<Rightarrow> client" where
  "compareAndSwapConn old new w = (if wc_conn w = old then w\<lparr>wc_conn := new\<rparr> else w)"

subsection \<open>Backoff\<close>

definition reconnectMinWait :: "64 word" where
  "reconnectMinWait = 1000000000"

definition reconnectMaxWait :: "64 word" where
  "reconnectMaxWait = 60000000000"

text \<open>
  \<open>nextBackoff\<close>; \<open>rnd\<close> is \<open>rand.Int63n\<close>, which panics unless its argument is positive. \<open>backoff / 4\<close> truncates
  towards zero, so it is not positive for a negative \<open>backoff\<close>.
\<close>

definition nextBackoff :: "(int \<Rightarrow> int) \<Rightarrow> nat \<Rightarrow> int option" where
  "nextBackoff rnd attempt =
     (let raw = push_bit attempt (1 :: 64 word) * reconnectMinWait;
          backoff = (if sint raw > sint reconnectMaxWait then reconnectMaxWait else raw);
          n = (if sint backoff < 0 then - (- sint backoff div 4) else sint backoff div 4) in
      if n \<le> 0 then None else Some (sint (backoff + word_of_int (rnd n))))"

subsection \<open>Messages\<close>

text \<open>\<open>handleIncomingCommand\<close>: the response goes to the current connection, if there is one.\<close>

definition handleIncomingCommand :: "'s dispatcher option \<Rightarrow> Command \<Rightarrow> client \<times> 's \<Rightarrow> client \<times> 's" where
  "handleIncomingCommand D cmd ws =
     (case ws of (w, s) \<Rightarrow>
        (case (case D of
                 Some d \<Rightarrow> Dispatch d cmd s
               | None \<Rightarrow> (\<lparr>rs_Cmd = cm_Cmd cmd, rs_Status = StatusError, rs_Result = DNull,
                           rs_Error = ''unknown command type: '' @ cm_Type cmd\<rparr>, s)) of
           (resp, s1) \<Rightarrow>
             ((case wc_conn w of None \<Rightarrow> w | Some c \<Rightarrow> w\<lparr>wc_sent := wc_sent w @ [(c, ClientResponse resp)]\<rparr>), s1)))"

datatype client_msg = InResponse Response | InCommand Command | InOther string

definition handleMessage :: "'s dispatcher option \<Rightarrow> client_msg \<Rightarrow> client \<times> 's \<Rightarrow> client \<times> 's" where
  "handleMessage D msg ws =
     (case ws of (w, s) \<Rightarrow>
        (case msg of
           InResponse resp \<Rightarrow>
             (if rs_Cmd resp = [] \<or> rs_Status resp = [] then (w, s)
              else (case map_of (wc_pending w) (rs_Cmd resp) of
                      None \<Rightarrow> (w, s)
                    | Some k \<Rightarrow> (w\<lparr>wc_chans := (wc_chans w)(k := chan_offer resp (wc_chans w k))\<rparr>, s)))
         | InCommand cmd \<Rightarrow>
             (if cm_Cmd cmd = [] \<or> cm_Type cmd = [] then (w, s) else handleIncomingCommand D cmd (w, s))
         | InOther _ \<Rightarrow> (w, s)))"

subsection \<open>Sending\<close>

definition not_connected :: err where
  "not_connected = Err ''ws client: not connected'' []"

text \<open>\<open>Send\<close>: one way.\<close>

definition client_Send :: "Command \<Rightarrow> write_result \<Rightarrow> client \<Rightarrow> err option \<times> client" where
  "client_Send cmd wr w =
     (case wc_conn w of
        None \<Rightarrow> (Some not_connected, w)
      | Some c \<Rightarrow>
          (case wr of
             DeadlineError e \<Rightarrow> (Some (Wrap ''ws client: set write deadline: %w'' [] e), w)
           | WriteError e \<Rightarrow> (Some (Wrap ''ws client: write: %w'' [] e), w)
           | Written \<Rightarrow> (None, w\<lparr>wc_sent := wc_sent w @ [(c, ClientCommand cmd)]\<rparr>)))"

text \<open>\<open>SendCommand\<close> up to its wait, and its end; \<open>Inr None\<close> is the nil response of a closed channel.\<close>

definition SendCommand_start :: "Command \<Rightarrow> write_result \<Rightarrow> client \<Rightarrow> (err + nat) \<times> client" where
  "SendCommand_start cmd wr w =
     (let k = wc_next_chan w;
          w1 = w\<lparr>wc_next_chan := Suc k, wc_chans := (wc_chans w)(k := Empty),
                 wc_pending := AList.update (cm_Cmd cmd) k (wc_pending w)\<rparr> in
      case client_Send cmd wr w1 of
        (Some e, w2) \<Rightarrow> (Inl e, w2\<lparr>wc_pending := AList.delete (cm_Cmd cmd) (wc_pending w2)\<rparr>)
      | (None, w2) \<Rightarrow> (Inr k, w2))"

datatype client_wake = WakeChannel | WakeContext err | WakeClosed

definition SendCommand_end :: "string \<Rightarrow> nat \<Rightarrow> client_wake \<Rightarrow> client \<Rightarrow> (err + Response option) option \<times> client" where
  "SendCommand_end i k how w =
     (let fin = (\<lambda>r. (Some r, w\<lparr>wc_pending := AList.delete i (wc_pending w)\<rparr>)) in
      case how of
        WakeChannel \<Rightarrow>
          (case wc_chans w k of
             Empty \<Rightarrow> (None, w)
           | Got resp \<Rightarrow> fin (Inr (Some resp))
           | Closed \<Rightarrow> fin (Inr None))
      | WakeContext e \<Rightarrow> fin (Inl e)
      | WakeClosed \<Rightarrow> (if wc_closed w then fin (Inl (Err ''ws client: closed'' [])) else (None, w)))"

text \<open>\<open>Close\<close>: only the first call has an effect.\<close>

definition client_Close :: "client \<Rightarrow> client" where
  "client_Close w =
     (if wc_closed w then w
      else w\<lparr>wc_closed := True, wc_conn := None, wc_pending := [],
             wc_chans := (\<lambda>k. if k \<in> snd ` set (wc_pending w) then chan_close (wc_chans w k) else wc_chans w k)\<rparr>)"

subsection \<open>The connection manager\<close>

text \<open>How an attempt to reconnect ends: the dial succeeds or fails, or the client is closed during the wait before it.\<close>

datatype dial_result = Dialled | DialFailed | ClosedInWait

text \<open>\<open>reconnect\<close>; the flag says whether it returns an error, which ends the connection manager.\<close>

definition reconnect :: "(int \<Rightarrow> int) \<Rightarrow> dial_result \<Rightarrow> client \<Rightarrow> (bool \<times> client) option" where
  "reconnect rnd dial w =
     (case nextBackoff rnd (wc_attempt w) of
        None \<Rightarrow> None
      | Some d \<Rightarrow>
          (let w1 = w\<lparr>wc_waits := wc_waits w @ [d]\<rparr> in
           Some (case dial of
                   ClosedInWait \<Rightarrow> (True, client_Close w1)
                 | DialFailed \<Rightarrow> (False, w1\<lparr>wc_attempt := Suc (wc_attempt w)\<rparr>)
                 | Dialled \<Rightarrow> (False, (setConn (wc_next w) (w1\<lparr>wc_next := Suc (wc_next w)\<rparr>))\<lparr>wc_attempt := 0\<rparr>))))"

text \<open>
  One round of \<open>connectionManager\<close>: how reconnecting ends, if it is needed, the messages that the read pump gets before the
  connection dies, and whether it dies because the client is closed.
\<close>

record conn_round =
  cr_dial :: dial_result
  cr_msgs :: "client_msg list"
  cr_close :: bool

definition client_readPump :: "'s dispatcher option \<Rightarrow> client_msg list \<Rightarrow> client \<times> 's \<Rightarrow> client \<times> 's" where
  "client_readPump D msgs ws = fold (handleMessage D) msgs ws"

fun connectionManager :: "(int \<Rightarrow> int) \<Rightarrow> 's dispatcher option \<Rightarrow> conn_round list \<Rightarrow> client \<times> 's \<Rightarrow> (client \<times> 's) option" where
  "connectionManager rnd D [] ws = Some ws"
| "connectionManager rnd D (r # rs) (w, s) =
     (if wc_closed w then Some (w\<lparr>wc_conn := None\<rparr>, s)
      else (case (if wc_conn w = None then reconnect rnd (cr_dial r) w else Some (False, w)) of
              None \<Rightarrow> None
            | Some (True, w1) \<Rightarrow> Some (w1\<lparr>wc_conn := None\<rparr>, s)
            | Some (False, w1) \<Rightarrow>
                (case wc_conn w1 of
                   None \<Rightarrow> connectionManager rnd D rs (w1, s)
                 | Some c \<Rightarrow>
                     (case client_readPump D (cr_msgs r) (w1, s) of
                        (w2, s2) \<Rightarrow>
                          connectionManager rnd D rs
                            (compareAndSwapConn (Some c) None (if cr_close r then client_Close w2 else w2), s2)))))"

subsection \<open>Certificate renewal\<close>

text \<open>
  A certificate is known by its expiry, \<open>None\<close> when it cannot be parsed. Key generation, signing requests and the pairing
  of certificate and key are the standard library's: \<open>rn_csr\<close> and \<open>rn_pair\<close>.
\<close>

type_synonym tls_config = "time option list option"

definition CheckCertExpiry :: "time \<Rightarrow> tls_config \<Rightarrow> int" where
  "CheckCertExpiry now cfg =
     (case cfg of
        Some (Some notAfter # _) \<Rightarrow>
          (if notAfter - now < 0 then 0 else (notAfter - now) div (24 * 3600 * 1000000000))
      | _ \<Rightarrow> - 1)"

record renewal_env =
  rn_csr :: "err + string"
  rn_pair :: "string \<Rightarrow> err + time"

text \<open>\<open>AutoRenew\<close>, from the answer of \<open>SendCommand\<close> on; a nil response is dereferenced.\<close>

definition AutoRenew :: "renewal_env \<Rightarrow> (string \<Rightarrow> err + Response option) \<Rightarrow> tls_config \<Rightarrow> ((err + time) \<times> tls_config) option" where
  "AutoRenew R send cfg =
     (case rn_csr R of
        Inl e \<Rightarrow> Some (Inl e, cfg)
      | Inr csr \<Rightarrow>
          (case send csr of
             Inl e \<Rightarrow> Some (Inl (Wrap ''send CSR to platform: %w'' [] e), cfg)
           | Inr None \<Rightarrow> None
           | Inr (Some resp) \<Rightarrow>
               (if rs_Status resp = StatusError
                then Some (Inl (Err ''platform rejected CSR: %s'' [rs_Error resp]), cfg)
                else (case rs_Result resp of
                        DFields fs \<Rightarrow>
                          (case map_of fs ''certificate'' of
                             Some (DText cert) \<Rightarrow>
                               (if cert = [] then Some (Inl (Err ''missing certificate in platform response'' []), cfg)
                                else (case rn_pair R cert of
                                        Inl e \<Rightarrow> Some (Inl (Wrap ''parse renewed certificate: %w'' [] e), cfg)
                                      | Inr notAfter \<Rightarrow> Some (Inr notAfter, Some [Some notAfter])))
                           | _ \<Rightarrow> Some (Inl (Err ''missing certificate in platform response'' []), cfg))
                      | _ \<Rightarrow> Some (Inl (Err ''unexpected response result type'' []), cfg)))))"

text \<open>One check of \<open>StartAutoRenew\<close>.\<close>

definition renew_tick :: "renewal_env \<Rightarrow> (string \<Rightarrow> err + Response option) \<Rightarrow> time \<Rightarrow> tls_config \<Rightarrow> tls_config option" where
  "renew_tick R send now cfg =
     (let days = CheckCertExpiry now cfg in
      if 0 \<le> days \<and> days < 7 then map_option snd (AutoRenew R send cfg) else Some cfg)"

end
