(* ===== verification/Ws_Client_Props.thy ===== *)
theory Ws_Client_Props
  imports Ws_Client
begin

text \<open>Reconnecting, and the answers of the agent.\<close>

subsection \<open>The backoff\<close>

text \<open>The wait without its jitter, in nanoseconds.\<close>

definition plain_wait :: "nat \<Rightarrow> int" where
  "plain_wait attempt = min (2 ^ attempt) 60 * 1000000000"

text \<open>What \<open>rand.Int63n\<close> promises for a positive argument.\<close>

definition int63n :: "(int \<Rightarrow> int) \<Rightarrow> bool" where
  "int63n rnd \<longleftrightarrow> (\<forall>n>0. 0 \<le> rnd n \<and> rnd n < n)"

lemma sint64: "- 9223372036854775808 \<le> x \<Longrightarrow> x < 9223372036854775808 \<Longrightarrow> sint (word_of_int x :: 64 word) = x"
  by (simp add: signed_of_int signed_take_bit_int_eq_self)

lemma raw_wait:
  assumes "attempt < 34"
  shows "push_bit attempt (1 :: 64 word) * reconnectMinWait = word_of_int (2 ^ attempt * 1000000000)"
    and "sint (word_of_int (2 ^ attempt * 1000000000) :: 64 word) = 2 ^ attempt * 1000000000"
proof -
  show "push_bit attempt (1 :: 64 word) * reconnectMinWait = word_of_int (2 ^ attempt * 1000000000)"
    by (simp add: reconnectMinWait_def push_bit_eq_mult)
  have "(2::int) ^ attempt \<le> 2 ^ 33" using assms by (intro power_increasing) auto
  then have "(2::int) ^ attempt \<le> 8589934592" by simp
  moreover have "0 \<le> (2::int) ^ attempt" by simp
  ultimately show "sint (word_of_int (2 ^ attempt * 1000000000) :: 64 word) = 2 ^ attempt * 1000000000"
    by (intro sint64) linarith+
qed

lemma nextBackoff_wait:
  assumes "int63n rnd" "attempt < 34"
  shows "\<exists>d. nextBackoff rnd attempt = Some d \<and> plain_wait attempt \<le> d \<and> 4 * d < 5 * plain_wait attempt"
proof -
  define p where "p = plain_wait attempt"
  define b where "b = (let raw = push_bit attempt (1 :: 64 word) * reconnectMinWait in
    if sint raw > sint reconnectMaxWait then reconnectMaxWait else raw)"
  have "(1::int) \<le> 2 ^ attempt" by simp
  then have p: "1000000000 \<le> p" "p \<le> 60000000000" by (auto simp: p_def plain_wait_def min_def)
  have w: "b = word_of_int p"
    unfolding b_def Let_def raw_wait(1)[OF assms(2)] raw_wait(2)[OF assms(2)]
    by (auto simp: p_def plain_wait_def min_def reconnectMaxWait_def)
  then have s: "sint b = p" using sint64[of p] p by simp
  have r: "0 \<le> rnd (p div 4)" "rnd (p div 4) < p div 4" using assms(1) p by (simp_all add: int63n_def)
  have n: "(if sint b < 0 then - (- sint b div 4) else sint b div 4) = p div 4" using p by (simp add: s)
  have "nextBackoff rnd attempt =
      (let n = (if sint b < 0 then - (- sint b div 4) else sint b div 4) in
       if n \<le> 0 then None else Some (sint (b + word_of_int (rnd n))))"
    by (simp only: nextBackoff_def b_def Let_def)
  also have "\<dots> = Some (sint (b + word_of_int (rnd (p div 4))))" unfolding n Let_def using p by simp
  also have "b + word_of_int (rnd (p div 4)) = word_of_int (p + rnd (p div 4))" by (simp add: w)
  also have "sint (word_of_int (p + rnd (p div 4)) :: 64 word) = p + rnd (p div 4)"
    by (rule sint64) (use p r in linarith)+
  finally have "nextBackoff rnd attempt = Some (p + rnd (p div 4))" .
  then show ?thesis using r by (auto simp: p_def)
qed

lemma nextBackoff_overflow: "nextBackoff rnd 34 = None"
  by (simp add: nextBackoff_def reconnectMinWait_def reconnectMaxWait_def)

text \<open>A round in which the dial fails: no messages come.\<close>

definition failed_dial :: conn_round where
  "failed_dial = \<lparr>cr_dial = DialFailed, cr_msgs = [], cr_close = False\<rparr>"

lemma reconnect_failures:
  assumes "int63n rnd" "wc_conn w = None" "\<not> wc_closed w" "wc_attempt w + n \<le> 34"
  shows "\<exists>w'. (\<forall>rs. connectionManager rnd D (replicate n failed_dial @ rs) (w, s) = connectionManager rnd D rs (w', s)) \<and>
    wc_conn w' = None \<and> \<not> wc_closed w' \<and> wc_attempt w' = wc_attempt w + n"
  using assms(2-)
proof (induction n arbitrary: w)
  case (Suc n)
  obtain d where "nextBackoff rnd (wc_attempt w) = Some d" using nextBackoff_wait[OF assms(1), of "wc_attempt w"] Suc.prems by auto
  then have r: "reconnect rnd DialFailed w = Some (False, w\<lparr>wc_waits := wc_waits w @ [d], wc_attempt := Suc (wc_attempt w)\<rparr>)"
    by (simp add: reconnect_def Let_def)
  show ?case using Suc.IH[of "w\<lparr>wc_waits := wc_waits w @ [d], wc_attempt := Suc (wc_attempt w)\<rparr>"] Suc.prems r
    by (simp add: failed_dial_def)
qed auto

text \<open>
  C5. The waits between dials, and where their arithmetic ends. The wait before the dial that follows \<open>n\<close> failures
  is \<open>2^n\<close> seconds, at most a minute, and less than a quarter more, for \<open>n\<close> up to 33. The product that the cap is
  applied to is a 64-bit integer: after 34 failures it is negative, escapes the cap, and the random number
  generator panics. So an agent whose server cannot be reached 34 times in a row crashes instead of waiting.
\<close>

theorem reconnect_waits_then_panics:
  assumes "int63n rnd" and "wc_conn w = None" "\<not> wc_closed w" "wc_attempt w = 0"
  shows "(\<forall>n<34. \<exists>d. nextBackoff rnd n = Some d \<and> plain_wait n \<le> d \<and> 4 * d < 5 * plain_wait n) \<and>
    (\<exists>w'. connectionManager rnd D (replicate 34 failed_dial) (w, s) = Some (w', s) \<and> wc_attempt w' = 34) \<and>
    connectionManager rnd D (replicate 34 failed_dial @ [r]) (w, s) = None"
proof -
  obtain w' where w': "\<And>rs. connectionManager rnd D (replicate 34 failed_dial @ rs) (w, s) = connectionManager rnd D rs (w', s)"
      "wc_conn w' = None" "\<not> wc_closed w'" "wc_attempt w' = 34"
    using reconnect_failures[OF assms(1-3), of 34 D s] assms(4) by auto
  have "connectionManager rnd D [r] (w', s) = None" using w'(2-) by (simp add: reconnect_def nextBackoff_overflow)
  moreover have "connectionManager rnd D (replicate 34 failed_dial) (w, s) = Some (w', s)" using w'(1)[of "[]"] by simp
  ultimately show ?thesis using nextBackoff_wait[OF assms(1)] w'(1)[of "[r]"] w'(4) by auto
qed

definition client0 :: client where
  "client0 = \<lparr>wc_conn = None, wc_next = 0, wc_pending = [], wc_chans = (\<lambda>_. Empty), wc_next_chan = 0, wc_attempt = 0,
     wc_closed = False, wc_sent = [], wc_waits = []\<rparr>"

lemma reconnect_waits_then_panics_witness:
  "(\<exists>w'. connectionManager (\<lambda>_. 0) None (replicate 34 failed_dial) (client0, ()) = Some (w', ()) \<and> wc_attempt w' = 34) \<and>
   connectionManager (\<lambda>_. 0) None (replicate 34 failed_dial @ [failed_dial]) (client0, ()) = None"
  using reconnect_waits_then_panics[of "\<lambda>_. 0" client0 None "()" failed_dial] by (simp add: int63n_def client0_def)

subsection \<open>A response that never came\<close>

text \<open>
  When the client is closed while the platform's answer to a renewal request is awaited, \<open>SendCommand\<close> may wake up
  by its closed channel with a nil response and no error, and \<open>AutoRenew\<close> dereferences it.
\<close>

lemma renewal_panics_on_close:
  assumes "wc_conn w = Some c" "\<not> wc_closed w" "rn_csr R = Inr csr" "wc_pending w = []"
  shows "let w1 = snd (SendCommand_start \<lparr>cm_Cmd = i, cm_Type = CmdCertRenewal, cm_Params = PCsr csr\<rparr> Written w);
             k = wc_next_chan w in
    fst (SendCommand_end i k WakeChannel (client_Close w1)) = Some (Inr None) \<and>
    AutoRenew R (\<lambda>_. Inr None) cfg = None"
  using assms by (simp add: SendCommand_start_def client_Send_def SendCommand_end_def client_Close_def chan_close_def
      AutoRenew_def Let_def)

text \<open>A renewal replaces the certificate only by one that was signed and fits the new key.\<close>

lemma AutoRenew_keeps_or_renews:
  assumes "AutoRenew R send cfg = Some (r, cfg')"
  shows "(\<exists>e. r = Inl e \<and> cfg' = cfg) \<or> (\<exists>t csr cert. r = Inr t \<and> cfg' = Some [Some t] \<and> rn_csr R = Inr csr \<and> rn_pair R cert = Inr t)"
  using assms by (auto simp: AutoRenew_def split: sum.splits option.splits if_splits wire_data.splits)

end
