(* ===== verification/Agent_Props.thy ===== *)
theory Agent_Props
  imports Agent_Commands
begin

text \<open>The agent as a whole: commands arrive and jobs end, in any order.\<close>

datatype agent_act =
    Receive Command
  | JobEnds nat "nat \<Rightarrow> bool"

fun agent_do :: "agent_env \<Rightarrow> agent_act \<Rightarrow> agent \<Rightarrow> agent" where
  "agent_do E (Receive cmd) a = snd (Dispatch (agent_dispatcher E) cmd a)"
| "agent_do E (JobEnds c seen) a = a\<lparr>ag_daemon := job_end c seen (ag_daemon a)\<rparr>"

definition start_command :: "string \<Rightarrow> bool" where
  "start_command ty = (ty \<in> {CmdScan, CmdExecute, CmdResume})"

text \<open>How often the agent accepted a command with id \<open>i\<close> that starts a job.\<close>

fun accepted_starts :: "agent_env \<Rightarrow> string \<Rightarrow> agent_act list \<Rightarrow> agent \<Rightarrow> nat" where
  "accepted_starts E i [] a = 0"
| "accepted_starts E i (act # acts) a =
     (case act of
        Receive cmd \<Rightarrow>
          (if cm_Cmd cmd = i \<and> start_command (cm_Type cmd) \<and>
              rs_Status (fst (Dispatch (agent_dispatcher E) cmd a)) = StatusOK then 1 else 0)
      | JobEnds _ _ \<Rightarrow> 0) + accepted_starts E i acts (agent_do E act a)"

definition terminal_kind :: "string \<Rightarrow> bool" where
  "terminal_kind k = (k \<in> {EvScanDone, EvOpDone, EvOpError})"

definition terminal_events :: "string \<Rightarrow> StreamEvent list \<Rightarrow> nat" where
  "terminal_events i evs = length (filter (\<lambda>ev. sv_ID ev = i \<and> terminal_kind (sv_Kind ev)) evs)"

definition running :: "string \<Rightarrow> agent_daemon \<Rightarrow> nat" where
  "running i d = length (filter (\<lambda>j. jb_ID j = i) (dm_jobs d))"

definition new_agent :: agent where
  "new_agent = \<lparr>ag_daemon = NewDaemon, ag_loop = None, ag_stopped = False\<rparr>"

subsection \<open>One terminal event per job\<close>

lemma terminal_events_simps [simp]:
  "terminal_events i [] = 0" "terminal_events i (xs @ ys) = terminal_events i xs + terminal_events i ys"
  "terminal_events i (x # xs) = (if sv_ID x = i \<and> terminal_kind (sv_Kind x) then 1 else 0) + terminal_events i xs"
  by (simp_all add: terminal_events_def)

lemma terminal_kinds [simp]:
  "terminal_kind EvScanDone" "terminal_kind EvOpDone" "terminal_kind EvOpError"
  "\<not> terminal_kind EvTxMeta" "\<not> terminal_kind EvSQL" "\<not> terminal_kind EvProgress"
  by (simp_all add: terminal_kind_def ws_consts)

lemma terminal_none: "(\<And>ev. ev \<in> set evs \<Longrightarrow> \<not> terminal_kind (sv_Kind ev)) \<Longrightarrow> terminal_events i evs = 0"
  by (auto simp: terminal_events_def filter_empty_conv)

lemma scan_events_terminal: "terminal_events i (scan_events etext j out) = (if i = j then 1 else 0)"
proof (cases out)
  case (Pair results final)
  have "terminal_events i (concat (map (result_events etext j) results)) = 0"
    by (rule terminal_none) (auto simp: result_events_def split: if_splits)
  then show ?thesis using Pair by (auto simp: scan_events_def error_event_def split: option.split)
qed

lemma execute_events_terminal: "terminal_events i (execute_events etext j out) = (if i = j then 1 else 0)"
proof -
  obtain progress report final where out: "out = (progress, report, final)" by (cases out) auto
  have "terminal_events i (map (\<lambda>p. \<lparr>sv_ID = j, sv_Kind = EvProgress, sv_Data = DProgress (progress_wire etext p)\<rparr>) progress) = 0"
    by (rule terminal_none) auto
  then show ?thesis using out by (auto simp: execute_events_def error_event_def split: option.split)
qed

definition jobs_ok :: "agent_daemon \<Rightarrow> bool" where
  "jobs_ok d \<longleftrightarrow> distinct (map jb_ctx (dm_jobs d)) \<and> (\<forall>j\<in>set (dm_jobs d). jb_ctx j < dm_next d \<and>
     (\<forall>seen i. terminal_events i (jb_work j seen) = (if i = jb_ID j then 1 else 0)))"

definition registered_run :: "agent_daemon \<Rightarrow> bool" where
  "registered_run d \<longleftrightarrow> (\<forall>i c. dm_ops d i = Some c \<longrightarrow> (\<exists>j\<in>set (dm_jobs d). jb_ID j = i \<and> jb_ctx j = c))"

lemma start_job_simps [simp]:
  "dm_jobs (start_job i work d) = dm_jobs d @ [\<lparr>jb_ID = i, jb_ctx = dm_next d, jb_work = work\<rparr>]"
  "dm_next (start_job i work d) = Suc (dm_next d)" "dm_sent (start_job i work d) = dm_sent d"
  "dm_ops (start_job i work d) = (dm_ops d)(i \<mapsto> dm_next d)" "dm_cancelled (start_job i work d) = dm_cancelled d"
  by (simp_all add: start_job_def registerOp_def Let_def)

lemma start_job_ok:
  "jobs_ok d \<Longrightarrow> (\<And>seen k. terminal_events k (work seen) = (if k = i then 1 else 0)) \<Longrightarrow> jobs_ok (start_job i work d)"
  by (force simp: jobs_ok_def less_Suc_eq)

lemma start_job_registered: "registered_run d \<Longrightarrow> registered_run (start_job i work d)"
  by (fastforce simp: registered_run_def)

text \<open>A start either fails and changes nothing or adds one job.\<close>

lemma starts:
  "daemon_Scan E i req d = (r, d') \<Longrightarrow> (\<exists>e. r = Some e \<and> d' = d) \<or>
     (\<exists>work. r = None \<and> d' = start_job i work d \<and> (\<forall>seen k. terminal_events k (work seen) = (if k = i then 1 else 0)))"
  "daemon_Execute E i ereq d = (r, d') \<Longrightarrow> (\<exists>e. r = Some e \<and> d' = d) \<or>
     (\<exists>work. r = None \<and> d' = start_job i work d \<and> (\<forall>seen k. terminal_events k (work seen) = (if k = i then 1 else 0)))"
  "daemon_Resume E i ereq d = (r, d') \<Longrightarrow> (\<exists>e. r = Some e \<and> d' = d) \<or>
     (\<exists>work. r = None \<and> d' = start_job i work d \<and> (\<forall>seen k. terminal_events k (work seen) = (if k = i then 1 else 0)))"
  by (auto simp: daemon_Scan_def daemon_Execute_def daemon_Resume_def runExecute_def scan_work_def
      scan_events_terminal execute_events_terminal split: sum.splits option.splits)

subsection \<open>Commands\<close>

lemma dispatcher_simps [simp]:
  "agent_dispatcher E CmdScan = Some (handleScan E)" "agent_dispatcher E CmdExecute = Some (handleExecute E)"
  "agent_dispatcher E CmdResume = Some (handleResume E)" "agent_dispatcher E CmdCancel = Some (handleCancel E)"
  by (simp_all add: agent_dispatcher_def RegisterHandler_def ws_consts)

lemma status_neq [simp]: "StatusOK \<noteq> StatusError" "StatusError \<noteq> StatusOK"
  by (simp_all add: ws_consts)

lemma Dispatch_start:
  assumes "Dispatch (agent_dispatcher E) cmd a = (resp, a')" and "start_command (cm_Type cmd)"
  shows "(rs_Status resp = StatusError \<and> a' = a) \<or>
    (rs_Status resp = StatusOK \<and> (\<exists>work. ag_daemon a' = start_job (cm_Cmd cmd) work (ag_daemon a) \<and>
       (\<forall>seen k. terminal_events k (work seen) = (if k = cm_Cmd cmd then 1 else 0))))"
proof -
  obtain name start where h: "Dispatch (agent_dispatcher E) cmd a = started E name cmd start a"
    and s: "start \<in> {daemon_Scan (ae_daemon E) (cm_Cmd cmd) (decode_scan_request (cm_Params cmd)),
       daemon_Execute (ae_daemon E) (cm_Cmd cmd) (decode_execute_request (cm_Params cmd)),
       daemon_Resume (ae_daemon E) (cm_Cmd cmd) (decode_execute_request (cm_Params cmd))}"
    using assms(2) by (auto simp: start_command_def Dispatch_def handleScan_def handleExecute_def handleResume_def)
  obtain r d' where r: "start (ag_daemon a) = (r, d')" by fastforce
  consider e where "r = Some e" "d' = ag_daemon a"
    | work where "r = None" "d' = start_job (cm_Cmd cmd) work (ag_daemon a)"
      "\<forall>seen k. terminal_events k (work seen) = (if k = cm_Cmd cmd then 1 else 0)"
  proof -
    from s r have "(\<exists>e. r = Some e \<and> d' = ag_daemon a) \<or> (\<exists>work. r = None \<and> d' = start_job (cm_Cmd cmd) work (ag_daemon a) \<and>
        (\<forall>seen k. terminal_events k (work seen) = (if k = cm_Cmd cmd then 1 else 0)))"
      by (elim insertE emptyE; hypsubst; elim starts)
    then show ?thesis using that by blast
  qed
  then show ?thesis
  proof cases
    case 1
    then show ?thesis using assms(1) h r by (auto simp: started_def errResp_def)
  next
    case 2
    then have "rs_Status resp = StatusOK" "ag_daemon a' = start_job (cm_Cmd cmd) work (ag_daemon a)"
      using assms(1) h r by (auto simp: started_def accepted_def okResp_def)
    then show ?thesis using 2(3) by blast
  qed
qed

text \<open>Every other command leaves jobs and registry alone; \<open>cancel\<close> marks one context.\<close>

lemma Dispatch_other:
  assumes "\<not> start_command (cm_Type cmd)"
  shows "ag_daemon (snd (Dispatch (agent_dispatcher E) cmd a)) = ag_daemon a \<or>
    (\<exists>c. ag_daemon (snd (Dispatch (agent_dispatcher E) cmd a)) = cancel_ctx c (ag_daemon a))"
  using assms
  by (auto simp: start_command_def Dispatch_def agent_dispatcher_def RegisterHandler_def NewDispatcher_def handleCancel_def
      handleArchiveStatus_def handleStatus_def handleShutdown_def handlePreflight_def cancelOp_def Let_def
      split: option.split sum.split prod.split)

lemma cancel_ctx_simps [simp]:
  "dm_jobs (cancel_ctx c d) = dm_jobs d" "dm_ops (cancel_ctx c d) = dm_ops d" "dm_sent (cancel_ctx c d) = dm_sent d"
  "dm_next (cancel_ctx c d) = dm_next d" "dm_cancelled (cancel_ctx c d) = insert c (dm_cancelled d)"
  by (simp_all add: cancel_ctx_def)

lemma job_end_cases:
  obtains "job_end c seen d = d" "c \<notin> jb_ctx ` set (dm_jobs d)"
  | j obs where "j \<in> set (dm_jobs d)" "jb_ctx j = c"
    "dm_jobs (job_end c seen d) = filter (\<lambda>k. jb_ctx k \<noteq> c) (dm_jobs d)"
    "dm_sent (job_end c seen d) = dm_sent d @ jb_work j obs" "dm_ops (job_end c seen d) = (dm_ops d)(jb_ID j := None)"
    "dm_next (job_end c seen d) = dm_next d"
proof (cases "find_key jb_ctx c (dm_jobs d)")
  case None
  from None have "c \<notin> jb_ctx ` set (dm_jobs d)" by (simp add: find_key_None)
  then show ?thesis using that(1) None by (simp add: job_end_def)
next
  case (Some j)
  from find_key_Some[OF Some] show ?thesis
    by (intro that(2)[of j "if c \<in> dm_cancelled d \<or> dm_closed d then seen else (\<lambda>_. False)"])
      (simp_all add: job_end_def Some unregisterOp_def cancel_ctx_def)
qed

lemma running_removed:
  "distinct (map jb_ctx js) \<Longrightarrow> j \<in> set js \<Longrightarrow>
   length (filter (\<lambda>k. jb_ID k = i) js) =
     (if i = jb_ID j then 1 else 0) + length (filter (\<lambda>k. jb_ID k = i) (filter (\<lambda>k. jb_ctx k \<noteq> jb_ctx j) js))"
proof (induction js)
  case (Cons k js)
  show ?case
  proof (cases "k = j")
    case True
    then have "filter (\<lambda>k. jb_ctx k \<noteq> jb_ctx j) js = js" using Cons.prems by (auto simp: filter_id_conv image_iff)
    then show ?thesis using True by simp
  next
    case False
    then have "jb_ctx k \<noteq> jb_ctx j" using Cons.prems by auto
    then show ?thesis using Cons False by (cases "jb_ID k = i"; cases "i = jb_ID j") auto
  qed
qed simp

subsection \<open>Invariants of the agent\<close>

lemma agent_step_ok: "jobs_ok (ag_daemon a) \<Longrightarrow> jobs_ok (ag_daemon (agent_do E act a))"
proof (cases act)
  case (Receive cmd)
  assume ok: "jobs_ok (ag_daemon a)"
  obtain resp a' where d: "Dispatch (agent_dispatcher E) cmd a = (resp, a')" by fastforce
  show ?thesis
  proof (cases "start_command (cm_Type cmd)")
    case True
    from Dispatch_start[OF d True] show ?thesis using Receive d ok start_job_ok[OF ok] by auto
  next
    case False
    have "jobs_ok (cancel_ctx c (ag_daemon a))" for c using ok by (simp add: jobs_ok_def)
    then show ?thesis using Dispatch_other[OF False, of E a] Receive ok by auto
  qed
next
  case (JobEnds c seen)
  assume "jobs_ok (ag_daemon a)"
  then show ?thesis using JobEnds
    by (cases rule: job_end_cases[of c seen "ag_daemon a"]) (auto simp: jobs_ok_def distinct_map_fst_filter)
qed

lemma agent_step_count:
  assumes "jobs_ok (ag_daemon a)"
  shows "terminal_events i (dm_sent (ag_daemon (agent_do E act a))) + running i (ag_daemon (agent_do E act a)) =
    terminal_events i (dm_sent (ag_daemon a)) + running i (ag_daemon a) + accepted_starts E i [act] a"
proof (cases act)
  case (Receive cmd)
  obtain resp a' where d: "Dispatch (agent_dispatcher E) cmd a = (resp, a')" by fastforce
  show ?thesis
  proof (cases "start_command (cm_Type cmd)")
    case True
    from Dispatch_start[OF d True] show ?thesis using Receive d True by (auto simp: running_def)
  next
    case False
    then show ?thesis using Dispatch_other[OF False, of E a] Receive by (auto simp: running_def)
  qed
next
  case (JobEnds c seen)
  show ?thesis
  proof (cases rule: job_end_cases[of c seen "ag_daemon a"])
    case (2 j obs)
    then have "terminal_events i (jb_work j obs) = (if i = jb_ID j then 1 else 0)"
      using assms by (auto simp: jobs_ok_def)
    then show ?thesis using JobEnds 2 running_removed[of "dm_jobs (ag_daemon a)" j i] assms
      by (simp add: running_def jobs_ok_def)
  qed (simp add: JobEnds)
qed

lemma agent_run_count:
  "jobs_ok (ag_daemon a) \<Longrightarrow>
   terminal_events i (dm_sent (ag_daemon (fold (agent_do E) acts a))) + running i (ag_daemon (fold (agent_do E) acts a)) =
     terminal_events i (dm_sent (ag_daemon a)) + running i (ag_daemon a) + accepted_starts E i acts a"
proof (induction acts arbitrary: a)
  case (Cons act acts)
  show ?case using Cons.IH[OF agent_step_ok[OF Cons.prems], of E act] agent_step_count[OF Cons.prems, of i E act] by simp
qed simp

lemma new_agent_ok [simp]: "jobs_ok (ag_daemon new_agent)" "registered_run (ag_daemon new_agent)"
  by (simp_all add: new_agent_def NewDaemon_def jobs_ok_def registered_run_def)

text \<open>
  C39. Every scan, execute or resume command that the agent accepts is answered by exactly one terminal event:
  whatever commands arrive and in whatever order jobs end or are cancelled, the \<open>scan_done\<close>, \<open>op_done\<close> and
  \<open>op_error\<close> events sent for an id, together with the jobs still running under it, are as many as the
  accepted commands with that id.
\<close>

theorem accepted_commands_end_once:
  "let d = ag_daemon (fold (agent_do E) acts new_agent) in
   terminal_events i (dm_sent d) + running i d = accepted_starts E i acts new_agent"
  using agent_run_count[of new_agent i E acts] by (simp add: new_agent_def NewDaemon_def jobs_ok_def running_def)

subsection \<open>Cancelling\<close>

text \<open>No command starts a job under an id that is still running.\<close>

fun one_at_a_time :: "agent_env \<Rightarrow> agent_act list \<Rightarrow> agent \<Rightarrow> bool" where
  "one_at_a_time E [] a = True"
| "one_at_a_time E (act # acts) a =
     ((case act of
         Receive cmd \<Rightarrow> start_command (cm_Type cmd) \<longrightarrow> running (cm_Cmd cmd) (ag_daemon a) = 0
       | JobEnds _ _ \<Rightarrow> True) \<and> one_at_a_time E acts (agent_do E act a))"

definition jobs_registered :: "agent_daemon \<Rightarrow> bool" where
  "jobs_registered d \<longleftrightarrow> registered_run d \<and> (\<forall>j\<in>set (dm_jobs d). dm_ops d (jb_ID j) = Some (jb_ctx j))"

lemma running_0: "running i d = 0 \<longleftrightarrow> (\<forall>j\<in>set (dm_jobs d). jb_ID j \<noteq> i)"
  by (auto simp: running_def filter_empty_conv)

lemma jobs_ctx_unique: "jobs_ok d \<Longrightarrow> j \<in> set (dm_jobs d) \<Longrightarrow> k \<in> set (dm_jobs d) \<Longrightarrow> jb_ctx j = jb_ctx k \<Longrightarrow> j = k"
  by (auto simp: jobs_ok_def distinct_map inj_on_def)

lemma filter_eq_single: "distinct xs \<Longrightarrow> x \<in> set xs \<Longrightarrow> filter (\<lambda>y. y = x) xs = [x]"
  by (induction xs) (auto simp: filter_empty_conv)

lemma job_end_registered:
  assumes "jobs_ok d" "jobs_registered d"
  shows "jobs_registered (job_end c seen d)"
proof (cases rule: job_end_cases[of c seen d])
  case (2 j obs)
  have u: "k = j" if "k \<in> set (dm_jobs d)" "jb_ID k = jb_ID j" for k
    using assms(2) 2(1) that jobs_ctx_unique[OF assms(1) that(1) 2(1)] unfolding jobs_registered_def
    by (metis option.inject)
  show ?thesis unfolding jobs_registered_def registered_run_def 2(3,5)
  proof (intro conjI allI impI ballI)
    fix i c' assume "((dm_ops d)(jb_ID j := None)) i = Some c'"
    then have i: "i \<noteq> jb_ID j" "dm_ops d i = Some c'" by (auto split: if_splits)
    then obtain k where k: "k \<in> set (dm_jobs d)" "jb_ID k = i" "jb_ctx k = c'"
      using assms(2) by (auto simp: jobs_registered_def registered_run_def)
    then have "jb_ctx k \<noteq> c" using i(1) jobs_ctx_unique[OF assms(1) k(1) 2(1)] 2(2) by auto
    then show "\<exists>k\<in>set (filter (\<lambda>k. jb_ctx k \<noteq> c) (dm_jobs d)). jb_ID k = i \<and> jb_ctx k = c'" using k by auto
  next
    fix k assume "k \<in> set (filter (\<lambda>k. jb_ctx k \<noteq> c) (dm_jobs d))"
    then show "((dm_ops d)(jb_ID j := None)) (jb_ID k) = Some (jb_ctx k)"
      using u[of k] 2(2) assms(2) by (auto simp: jobs_registered_def)
  qed
qed (use assms in simp)

lemma agent_step_registered:
  assumes "jobs_ok (ag_daemon a)" "jobs_registered (ag_daemon a)" "one_at_a_time E [act] a"
  shows "jobs_registered (ag_daemon (agent_do E act a))"
proof (cases act)
  case (Receive cmd)
  obtain resp a' where d: "Dispatch (agent_dispatcher E) cmd a = (resp, a')" by fastforce
  show ?thesis
  proof (cases "start_command (cm_Type cmd)")
    case True
    then have fresh: "\<forall>j\<in>set (dm_jobs (ag_daemon a)). jb_ID j \<noteq> cm_Cmd cmd"
      using assms(3) Receive by (simp add: running_0)
    have "jobs_registered (start_job (cm_Cmd cmd) work (ag_daemon a))" for work
      using assms(2) fresh start_job_registered by (auto simp: jobs_registered_def)
    then show ?thesis using Dispatch_start[OF d True] Receive d assms(2) by auto
  next
    case False
    have "jobs_registered (cancel_ctx c (ag_daemon a))" for c
      using assms(2) by (simp add: jobs_registered_def registered_run_def)
    then show ?thesis using Dispatch_other[OF False, of E a] Receive assms(2) by auto
  qed
next
  case (JobEnds c seen)
  then show ?thesis using job_end_registered[OF assms(1,2)] by simp
qed

lemma agent_run_registered:
  "jobs_ok (ag_daemon a) \<Longrightarrow> jobs_registered (ag_daemon a) \<Longrightarrow> one_at_a_time E acts a \<Longrightarrow>
   jobs_ok (ag_daemon (fold (agent_do E) acts a)) \<and> jobs_registered (ag_daemon (fold (agent_do E) acts a))"
proof (induction acts arbitrary: a)
  case (Cons act acts)
  then have "jobs_ok (ag_daemon (agent_do E act a))" "jobs_registered (ag_daemon (agent_do E act a))"
    using agent_step_ok agent_step_registered by auto
  then show ?case using Cons by simp
qed simp

text \<open>
  A cancel stops the right job. As long as no id is used again while its job runs, \<open>cancel\<close> of an id succeeds
  exactly when a job runs under it; it then is the only one, its context is cancelled, and no other
  context is.
\<close>

theorem cancel_reaches_the_running_job:
  assumes "one_at_a_time E acts new_agent" and "cancelOp i (ag_daemon (fold (agent_do E) acts new_agent)) = (r, d')"
  shows "(r = None \<longleftrightarrow> running i d' \<noteq> 0) \<and>
    (r = None \<longrightarrow> (\<exists>j. filter (\<lambda>k. jb_ID k = i) (dm_jobs d') = [j] \<and>
       dm_cancelled d' = insert (jb_ctx j) (dm_cancelled (ag_daemon (fold (agent_do E) acts new_agent)))))"
proof -
  define d where "d = ag_daemon (fold (agent_do E) acts new_agent)"
  have ok: "jobs_ok d" "jobs_registered d"
    using agent_run_registered[OF new_agent_ok(1) _ assms(1)]
    by (auto simp: d_def jobs_registered_def new_agent_def NewDaemon_def registered_run_def)
  show ?thesis
  proof (cases "dm_ops d i")
    case None
    then have "running i d = 0" using ok(2) by (auto simp: running_0 jobs_registered_def)
    then show ?thesis using assms(2) None by (auto simp: cancelOp_def d_def)
  next
    case (Some c)
    then obtain j where j: "j \<in> set (dm_jobs d)" "jb_ID j = i" "jb_ctx j = c"
      using ok(2) by (auto simp: jobs_registered_def registered_run_def)
    have "filter (\<lambda>k. jb_ID k = i) (dm_jobs d) = filter (\<lambda>k. k = j) (dm_jobs d)"
      using j ok jobs_ctx_unique[OF ok(1)] Some by (intro filter_cong) (auto simp: jobs_registered_def)
    moreover have "filter (\<lambda>k. k = j) (dm_jobs d) = [j]"
      using j(1) ok(1) by (simp add: jobs_ok_def distinct_map filter_eq_single)
    ultimately show ?thesis using assms(2) Some j(3) by (auto simp: cancelOp_def d_def[symmetric] running_def)
  qed
qed

text \<open>
  The ids of the program are operation ids, and a resumed operation has the id of its first run: when a resume
  arrives before the cancelled run has ended, the end of that run removes the registration of the new one,
  which then runs on but cannot be cancelled any more.
\<close>

lemma reused_id_cannot_be_cancelled:
  assumes "jobs_ok d"
  shows "let d2 = job_end (dm_next d) seen (start_job i w2 (start_job i w1 d)) in
    fst (cancelOp i d2) = Some (errNoSuchOp i) \<and> running i d2 \<noteq> 0"
proof -
  let ?d1 = "start_job i w2 (start_job i w1 d)"
  have lt: "\<forall>j\<in>set (dm_jobs d). jb_ctx j \<noteq> dm_next d" using assms by (auto simp: jobs_ok_def)
  then have "find_key jb_ctx (dm_next d) (dm_jobs ?d1) = Some \<lparr>jb_ID = i, jb_ctx = dm_next d, jb_work = w1\<rparr>"
    using find_key_None[of jb_ctx "dm_next d" "dm_jobs d"] by (auto simp: image_iff)
  then show ?thesis by (auto simp: job_end_def unregisterOp_def cancelOp_def running_def cancel_ctx_def Let_def)
qed

definition ex_mysql :: mysql where
  "ex_mysql = \<lparr>my_version = Inr ''8.0.32'', my_variable = (\<lambda>_. Inr ''ROW''), my_binary_logs = Inr ([], None), my_columns = None,
     my_master = Inr (''b.1'', 4), my_grants = Inr ([], None), my_table_columns = (\<lambda>_ _. Inr ([], None)),
     my_primary_key = (\<lambda>_ _. Inr ([], None)), my_size = (\<lambda>_. Inr None), my_all_columns = (\<lambda>_. Inr ([], None)),
     my_foreign_keys = (\<lambda>_. Inr ([], None))\<rparr>"

definition ex_agent_env :: agent_env where
  "ex_agent_env = \<lparr>ae_daemon = \<lparr>de_engine = (\<lambda>_. engine0), de_reader = (\<lambda>_. reader0),
       de_readdir = (\<lambda>_. Inr [(''b.1'', False)]), de_ArchiveDir = ''d'', de_SchemaFetcher = (\<lambda>_ _. Inl (Err [] [])),
       de_MaxRowsPerTx = 0, de_exec = Some (\<lambda>c resume plan seen. ([], zero_report\<lparr>fr_Paused := seen 0\<rparr>, None)),
       de_gtid = \<lparr>parse_mysql = Some, parse_mariadb = Some, set_contain = (\<lambda>_ _. True)\<rparr>, de_text = (\<lambda>_. ''error'')\<rparr>,
     ae_agentID = ''ag1'', ae_uptime = ''1s'', ae_startedAt = [],
     ae_connCfg = \<lparr>cc_Host = [], cc_Port = 0, cc_User = [], cc_Password = [], cc_Database = [], cc_Params = []\<rparr>,
     ae_BinlogDir = [], ae_archive = None, ae_mkdir = None, ae_mysql_error = (\<lambda>_. None), ae_connect = None, ae_open = None,
     ae_mysql = ex_mysql\<rparr>"

definition ex_execute :: Command where
  "ex_execute = \<lparr>cm_Cmd = ''op1'', cm_Type = CmdExecute,
     cm_Params = PExecute \<lparr>er_OperationID = ''op1'', er_Statements = [], er_BatchSize = 0\<rparr>\<rparr>"

lemma ex_execute_starts:
  "\<exists>work. agent_do ex_agent_env (Receive ex_execute) a = a\<lparr>ag_daemon := start_job ''op1'' work (ag_daemon a)\<rparr>"
proof -
  have "validateOperationID ''op1'' = None" by code_simp
  then show ?thesis
    by (auto simp: Dispatch_def ex_execute_def ex_agent_env_def handleExecute_def started_def daemon_Execute_def runExecute_def)
qed

lemma cancel_reaches_the_running_job_witness:
  "fst (cancelOp ''op1'' (ag_daemon (fold (agent_do ex_agent_env) [Receive ex_execute] new_agent))) = None \<and>
   dm_cancelled (snd (cancelOp ''op1'' (ag_daemon (fold (agent_do ex_agent_env) [Receive ex_execute] new_agent)))) = {0}"
proof -
  let ?d = "ag_daemon (fold (agent_do ex_agent_env) [Receive ex_execute] new_agent)"
  obtain r d' where c: "cancelOp ''op1'' ?d = (r, d')" by fastforce
  obtain work where d: "?d = start_job ''op1'' work NewDaemon"
    using ex_execute_starts[of new_agent] by (auto simp: new_agent_def)
  have d': "d' = cancel_ctx 0 ?d" "r = None" using c unfolding d by (auto simp: cancelOp_def NewDaemon_def)
  then have "running ''op1'' d' \<noteq> 0" unfolding d by (simp add: running_def)
  moreover have "one_at_a_time ex_agent_env [Receive ex_execute] new_agent"
    by (simp add: running_def new_agent_def NewDaemon_def)
  ultimately obtain j where "r = None" "filter (\<lambda>k. jb_ID k = ''op1'') (dm_jobs d') = [j]"
    "dm_cancelled d' = insert (jb_ctx j) (dm_cancelled ?d)"
    using cancel_reaches_the_running_job[OF _ c] by blast
  moreover have "jb_ctx j = 0" if "filter (\<lambda>k. jb_ID k = ''op1'') (dm_jobs d') = [j]"
    using that unfolding d'(1) d by (auto simp: NewDaemon_def)
  ultimately show ?thesis unfolding c unfolding d by (simp add: NewDaemon_def)
qed

end
