(* ===== verification/Command_Trip.thy ===== *)
theory Command_Trip
  imports Hub_Props Ws_Client_Props Agent_Props
begin

text \<open>A command's way from the server's hub to the agent's handlers and back.\<close>

subsection \<open>The agent answers every command\<close>

lemma started_answer: "rs_Cmd (fst (started E name cmd start a)) = cm_Cmd cmd \<and>
    rs_Status (fst (started E name cmd start a)) \<in> {StatusOK, StatusError}"
  by (auto simp: started_def accepted_def okResp_def errResp_def split: prod.split option.split)

lemma Dispatch_answer:
  "rs_Cmd (fst (Dispatch (agent_dispatcher E) cmd a)) = cm_Cmd cmd \<and>
   rs_Status (fst (Dispatch (agent_dispatcher E) cmd a)) \<in> {StatusOK, StatusError}"
proof -
  have "rs_Cmd (fst (handleCancel E cmd a)) = cm_Cmd cmd \<and> rs_Status (fst (handleCancel E cmd a)) \<in> {StatusOK, StatusError}"
    by (auto simp: handleCancel_def okResp_def errResp_def Let_def split: prod.split option.split)
  moreover have "rs_Cmd (fst (handlePreflight E cmd a)) = cm_Cmd cmd \<and> rs_Status (fst (handlePreflight E cmd a)) \<in> {StatusOK, StatusError}"
    by (auto simp: handlePreflight_def okResp_def errResp_def Let_def split: sum.split option.split)
  ultimately show ?thesis using started_answer
    by (simp add: Dispatch_def agent_dispatcher_def RegisterHandler_def NewDispatcher_def handleScan_def handleExecute_def
        handleResume_def handleArchiveStatus_def handleStatus_def handleShutdown_def okResp_def Let_def split: option.split)
qed

lemma StatusOK_StatusError: "x \<in> {StatusOK, StatusError} \<Longrightarrow> x \<noteq> []"
  by (auto simp: StatusOK_def StatusError_def)

lemma agent_answers_command:
  assumes "wc_conn w = Some s" "cm_Cmd cmd \<noteq> []" "cm_Type cmd \<noteq> []"
  shows "wc_sent (fst (handleMessage (Some (agent_dispatcher E)) (InCommand cmd) (w, a))) =
      wc_sent w @ [(s, ClientResponse (fst (Dispatch (agent_dispatcher E) cmd a)))]"
  using assms by (simp add: handleMessage_def handleIncomingCommand_def split: prod.split)

text \<open>
  C10. A command comes back as its own answer. When \<open>SendToAgent\<close> finds the agent connected, it writes the command and
  waits. The agent, on its current connection, answers with one response that carries the id of the command and a
  status, whatever the command and the agent's state. And whatever else the hub does in the meantime, when
  that response arrives on the connection while the call still waits, the call returns exactly it.
\<close>

theorem command_gets_its_answer:
  assumes "hub_reach E h" and "map_of (hb_conns h) agentID = Some c"
    and "cm_Cmd cmd \<noteq> []" "cm_Type cmd \<noteq> []" and "wc_conn w = Some s"
  shows "\<exists>k resp h1.
    send_start agentID cmd Written h = (Inr k, h1) \<and> hb_wire h1 = hb_wire h @ [(c, OutCommand cmd)] \<and>
    wc_sent (fst (handleMessage (Some (agent_dispatcher AE)) (InCommand cmd) (w, a))) = wc_sent w @ [(s, ClientResponse resp)] \<and>
    rs_Cmd resp = cm_Cmd cmd \<and> rs_Status resp \<in> {StatusOK, StatusError} \<and>
    (\<forall>h2 now. let call = \<lparr>ca_conn = c, ca_cmd = cm_Cmd cmd, ca_chan = k\<rparr> in
       hub_reach E h2 \<longrightarrow> call \<in> set (hb_calls h2) \<longrightarrow> fst (send_end call ByChannel h2) = None \<longrightarrow>
       fst (send_end call ByChannel (pump_message E c (MsgResponse resp) now h2)) = Some (Inr resp))"
proof -
  obtain ac where "hb_pumps h c = Some ac" using hub_okD(1)[OF hub_reach_ok[OF assms(1)] assms(2)] by blast
  then obtain h1 where h1: "send_start agentID cmd Written h = (Inr (hb_next_chan h), h1)" "hb_wire h1 = hb_wire h @ [(c, OutCommand cmd)]"
    using assms(2) by (simp add: send_start_def Let_def)
  define resp where "resp = fst (Dispatch (agent_dispatcher AE) cmd a)"
  have r: "rs_Cmd resp = cm_Cmd cmd" "rs_Status resp \<in> {StatusOK, StatusError}" using Dispatch_answer by (auto simp: resp_def)
  have "fst (send_end \<lparr>ca_conn = c, ca_cmd = cm_Cmd cmd, ca_chan = k\<rparr> ByChannel (pump_message E c (MsgResponse resp) now h2)) = Some (Inr resp)"
    if "hub_reach E h2" "\<lparr>ca_conn = c, ca_cmd = cm_Cmd cmd, ca_chan = k\<rparr> \<in> set (hb_calls h2)"
      "fst (send_end \<lparr>ca_conn = c, ca_cmd = cm_Cmd cmd, ca_chan = k\<rparr> ByChannel h2) = None" for h2 k now
    using response_reaches_call[OF that(1,2) _ that(3), of resp now] r assms(3) StatusOK_StatusError[OF r(2)] by simp
  then show ?thesis unfolding Let_def
    using h1 r agent_answers_command[OF assms(5,3,4), of AE a, folded resp_def] by blast
qed

definition ex_scan :: Command where
  "ex_scan = \<lparr>cm_Cmd = ''op1'', cm_Type = CmdScan, cm_Params = PNone\<rparr>"

definition ex_connected :: hub where
  "ex_connected = HandleConnection hub_env0 (Some [(''ag1'', ''07'')]) 5 False NewHub"

lemma ex_connected_reached: "hub_reach hub_env0 ex_connected" "map_of (hb_conns ex_connected) ''ag1'' = Some 0"
proof -
  show "hub_reach hub_env0 ex_connected"
    unfolding ex_connected_def by (rule hub_reach.step[OF hub_reach.start connects]) simp
  show "map_of (hb_conns ex_connected) ''ag1'' = Some 0"
    by (simp add: ex_connected_def HandleConnection_def NewHub_def extractAgentID_def peer_revoked_def hub_env0_def
        IsConnected_def Let_def)
qed

lemma ex_connected_sends: "send_start ''ag1'' ex_scan Written ex_connected = (Inr 0, ex_hub)"
  by (simp add: ex_connected_def ex_hub_def ex_scan_def HandleConnection_def NewHub_def extractAgentID_def peer_revoked_def
      hub_env0_def IsConnected_def send_start_def Let_def)

lemma command_gets_its_answer_witness:
  "\<exists>resp. wc_sent (fst (handleMessage (Some (agent_dispatcher ex_agent_env)) (InCommand ex_scan) (client0\<lparr>wc_conn := Some 7\<rparr>, new_agent))) =
      [(7, ClientResponse resp)] \<and>
    fst (send_end \<lparr>ca_conn = 0, ca_cmd = ''op1'', ca_chan = 0\<rparr> ByChannel (pump_message hub_env0 0 (MsgResponse resp) 6 ex_hub)) = Some (Inr resp)"
proof -
  obtain k resp h1 where s: "send_start ''ag1'' ex_scan Written ex_connected = (Inr k, h1)"
    and r: "wc_sent (fst (handleMessage (Some (agent_dispatcher ex_agent_env)) (InCommand ex_scan) (client0\<lparr>wc_conn := Some 7\<rparr>, new_agent))) =
      wc_sent (client0\<lparr>wc_conn := Some 7\<rparr>) @ [(7, ClientResponse resp)]"
    and a: "\<forall>h2 now. let call = \<lparr>ca_conn = 0, ca_cmd = cm_Cmd ex_scan, ca_chan = k\<rparr> in
       hub_reach hub_env0 h2 \<longrightarrow> call \<in> set (hb_calls h2) \<longrightarrow> fst (send_end call ByChannel h2) = None \<longrightarrow>
       fst (send_end call ByChannel (pump_message hub_env0 0 (MsgResponse resp) now h2)) = Some (Inr resp)"
    using command_gets_its_answer[OF ex_connected_reached, of ex_scan "client0\<lparr>wc_conn := Some 7\<rparr>" 7 ex_agent_env new_agent]
    by (auto simp: ex_scan_def CmdScan_def)
  have "k = 0" using s ex_connected_sends by simp
  moreover have "cm_Cmd ex_scan = ''op1''" by (simp add: ex_scan_def)
  ultimately show ?thesis using r a[rule_format, of ex_hub 6] ex_hub_reached ex_hub_calls
    by (simp add: Let_def send_end_def wake_result_def client0_def)
qed

end
