(* ===== verification/End_To_End.thy ===== *)
theory End_To_End
  imports Agent_Props Pitr_Races Pitr_Flow
begin


text \<open>The server on the agent's events.\<close>

definition deliver :: "pitr_env \<Rightarrow> string \<Rightarrow> StreamEvent list \<Rightarrow> pworld \<Rightarrow> pworld" where
  "deliver E agentID evs w = fold (\<lambda>ev. HandleStreamEvent E agentID (streamEventCommand ev)) evs w"

lemma deliver_simps [simp]:
  "deliver E a [] w = w" "deliver E a (ev # evs) w = deliver E a evs (HandleStreamEvent E a (streamEventCommand ev) w)"
  "deliver E a (xs @ ys) w = deliver E a ys (deliver E a xs w)"
  by (simp_all add: deliver_def)

subsection \<open>What the scan generates\<close>







subsection \<open>What the preview holds afterwards\<close>






subsection \<open>The server on the events of a scan\<close>

text \<open>The tables hold operation \<open>i\<close> as \<open>op\<close>, and every call of the driver succeeds.\<close>

definition holds_op :: "pitr_env \<Rightarrow> string \<Rightarrow> Operation \<Rightarrow> pworld \<Rightarrow> bool" where
  "holds_op E i op w \<longleftrightarrow> no_db_faults w \<and> w_ok w \<and>
     (\<exists>r. row_of i (pt_ops (q_data (w_db w))) = Some r \<and> scanOperation (pe_gtid E) r = Inr op)"




lemma holds_op_frame:
  "q_data (w_db w') = q_data (w_db w) \<Longrightarrow> no_db_faults w' = no_db_faults w \<Longrightarrow> holds_op E i op w' = holds_op E i op w"
  by (simp add: holds_op_def w_ok_def ids_distinct_def)

lemma holds_op_tick [simp]: "holds_op E i op (tick w) = holds_op E i op w"
  by (rule holds_op_frame) simp_all

lemma no_db_faults_frame [simp]:
  "no_db_faults (publish i ev w) = no_db_faults w" "no_db_faults (stageTxMeta i m w) = no_db_faults w"
  "no_db_faults (stageSQL i ws w) = no_db_faults w" "no_db_faults (forgetPreview i w) = no_db_faults w"
  "no_db_faults (appendAudit op s a d n w) = no_db_faults w"
  by (simp_all add: no_db_faults_def)

lemma holds_op_staged [simp]:
  "holds_op E i op (publish j ev w) = holds_op E i op w" "holds_op E i op (stageTxMeta j m w) = holds_op E i op w"
  "holds_op E i op (stageSQL j ws w) = holds_op E i op w"
  by (rule holds_op_frame; simp)+

lemma previewFor_staged [simp]:
  "previewFor i (publish j ev w) = previewFor i w" "previewFor i (tick w) = previewFor i w"
  "previewFor i (stageTxMeta i m w) = stage_meta m (previewFor i w)"
  "previewFor i (stageSQL i ws w) = fold stage_wire ws (previewFor i w)"
  "w_previews (tick w) = w_previews w" "w_previews (stageTxMeta i m w) i = Some (stage_meta m (previewFor i w))"
  "w_previews (stageSQL i ws w) i = Some (fold stage_wire ws (previewFor i w))"
  by (simp_all add: previewFor_def publish_def tick_def stageTxMeta_def stageSQL_def put_preview_def)







subsection \<open>The preview of the server is the scan of the agent\<close>



subsection \<open>What is executed is what was scanned\<close>








subsection \<open>An example\<close>






lemma ex_op_fields [simp]:
  "op_AgentID (ex_op m s) = ''ag1''" "op_Status (ex_op m s) = s" "op_ID (ex_op m s) = ''op1''"
  by (simp_all add: ex_op_def)




end
