(* ===== verification/Flashback.thy ===== *)
theory Flashback
  imports Scan Preflight Time_Format
begin

text \<open>
  \<open>cmd/agent/flashback.go\<close>: the one-shot command that scans the server's binlogs for the changes of a table up to a point in
  time, and prints, writes or executes the statements that reverse them. \<open>opts.Connector\<close>, which only tests set, is absent.
  Configuration files, data source names, the MySQL driver and the output file are the environment. Log lines are left out.
\<close>

subsection \<open>Options and environment\<close>

record FlashbackOptions =
  fo_DSN :: string
  fo_TargetTable :: string
  fo_RecoveryTime :: string
  fo_OutputFile :: string
  fo_DryRun :: bool
  fo_BatchSize :: int
  fo_ConfigFile :: string
  fo_Passphrase :: string

record 'd flashback_env =
  fe_LoadConfig :: "string \<Rightarrow> string \<Rightarrow> err + ConnConfig"
  fe_ParseDSN :: "string \<Rightarrow> err + ConnConfig"
  fe_open :: "ConnConfig \<Rightarrow> err + mysql"
  fe_ping :: "ConnConfig \<Rightarrow> err option"
  fe_engine :: engine
  fe_reader :: reader_env
  fe_readdir :: "err + (string \<times> bool) list"
  fe_driver :: "'d db_driver"
  fe_ctx :: exec_ctx
  fe_opID :: string
  fe_write :: "err option"

text \<open>What the command leaves: its error, the lines on the standard output, the statements it warns of, the output file, the plan
  it handed to the executor, and the database.\<close>

record 'd flashback_out =
  ot_err :: "err option"
  ot_stdout :: "string list"
  ot_warned :: "Statement list"
  ot_file :: "string list option"
  ot_plan :: "Plan option"
  ot_db :: 'd

subsection \<open>The steps\<close>

definition resolveConnConfig :: "'d flashback_env \<Rightarrow> FlashbackOptions \<Rightarrow> err + ConnConfig" where
  "resolveConnConfig E opts =
     (if fo_ConfigFile opts \<noteq> []
      then (case fe_LoadConfig E (fo_ConfigFile opts) (fo_Passphrase opts) of
              Inl e \<Rightarrow> Inl (Wrap ''load config: %w'' [] e) | Inr c \<Rightarrow> Inr c)
      else if fo_DSN opts \<noteq> [] then fe_ParseDSN E (fo_DSN opts)
      else Inl (Err ''either --mysql-dsn or --config must be provided'' []))"

definition splitTableRef :: "string \<Rightarrow> err + string \<times> string" where
  "splitTableRef s =
     (case split_n 2 CHR ''.'' [] s of
        [a, b] \<Rightarrow> (if a = [] \<or> b = [] then Inl (Err ''flashback: target table %q must be schema.table'' [s]) else Inr (a, b))
      | _ \<Rightarrow> Inl (Err ''flashback: target table %q must be schema.table'' [s]))"

text \<open>The schemas of all row changes, fetched once for each table; a table that cannot be fetched is left out.\<close>

definition schema_map :: "schema_fetcher \<Rightarrow> Transaction list \<Rightarrow> (string \<rightharpoonup> TableSchema)" where
  "schema_map sf txs = fold (\<lambda>tx cache. fill_cache sf cache (tx_Statements tx)) txs Map.empty"

text \<open>The reverse statements of all transactions, in the order of the scan.\<close>

fun generate_all :: "(string \<rightharpoonup> TableSchema) \<Rightarrow> Transaction list \<Rightarrow> err + Statement list" where
  "generate_all schemas [] = Inr []"
| "generate_all schemas (tx # txs) =
     (case Generate (Some tx) schemas 0 of
        Inl e \<Rightarrow> Inl (Wrap ''flashback: generate for tx %s: %w'' [tx_TxID tx] e)
      | Inr stmts \<Rightarrow> (case generate_all schemas txs of Inl e \<Rightarrow> Inl e | Inr rest \<Rightarrow> Inr (stmts @ rest)))"

definition sql_lines :: "Statement list \<Rightarrow> string list" where
  "sql_lines stmts = map (\<lambda>s. st_SQL s @ '';'') (filter (\<lambda>s. st_SQL s \<noteq> []) stmts)"

definition flashback_filter :: "string \<Rightarrow> string \<Rightarrow> string \<Rightarrow> time \<Rightarrow> Filter" where
  "flashback_filter binlogDir schema table recoveryTime =
     \<lparr>f_BinlogDir = binlogDir, f_Tables = [\<lparr>tr_Schema = schema, tr_Table = table\<rparr>],
      f_TimeRange = Some \<lparr>tr_Start = zero_time, tr_End = recoveryTime\<rparr>, f_GTIDSet = None, f_StartPos = zero_pos, f_EndPos = zero_pos,
      f_MaxRowsPerTx = 0, f_SelectedTxIDs = []\<rparr>"

definition no_output :: "err option \<Rightarrow> 'd \<Rightarrow> 'd flashback_out" where
  "no_output e d = \<lparr>ot_err = e, ot_stdout = [], ot_warned = [], ot_file = None, ot_plan = None, ot_db = d\<rparr>"

text \<open>The three ways in which the statements leave the command.\<close>

definition flashback_plan :: "'d flashback_env \<Rightarrow> FlashbackOptions \<Rightarrow> Statement list \<Rightarrow> Plan" where
  "flashback_plan E opts stmts = \<lparr>pl_OperationID = fe_opID E, pl_Statements = stmts, pl_BatchSize = fo_BatchSize opts\<rparr>"

definition flashback_output :: "'d flashback_env \<Rightarrow> FlashbackOptions \<Rightarrow> Statement list \<Rightarrow> 'd \<Rightarrow> 'd flashback_out" where
  "flashback_output E opts stmts d =
     (if fo_DryRun opts
      then (no_output None d)\<lparr>ot_stdout := sql_lines stmts, ot_warned := filter (\<lambda>s. st_SQL s = []) stmts\<rparr>
      else if fo_OutputFile opts \<noteq> []
      then (case fe_write E of
              Some e \<Rightarrow> no_output (Some (Wrap ''flashback: write output: %w'' [] e)) d
            | None \<Rightarrow> (no_output None d)\<lparr>ot_file := Some (sql_lines stmts)\<rparr>)
      else (let plan = flashback_plan E opts stmts in
            case Run InMemoryCheckpointStore ((fe_driver E)\<lparr>dr_open := None\<rparr>) (fe_ctx E) plan
                   \<lparr>xw_db = d, xw_store = Map.empty, xw_progress = []\<rparr> of
              (report, e, w) \<Rightarrow>
                (no_output (map_option (Wrap ''flashback: execute: %w'' []) e) (xw_db w))\<lparr>ot_plan := Some plan\<rparr>))"

text \<open>From the connected server on: preflight, the binlog directory, the scan, the statements.\<close>

definition flashback_scan :: "'d flashback_env \<Rightarrow> FlashbackOptions \<Rightarrow> time \<Rightarrow> MySQLConnector \<Rightarrow> err + Transaction list" where
  "flashback_scan E opts recoveryTime conn =
     (case Preflight conn of
        Inl e \<Rightarrow> Inl (Wrap ''flashback: preflight: %w'' [] e)
      | Inr pf \<Rightarrow>
          (case EnsureOK pf of
             Some e \<Rightarrow> Inl (Wrap ''flashback: preflight: %w'' [] e)
           | None \<Rightarrow>
               (case GetBinlogDir conn of
                  Inl e \<Rightarrow> Inl (Wrap ''flashback: locate binlog dir: %w'' [] e)
                | Inr binlogDir \<Rightarrow>
                    (case splitTableRef (fo_TargetTable opts) of
                       Inl e \<Rightarrow> Inl e
                     | Inr (schema, table) \<Rightarrow>
                         (case Binlog_Engine.Scan ((fe_engine E)\<lparr>en_maxRowsPerTx := 1000000\<rparr>) (fe_reader E) (fe_readdir E)
                                 (flashback_filter binlogDir schema table recoveryTime) of
                            Inl e \<Rightarrow> Inl (Wrap ''flashback: scan: %w'' [] e)
                          | Inr (Some e, _) \<Rightarrow> Inl (Wrap ''flashback: scan next: %w'' [] e)
                          | Inr (None, txs) \<Rightarrow>
                              (if txs = [] then Inl (Err ''flashback: no transactions found for table %q before %s''
                                                       [fo_TargetTable opts, fo_RecoveryTime opts])
                               else Inr txs))))))"

definition RunFlashback :: "'d flashback_env \<Rightarrow> FlashbackOptions \<Rightarrow> 'd \<Rightarrow> 'd flashback_out" where
  "RunFlashback E opts d =
     (case parse_rfc3339 (fo_RecoveryTime opts) of
        None \<Rightarrow> no_output (Some (Err ''flashback: parse recovery-time %q: %w'' [fo_RecoveryTime opts])) d
      | Some recoveryTime \<Rightarrow>
          (case resolveConnConfig E opts of
             Inl e \<Rightarrow> no_output (Some (Wrap ''flashback: resolve config: %w'' [] e)) d
           | Inr cfg \<Rightarrow>
               (case Connect (fe_open E) (fe_ping E) cfg (NewMySQLConnector cfg) of
                  (Some e, _) \<Rightarrow> no_output (Some (Wrap ''flashback: connect: %w'' [] e)) d
                | (None, conn) \<Rightarrow>
                    (case flashback_scan E opts recoveryTime conn of
                       Inl e \<Rightarrow> no_output (Some e) d
                     | Inr txs \<Rightarrow>
                         (case generate_all (schema_map (connector_FetchSchema conn) txs) txs of
                            Inl e \<Rightarrow> no_output (Some e) d
                          | Inr stmts \<Rightarrow> flashback_output E opts stmts d)))))"

text \<open>The checks of the command line.\<close>

definition flashback_command :: "'d flashback_env \<Rightarrow> FlashbackOptions \<Rightarrow> 'd \<Rightarrow> 'd flashback_out" where
  "flashback_command E opts d =
     (if fo_ConfigFile opts = [] \<and> fo_DSN opts = []
      then no_output (Some (Err ''either --mysql-dsn or --config is required'' [])) d
      else if fo_RecoveryTime opts = [] then no_output (Some (Err ''--recovery-time is required'' [])) d
      else if fo_TargetTable opts = [] then no_output (Some (Err ''--target-table is required'' [])) d
      else if fo_ConfigFile opts \<noteq> [] \<and> fo_Passphrase opts = []
      then no_output (Some (Err ''--passphrase is required when using --config'' [])) d
      else RunFlashback E opts d)"

subsection \<open>Facts\<close>

lemma generate_all_Inr:
  "generate_all schemas txs = Inr stmts \<Longrightarrow>
     \<exists>outs. list_all2 (\<lambda>tx out. Generate (Some tx) schemas 0 = Inr out) txs outs \<and> stmts = concat outs"
proof (induction txs arbitrary: stmts)
  case (Cons tx txs)
  then obtain out rest where g: "Generate (Some tx) schemas 0 = Inr out" "generate_all schemas txs = Inr rest" "stmts = out @ rest"
    by (auto split: sum.splits)
  from Cons.IH[OF g(2)] obtain outs where "list_all2 (\<lambda>tx out. Generate (Some tx) schemas 0 = Inr out) txs outs" "rest = concat outs"
    by blast
  then show ?case using g by (intro exI[of _ "out # outs"]) simp
qed simp

lemma splitTableRef_Inr: "splitTableRef s = Inr (a, b) \<Longrightarrow> a \<noteq> [] \<and> b \<noteq> []"
  by (auto simp: splitTableRef_def split: list.splits if_splits)

text \<open>The database is only touched by an execution: not by a dry run, not when a file is written, not after an error before.\<close>

lemma flashback_database_untouched:
  assumes "fo_DryRun opts \<or> fo_OutputFile opts \<noteq> [] \<or> ot_plan (RunFlashback E opts d) = None"
  shows "ot_db (RunFlashback E opts d) = d"
  using assms by (auto simp: RunFlashback_def flashback_output_def no_output_def Let_def split: option.splits sum.splits prod.splits if_splits)

end
