(* ===== verification/Undo_Order.thy ===== *)
theory Undo_Order
  imports Flashback Reverse_Sem Binlog_Engine_Props Pitr_Flow Daemon
begin

text \<open>
  Several transactions at once: in which order their reverse statements undo them, what the server makes of a
  selection, and what the flashback command executes.
\<close>

subsection \<open>Selections\<close>


text \<open>Two transactions that update one row, one after the other.\<close>

definition upd_rc :: "int \<Rightarrow> int \<Rightarrow> RowChange" where
  "upd_rc x y = \<lparr>rc_Schema = ''s'', rc_Table = ''t'', rc_Action = ActionUpdate, rc_Before = [VInt 1, VInt x],
     rc_After = [VInt 1, VInt y], rc_ColumnNames = []\<rparr>"

definition upd_tx :: "string \<Rightarrow> int \<Rightarrow> int \<Rightarrow> Transaction" where
  "upd_tx i x y = \<lparr>tx_TxID = i, tx_GTID = i, tx_XID = 1, tx_CommitTime = 0, tx_Schema = ''s'', tx_Statements = [upd_rc x y],
     tx_Truncated = False\<rparr>"

definition upd_col :: "string \<Rightarrow> ColumnDef" where
  "upd_col c = \<lparr>col_Name = c, col_Type = ''int'', col_Nullable = False, col_IsAutoInc = False\<rparr>"

definition upd_schema :: "string \<rightharpoonup> TableSchema" where
  "upd_schema = [''s.t'' \<mapsto> \<lparr>ts_Schema = ''s'', ts_Table = ''t'', ts_Columns = [upd_col ''id'', upd_col ''v''], ts_PrimaryKey = [''id'']\<rparr>]"

definition upd_tables :: "string \<Rightarrow> table_def" where
  "upd_tables = (\<lambda>_. \<lparr>td_cols = [''id'', ''v''], td_pk = [''id'']\<rparr>)"

definition upd_stmt :: "string \<Rightarrow> int \<Rightarrow> int \<Rightarrow> Statement" where
  "upd_stmt i x y = gen_one i 1 upd_schema DefaultMaxStatementSize 0 (upd_rc x y)"

lemma Generate_upd: "i \<noteq> [] \<Longrightarrow> Generate (Some (upd_tx i x y)) upd_schema 0 = Inr [upd_stmt i x y]"
  by (simp add: Generate_def upd_tx_def upd_stmt_def)


definition upd_db :: "int \<Rightarrow> db" where
  "upd_db v = (\<lambda>_. {#})(''s.t'' := {#[VInt 1, VInt v]#})"

lemma upd_key [simp]: "rc_key (upd_rc x y) = ''s.t''"
  by (simp add: upd_rc_def rc_key_def schema_key_def)


lemma upd_undo: "undo_db upd_tables (upd_rc x y) (upd_db z) = upd_db x"
proof -
  have "reverse_ast (upd_rc x y) [''id'', ''v''] [''id''] \<noteq> None" by (simp add: reverse_ast_def upd_rc_def)
  then obtain q where q: "reverse_ast (upd_rc x y) [''id'', ''v''] [''id''] = Some q" by blast
  then have "exec_ast [''id'', ''v''] q {#[VInt 1, VInt z]#} = {#[VInt 1, VInt x]#}"
    by (auto simp: reverse_ast_def upd_rc_def where_ast_def where_pred_def selected_def column_def image_at_def set_row_def)
  then show ?thesis using q by (simp add: undo_db_def upd_tables_def upd_db_def)
qed



subsection \<open>The flashback command\<close>

text \<open>
  \<open>RunFlashback\<close> appends the statements of each transaction in the order of the scan, so the oldest transaction is undone
  first. For the two updates the row ends with the value between them.
\<close>

lemma flashback_undoes_oldest_first:
  assumes "generate_all upd_schema [upd_tx ''a'' 10 20, upd_tx ''b'' 20 30] = Inr stmts"
  shows "undo_all upd_tables stmts (upd_db 30) = upd_db 20 \<and> upd_db 20 \<noteq> upd_db 10"
proof -
  have "stmts = [upd_stmt ''a'' 10 20, upd_stmt ''b'' 20 30]" using assms by (simp add: Generate_upd)
  moreover have "upd_db 20 ''s.t'' \<noteq> upd_db 10 ''s.t''" by (simp add: upd_db_def)
  ultimately show ?thesis by (auto simp: undo_all_def upd_stmt_def upd_undo)
qed


end
