(* ===== verification/Org_Handler.thy ===== *)
theory Org_Handler
  imports Pitr_Handler
begin

text \<open>
  \<open>internal/server/org/handler.go\<close> and the reassignment of agents that \<open>server.go\<close> gives it: the HTTP handlers of
  the organisations on the world of the server (\<open>pworld\<close>). A handler takes the authenticated user (empty: none), what the
  route and the body carry (\<open>None\<close>: the body does not decode), and returns status and body.
\<close>

subsection \<open>Responses\<close>

record 'b api_resp =
  ap_Status :: nat
  ap_Body :: "err + 'b"

definition api_error :: "nat \<Rightarrow> err \<Rightarrow> 'b api_resp" where
  "api_error st e = \<lparr>ap_Status = st, ap_Body = Inl e\<rparr>"

definition api_msg :: "nat \<Rightarrow> string \<Rightarrow> 'b api_resp" where
  "api_msg st m = api_error st (Err m [])"

definition api_ok :: "nat \<Rightarrow> 'b \<Rightarrow> 'b api_resp" where
  "api_ok st b = \<lparr>ap_Status = st, ap_Body = Inr b\<rparr>"

lemmas api_defs = api_error_def api_msg_def api_ok_def

datatype org_body =
    OBOrganization Organization
  | OBOrganizations "Organization list"
  | OBCode string
  | OBMembers "Member list"
  | OBSuccess

text \<open>The loops that compute \<open>isAdmin\<close> and \<open>isMember\<close>.\<close>

definition is_admin :: "string \<Rightarrow> Member list \<Rightarrow> bool" where
  "is_admin userID members = list_ex (\<lambda>m. mb_UserID m = userID \<and> mb_Role m = ''admin'') members"

definition is_member :: "string \<Rightarrow> Member list \<Rightarrow> bool" where
  "is_member userID members = list_ex (\<lambda>m. mb_UserID m = userID) members"

text \<open>The first part of a handler for one organisation: who asks, for which one, and may he?\<close>

definition org_gate :: "string \<Rightarrow> string \<Rightarrow> (Member list \<Rightarrow> bool) \<Rightarrow> string \<Rightarrow>
    (Member list \<Rightarrow> pworld \<Rightarrow> 'b api_resp \<times> pworld) \<Rightarrow> pworld \<Rightarrow> 'b api_resp \<times> pworld" where
  "org_gate userID orgID allowed refusal k w =
     (if userID = [] then (api_msg 401 ''not authenticated'', w)
      else if orgID = [] then (api_msg 400 ''missing org id'', w)
      else (case on_orgs (sql_ListMembers orgID) w of
              (Inl e, w1) \<Rightarrow> (api_error 404 e, w1)
            | (Inr members, w1) \<Rightarrow> (if \<not> allowed members then (api_msg 403 refusal, w1) else k members w1)))"

lemma is_member_iff [simp]: "is_member u ms = has_user u ms"
  by (auto simp: is_member_def has_user_iff list_ex_iff)

subsection \<open>Handlers\<close>

definition OrgCreate :: "string \<Rightarrow> string option \<Rightarrow> pworld \<Rightarrow> org_body api_resp \<times> pworld" where
  "OrgCreate userID req w =
     (if userID = [] then (api_msg 401 ''not authenticated'', w)
      else (case req of
              None \<Rightarrow> (api_msg 400 ''invalid request body'', w)
            | Some name \<Rightarrow>
                (if name = [] then (api_msg 400 ''name is required'', w)
                 else (case on_orgs (sql_org_Create (w_now w) (w_rnd w)
                              \<lparr>og_ID = [], og_Name = name, og_CreatedAt = zero_time\<rparr>) w of
                         (Inl e, w1) \<Rightarrow> (api_error 500 e, w1)
                       | (Inr org, w1) \<Rightarrow>
                           (case on_orgs (sql_AddMember (w_now w) (og_ID org) userID ''admin'') w1 of
                              (Inl e, w2) \<Rightarrow> (api_error 500 e, w2)
                            | (Inr _, w2) \<Rightarrow> (api_ok 201 (OBOrganization org), w2))))))"

definition OrgList :: "string \<Rightarrow> pworld \<Rightarrow> org_body api_resp \<times> pworld" where
  "OrgList userID w =
     (if userID = [] then (api_msg 401 ''not authenticated'', w)
      else (case on_orgs (sql_org_ListByUserID userID) w of
              (Inl e, w1) \<Rightarrow> (api_error 500 e, w1)
            | (Inr orgs, w1) \<Rightarrow> (api_ok 200 (OBOrganizations orgs), w1)))"

definition OrgInvite :: "string \<Rightarrow> string \<Rightarrow> pworld \<Rightarrow> org_body api_resp \<times> pworld" where
  "OrgInvite userID orgID =
     org_gate userID orgID (is_admin userID) ''only admins can invite members'' (\<lambda>_ w.
       case on_orgs (sql_CreateInvite (w_now w) (w_rnd w) orgID userID) w of
         (Inl e, w1) \<Rightarrow> (api_error 500 e, w1)
       | (Inr invite, w1) \<Rightarrow> (api_ok 201 (OBCode (iv_Code invite)), w1))"

definition OrgAcceptInvite :: "string \<Rightarrow> string \<Rightarrow> string option \<Rightarrow> pworld \<Rightarrow> org_body api_resp \<times> pworld" where
  "OrgAcceptInvite userID orgID req w =
     (if userID = [] then (api_msg 401 ''not authenticated'', w)
      else if orgID = [] then (api_msg 400 ''missing org id'', w)
      else (case req of
              None \<Rightarrow> (api_msg 400 ''invalid request body'', w)
            | Some code \<Rightarrow>
                (if code = [] then (api_msg 400 ''code is required'', w)
                 else (case on_orgs (sql_GetInviteByCode code) w of
                         (Inl _, w1) \<Rightarrow> (api_msg 404 ''invalid invitation code'', w1)
                       | (Inr invite, w1) \<Rightarrow>
                           (if iv_OrgID invite \<noteq> orgID then (api_msg 400 ''invitation code does not match organisation'', w1)
                            else (case on_orgs (sql_org_Get orgID) w1 of
                                    (Inl e, w2) \<Rightarrow> (api_error 404 e, w2)
                                  | (Inr org, w2) \<Rightarrow>
                                      (case on_orgs (sql_AddMember (w_now w) orgID userID ''member'') w2 of
                                         (Inl e, w3) \<Rightarrow> (api_error 409 e, w3)
                                       | (Inr _, w3) \<Rightarrow>
                                           (api_ok 200 (OBOrganization org), snd (on_orgs (sql_DeleteInvite code) w3)))))))))"

definition finish_delete :: "string \<Rightarrow> pworld \<Rightarrow> org_body api_resp \<times> pworld" where
  "finish_delete orgID w =
     (case on_orgs (sql_org_Delete orgID) w of
        (Inl e, w1) \<Rightarrow> (api_error 500 e, w1)
      | (Inr _, w1) \<Rightarrow> (api_ok 200 OBSuccess, w1))"

definition OrgDelete :: "string \<Rightarrow> string \<Rightarrow> pworld \<Rightarrow> org_body api_resp \<times> pworld" where
  "OrgDelete userID orgID =
     org_gate userID orgID (is_admin userID) ''only admins can delete organisations'' (\<lambda>_. finish_delete orgID)"

text \<open>The name of the default organisation, in UTF-8.\<close>

definition default_org_name :: string where
  "default_org_name = [CHR 0xE9, CHR 0xBB, CHR 0x98, CHR 0xE8, CHR 0xAE, CHR 0xA4, CHR 0xE7, CHR 0xBB, CHR 0x84, CHR 0xE7, CHR 0xBB, CHR 0x87]"

definition ensureFallbackOrg :: "string \<Rightarrow> string \<Rightarrow> pworld \<Rightarrow> (err + string) \<times> pworld" where
  "ensureFallbackOrg userID excludeID w =
     (case on_orgs (sql_org_ListByUserID userID) w of
        (Inl e, w1) \<Rightarrow> (Inl e, w1)
      | (Inr orgs, w1) \<Rightarrow>
          (case List.find (\<lambda>r. og_ID r \<noteq> excludeID) orgs of
             Some r \<Rightarrow> (Inr (og_ID r), w1)
           | None \<Rightarrow>
               (case on_orgs (sql_org_Create (w_now w1) (w_rnd w1)
                       \<lparr>og_ID = [], og_Name = default_org_name, og_CreatedAt = zero_time\<rparr>) w1 of
                  (Inl e, w2) \<Rightarrow> (Inl e, w2)
                | (Inr org, w2) \<Rightarrow>
                    (case on_orgs (sql_AddMember (w_now w1) (og_ID org) userID ''admin'') w2 of
                       (Inl e, w3) \<Rightarrow> (Inl e, w3)
                     | (Inr _, w3) \<Rightarrow> (Inr (og_ID org), w3)))))"

text \<open>The handler's \<open>reassignAgents\<close>, \<open>None\<close> when there is none, and the one of \<open>server.go\<close>.\<close>

type_synonym reassign = "string \<Rightarrow> string \<Rightarrow> pworld \<Rightarrow> err option \<times> pworld"

fun reassign_each :: "string \<Rightarrow> AgentRecord list \<Rightarrow> pworld \<Rightarrow> err option \<times> pworld" where
  "reassign_each toOrgID [] w = (None, w)"
| "reassign_each toOrgID (a # as) w =
     (case on_agents (sql_agent_Update (a\<lparr>ar_OrgID := toOrgID\<rparr>)) w of
        (Inl e, w1) \<Rightarrow> (Some e, w1)
      | (Inr _, w1) \<Rightarrow> reassign_each toOrgID as w1)"

definition reassignFn :: reassign where
  "reassignFn fromOrgID toOrgID w =
     (case on_agents (sql_agent_ListByOrg fromOrgID) w of
        (Inl e, w1) \<Rightarrow> (Some e, w1)
      | (Inr agents, w1) \<Rightarrow> reassign_each toOrgID agents w1)"

definition OrgDeleteWithAgentReassignment :: "reassign option \<Rightarrow> string \<Rightarrow> string \<Rightarrow> pworld \<Rightarrow> org_body api_resp \<times> pworld" where
  "OrgDeleteWithAgentReassignment reassignAgents userID orgID =
     org_gate userID orgID (is_admin userID) ''only admins can delete organisations'' (\<lambda>_ w.
       case reassignAgents of
         None \<Rightarrow> finish_delete orgID w
       | Some reassign \<Rightarrow>
           (case ensureFallbackOrg userID orgID w of
              (Inl e, w1) \<Rightarrow> (api_error 500 e, w1)
            | (Inr fallbackOrgID, w1) \<Rightarrow>
                (if fallbackOrgID = [] then finish_delete orgID w1
                 else (case reassign orgID fallbackOrgID w1 of
                         (Some e, w2) \<Rightarrow> (api_error 500 e, w2)
                       | (None, w2) \<Rightarrow> finish_delete orgID w2))))"

definition OrgListMembers :: "string \<Rightarrow> string \<Rightarrow> pworld \<Rightarrow> org_body api_resp \<times> pworld" where
  "OrgListMembers userID orgID =
     org_gate userID orgID (is_member userID) ''not a member of this organisation''
       (\<lambda>members w. (api_ok 200 (OBMembers members), w))"

subsection \<open>Routes\<close>

text \<open>The routes under \<open>/api/orgs\<close> of \<open>router.go\<close>.\<close>

datatype org_request =
    RqCreate "string option" | RqList | RqDelete string | RqInvite string | RqAccept string "string option" | RqMembers string

fun org_do :: "string \<Rightarrow> org_request \<Rightarrow> pworld \<Rightarrow> org_body api_resp \<times> pworld" where
  "org_do u RqList = OrgList u"
| "org_do u (RqCreate req) = OrgCreate u req"
| "org_do u (RqDelete i) = OrgDeleteWithAgentReassignment (Some reassignFn) u i"
| "org_do u (RqInvite i) = OrgInvite u i"
| "org_do u (RqAccept i req) = OrgAcceptInvite u i req"
| "org_do u (RqMembers i) = OrgListMembers u i"

end
