(* ===== verification/Org_Access.thy ===== *)
theory Org_Access
  imports Org_Handler
begin

text \<open>
  Who changes organisations: what each request may do to the tables, and what the deletion of an organisation leaves.
\<close>

abbreviation org_tabs :: "pworld \<Rightarrow> org_tables" where
  "org_tabs w \<equiv> q_data (w_orgs w)"

abbreviation agent_rows :: "pworld \<Rightarrow> AgentRecord list" where
  "agent_rows w \<equiv> q_data (w_agents w)"

subsection \<open>Calls of the stores\<close>

lemma on_orgs_cases:
  assumes "on_orgs f w = (r, w')"
  obtains db where "f (w_orgs w) = (r, db)" "w' = w\<lparr>w_orgs := db\<rparr>"
  using assms by (auto simp: on_orgs_def split: prod.splits)

lemma on_agents_cases:
  assumes "on_agents f w = (r, w')"
  obtains db where "f (w_agents w) = (r, db)" "w' = w\<lparr>w_agents := db\<rparr>"
  using assms by (auto simp: on_agents_def split: prod.splits)

lemma sql_run_cases:
  assumes "sql_run f db = (r, db')"
  obtains (fault) "r = Inl sql_failure" "q_data db' = q_data db" | (ran) "f (q_data db) = (r, q_data db')"
  using assms by (auto simp: sql_run_def split: if_splits prod.splits)

lemma call_list_members:
  assumes "on_orgs (sql_ListMembers i) w = (r, w')"
  shows "org_tabs w' = org_tabs w" "agent_rows w' = agent_rows w" "w_db w' = w_db w"
    "r = Inr ms \<Longrightarrow> ms = members_of i (org_tabs w) \<and> org_row i (org_tabs w) \<noteq> None"
proof -
  obtain db where f: "sql_ListMembers i (w_orgs w) = (r, db)" "w' = w\<lparr>w_orgs := db\<rparr>" using assms by (rule on_orgs_cases)
  then show "org_tabs w' = org_tabs w" "agent_rows w' = agent_rows w" "w_db w' = w_db w"
    by (auto simp: sql_ListMembers_def sql_run_def split: if_splits sum.splits prod.splits)
  show "r = Inr ms \<Longrightarrow> ms = members_of i (org_tabs w) \<and> org_row i (org_tabs w) \<noteq> None"
    using f sql_org.list_ok[of i "w_orgs w" ms db] by (simp add: sql_org_view_def)
qed

lemma call_create_org:
  assumes "on_orgs (sql_org_Create now rnd o0) w = (r, w')"
  shows "(\<exists>e. r = Inl e \<and> org_tabs w' = org_tabs w) \<or>
    (\<exists>g. r = Inr g \<and> g = complete_org now rnd o0 \<and> org_row (og_ID g) (org_tabs w) = None \<and>
      org_tabs w' = (org_tabs w)\<lparr>ot_orgs := ot_orgs (org_tabs w) @ [g]\<rparr>)"
    "agent_rows w' = agent_rows w" "w_db w' = w_db w"
  using assms by (auto simp: sql_org_Create_def Let_def org_row_def find_key_None sql_insert_def
      elim!: on_orgs_cases sql_run_cases split: if_splits)

lemma call_add_member:
  assumes "on_orgs (sql_AddMember now i u role) w = (r, w')"
  shows "(\<exists>e. r = Inl e \<and> org_tabs w' = org_tabs w) \<or>
    (r = Inr () \<and> org_row i (org_tabs w) \<noteq> None \<and> \<not> has_user u (members_of i (org_tabs w)) \<and>
      org_tabs w' = (org_tabs w)\<lparr>ot_members := ot_members (org_tabs w) @
        [\<lparr>mb_UserID = u, mb_OrgID = i, mb_Role = role, mb_JoinedAt = now\<rparr>]\<rparr>)"
    "agent_rows w' = agent_rows w" "w_db w' = w_db w"
  using assms by (auto simp: sql_AddMember_def sql_insert_def elim!: on_orgs_cases sql_run_cases split: if_splits)

lemma call_list_orgs:
  assumes "on_orgs (sql_org_ListByUserID u) w = (r, w')"
  shows "org_tabs w' = org_tabs w" "agent_rows w' = agent_rows w" "w_db w' = w_db w"
    "r = Inr gs \<Longrightarrow> g \<in> set gs \<Longrightarrow> g \<in> set (ot_orgs (org_tabs w)) \<and> has_user u (members_of (og_ID g) (org_tabs w))"
  using assms by (auto simp: sql_org_ListByUserID_def has_user_iff members_of_def elim!: on_orgs_cases sql_run_cases)

lemma call_create_invite:
  assumes "on_orgs (sql_CreateInvite now rnd i u) w = (r, w')"
  shows "(\<exists>e. r = Inl e \<and> org_tabs w' = org_tabs w) \<or>
    (\<exists>v. r = Inr v \<and> iv_OrgID v = i \<and> iv_CreatedBy v = u \<and>
      org_tabs w' = (org_tabs w)\<lparr>ot_invites := ot_invites (org_tabs w) @ [v]\<rparr>)"
    "agent_rows w' = agent_rows w" "w_db w' = w_db w"
  using assms by (auto simp: sql_CreateInvite_def sql_insert_def Let_def elim!: on_orgs_cases sql_run_cases split: if_splits)

lemma call_get_invite:
  assumes "on_orgs (sql_GetInviteByCode c) w = (r, w')"
  shows "org_tabs w' = org_tabs w" "agent_rows w' = agent_rows w" "w_db w' = w_db w"
    "r = Inr v \<Longrightarrow> v \<in> set (ot_invites (org_tabs w)) \<and> iv_Code v = c"
  using assms by (auto simp: sql_GetInviteByCode_def dest!: find_key_Some elim!: on_orgs_cases sql_run_cases split: option.splits)

lemma call_get_org:
  assumes "on_orgs (sql_org_Get i) w = (r, w')"
  shows "org_tabs w' = org_tabs w" "agent_rows w' = agent_rows w" "w_db w' = w_db w"
  using assms by (auto simp: sql_org_Get_def elim!: on_orgs_cases sql_run_cases)

lemma call_delete_invite:
  "org_tabs (snd (on_orgs (sql_DeleteInvite c) w)) = org_tabs w \<or>
   org_tabs (snd (on_orgs (sql_DeleteInvite c) w)) =
     (org_tabs w)\<lparr>ot_invites := filter (\<lambda>v. iv_Code v \<noteq> c) (ot_invites (org_tabs w))\<rparr>"
  "agent_rows (snd (on_orgs (sql_DeleteInvite c) w)) = agent_rows w"
  "w_db (snd (on_orgs (sql_DeleteInvite c) w)) = w_db w"
  by (auto simp: on_orgs_def sql_DeleteInvite_def sql_run_def)

definition without_org :: "string \<Rightarrow> org_tables \<Rightarrow> org_tables" where
  "without_org i d = d\<lparr>ot_members := filter (\<lambda>m. mb_OrgID m \<noteq> i) (ot_members d),
     ot_invites := filter (\<lambda>v. iv_OrgID v \<noteq> i) (ot_invites d), ot_orgs := filter (\<lambda>r. og_ID r \<noteq> i) (ot_orgs d)\<rparr>"

lemma finish_delete_cases:
  assumes "finish_delete i w = (r, w')"
  shows "(ap_Status r = 500 \<and> org_tabs w' = org_tabs w) \<or> (ap_Status r = 200 \<and> org_tabs w' = without_org i (org_tabs w))"
    "agent_rows w' = agent_rows w" "w_db w' = w_db w"
  using assms by (auto simp: finish_delete_def sql_org_Delete_def without_org_def api_defs
      elim!: on_orgs_cases sql_run_cases split: prod.splits sum.splits if_splits)

lemma org_gate_cases:
  assumes "org_gate u i allowed msg k w = (r, w')"
  obtains (refused) "ap_Status r \<in> {400, 401, 403, 404}" "org_tabs w' = org_tabs w" "agent_rows w' = agent_rows w" "w_db w' = w_db w"
  | (passed) w1 where "u \<noteq> []" "i \<noteq> []" "allowed (members_of i (org_tabs w))" "org_row i (org_tabs w) \<noteq> None"
      "org_tabs w1 = org_tabs w" "agent_rows w1 = agent_rows w" "w_db w1 = w_db w"
      "k (members_of i (org_tabs w)) w1 = (r, w')"
proof (cases "u = [] \<or> i = []")
  case True
  then show thesis using assms refused by (auto simp: org_gate_def api_defs split: if_splits)
next
  case False
  obtain r1 w1 where l: "on_orgs (sql_ListMembers i) w = (r1, w1)" by fastforce
  show thesis
  proof (cases r1)
    case (Inl e)
    then show thesis using assms False l refused call_list_members[OF l] by (auto simp: org_gate_def api_defs)
  next
    case (Inr ms)
    then show thesis using assms False l refused passed[of w1] call_list_members(1-3)[OF l] call_list_members(4)[OF l, of ms]
      by (auto simp: org_gate_def api_defs split: if_splits)
  qed
qed

subsection \<open>Which changes a request may make\<close>

text \<open>
  \<open>authorised_change u rq d d'\<close>: what the request \<open>rq\<close> of user \<open>u\<close> may change in the tables. A new member is the user
  himself, as admin of an organisation that did not exist, or as plain member of one whose invitation code he shows;
  invitations come from admins; members and organisations go when an admin deletes the organisation.
\<close>

definition authorised_change :: "string \<Rightarrow> org_request \<Rightarrow> org_tables \<Rightarrow> org_tables \<Rightarrow> bool" where
  "authorised_change u rq d d' \<longleftrightarrow>
     (\<forall>m\<in>set (ot_members d'). m \<in> set (ot_members d) \<or>
        (mb_UserID m = u \<and>
           ((mb_Role m = ''admin'' \<and> org_row (mb_OrgID m) d = None) \<or>
            (mb_Role m = ''member'' \<and> (\<exists>v\<in>set (ot_invites d). iv_OrgID v = mb_OrgID m \<and> rq = RqAccept (mb_OrgID m) (Some (iv_Code v))))))) \<and>
     (\<forall>v\<in>set (ot_invites d'). v \<in> set (ot_invites d) \<or>
        (rq = RqInvite (iv_OrgID v) \<and> iv_CreatedBy v = u \<and> is_admin u (members_of (iv_OrgID v) d))) \<and>
     (\<forall>m\<in>set (ot_members d). m \<in> set (ot_members d') \<or>
        (rq = RqDelete (mb_OrgID m) \<and> is_admin u (members_of (mb_OrgID m) d))) \<and>
     (\<forall>g\<in>set (ot_orgs d). g \<in> set (ot_orgs d') \<or>
        (rq = RqDelete (og_ID g) \<and> is_admin u (members_of (og_ID g) d)))"

lemma authorised_same [simp]: "authorised_change u rq d d"
  by (simp add: authorised_change_def)

text \<open>An organisation of the user's own: what \<open>OrgCreate\<close> and \<open>ensureFallbackOrg\<close> add, in one step or two.\<close>

definition org_added :: "string \<Rightarrow> org_tables \<Rightarrow> org_tables \<Rightarrow> bool" where
  "org_added u d d' \<longleftrightarrow> d' = d \<or> (\<exists>g ms. org_row (og_ID g) d = None \<and> og_ID g \<noteq> [] \<and>
     d' = d\<lparr>ot_orgs := ot_orgs d @ [g], ot_members := ot_members d @ ms\<rparr> \<and>
     (\<forall>m\<in>set ms. mb_UserID m = u \<and> mb_OrgID m = og_ID g \<and> mb_Role m = ''admin''))"

lemma org_added_refl [simp]: "org_added u d d"
  by (simp add: org_added_def)

lemma complete_org_ID [simp]: "og_ID (complete_org now rnd o0) \<noteq> []"
  by (simp add: complete_org_def generateOrgID_def Let_def)

lemma org_added_create:
  assumes "on_orgs (sql_org_Create now rnd o0) w = (Inr g, w1)"
    and "on_orgs (sql_AddMember now' (og_ID g) u ''admin'') w1 = (r, w2)"
  shows "org_added u (org_tabs w) (org_tabs w1)" "org_added u (org_tabs w) (org_tabs w2)"
    "r = Inr () \<Longrightarrow> has_user u (members_of (og_ID g) (org_tabs w2))"
    "og_ID g \<noteq> []" "org_row (og_ID g) (org_tabs w) = None"
proof -
  have c: "org_row (og_ID g) (org_tabs w) = None" "og_ID g \<noteq> []"
    "org_tabs w1 = (org_tabs w)\<lparr>ot_orgs := ot_orgs (org_tabs w) @ [g]\<rparr>"
    using call_create_org(1)[OF assms(1)] by auto
  then show "og_ID g \<noteq> []" "org_row (og_ID g) (org_tabs w) = None" by simp_all
  show a: "org_added u (org_tabs w) (org_tabs w1)"
    unfolding org_added_def c(3) using c by (intro disjI2 exI[of _ g] exI[of _ "[]"]) simp
  show "org_added u (org_tabs w) (org_tabs w2)"
    using call_add_member(1)[OF assms(2)]
  proof (elim disjE conjE exE)
    let ?m = "\<lparr>mb_UserID = u, mb_OrgID = og_ID g, mb_Role = ''admin'', mb_JoinedAt = now'\<rparr>"
    assume "org_tabs w2 = (org_tabs w1)\<lparr>ot_members := ot_members (org_tabs w1) @ [?m]\<rparr>"
    then show ?thesis unfolding org_added_def using c by (intro disjI2 exI[of _ g] exI[of _ "[?m]"]) simp
  qed (use a in simp)
  show "r = Inr () \<Longrightarrow> has_user u (members_of (og_ID g) (org_tabs w2))"
    using call_add_member(1)[OF assms(2)] by (auto simp: has_user_iff members_of_def)
qed

lemma OrgCreate_adds: "OrgCreate u req w = (r, w') \<Longrightarrow> org_added u (org_tabs w) (org_tabs w') \<and> agent_rows w' = agent_rows w \<and> w_db w' = w_db w"
  unfolding OrgCreate_def
  by (auto simp: api_defs org_added_create call_create_org(2,3) call_add_member(2,3)
      dest: call_create_org(1) split: if_splits option.splits prod.splits sum.splits)

lemma fallback_cases:
  assumes "ensureFallbackOrg u i w = (r, w')"
  shows "org_added u (org_tabs w) (org_tabs w')" "agent_rows w' = agent_rows w" "w_db w' = w_db w"
    "r = Inr j \<Longrightarrow> org_row i (org_tabs w) \<noteq> None \<Longrightarrow> j \<noteq> i \<and> has_user u (members_of j (org_tabs w')) \<and>
       (j = [] \<longrightarrow> [] \<in> og_ID ` set (ot_orgs (org_tabs w)))"
proof -
  obtain rl w1 where l: "on_orgs (sql_org_ListByUserID u) w = (rl, w1)" by fastforce
  note ll = call_list_orgs(1-3)[OF l]
  have "org_added u (org_tabs w) (org_tabs w') \<and> agent_rows w' = agent_rows w \<and> w_db w' = w_db w \<and>
    (r = Inr j \<longrightarrow> org_row i (org_tabs w) \<noteq> None \<longrightarrow> j \<noteq> i \<and> has_user u (members_of j (org_tabs w')) \<and>
       (j = [] \<longrightarrow> [] \<in> og_ID ` set (ot_orgs (org_tabs w))))"
  proof (cases rl)
    case (Inl e)
    then show ?thesis using assms l ll by (auto simp: ensureFallbackOrg_def)
  next
    case (Inr gs)
    note mem = call_list_orgs(4)[OF l Inr]
    show ?thesis
    proof (cases "List.find (\<lambda>g. og_ID g \<noteq> i) gs")
      case (Some g)
      then have "g \<in> set gs" "og_ID g \<noteq> i" by (auto simp: find_Some_iff)
      then show ?thesis using assms l ll Inr Some mem[of g] by (auto simp: ensureFallbackOrg_def rev_image_eqI)
    next
      case None
      obtain rc w2 where c: "on_orgs (sql_org_Create (w_now w1) (w_rnd w1)
          \<lparr>og_ID = [], og_Name = default_org_name, og_CreatedAt = zero_time\<rparr>) w1 = (rc, w2)" by fastforce
      show ?thesis
      proof (cases rc)
        case (Inl e)
        then show ?thesis using assms l ll Inr None c call_create_org[OF c] by (auto simp: ensureFallbackOrg_def)
      next
        case g: (Inr g)
        obtain ra w3 where a: "on_orgs (sql_AddMember (w_now w1) (og_ID g) u ''admin'') w2 = (ra, w3)" by fastforce
        show ?thesis using assms l ll Inr None c g a call_create_org(2,3)[OF c] call_add_member(2,3)[OF a]
            org_added_create[OF c[unfolded g] a]
          by (cases ra) (auto simp: ensureFallbackOrg_def)
      qed
    qed
  qed
  then show "org_added u (org_tabs w) (org_tabs w')" "agent_rows w' = agent_rows w" "w_db w' = w_db w"
    "r = Inr j \<Longrightarrow> org_row i (org_tabs w) \<noteq> None \<Longrightarrow> j \<noteq> i \<and> has_user u (members_of j (org_tabs w')) \<and>
       (j = [] \<longrightarrow> [] \<in> og_ID ` set (ot_orgs (org_tabs w)))" by auto
qed

subsection \<open>Moving the agents\<close>

definition move_agents :: "string \<Rightarrow> AgentRecord set \<Rightarrow> AgentRecord list \<Rightarrow> AgentRecord list" where
  "move_agents j S rows = map (\<lambda>r. if r \<in> S then r\<lparr>ar_OrgID := j\<rparr> else r) rows"

lemma call_update_agent:
  assumes "on_agents (sql_agent_Update a) w = (r, w')"
  shows "(\<exists>e. r = Inl e \<and> agent_rows w' = agent_rows w) \<or>
    (r = Inr () \<and> (\<exists>b\<in>set (agent_rows w). ar_ID b = ar_ID a) \<and>
      agent_rows w' = map (\<lambda>b. if ar_ID b = ar_ID a then a else b) (agent_rows w))"
    "org_tabs w' = org_tabs w" "w_db w' = w_db w"
proof -
  obtain db where f: "sql_agent_Update a (w_agents w) = (r, db)" "w' = w\<lparr>w_agents := db\<rparr>" using assms by (rule on_agents_cases)
  from f(1) show "(\<exists>e. r = Inl e \<and> agent_rows w' = agent_rows w) \<or>
    (r = Inr () \<and> (\<exists>b\<in>set (agent_rows w). ar_ID b = ar_ID a) \<and>
      agent_rows w' = map (\<lambda>b. if ar_ID b = ar_ID a then a else b) (agent_rows w))"
    unfolding sql_agent_Update_def f(2)
    using map_idI[of "agent_rows w" "\<lambda>b. if ar_ID b = ar_ID a then a else b"]
    by (elim sql_run_cases) (auto simp: sql_update_def sql_count_def filter_empty_conv split: if_splits)
  show "org_tabs w' = org_tabs w" "w_db w' = w_db w" by (simp_all add: f(2))
qed

lemma same_id: "distinct (map ar_ID rows) \<Longrightarrow> a \<in> set rows \<Longrightarrow> b \<in> set rows \<Longrightarrow> ar_ID a = ar_ID b \<longleftrightarrow> a = b"
  by (metis distinct_map inj_onD)

lemma move_one:
  "distinct (map ar_ID rows) \<Longrightarrow> a \<in> set rows \<Longrightarrow>
   map (\<lambda>b. if ar_ID b = ar_ID a then a\<lparr>ar_OrgID := j\<rparr> else b) rows = move_agents j {a} rows"
  unfolding move_agents_def using same_id by (intro map_cong refl) (auto; metis)

lemma move_ids [simp]: "map ar_ID (move_agents j S rows) = map ar_ID rows"
  by (simp add: move_agents_def)

lemma move_empty [simp]: "move_agents j {} rows = rows"
  by (simp add: move_agents_def)

lemma move_insert:
  assumes "\<forall>b\<in>S. ar_ID b \<noteq> ar_ID a"
  shows "move_agents j S (move_agents j {a} rows) = move_agents j (insert a S) rows"
  using assms by (auto simp: move_agents_def)

lemma reassign_each_moves:
  assumes "reassign_each j as w = (r, w')" and "distinct (map ar_ID (agent_rows w))" and "distinct (map ar_ID as)"
    and "set as \<subseteq> set (agent_rows w)"
  shows "\<exists>S \<subseteq> set as. agent_rows w' = move_agents j S (agent_rows w) \<and> (r = None \<longrightarrow> S = set as)"
    "org_tabs w' = org_tabs w" "w_db w' = w_db w"
proof -
  have "(\<exists>S \<subseteq> set as. agent_rows w' = move_agents j S (agent_rows w) \<and> (r = None \<longrightarrow> S = set as)) \<and>
    org_tabs w' = org_tabs w \<and> w_db w' = w_db w" using assms
  proof (induction as arbitrary: w)
    case Nil
    then show ?case by auto
  next
    case (Cons a as)
    obtain r1 w1 where u: "on_agents (sql_agent_Update (a\<lparr>ar_OrgID := j\<rparr>)) w = (r1, w1)" by fastforce
    show ?case
    proof (cases r1)
      case (Inl e)
      then show ?thesis using Cons.prems(1) u call_update_agent[OF u] by (auto intro!: exI[of _ "{}"])
    next
      case (Inr x)
      have rows: "agent_rows w1 = move_agents j {a} (agent_rows w)"
        using call_update_agent(1)[OF u] Inr move_one[OF Cons.prems(2), of a j] Cons.prems(4) by auto
      have nin: "\<forall>b\<in>set as. ar_ID b \<noteq> ar_ID a" using Cons.prems(3) by (auto simp: image_iff)
      have sub: "set as \<subseteq> set (agent_rows w1)"
        using Cons.prems(4) nin unfolding rows move_agents_def by (auto simp: image_iff)
      have "reassign_each j as w1 = (r, w')" using Cons.prems(1) u Inr by simp
      then obtain S where S: "S \<subseteq> set as" "agent_rows w' = move_agents j S (agent_rows w1)" "r = None \<longrightarrow> S = set as"
        "org_tabs w' = org_tabs w1" "w_db w' = w_db w1"
        using Cons.IH[of w1] Cons.prems(2,3) sub by (auto simp: rows)
      then show ?thesis using call_update_agent(2,3)[OF u] move_insert[of S a j "agent_rows w"] nin
        by (auto simp: rows intro!: exI[of _ "insert a S"])
    qed
  qed
  then show "\<exists>S \<subseteq> set as. agent_rows w' = move_agents j S (agent_rows w) \<and> (r = None \<longrightarrow> S = set as)"
    "org_tabs w' = org_tabs w" "w_db w' = w_db w" by auto
qed

lemma reassignFn_moves:
  assumes "reassignFn i j w = (r, w')" and "distinct (map ar_ID (agent_rows w))"
  shows "\<exists>S \<subseteq> {a \<in> set (agent_rows w). ar_OrgID a = i}. agent_rows w' = move_agents j S (agent_rows w) \<and>
      (r = None \<longrightarrow> S = {a \<in> set (agent_rows w). ar_OrgID a = i})"
    "org_tabs w' = org_tabs w" "w_db w' = w_db w"
proof -
  obtain rl w1 where l: "on_agents (sql_agent_ListByOrg i) w = (rl, w1)" by fastforce
  have f: "agent_rows w1 = agent_rows w" "org_tabs w1 = org_tabs w" "w_db w1 = w_db w"
    "\<And>as. rl = Inr as \<Longrightarrow> as = filter (\<lambda>a. ar_OrgID a = i) (agent_rows w)"
    using l by (auto simp: sql_agent_ListByOrg_def elim!: on_agents_cases sql_run_cases)
  have "(\<exists>S \<subseteq> {a \<in> set (agent_rows w). ar_OrgID a = i}. agent_rows w' = move_agents j S (agent_rows w) \<and>
      (r = None \<longrightarrow> S = {a \<in> set (agent_rows w). ar_OrgID a = i})) \<and> org_tabs w' = org_tabs w \<and> w_db w' = w_db w"
  proof (cases rl)
    case (Inl e)
    then show ?thesis using assms(1) l f by (auto simp: reassignFn_def intro!: exI[of _ "{}"])
  next
    case (Inr as)
    have e: "reassign_each j as w1 = (r, w')" using assms(1) l Inr by (simp add: reassignFn_def)
    from f(4)[OF Inr] assms(2) have "distinct (map ar_ID as)" "set as \<subseteq> set (agent_rows w1)"
      "set as = {a \<in> set (agent_rows w). ar_OrgID a = i}" by (auto simp: f distinct_map_fst_filter)
    with reassign_each_moves[OF e] assms(2) f show ?thesis by auto
  qed
  then show "\<exists>S \<subseteq> {a \<in> set (agent_rows w). ar_OrgID a = i}. agent_rows w' = move_agents j S (agent_rows w) \<and>
      (r = None \<longrightarrow> S = {a \<in> set (agent_rows w). ar_OrgID a = i})"
    "org_tabs w' = org_tabs w" "w_db w' = w_db w" by auto
qed

lemma reassign_each_tabs: "reassign_each j as w = (r, w') \<Longrightarrow> org_tabs w' = org_tabs w \<and> w_db w' = w_db w"
proof (induction as arbitrary: w)
  case (Cons a as)
  obtain r1 w1 where u: "on_agents (sql_agent_Update (a\<lparr>ar_OrgID := j\<rparr>)) w = (r1, w1)" by fastforce
  then show ?case using Cons call_update_agent(2,3)[OF u] by (cases r1) auto
qed simp

lemma reassign_tabs: "reassignFn i j w = (r, w') \<Longrightarrow> org_tabs w' = org_tabs w"
  by (auto simp: reassignFn_def on_agents_def dest: reassign_each_tabs split: prod.splits sum.splits)

text \<open>
  A deletion in three parts: a fallback organisation of the user may be added, agents move to it, the organisation goes.
  Whatever fails on the way, agents only ever move to an organisation that the user is a member of.
\<close>

lemma delete_request_cases:
  assumes "org_do u (RqDelete i) w = (r, w')" and "distinct (map ar_ID (agent_rows w))"
  obtains (refused) "ap_Status r \<noteq> 200" "org_tabs w' = org_tabs w" "agent_rows w' = agent_rows w" "w_db w' = w_db w"
  | (passed) d j S where "is_admin u (members_of i (org_tabs w))" "org_row i (org_tabs w) \<noteq> None"
      "org_added u (org_tabs w) d" "w_db w' = w_db w"
      "ap_Status r \<noteq> 200 \<and> org_tabs w' = d \<or> ap_Status r = 200 \<and> org_tabs w' = without_org i d"
      "agent_rows w' = move_agents j S (agent_rows w)" "S \<subseteq> {a \<in> set (agent_rows w). ar_OrgID a = i}"
      "S \<noteq> {} \<or> (ap_Status r = 200 \<and> [] \<notin> og_ID ` set (ot_orgs (org_tabs w))) \<Longrightarrow> j \<noteq> i \<and> has_user u (members_of j d)"
      "ap_Status r = 200 \<and> [] \<notin> og_ID ` set (ot_orgs (org_tabs w)) \<Longrightarrow> S = {a \<in> set (agent_rows w). ar_OrgID a = i}"
proof -
  from assms(1) have "OrgDeleteWithAgentReassignment (Some reassignFn) u i w = (r, w')" by simp
  then show thesis unfolding OrgDeleteWithAgentReassignment_def
  proof (cases rule: org_gate_cases)
    case refused
    then show thesis by (intro that(1)) auto
  next
    case (passed w1)
    obtain rf w2 where fb: "ensureFallbackOrg u i w1 = (rf, w2)" by fastforce
    note F = fallback_cases(1-3)[OF fb]
    show thesis
    proof (cases rf)
      case (Inl e)
      then show thesis using passed fb F
        by (intro that(2)[of "org_tabs w2" i "{}"]) (auto simp: api_defs)
    next
      case (Inr j)
      have J: "j \<noteq> i \<and> has_user u (members_of j (org_tabs w2)) \<and> (j = [] \<longrightarrow> [] \<in> og_ID ` set (ot_orgs (org_tabs w)))"
        using fallback_cases(4)[OF fb Inr] passed by simp
      show thesis
      proof (cases "j = []")
        case True
        then have "finish_delete i w2 = (r, w')" using passed(8) fb Inr by simp
        from finish_delete_cases[OF this] show thesis using passed F J True
          by (intro that(2)[of "org_tabs w2" j "{}"]) auto
      next
        case False
        obtain rr w3 where ra: "reassignFn i j w2 = (rr, w3)" by fastforce
        have di: "distinct (map ar_ID (agent_rows w2))" using assms(2) F passed by simp
        obtain S where S: "S \<subseteq> {a \<in> set (agent_rows w). ar_OrgID a = i}" "agent_rows w3 = move_agents j S (agent_rows w)"
          "rr = None \<longrightarrow> S = {a \<in> set (agent_rows w). ar_OrgID a = i}"
          using reassignFn_moves(1)[OF ra di] F passed by auto
        note R = reassignFn_moves(2,3)[OF ra di]
        show thesis
        proof (cases rr)
          case (Some e)
          then show thesis using passed fb Inr False ra F J S R
            by (intro that(2)[of "org_tabs w2" j S]) (auto simp: api_defs)
        next
          case None
          then have "finish_delete i w3 = (r, w')" using passed(8) fb Inr False ra by simp
          from finish_delete_cases[OF this] show thesis using passed F J S R None
            by (intro that(2)[of "org_tabs w2" j S]) auto
        qed
      qed
    qed
  qed
qed

subsection \<open>Properties\<close>

lemma org_row_None: "org_row i d = None \<longleftrightarrow> i \<notin> og_ID ` set (ot_orgs d)"
  by (simp add: org_row_def find_key_None)

lemma authorised_added: "org_added u d d' \<Longrightarrow> authorised_change u rq d d'"
  by (auto simp: org_added_def authorised_change_def)

lemma authorised_delete:
  assumes "org_added u d d1" and "is_admin u (members_of i d)" and "org_row i d \<noteq> None"
  shows "authorised_change u (RqDelete i) d (without_org i d1)"
  using assms by (auto simp: org_added_def authorised_change_def without_org_def)

lemma OrgInvite_authorised: "authorised_change u (RqInvite i) (org_tabs w) (org_tabs (snd (OrgInvite u i w)))"
proof -
  obtain r w' where o: "OrgInvite u i w = (r, w')" by fastforce
  have "authorised_change u (RqInvite i) (org_tabs w) (org_tabs w')" using o unfolding OrgInvite_def
  proof (cases rule: org_gate_cases)
    case (passed w1)
    obtain rc w2 where c: "on_orgs (sql_CreateInvite (w_now w1) (w_rnd w1) i u) w1 = (rc, w2)" by fastforce
    then have "w' = w2" using passed(8) by (auto split: sum.splits)
    then show ?thesis using call_create_invite(1)[OF c] passed by (auto simp: authorised_change_def)
  qed simp
  then show ?thesis by (simp add: o)
qed

lemma OrgAccept_authorised: "authorised_change u (RqAccept i req) (org_tabs w) (org_tabs (snd (OrgAcceptInvite u i req w)))"
proof (cases "u = [] \<or> i = [] \<or> req = None \<or> req = Some []")
  case True
  then show ?thesis by (auto simp: OrgAcceptInvite_def)
next
  case False
  then obtain c where c: "req = Some c" by auto
  obtain rv w1 where g: "on_orgs (sql_GetInviteByCode c) w = (rv, w1)" by fastforce
  obtain ro w2 where o: "on_orgs (sql_org_Get i) w1 = (ro, w2)" by fastforce
  obtain ra w3 where a: "on_orgs (sql_AddMember (w_now w) i u ''member'') w2 = (ra, w3)" by fastforce
  note T = call_get_invite(1)[OF g] call_get_org(1)[OF o]
  show ?thesis
  proof (cases "\<exists>v. rv = Inr v \<and> iv_OrgID v = i")
    case True
    then obtain v where v: "rv = Inr v" "iv_OrgID v = i" by blast
    note V = call_get_invite(4)[OF g v(1)]
    have add: "authorised_change u (RqAccept i req) (org_tabs w) ((org_tabs w2)\<lparr>ot_members := ot_members (org_tabs w2) @
        [\<lparr>mb_UserID = u, mb_OrgID = i, mb_Role = ''member'', mb_JoinedAt = w_now w\<rparr>], ot_invites := vs\<rparr>)"
      if "set vs \<subseteq> set (ot_invites (org_tabs w))" for vs
      using that V v c by (auto simp: authorised_change_def T)
    show ?thesis
    proof (cases ra)
      case (Inl e)
      then show ?thesis using False c g o a v T call_add_member(1)[OF a]
        by (cases ro) (auto simp: OrgAcceptInvite_def)
    next
      case (Inr x)
      have m: "org_tabs w3 = (org_tabs w2)\<lparr>ot_members := ot_members (org_tabs w2) @
          [\<lparr>mb_UserID = u, mb_OrgID = i, mb_Role = ''member'', mb_JoinedAt = w_now w\<rparr>]\<rparr>"
        using call_add_member(1)[OF a] Inr by auto
      have "authorised_change u (RqAccept i req) (org_tabs w) (org_tabs (snd (on_orgs (sql_DeleteInvite c) w3)))"
        using call_delete_invite(1)[of c w3]
      proof
        assume "org_tabs (snd (on_orgs (sql_DeleteInvite c) w3)) = org_tabs w3"
        then show ?thesis using add[of "ot_invites (org_tabs w)"] by (simp add: m T)
      next
        assume "org_tabs (snd (on_orgs (sql_DeleteInvite c) w3)) =
          (org_tabs w3)\<lparr>ot_invites := filter (\<lambda>v. iv_Code v \<noteq> c) (ot_invites (org_tabs w3))\<rparr>"
        then show ?thesis using add[of "filter (\<lambda>v. iv_Code v \<noteq> c) (ot_invites (org_tabs w))"] by (simp add: m T)
      qed
      then show ?thesis using False c g o a v Inr T
        by (cases ro) (auto simp: OrgAcceptInvite_def)
    qed
  next
    case None: False
    then show ?thesis using False c g T by (cases rv) (auto simp: OrgAcceptInvite_def)
  qed
qed

lemma OrgDelete_authorised:
  "authorised_change u (RqDelete i) (org_tabs w) (org_tabs (snd (OrgDeleteWithAgentReassignment (Some reassignFn) u i w)))"
proof -
  obtain r' w' where o: "OrgDeleteWithAgentReassignment (Some reassignFn) u i w = (r', w')" by fastforce
  have "authorised_change u (RqDelete i) (org_tabs w) (org_tabs w')" using o unfolding OrgDeleteWithAgentReassignment_def
  proof (cases rule: org_gate_cases)
    case (passed w1)
    obtain rf w2 where fb: "ensureFallbackOrg u i w1 = (rf, w2)" by fastforce
    have ad: "org_added u (org_tabs w) (org_tabs w2)" using fallback_cases(1)[OF fb] passed by simp
    have fin: "authorised_change u (RqDelete i) (org_tabs w) (org_tabs w4)"
      if "finish_delete i w3 = (x, w4)" "org_tabs w3 = org_tabs w2" for x w3 w4
      using finish_delete_cases(1)[OF that(1)] that(2) authorised_delete[OF ad passed(3,4)] authorised_added[OF ad] by auto
    show ?thesis
    proof (cases rf)
      case (Inl e)
      then show ?thesis using passed(8) fb authorised_added[OF ad] by simp
    next
      case (Inr j)
      obtain rr w3 where ra: "reassignFn i j w2 = (rr, w3)" by fastforce
      have "org_tabs w3 = org_tabs w2" using ra reassign_tabs by metis
      then show ?thesis using passed(8) fb Inr ra fin authorised_added[OF ad] by (auto split: if_splits option.splits)
    qed
  qed simp
  then show ?thesis by (simp add: o)
qed

text \<open>
  C4. Organisations change only by right. Whatever request a user makes and whatever call of the database fails: the only new
  membership is his own, as admin of an organisation that did not exist before or as plain member of one whose invitation
  code he presents; a new invitation is to an organisation that he is an admin of; members and organisations disappear
  only with the deletion of an organisation that he is an admin of.
\<close>

theorem organisation_changes_are_authorised:
  "authorised_change u rq (org_tabs w) (org_tabs (snd (org_do u rq w)))"
proof (cases rq)
  case (RqCreate req)
  then show ?thesis by (cases "OrgCreate u req w") (auto dest: OrgCreate_adds intro: authorised_added)
next
  case RqList
  then show ?thesis using call_list_orgs(1)[of u w]
    by (cases "on_orgs (sql_org_ListByUserID u) w") (auto simp: OrgList_def split: sum.splits)
next
  case (RqDelete i)
  then show ?thesis by (simp add: OrgDelete_authorised)
next
  case (RqInvite i)
  then show ?thesis using OrgInvite_authorised by simp
next
  case (RqAccept i req)
  then show ?thesis using OrgAccept_authorised by simp
next
  case (RqMembers i)
  obtain r w' where o: "OrgListMembers u i w = (r, w')" by fastforce
  then have "org_tabs w' = org_tabs w" unfolding OrgListMembers_def by (cases rule: org_gate_cases) auto
  then show ?thesis by (simp add: RqMembers o)
qed

text \<open>
  C19. The deletion of an organisation is complete and orphans no agent: after the answer 200 the organisation, its members and
  its invitations are gone, and its agents, and no others, belong to one other organisation, of which the user is a member.
\<close>

theorem deleted_org_leaves_no_orphans:
  assumes "org_do u (RqDelete i) w = (r, w')" and "ap_Status r = 200"
    and "distinct (map ar_ID (agent_rows w))" and "[] \<notin> og_ID ` set (ot_orgs (org_tabs w))"
  shows "org_row i (org_tabs w') = None \<and> members_of i (org_tabs w') = [] \<and>
    (\<forall>v\<in>set (ot_invites (org_tabs w')). iv_OrgID v \<noteq> i) \<and>
    (\<exists>j. j \<noteq> i \<and> has_user u (members_of j (org_tabs w')) \<and>
      agent_rows w' = map (\<lambda>a. if ar_OrgID a = i then a\<lparr>ar_OrgID := j\<rparr> else a) (agent_rows w))"
  using assms(1,3)
proof (cases rule: delete_request_cases)
  case refused
  then show ?thesis using assms(2) by simp
next
  case (passed d j S)
  have d': "org_tabs w' = without_org i d" using passed assms(2) by simp
  have S: "S = {a \<in> set (agent_rows w). ar_OrgID a = i}" using passed(9) assms(2,4) by simp
  have j: "j \<noteq> i" "has_user u (members_of j d)" using passed(8) assms(2,4) by simp_all
  have "members_of j (without_org i d) = members_of j d"
    using j(1) by (simp add: without_org_def members_of_delete)
  moreover have "members_of i (without_org i d) = []" by (simp add: without_org_def members_of_delete)
  moreover have "org_row i (without_org i d) = None" by (auto simp: without_org_def org_row_None)
  moreover have "\<forall>v\<in>set (ot_invites (without_org i d)). iv_OrgID v \<noteq> i" by (simp add: without_org_def)
  moreover have "agent_rows w' = map (\<lambda>a. if ar_OrgID a = i then a\<lparr>ar_OrgID := j\<rparr> else a) (agent_rows w)"
    unfolding passed(6) S move_agents_def by (intro map_cong refl) simp
  ultimately show ?thesis using j d' by (intro conjI exI[of _ j]) simp_all
qed

definition ex_org_world :: pworld where
  "ex_org_world = \<lparr>
     w_db = \<lparr>q_data = \<lparr>pt_ops = [], pt_stmts = [], pt_cps = []\<rparr>, q_clock = 0, q_fault = (\<lambda>_. False)\<rparr>,
     w_orgs = \<lparr>q_data = \<lparr>ot_orgs = [\<lparr>og_ID = ''acme'', og_Name = ''Acme'', og_CreatedAt = 1\<rparr>],
                         ot_members = [\<lparr>mb_UserID = ''u1'', mb_OrgID = ''acme'', mb_Role = ''admin'', mb_JoinedAt = 1\<rparr>],
                         ot_invites = []\<rparr>,
               q_clock = 0, q_fault = (\<lambda>_. False)\<rparr>,
     w_agents = \<lparr>q_data = [\<lparr>ar_ID = ''ag1'', ar_OrgID = ''acme'', ar_Hostname = ''db1'', ar_MySQLVersion = [],
                              ar_Status = ''offline'', ar_LastSeen = 0, ar_CreatedAt = 1, ar_CertSerial = [],
                              ar_RegistrationToken = [], ar_Approved = False\<rparr>],
                 q_clock = 0, q_fault = (\<lambda>_. False)\<rparr>,
     w_audits = [], w_bus = NewEventBus, w_previews = Map.empty, w_connected = (\<lambda>_. True), w_now = 5, w_rnd = ''r''\<rparr>"

lemma deleted_org_leaves_no_orphans_witness:
  "\<exists>j. j \<noteq> ''acme'' \<and> has_user ''u1'' (members_of j (org_tabs (snd (org_do ''u1'' (RqDelete ''acme'') ex_org_world)))) \<and>
     map ar_OrgID (agent_rows (snd (org_do ''u1'' (RqDelete ''acme'') ex_org_world))) = [j]"
proof -
  have s: "ap_Status (fst (org_do ''u1'' (RqDelete ''acme'') ex_org_world)) = 200" by code_simp
  obtain r w' where o: "org_do ''u1'' (RqDelete ''acme'') ex_org_world = (r, w')" by fastforce
  have "distinct (map ar_ID (agent_rows ex_org_world))" "[] \<notin> og_ID ` set (ot_orgs (org_tabs ex_org_world))"
    by (simp_all add: ex_org_world_def)
  from deleted_org_leaves_no_orphans[OF o _ this] s o show ?thesis by (auto simp: ex_org_world_def)
qed

end
