(* ===== verification/Agent_Handler.thy ===== *)
theory Agent_Handler
  imports Org_Handler Collector
begin

text \<open>
  \<open>internal/server/agent/handler.go\<close>: the HTTP handlers of the agents, and what \<open>server.go\<close> does to the agent records
  when the hub reports a connection, when it reports the end of one, and when the server starts. The commander is that
  of \<open>pitr_env\<close>; reading the random bytes takes them from \<open>w_rnd\<close>.
\<close>

subsection \<open>Helpers\<close>

definition read_random :: "nat \<Rightarrow> pworld \<Rightarrow> string \<times> pworld" where
  "read_random n w = (take n (w_rnd w), w\<lparr>w_rnd := drop n (w_rnd w)\<rparr>)"

definition generateRegToken :: "pworld \<Rightarrow> string \<times> pworld" where
  "generateRegToken w = apfst hex_encode (read_random 32 w)"

definition generateCertSerial :: "pworld \<Rightarrow> string \<times> pworld" where
  "generateCertSerial w = apfst (\<lambda>b. ''serial_'' @ hex_encode b) (read_random 16 w)"

datatype agent_body =
    ABRegistered AgentRecord string
  | ABAgents "AgentRecord list"
  | ABApproved AgentRecord
  | ABAgent AgentRecord
  | ABArchive ArchiveState
  | ABSuccess
  | ABNoContent

record register_request =
  rg_OrgID :: string
  rg_Hostname :: string
  rg_MySQLVersion :: string

text \<open>The first part of a handler for one agent: who asks, for which agent, and may he?\<close>

definition agent_gate :: "string \<Rightarrow> string \<Rightarrow> (Member list \<Rightarrow> bool) \<Rightarrow> string \<Rightarrow>
    (AgentRecord \<Rightarrow> pworld \<Rightarrow> agent_body api_resp \<times> pworld) \<Rightarrow> pworld \<Rightarrow> agent_body api_resp \<times> pworld" where
  "agent_gate userID agentID allowed refusal k w =
     (if userID = [] then (api_msg 401 ''not authenticated'', w)
      else if agentID = [] then (api_msg 400 ''missing agent id'', w)
      else (case on_agents (sql_agent_Get agentID) w of
              (Inl e, w1) \<Rightarrow> (api_error 404 e, w1)
            | (Inr agent, w1) \<Rightarrow>
                (case on_orgs (sql_ListMembers (ar_OrgID agent)) w1 of
                   (Inl _, w2) \<Rightarrow> (api_msg 404 ''organisation not found'', w2)
                 | (Inr members, w2) \<Rightarrow>
                     (if \<not> allowed members then (api_msg 403 refusal, w2) else k agent w2))))"

subsection \<open>Handlers\<close>

definition AgentRegister :: "string \<Rightarrow> register_request option \<Rightarrow> pworld \<Rightarrow> agent_body api_resp \<times> pworld" where
  "AgentRegister userID body w =
     (if userID = [] then (api_msg 401 ''not authenticated'', w)
      else (case body of
              None \<Rightarrow> (api_msg 400 ''invalid request body'', w)
            | Some req \<Rightarrow>
                (if rg_Hostname req = [] then (api_msg 400 ''hostname is required'', w)
                 else if rg_OrgID req = [] then (api_msg 400 ''orgId is required'', w)
                 else (case on_orgs (sql_ListMembers (rg_OrgID req)) w of
                         (Inl _, w1) \<Rightarrow> (api_msg 404 ''organisation not found'', w1)
                       | (Inr members, w1) \<Rightarrow>
                           (if \<not> is_member userID members then (api_msg 403 ''not a member of this organisation'', w1)
                            else (case generateRegToken w1 of
                                    (token, w2) \<Rightarrow>
                                      (case on_agents (sql_agent_Create (w_now w2) (fst (read_random 8 w2))
                                              \<lparr>ar_ID = [], ar_OrgID = rg_OrgID req, ar_Hostname = rg_Hostname req,
                                               ar_MySQLVersion = rg_MySQLVersion req, ar_Status = ''offline'',
                                               ar_LastSeen = zero_time, ar_CreatedAt = zero_time, ar_CertSerial = [],
                                               ar_RegistrationToken = token, ar_Approved = False\<rparr>) w2 of
                                         (Inl e, w3) \<Rightarrow> (api_error 500 e, w3)
                                       | (Inr agent, w3) \<Rightarrow> (api_ok 201 (ABRegistered agent token), w3))))))))"

definition AgentList :: "string \<Rightarrow> string \<Rightarrow> pworld \<Rightarrow> agent_body api_resp \<times> pworld" where
  "AgentList userID orgID w =
     (if userID = [] then (api_msg 401 ''not authenticated'', w)
      else if orgID = [] then (api_msg 400 ''orgId query parameter is required'', w)
      else (case on_orgs (sql_ListMembers orgID) w of
              (Inl _, w1) \<Rightarrow> (api_msg 404 ''organisation not found'', w1)
            | (Inr members, w1) \<Rightarrow>
                (if \<not> is_member userID members then (api_msg 403 ''not a member of this organisation'', w1)
                 else (case on_agents (sql_agent_ListByOrg orgID) w1 of
                         (Inl e, w2) \<Rightarrow> (api_error 500 e, w2)
                       | (Inr agents, w2) \<Rightarrow> (api_ok 200 (ABAgents agents), w2)))))"

definition approve :: "string \<Rightarrow> AgentRecord \<Rightarrow> AgentRecord" where
  "approve serial a =
     (let a1 = a\<lparr>ar_Approved := True, ar_CertSerial := serial\<rparr> in
      if ar_Status a1 = ''rejected'' then a1\<lparr>ar_Status := ''offline''\<rparr> else a1)"

definition AgentApprove :: "string \<Rightarrow> string \<Rightarrow> pworld \<Rightarrow> agent_body api_resp \<times> pworld" where
  "AgentApprove userID agentID =
     agent_gate userID agentID (is_admin userID) ''only organisation admins can approve agents'' (\<lambda>agent w.
       case generateCertSerial w of
         (serial, w1) \<Rightarrow>
           (let agent1 = approve serial agent in
            case on_agents (sql_agent_Update agent1) w1 of
              (Inl e, w2) \<Rightarrow> (api_error 500 e, w2)
            | (Inr _, w2) \<Rightarrow> (api_ok 200 (ABApproved agent1), w2)))"

definition AgentReject :: "string \<Rightarrow> string \<Rightarrow> pworld \<Rightarrow> agent_body api_resp \<times> pworld" where
  "AgentReject userID agentID =
     agent_gate userID agentID (is_admin userID) ''only organisation admins can reject agents'' (\<lambda>_ w.
       case on_agents (sql_agent_Delete agentID) w of
         (Inl e, w1) \<Rightarrow> (api_error 500 e, w1)
       | (Inr _, w1) \<Rightarrow> (api_ok 200 ABSuccess, w1))"

definition not_agent_member :: string where
  "not_agent_member = ''not a member of the agent'' @ [CHR 0x27] @ ''s organisation''"

definition AgentGet :: "string \<Rightarrow> string \<Rightarrow> pworld \<Rightarrow> agent_body api_resp \<times> pworld" where
  "AgentGet userID agentID =
     agent_gate userID agentID (is_member userID) not_agent_member (\<lambda>agent w. (api_ok 200 (ABAgent agent), w))"

text \<open>
  \<open>decodeResult\<close> into a \<open>collector.State\<close>: fields are looked up by their JSON names, absent ones are zero; the result
  of an agent carries the time as an instant.
\<close>

definition field_text :: "string \<Rightarrow> (string \<times> wire_data) list \<Rightarrow> string option" where
  "field_text k fs = (case map_of fs k of None \<Rightarrow> Some [] | Some DNull \<Rightarrow> Some [] | Some (DText s) \<Rightarrow> Some s | _ \<Rightarrow> None)"

definition field_int :: "int \<Rightarrow> string \<Rightarrow> (string \<times> wire_data) list \<Rightarrow> int option" where
  "field_int z k fs = (case map_of fs k of None \<Rightarrow> Some z | Some DNull \<Rightarrow> Some z | Some (DInt n) \<Rightarrow> Some n | _ \<Rightarrow> None)"

definition decode_fields :: "(string \<times> wire_data) list \<Rightarrow> ArchiveState option" where
  "decode_fields fs =
     (case (field_text ''last_file'' fs, field_int 0 ''last_pos'' fs, field_text ''last_gtid'' fs, field_int zero_time ''updated_at'' fs) of
        (Some f, Some p, Some g, Some t) \<Rightarrow>
          (if 0 \<le> p \<and> p < 2 ^ 32
           then Some \<lparr>as_LastFile = f, as_LastPos = nat p, as_LastGTID = g, as_UpdatedAt = t\<rparr> else None)
      | _ \<Rightarrow> None)"

fun decodeResult :: "wire_data \<Rightarrow> ArchiveState option" where
  "decodeResult (DFields fs) = decode_fields fs"
| "decodeResult DNull = Some zero_state"
| "decodeResult _ = None"

definition archive_command :: "string \<Rightarrow> Command" where
  "archive_command agentID = \<lparr>cm_Cmd = agentID, cm_Type = CmdArchiveStatus, cm_Params = PNone\<rparr>"

text \<open>
  What becomes of the result of \<open>SendToAgent\<close>. A nil response without an error would be dereferenced; the panic is
  caught by the router's \<open>Recoverer\<close>, which answers 500.
\<close>

definition archive_answer :: "pitr_env \<Rightarrow> err + Response option \<Rightarrow> agent_body api_resp" where
  "archive_answer E res =
     (case res of
        Inl e \<Rightarrow> api_error 502 (Wrap ''send archive status: %v'' [] e)
      | Inr None \<Rightarrow> api_msg 500 []
      | Inr (Some resp) \<Rightarrow>
          (if rs_Status resp = StatusError then api_error 502 (Err ''agent rejected archive status: %s'' [rs_Error resp])
           else (case decodeResult (rs_Result resp) of
                   None \<Rightarrow> api_error 500 (Err ''parse archive state: %v'' [])
                 | Some st \<Rightarrow>
                     (if as_LastFile st = [] \<and> time_is_zero (as_UpdatedAt st) then api_ok 204 ABNoContent
                      else api_ok 200 (ABArchive st)))))"

definition AgentArchiveStatus :: "pitr_env \<Rightarrow> string \<Rightarrow> string \<Rightarrow> pworld \<Rightarrow> agent_body api_resp \<times> pworld" where
  "AgentArchiveStatus E userID agentID =
     agent_gate userID agentID (is_member userID) not_agent_member (\<lambda>_ w.
       case pe_commander E of
         None \<Rightarrow> (api_msg 503 ''agent is offline'', w)
       | Some send \<Rightarrow>
           (if \<not> w_connected w agentID then (api_msg 503 ''agent is offline'', w)
            else (case send agentID (archive_command agentID) w of (res, w1) \<Rightarrow> (archive_answer E res, w1))))"

subsection \<open>Routes\<close>

text \<open>The routes under \<open>/api/agents\<close> of \<open>router.go\<close>.\<close>

datatype agent_request =
    RqRegister "register_request option" | RqAgents string | RqApprove string | RqReject string | RqAgent string | RqArchive string

fun agents_do :: "pitr_env \<Rightarrow> string \<Rightarrow> agent_request \<Rightarrow> pworld \<Rightarrow> agent_body api_resp \<times> pworld" where
  "agents_do E u (RqRegister b) = AgentRegister u b"
| "agents_do E u (RqAgents i) = AgentList u i"
| "agents_do E u (RqApprove i) = AgentApprove u i"
| "agents_do E u (RqReject i) = AgentReject u i"
| "agents_do E u (RqAgent i) = AgentGet u i"
| "agents_do E u (RqArchive i) = AgentArchiveStatus E u i"

subsection \<open>The lifecycle hooks of the hub\<close>

text \<open>
  \<open>OnConnect\<close> reads the record and writes it back (\<open>connect_read\<close>, \<open>connect_write\<close>: other handlers may run in between),
  or registers an unknown agent under the first organisation.
\<close>

definition connect_read :: "string \<Rightarrow> pworld \<Rightarrow> (err + AgentRecord) \<times> pworld" where
  "connect_read agentID w = on_agents (sql_agent_Get agentID) w"

definition connect_write :: "AgentRecord \<Rightarrow> pworld \<Rightarrow> pworld" where
  "connect_write r w = snd (on_agents (sql_agent_Update (r\<lparr>ar_Status := ''online'', ar_LastSeen := w_now w\<rparr>)) w)"

definition auto_register :: "string \<Rightarrow> pworld \<Rightarrow> pworld" where
  "auto_register agentID w =
     (case on_orgs sql_org_ListAll w of
        (orgs, w1) \<Rightarrow>
          (let orgID = (case orgs of Inr (g # _) \<Rightarrow> og_ID g | _ \<Rightarrow> []) in
           snd (on_agents (sql_agent_Create (w_now w1) (w_rnd w1)
             \<lparr>ar_ID = agentID, ar_OrgID = orgID, ar_Hostname = agentID, ar_MySQLVersion = [], ar_Status = ''online'',
              ar_LastSeen = w_now w1, ar_CreatedAt = w_now w1, ar_CertSerial = [], ar_RegistrationToken = [],
              ar_Approved = True\<rparr>) w1)))"

definition OnConnect_hook :: "string \<Rightarrow> pworld \<Rightarrow> pworld" where
  "OnConnect_hook agentID w =
     (case connect_read agentID w of
        (Inr r, w1) \<Rightarrow> connect_write r w1
      | (Inl _, w1) \<Rightarrow> auto_register agentID w1)"

text \<open>The goroutine that \<open>OnConnect\<close> starts: the answer to a preflight brings the version of the server.\<close>

fun preflight_version :: "wire_data \<Rightarrow> string option" where
  "preflight_version (DFields fs) =
     (case map_of fs ''preflight'' of
        Some (DFields pf) \<Rightarrow> (case map_of pf ''version'' of Some (DText v) \<Rightarrow> if v = [] then None else Some v | _ \<Rightarrow> None)
      | _ \<Rightarrow> None)"
| "preflight_version _ = None"

definition version_answer :: "string \<Rightarrow> err + Response option \<Rightarrow> pworld \<Rightarrow> pworld" where
  "version_answer agentID res w =
     (case res of
        Inr (Some resp) \<Rightarrow>
          (if rs_Status resp = StatusError then w
           else (case preflight_version (rs_Result resp) of
                   None \<Rightarrow> w
                 | Some v \<Rightarrow>
                     (case on_agents (sql_agent_Get agentID) w of
                        (Inl _, w1) \<Rightarrow> w1
                      | (Inr r, w1) \<Rightarrow> snd (on_agents (sql_agent_Update (r\<lparr>ar_MySQLVersion := v\<rparr>)) w1))))
      | _ \<Rightarrow> w)"

definition OnDisconnect_hook :: "gtid_lib \<Rightarrow> string \<Rightarrow> pworld \<Rightarrow> pworld" where
  "OnDisconnect_hook G agentID w =
     (let w2 = (case on_agents (sql_agent_Get agentID) w of
                  (Inl _, w1) \<Rightarrow> w1
                | (Inr r, w1) \<Rightarrow> snd (on_agents (sql_agent_Update (r\<lparr>ar_Status := ''offline'', ar_LastSeen := w_now w1\<rparr>)) w1))
      in HandleAgentDisconnect G agentID w2)"

text \<open>The end of \<open>newServer\<close>.\<close>

definition server_start :: "gtid_lib \<Rightarrow> pworld \<Rightarrow> pworld" where
  "server_start G w = snd (on_agents sql_agent_MarkAllOffline (snd (ReconcileOnStartup G w)))"

end
