(* ===== verification/Agent_Access.thy ===== *)
theory Agent_Access
  imports Org_Access Agent_Handler
begin

text \<open>
  Who changes and who sees agent records, how an agent becomes approved, and what a late write of the connection hook
  undoes.
\<close>

subsection \<open>Calls of the agent store\<close>

lemma call_get_agent:
  assumes "on_agents (sql_agent_Get i) w = (r, w')"
  shows "org_tabs w' = org_tabs w" "agent_rows w' = agent_rows w" "w_db w' = w_db w" "w_now w' = w_now w"
    "r = Inr a \<Longrightarrow> find_key ar_ID i (agent_rows w) = Some a"
    "\<not> q_fault (w_agents w) (q_clock (w_agents w)) \<Longrightarrow> r = Inl e \<Longrightarrow> find_key ar_ID i (agent_rows w) = None"
proof -
  obtain db where f: "sql_agent_Get i (w_agents w) = (r, db)" "w' = w\<lparr>w_agents := db\<rparr>" using assms by (rule on_agents_cases)
  show "org_tabs w' = org_tabs w" "w_db w' = w_db w" "w_now w' = w_now w" by (simp_all add: f(2))
  show "agent_rows w' = agent_rows w" "r = Inr a \<Longrightarrow> find_key ar_ID i (agent_rows w) = Some a"
    "\<not> q_fault (w_agents w) (q_clock (w_agents w)) \<Longrightarrow> r = Inl e \<Longrightarrow> find_key ar_ID i (agent_rows w) = None"
    using f by (auto simp: sql_agent_Get_def sql_run_def split: option.splits if_splits)
qed

lemma call_list_agents:
  assumes "on_agents (sql_agent_ListByOrg i) w = (r, w')"
  shows "org_tabs w' = org_tabs w" "agent_rows w' = agent_rows w" "w_db w' = w_db w"
    "r = Inr as \<Longrightarrow> as = filter (\<lambda>a. ar_OrgID a = i) (agent_rows w)"
  using assms by (auto simp: sql_agent_ListByOrg_def elim!: on_agents_cases sql_run_cases)

lemma call_create_agent:
  assumes "on_agents (sql_agent_Create now rnd a0) w = (r, w')"
  shows "agent_rows w' = agent_rows w \<or>
    (r = Inr (complete_agent now rnd a0) \<and> ar_ID (complete_agent now rnd a0) \<notin> ar_ID ` set (agent_rows w) \<and>
      agent_rows w' = agent_rows w @ [complete_agent now rnd a0])"
    "org_tabs w' = org_tabs w" "w_db w' = w_db w"
proof -
  obtain db where f: "sql_agent_Create now rnd a0 (w_agents w) = (r, db)" "w' = w\<lparr>w_agents := db\<rparr>" using assms by (rule on_agents_cases)
  show "org_tabs w' = org_tabs w" "w_db w' = w_db w" by (simp_all add: f(2))
  show "agent_rows w' = agent_rows w \<or>
    (r = Inr (complete_agent now rnd a0) \<and> ar_ID (complete_agent now rnd a0) \<notin> ar_ID ` set (agent_rows w) \<and>
      agent_rows w' = agent_rows w @ [complete_agent now rnd a0])"
    using f by (auto simp: sql_agent_Create_def Let_def sql_insert_def elim!: sql_run_cases split: if_splits)
qed

lemma created_agent: "on_agents (sql_agent_Create now rnd a0) w = (Inr a, w') \<Longrightarrow> a = complete_agent now rnd a0"
  by (auto simp: sql_agent_Create_def Let_def elim!: on_agents_cases sql_run_cases split: prod.splits sum.splits)

definition reject :: "AgentRecord \<Rightarrow> AgentRecord" where
  "reject r = r\<lparr>ar_Approved := False, ar_Status := ''rejected''\<rparr>"

lemma call_delete_agent:
  assumes "on_agents (sql_agent_Delete i) w = (r, w')"
  shows "agent_rows w' = agent_rows w \<or> agent_rows w' = map (\<lambda>b. if ar_ID b = i then reject b else b) (agent_rows w)"
    "org_tabs w' = org_tabs w" "w_db w' = w_db w"
proof -
  obtain db where f: "sql_agent_Delete i (w_agents w) = (r, db)" "w' = w\<lparr>w_agents := db\<rparr>" using assms by (rule on_agents_cases)
  show "org_tabs w' = org_tabs w" "w_db w' = w_db w" by (simp_all add: f(2))
  show "agent_rows w' = agent_rows w \<or> agent_rows w' = map (\<lambda>b. if ar_ID b = i then reject b else b) (agent_rows w)"
    using f unfolding reject_def by (auto simp: sql_agent_Delete_def sql_update_def elim!: sql_run_cases)
qed

lemma update_found:
  assumes "find_key ar_ID i rows = Some a" and "distinct (map ar_ID rows)" and "ar_ID (f a) = i"
  shows "map (\<lambda>b. if ar_ID b = ar_ID (f a) then f a else b) rows = map (\<lambda>b. if ar_ID b = i then f b else b) rows"
proof -
  have "ar_ID a = i" "a \<in> set rows" using find_key_Some[OF assms(1)] by simp_all
  then show ?thesis using assms(2,3) same_id[OF assms(2)] by (intro map_cong refl) (auto; metis)
qed

lemma agent_gate_cases:
  assumes "agent_gate u i allowed msg k w = (r, w')"
  obtains (refused) e where "ap_Body r = Inl e" "ap_Status r \<in> {400, 401, 403, 404}" "org_tabs w' = org_tabs w"
      "agent_rows w' = agent_rows w" "w_db w' = w_db w"
  | (passed) a w1 where "find_key ar_ID i (agent_rows w) = Some a" "allowed (members_of (ar_OrgID a) (org_tabs w))"
      "org_tabs w1 = org_tabs w" "agent_rows w1 = agent_rows w" "w_db w1 = w_db w" "k a w1 = (r, w')"
proof (cases "u = [] \<or> i = []")
  case True
  then show thesis using assms refused by (auto simp: agent_gate_def api_defs split: if_splits)
next
  case False
  obtain ra w1 where g: "on_agents (sql_agent_Get i) w = (ra, w1)" by fastforce
  show thesis
  proof (cases ra)
    case (Inl e)
    then show thesis using assms False g refused call_get_agent(1-3)[OF g] by (auto simp: agent_gate_def api_defs)
  next
    case (Inr a)
    obtain rm w2 where l: "on_orgs (sql_ListMembers (ar_OrgID a)) w1 = (rm, w2)" by fastforce
    note G = call_get_agent(1-3)[OF g] call_get_agent(5)[OF g Inr] call_list_members(1-3)[OF l]
    show thesis
    proof (cases rm)
      case (Inl e)
      then show thesis using assms False g Inr l refused G by (auto simp: agent_gate_def api_defs)
    next
      case ms: (Inr ms)
      then show thesis using assms False g Inr l refused passed[of a w2] G call_list_members(4)[OF l ms]
        by (auto simp: agent_gate_def api_defs split: if_splits)
    qed
  qed
qed

subsection \<open>Visible records\<close>

fun shown_agents :: "agent_body \<Rightarrow> AgentRecord list" where
  "shown_agents (ABRegistered a token) = [a]"
| "shown_agents (ABAgents as) = as"
| "shown_agents (ABApproved a) = [a]"
| "shown_agents (ABAgent a) = [a]"
| "shown_agents _ = []"

definition visible_to :: "string \<Rightarrow> org_tables \<Rightarrow> agent_body api_resp \<Rightarrow> bool" where
  "visible_to u d resp \<longleftrightarrow> (\<forall>b a. ap_Body resp = Inr b \<longrightarrow> a \<in> set (shown_agents b) \<longrightarrow> has_user u (members_of (ar_OrgID a) d))"

lemma is_admin_member: "is_admin u ms \<Longrightarrow> has_user u ms"
  by (auto simp: is_admin_def has_user_iff list_ex_iff)

lemma visible_error [simp]: "visible_to u d (api_error st e)" "visible_to u d (api_msg st m)"
  by (simp_all add: visible_to_def api_defs)

lemma visible_ok [simp]:
  "visible_to u d (api_ok st b) = (\<forall>a\<in>set (shown_agents b). has_user u (members_of (ar_OrgID a) d))"
  by (auto simp: visible_to_def api_defs)

lemma visible_refused: "ap_Body r = Inl e \<Longrightarrow> visible_to u d r"
  by (simp add: visible_to_def)

subsection \<open>Changing agent records\<close>

text \<open>
  What the request \<open>rq\<close> of user \<open>u\<close> may change in the agent records: a member of an organisation adds an agent to it,
  which is not approved; an admin of the agent's organisation approves or rejects it.
\<close>

definition authorised_agent_change :: "string \<Rightarrow> agent_request \<Rightarrow> org_tables \<Rightarrow> AgentRecord list \<Rightarrow> AgentRecord list \<Rightarrow> bool" where
  "authorised_agent_change u rq d rows rows' \<longleftrightarrow>
     rows' = rows \<or>
     (\<exists>q a. rq = RqRegister (Some q) \<and> is_member u (members_of (rg_OrgID q) d) \<and> ar_OrgID a = rg_OrgID q \<and>
        \<not> ar_Approved a \<and> ar_ID a \<notin> ar_ID ` set rows \<and> rows' = rows @ [a]) \<or>
     (\<exists>a serial. a \<in> set rows \<and> rq = RqApprove (ar_ID a) \<and> is_admin u (members_of (ar_OrgID a) d) \<and>
        rows' = map (\<lambda>b. if ar_ID b = ar_ID a then approve serial b else b) rows) \<or>
     (\<exists>a. a \<in> set rows \<and> rq = RqReject (ar_ID a) \<and> is_admin u (members_of (ar_OrgID a) d) \<and>
        rows' = map (\<lambda>b. if ar_ID b = ar_ID a then reject b else b) rows)"

lemma authorised_agent_same [simp]: "authorised_agent_change u rq d rows rows"
  by (simp add: authorised_agent_change_def)

lemma authorised_reject:
  assumes "find_key ar_ID i rows = Some a" and "is_admin u (members_of (ar_OrgID a) d)"
  shows "authorised_agent_change u (RqReject i) d rows (map (\<lambda>b. if ar_ID b = i then reject b else b) rows)"
  using find_key_Some[OF assms(1)] assms(2) unfolding authorised_agent_change_def by (intro disjI2 exI[of _ a]) simp

lemma authorised_approve:
  assumes "find_key ar_ID i rows = Some a" and "is_admin u (members_of (ar_OrgID a) d)"
  shows "authorised_agent_change u (RqApprove i) d rows (map (\<lambda>b. if ar_ID b = i then approve s b else b) rows)"
  using find_key_Some[OF assms(1)] assms(2) unfolding authorised_agent_change_def
  by (intro disjI2 disjI1 exI[of _ a] exI[of _ s]) simp

lemma approve_frame [simp]: "ar_ID (approve s a) = ar_ID a" "ar_OrgID (approve s a) = ar_OrgID a" "ar_Approved (approve s a)"
  by (simp_all add: approve_def Let_def)

lemma reject_frame [simp]: "ar_ID (reject a) = ar_ID a" "ar_OrgID (reject a) = ar_OrgID a" "\<not> ar_Approved (reject a)"
  by (simp_all add: reject_def)

lemma complete_agent_frame [simp]:
  "ar_OrgID (complete_agent now rnd a) = ar_OrgID a" "ar_Approved (complete_agent now rnd a) = ar_Approved a"
  by (simp_all add: complete_agent_def Let_def)

lemma complete_agent_ID: "ar_ID a \<noteq> [] \<Longrightarrow> ar_ID (complete_agent now rnd a) = ar_ID a"
  by (simp add: complete_agent_def Let_def)

lemma AgentApprove_authorised:
  assumes "AgentApprove u i w = (r, w')" and "distinct (map ar_ID (agent_rows w))"
  shows "authorised_agent_change u (RqApprove i) (org_tabs w) (agent_rows w) (agent_rows w') \<and> org_tabs w' = org_tabs w"
  using assms(1) unfolding AgentApprove_def
proof (cases rule: agent_gate_cases)
  case (passed a w1)
  obtain s w2 where g: "generateCertSerial w1 = (s, w2)" by fastforce
  have w2: "org_tabs w2 = org_tabs w" "agent_rows w2 = agent_rows w"
    using g passed by (auto simp: generateCertSerial_def read_random_def)
  obtain ru w3 where u: "on_agents (sql_agent_Update (approve s a)) w2 = (ru, w3)" by fastforce
  have w': "w' = w3" using passed(6) g u by (auto simp: Let_def split: sum.splits)
  have "ar_ID (approve s a) = i" using find_key_Some[OF passed(1)] by simp
  note up = update_found[of i "agent_rows w" a "approve s", OF passed(1) assms(2) this]
  from call_update_agent(1)[OF u]
  have "agent_rows w' = agent_rows w \<or> agent_rows w' = map (\<lambda>b. if ar_ID b = i then approve s b else b) (agent_rows w)"
    unfolding w' w2 up by blast
  moreover have "org_tabs w' = org_tabs w" using call_update_agent(2)[OF u] w2 w' by simp
  ultimately show ?thesis using authorised_approve[OF passed(1,2)] by auto
qed simp

lemma AgentReject_authorised:
  assumes "AgentReject u i w = (r, w')"
  shows "authorised_agent_change u (RqReject i) (org_tabs w) (agent_rows w) (agent_rows w') \<and> org_tabs w' = org_tabs w"
  using assms unfolding AgentReject_def
proof (cases rule: agent_gate_cases)
  case (passed a w1)
  obtain rd w2 where d: "on_agents (sql_agent_Delete i) w1 = (rd, w2)" by fastforce
  have w': "w' = w2" using passed(6) d by (auto split: sum.splits)
  show ?thesis using call_delete_agent(1,2)[OF d] passed w' authorised_reject[OF passed(1,2)] by auto
qed simp

lemma AgentRegister_authorised:
  assumes "AgentRegister u b w = (r, w')"
  shows "authorised_agent_change u (RqRegister b) (org_tabs w) (agent_rows w) (agent_rows w') \<and> org_tabs w' = org_tabs w \<and>
    visible_to u (org_tabs w) r"
proof (cases "u = [] \<or> b = None \<or> rg_Hostname (the b) = [] \<or> rg_OrgID (the b) = []")
  case True
  then show ?thesis using assms by (auto simp: AgentRegister_def split: option.splits if_splits)
next
  case False
  then obtain q where q: "b = Some q" by auto
  obtain rm w1 where l: "on_orgs (sql_ListMembers (rg_OrgID q)) w = (rm, w1)" by fastforce
  note L = call_list_members(1-3)[OF l]
  show ?thesis
  proof (cases "\<exists>ms. rm = Inr ms \<and> is_member u ms")
    case True
    then obtain ms where ms: "rm = Inr ms" "is_member u ms" by blast
    obtain token w2 where t: "generateRegToken w1 = (token, w2)" by fastforce
    have w2: "org_tabs w2 = org_tabs w" "agent_rows w2 = agent_rows w"
      using t L by (auto simp: generateRegToken_def read_random_def)
    let ?raw = "\<lparr>ar_ID = [], ar_OrgID = rg_OrgID q, ar_Hostname = rg_Hostname q,
       ar_MySQLVersion = rg_MySQLVersion q, ar_Status = ''offline'', ar_LastSeen = zero_time, ar_CreatedAt = zero_time,
       ar_CertSerial = [], ar_RegistrationToken = token, ar_Approved = False\<rparr>"
    let ?full = "complete_agent (w_now w2) (fst (read_random 8 w2)) ?raw"
    obtain rc w3 where c: "on_agents (sql_agent_Create (w_now w2) (fst (read_random 8 w2)) ?raw) w2 = (rc, w3)" by fastforce
    have w': "w' = w3" "r = (case rc of Inl e \<Rightarrow> api_error 500 e | Inr agent \<Rightarrow> api_ok 201 (ABRegistered agent token))"
      using assms False q l ms t c by (auto simp: AgentRegister_def split: sum.splits)
    have m: "is_member u (members_of (rg_OrgID q) (org_tabs w))" using call_list_members(4)[OF l ms(1)] ms(2) by simp
    then have "authorised_agent_change u (RqRegister b) (org_tabs w) (agent_rows w) (agent_rows w @ [?full])"
      if "ar_ID ?full \<notin> ar_ID ` set (agent_rows w)"
      using that q unfolding authorised_agent_change_def by (intro disjI2 disjI1 exI[of _ q] exI[of _ ?full]) simp
    moreover have "rc = Inr x \<Longrightarrow> ar_OrgID x = rg_OrgID q" for x
      using c created_agent[of "w_now w2" "fst (read_random 8 w2)" ?raw w2 x w3] by simp
    ultimately show ?thesis using call_create_agent(1,2)[OF c] w2 w' m by (cases rc) auto
  next
    case None: False
    then have "w' = w1" "visible_to u (org_tabs w) r"
      using assms False q l by (auto simp: AgentRegister_def split: sum.splits if_splits)
    then show ?thesis using L by simp
  qed
qed

lemma agent_reads_keep:
  "AgentList u i w = (r, w') \<Longrightarrow> org_tabs w' = org_tabs w \<and> agent_rows w' = agent_rows w"
  "AgentGet u i w = (r, w') \<Longrightarrow> org_tabs w' = org_tabs w \<and> agent_rows w' = agent_rows w"
proof -
  show "AgentList u i w = (r, w') \<Longrightarrow> org_tabs w' = org_tabs w \<and> agent_rows w' = agent_rows w"
    by (auto simp: AgentList_def call_list_members call_list_agents split: if_splits prod.splits sum.splits)
  show "AgentGet u i w = (r, w') \<Longrightarrow> org_tabs w' = org_tabs w \<and> agent_rows w' = agent_rows w"
    unfolding AgentGet_def by (erule agent_gate_cases) auto
qed

subsection \<open>Seeing agent records\<close>

lemma AgentList_visible: "AgentList u i w = (r, w') \<Longrightarrow> visible_to u (org_tabs w) r"
  unfolding AgentList_def
  by (auto dest!: call_list_members(4) call_list_agents(4) split: if_splits prod.splits sum.splits)

lemma AgentApprove_visible: "AgentApprove u i w = (r, w') \<Longrightarrow> visible_to u (org_tabs w) r"
  unfolding AgentApprove_def
  by (erule agent_gate_cases) (auto simp: Let_def is_admin_member visible_refused split: prod.splits sum.splits)

lemma AgentReject_visible: "AgentReject u i w = (r, w') \<Longrightarrow> visible_to u (org_tabs w) r"
  unfolding AgentReject_def by (erule agent_gate_cases) (auto simp: visible_refused split: prod.splits sum.splits)

lemma AgentGet_visible: "AgentGet u i w = (r, w') \<Longrightarrow> visible_to u (org_tabs w) r"
  unfolding AgentGet_def by (erule agent_gate_cases) (auto simp: visible_refused)

lemma agent_do_by_right:
  assumes "agents_do E u rq w = (resp, w')" and "\<forall>i. rq \<noteq> RqArchive i" and "distinct (map ar_ID (agent_rows w))"
  shows "authorised_agent_change u rq (org_tabs w) (agent_rows w) (agent_rows w') \<and> org_tabs w' = org_tabs w \<and>
    visible_to u (org_tabs w) resp"
  using assms agent_reads_keep[of u _ w resp w'] AgentApprove_authorised[of u _ w resp w'] AgentReject_authorised[of u _ w resp w']
    AgentRegister_authorised[of u _ w resp w'] AgentList_visible[of u _ w resp w']
    AgentApprove_visible[of u _ w resp w'] AgentReject_visible[of u _ w resp w'] AgentGet_visible[of u _ w resp w']
  by (cases rq) auto

text \<open>
  C6. Agents stay within their organisation: a request about agents (other than for the archive state) changes and shows only
  records of organisations that the user is a member of; it adds none that is approved, and approves or rejects one only
  for an admin. Organisations are left alone.
\<close>

theorem agents_change_and_show_by_right:
  assumes "agents_do E u rq w = (resp, w')" and "\<forall>i. rq \<noteq> RqArchive i" and "distinct (map ar_ID (agent_rows w))"
  shows "authorised_agent_change u rq (org_tabs w) (agent_rows w) (agent_rows w') \<and> org_tabs w' = org_tabs w \<and>
    visible_to u (org_tabs w) resp"
  using assms by (rule agent_do_by_right)

lemma agents_change_and_show_by_right_witness:
  "\<forall>E. map ar_Approved (agent_rows (snd (agents_do E ''u1'' (RqApprove ''ag1'') ex_org_world))) = [True] \<and>
   authorised_agent_change ''u1'' (RqApprove ''ag1'') (org_tabs ex_org_world) (agent_rows ex_org_world)
     (agent_rows (snd (agents_do E ''u1'' (RqApprove ''ag1'') ex_org_world)))"
proof (intro allI conjI)
  fix E
  show "map ar_Approved (agent_rows (snd (agents_do E ''u1'' (RqApprove ''ag1'') ex_org_world))) = [True]"
    unfolding agents_do.simps by code_simp
  have "distinct (map ar_ID (agent_rows ex_org_world))" by (simp add: ex_org_world_def)
  from agents_change_and_show_by_right[OF prod.collapse[symmetric] _ this]
  show "authorised_agent_change ''u1'' (RqApprove ''ag1'') (org_tabs ex_org_world) (agent_rows ex_org_world)
     (agent_rows (snd (agents_do E ''u1'' (RqApprove ''ag1'') ex_org_world)))" by blast
qed

text \<open>The archive state is asked of the agent only for a member.\<close>

lemma archive_state_for_members_only:
  assumes "\<And>a. find_key ar_ID i (agent_rows w) = Some a \<Longrightarrow> \<not> has_user u (members_of (ar_OrgID a) (org_tabs w))"
    and "agents_do E u (RqArchive i) w = (resp, w')"
  shows "\<exists>e. ap_Body resp = Inl e" "agent_rows w' = agent_rows w" "org_tabs w' = org_tabs w" "w_db w' = w_db w"
proof -
  have "AgentArchiveStatus E u i w = (resp, w')" using assms(2) by simp
  then have "(\<exists>e. ap_Body resp = Inl e) \<and> agent_rows w' = agent_rows w \<and> org_tabs w' = org_tabs w \<and> w_db w' = w_db w"
    unfolding AgentArchiveStatus_def by (cases rule: agent_gate_cases) (auto dest: assms(1))
  then show "\<exists>e. ap_Body resp = Inl e" "agent_rows w' = agent_rows w" "org_tabs w' = org_tabs w" "w_db w' = w_db w" by auto
qed

end
