(* ===== verification/Server.thy ===== *)
theory Server
  imports Pitr_Access Agent_Access
begin

text \<open>
  The assembled server (\<open>server/server.go\<close>, \<open>router.go\<close>): requests of all three groups of routes, stream events, and the
  hooks of the hub, on one world. The properties say what these calls together can do to operations and agents, and two
  places where they work against each other.
\<close>

subsection \<open>Every call\<close>

text \<open>The calls that concern the registry of organisations and agents, and all calls.\<close>

datatype registry_call =
    GOrg string org_request
  | GAgent string agent_request
  | GConnect string
  | GVersion string "err + Response option"
  | GDisconnect string
  | GStart

fun registry_do :: "pitr_env \<Rightarrow> registry_call \<Rightarrow> pworld \<Rightarrow> pworld" where
  "registry_do E (GOrg u rq) w = snd (org_do u rq w)"
| "registry_do E (GAgent u rq) w = snd (agents_do E u rq w)"
| "registry_do E (GConnect i) w = OnConnect_hook i w"
| "registry_do E (GVersion i res) w = version_answer i res w"
| "registry_do E (GDisconnect i) w = OnDisconnect_hook (pe_gtid E) i w"
| "registry_do E GStart w = server_start (pe_gtid E) w"

datatype server_call = SPitr pitr_call | SRegistry registry_call

fun server_do :: "pitr_env \<Rightarrow> server_call \<Rightarrow> pworld \<Rightarrow> pworld" where
  "server_do E (SPitr c) w = pitr_do E c w"
| "server_do E (SRegistry c) w = registry_do E c w"

subsection \<open>Operations\<close>

lemma legal_rows: "w_db w' = w_db w \<Longrightarrow> legal w w'"
  by (rule legal_data) simp

lemma org_do_db: "w_db (snd (org_do u rq w)) = w_db w"
proof -
  obtain r w' where o: "org_do u rq w = (r, w')" by fastforce
  have "w_db w' = w_db w"
  proof (cases rq)
    case (RqCreate req)
    then show ?thesis using o OrgCreate_adds[of u req w r w'] by simp
  next
    case RqList
    then show ?thesis using o by (auto simp: OrgList_def call_list_orgs split: if_splits prod.splits sum.splits)
  next
    case (RqDelete i)
    with o have "OrgDeleteWithAgentReassignment (Some reassignFn) u i w = (r, w')" by simp
    then show ?thesis unfolding OrgDeleteWithAgentReassignment_def
    proof (cases rule: org_gate_cases)
      case (passed w1)
      obtain rf w2 where fb: "ensureFallbackOrg u i w1 = (rf, w2)" by fastforce
      have e: "w_db w2 = w_db w" using fallback_cases(3)[OF fb] passed(7) by simp
      have fin: "finish_delete i w3 = (x, w4) \<Longrightarrow> w_db w3 = w_db w \<Longrightarrow> w_db w4 = w_db w" for x w3 w4
        using finish_delete_cases(3) by metis
      have mv: "reassignFn i j w2 = (x, w3) \<Longrightarrow> w_db w3 = w_db w" for j x w3
        using e by (auto simp: reassignFn_def on_agents_def dest: reassign_each_tabs split: prod.splits sum.splits)
      show ?thesis using passed(8) fb e fin mv by (auto split: sum.splits if_splits prod.splits option.splits)
    qed simp
  next
    case (RqInvite i)
    with o have "OrgInvite u i w = (r, w')" by simp
    then show ?thesis unfolding OrgInvite_def
      by (cases rule: org_gate_cases) (auto dest: call_create_invite(3) split: prod.splits sum.splits)
  next
    case (RqAccept i req)
    then show ?thesis using o
      by (auto simp: OrgAcceptInvite_def call_get_invite(3) call_get_org(3) call_add_member(3) call_delete_invite(3)
          split: if_splits option.splits prod.splits sum.splits)
  next
    case (RqMembers i)
    with o have "OrgListMembers u i w = (r, w')" by simp
    then show ?thesis unfolding OrgListMembers_def by (cases rule: org_gate_cases) auto
  qed
  then show ?thesis by (simp add: o)
qed

lemma on_agents_db: "on_agents f w = (r, w') \<Longrightarrow> w_db w' = w_db w"
  by (auto elim: on_agents_cases)

lemma snd_on_agents_db [simp]: "w_db (snd (on_agents f w)) = w_db w"
  by (simp add: on_agents_def split: prod.split)

lemma agent_do_legal:
  assumes "legal_commander E"
  shows "legal w (snd (agents_do E u rq w))"
proof -
  obtain r w' where o: "agents_do E u rq w = (r, w')" by fastforce
  have "legal w w'"
  proof (cases rq)
    case (RqRegister b)
    then show ?thesis using o
      by (auto simp: AgentRegister_def generateRegToken_def read_random_def legal_rows dest!: call_list_members(3) on_agents_db
          split: if_splits option.splits prod.splits sum.splits)
  next
    case (RqAgents i)
    then show ?thesis using o
      by (auto simp: AgentList_def legal_rows dest!: call_list_members(3) on_agents_db split: if_splits prod.splits sum.splits)
  next
    case (RqApprove i)
    with o have "AgentApprove u i w = (r, w')" by simp
    then show ?thesis unfolding AgentApprove_def
      by (cases rule: agent_gate_cases)
        (auto simp: generateCertSerial_def read_random_def Let_def legal_rows dest!: on_agents_db split: prod.splits sum.splits)
  next
    case (RqReject i)
    with o have "AgentReject u i w = (r, w')" by simp
    then show ?thesis unfolding AgentReject_def
      by (cases rule: agent_gate_cases) (auto simp: legal_rows dest!: on_agents_db split: prod.splits sum.splits)
  next
    case (RqAgent i)
    with o have "AgentGet u i w = (r, w')" by simp
    then show ?thesis unfolding AgentGet_def by (cases rule: agent_gate_cases) (auto simp: legal_rows)
  next
    case (RqArchive i)
    with o have "AgentArchiveStatus E u i w = (r, w')" by simp
    then show ?thesis unfolding AgentArchiveStatus_def
    proof (cases rule: agent_gate_cases)
      case (passed a w1)
      have l: "legal w w1" using passed(5) by (rule legal_rows)
      have "legal w1 (snd (send i c w1))" if "pe_commander E = Some send" for send c
        using assms that by (simp add: legal_commander_def)
      then show ?thesis using passed(6) l
        by (auto split: option.splits if_splits prod.splits intro: legal_trans) (metis legal_trans snd_conv)
    qed (simp add: legal_rows)
  qed
  then show ?thesis by (simp add: o)
qed

lemma legal_hooks:
  "legal w (OnConnect_hook i w)" "legal w (version_answer i res w)" "legal w (OnDisconnect_hook G i w)" "legal w (server_start G w)"
proof -
  show "legal w (OnConnect_hook i w)"
    by (rule legal_rows) (auto simp: OnConnect_hook_def connect_read_def connect_write_def auto_register_def on_orgs_def Let_def
        dest!: on_agents_db split: prod.splits sum.splits)
  show "legal w (version_answer i res w)"
    by (rule legal_rows) (auto simp: version_answer_def dest!: on_agents_db split: sum.splits option.splits prod.splits)
  let ?w2 = "case on_agents (sql_agent_Get i) w of (Inl _, w1) \<Rightarrow> w1
      | (Inr r, w1) \<Rightarrow> snd (on_agents (sql_agent_Update (r\<lparr>ar_Status := ''offline'', ar_LastSeen := w_now w1\<rparr>)) w1)"
  have "w_db ?w2 = w_db w" by (auto dest!: on_agents_db split: prod.splits sum.splits)
  then have "legal w ?w2" by (rule legal_rows)
  then show "legal w (OnDisconnect_hook G i w)"
    unfolding OnDisconnect_hook_def Let_def HandleAgentDisconnect_def by (rule legal_trans[OF _ legal_disconnect])
  have "legal (snd (ReconcileOnStartup G w)) (server_start G w)" unfolding server_start_def by (rule legal_rows) simp
  then show "legal w (server_start G w)"
    by (rule legal_trans[rotated]) (simp add: ReconcileOnStartup_def legal_reconcile)
qed

lemma legal_server_do: "legal_commander E \<Longrightarrow> legal w (server_do E c w)"
proof (cases c)
  case (SRegistry g)
  assume "legal_commander E"
  then show ?thesis using SRegistry by (cases g) (simp_all add: legal_rows org_do_db agent_do_legal legal_hooks)
qed (simp add: legal_pitr_do)

lemma legal_server_run: "legal_commander E \<Longrightarrow> legal w (fold (server_do E) cs w)"
  by (rule legal_fold) (rule legal_server_do)

text \<open>
  C20. Over any sequence of requests about operations, organisations and agents, agent events, connections, disconnections
  and restarts, with any store failures, and whatever legal things happen while a command is under way, the persisted
  status of an operation only moves along the state machine; a terminal status is final.
\<close>

theorem server_follows_state_machine:
  assumes "legal_commander E" and "w_ok w" and "w_status w i = Some s"
  shows "\<exists>t. w_status (fold (server_do E) calls w) i = Some t \<and> op_move\<^sup>*\<^sup>* s t \<and> (IsTerminal s \<longrightarrow> t = s)"
  using legal_server_run[OF assms(1), of w calls] assms(2,3)
  by (fastforce simp: legal_def dest: op_move_rtranclp_terminal)

lemma server_follows_state_machine_witness:
  "\<exists>t. w_status (fold (server_do (racing_env [(EvOpDone, DReport zero_done)]))
      [SRegistry (GConnect ''ag1''), SPitr (CExecute ex_rq (Some 0)), SRegistry (GOrg ''u1'' (RqDelete ''acme'')), SPitr (CCancel ex_rq)]
      (ex_world ''sql'' StateReady [mk_stmt 0 0 (ex_wire ''t1'' 0 ''A'')])) ''op1'' = Some t \<and> op_move\<^sup>*\<^sup>* StateReady t"
  using server_follows_state_machine[OF racing_env_legal, of "ex_world ''sql'' StateReady [mk_stmt 0 0 (ex_wire ''t1'' 0 ''A'')]"]
  by (metis ex_world_ok ex_world_status)

subsection \<open>Starting\<close>

lemma block_registry [simp]:
  "w_agents (blockOperation op d w) = w_agents w" "w_orgs (blockOperation op d w) = w_orgs w"
  by (simp_all add: blockOperation_def transitionTo_def on_db_def appendAudit_def forgetPreview_def Let_def
      split: option.split prod.split sum.split)

lemma on_db_registry: "on_db f w = (r, w') \<Longrightarrow> w_agents w' = w_agents w \<and> w_orgs w' = w_orgs w"
  by (auto simp: on_db_def split: prod.splits)

lemma fold_registry:
  "(\<And>x w. w_agents (f x w) = w_agents w \<and> w_orgs (f x w) = w_orgs w) \<Longrightarrow>
   w_agents (fold f xs w) = w_agents w \<and> w_orgs (fold f xs w) = w_orgs w"
  by (induction xs arbitrary: w) auto

lemma reconcile_registry: "w_agents (snd (reconcile_loop G sts w)) = w_agents w \<and> w_orgs (snd (reconcile_loop G sts w)) = w_orgs w"
proof (induction sts arbitrary: w)
  case (Cons st sts)
  then show ?case by (auto dest!: on_db_registry simp: fold_registry split: prod.split sum.split)
qed simp

lemma disconnect_registry: "w_agents (disconnect_loop G a sts w) = w_agents w \<and> w_orgs (disconnect_loop G a sts w) = w_orgs w"
proof (induction sts arbitrary: w)
  case (Cons st sts)
  then show ?case by (auto dest!: on_db_registry simp: fold_registry split: prod.split sum.split)
qed simp

text \<open>
  A restart leaves nothing in flight: once the server is assembled every operation that was scanning or executing is
  blocked, the others are as they were, and every agent is offline.
\<close>

theorem restart_leaves_nothing_in_flight:
  assumes "no_db_faults w" and "w_ok w" and "decodable G w" and "q_fault (w_agents w) = (\<lambda>_. False)"
  shows "w_status (server_start G w) i = map_option block_state (w_status w i) \<and>
    agent_rows (server_start G w) = map (\<lambda>a. a\<lparr>ar_Status := ''offline''\<rparr>) (agent_rows w)"
proof -
  have ag: "w_agents (snd (ReconcileOnStartup G w)) = w_agents w" by (simp add: ReconcileOnStartup_def reconcile_registry)
  show ?thesis using reconcile_blocks_in_flight[OF assms(1-3), of i] ag assms(4)
    by (simp add: server_start_def on_agents_def sql_agent_MarkAllOffline_def sql_run_def sql_update_def split: prod.split)
qed

lemma restart_leaves_nothing_in_flight_witness:
  "w_status (server_start ex_gtid (ex_world ''sql'' StateExecuting [])) ''op1'' = Some StateBlocked"
proof -
  have "scanOperation ex_gtid (op_row (ex_op ''sql'' StateExecuting)) = Inr (ex_op ''sql'' StateExecuting)"
    by (rule scanOperation_op_row) (simp add: gtid_storable_def ex_op_def ex_filter_def)
  then have "decodable ex_gtid (ex_world ''sql'' StateExecuting [])" by (simp add: decodable_def ex_world_def)
  moreover have "no_db_faults (ex_world ''sql'' StateExecuting [])" "q_fault (w_agents (ex_world ''sql'' StateExecuting [])) = (\<lambda>_. False)"
    by (simp_all add: no_db_faults_def ex_world_def)
  ultimately show ?thesis
    using restart_leaves_nothing_in_flight[of "ex_world ''sql'' StateExecuting []" ex_gtid "''op1''"]
    by (simp add: block_state_def in_flight_def)
qed

subsection \<open>The registry\<close>

text \<open>Agents have distinct identities and organisations are named.\<close>

definition registry_ok :: "pworld \<Rightarrow> bool" where
  "registry_ok w \<longleftrightarrow> distinct (map ar_ID (agent_rows w)) \<and> [] \<notin> og_ID ` set (ot_orgs (org_tabs w))"

text \<open>Waiting for an agent does not change the registry by itself.\<close>

definition keeps_registry :: "pitr_env \<Rightarrow> bool" where
  "keeps_registry E \<longleftrightarrow> (\<forall>send a c w. pe_commander E = Some send \<longrightarrow>
     agent_rows (snd (send a c w)) = agent_rows w \<and> org_tabs (snd (send a c w)) = org_tabs w)"

text \<open>The calls that approve agent \<open>i\<close>: a request of an admin, or the first connection with its certificate.\<close>

definition approves :: "registry_call \<Rightarrow> string \<Rightarrow> pworld \<Rightarrow> bool" where
  "approves c i w \<longleftrightarrow> (c = GConnect i \<and> i \<notin> ar_ID ` set (agent_rows w)) \<or>
     (\<exists>u a. c = GAgent u (RqApprove i) \<and> a \<in> set (agent_rows w) \<and> ar_ID a = i \<and> is_admin u (members_of (ar_OrgID a) (org_tabs w)))"

definition approved_in :: "AgentRecord list \<Rightarrow> string set" where
  "approved_in rows = ar_ID ` {a \<in> set rows. ar_Approved a}"

lemma approved_map:
  "(\<And>a. a \<in> set rows \<Longrightarrow> ar_ID (f a) = ar_ID a \<and> (ar_Approved (f a) \<longrightarrow> ar_Approved a)) \<Longrightarrow> approved_in (map f rows) \<subseteq> approved_in rows"
  unfolding approved_in_def by force

lemma ids_map: "(\<And>a. a \<in> set rows \<Longrightarrow> ar_ID (f a) = ar_ID a) \<Longrightarrow> map ar_ID (map f rows) = map ar_ID rows"
  by simp

lemma approved_move: "approved_in (move_agents j S rows) \<subseteq> approved_in rows"
  unfolding move_agents_def by (rule approved_map) simp

text \<open>Writing a changed record back: the record was read from the table and keeps identity and approval.\<close>

lemma write_back:
  assumes "on_agents (sql_agent_Update a) w = (r, w')" and "b \<in> set (agent_rows w)" and "ar_ID a = ar_ID b" and "ar_Approved a = ar_Approved b"
  shows "approved_in (agent_rows w') \<subseteq> approved_in (agent_rows w) \<and> map ar_ID (agent_rows w') = map ar_ID (agent_rows w) \<and>
    org_tabs w' = org_tabs w"
proof -
  have "approved_in (map (\<lambda>c. if ar_ID c = ar_ID a then a else c) (agent_rows w)) \<subseteq> approved_in (agent_rows w)"
    using assms(2-4) unfolding approved_in_def by (auto simp: image_iff)
  moreover have "map ar_ID (map (\<lambda>c. if ar_ID c = ar_ID a then a else c) (agent_rows w)) = map ar_ID (agent_rows w)"
    by (rule ids_map) simp
  ultimately show ?thesis using call_update_agent(1,2)[OF assms(1)] by auto
qed

lemma authorised_agent_cases:
  assumes "authorised_agent_change u rq d rows rows'"
  obtains (same) "rows' = rows" | (registered) a where "\<not> ar_Approved a" "ar_ID a \<notin> ar_ID ` set rows" "rows' = rows @ [a]"
  | (approved) a serial where "a \<in> set rows" "is_admin u (members_of (ar_OrgID a) d)" "rq = RqApprove (ar_ID a)"
      "rows' = map (\<lambda>b. if ar_ID b = ar_ID a then approve serial b else b) rows"
  | (rejected) a where "a \<in> set rows" "rows' = map (\<lambda>b. if ar_ID b = ar_ID a then reject b else b) rows"
proof -
  from assms[unfolded authorised_agent_change_def] show thesis
  proof (elim disjE)
    assume "rows' = rows"
    then show thesis by (rule same)
  next
    assume "\<exists>q a. rq = RqRegister (Some q) \<and> is_member u (members_of (rg_OrgID q) d) \<and> ar_OrgID a = rg_OrgID q \<and>
        \<not> ar_Approved a \<and> ar_ID a \<notin> ar_ID ` set rows \<and> rows' = rows @ [a]"
    then show thesis using registered by (elim exE conjE)
  next
    assume "\<exists>a serial. a \<in> set rows \<and> rq = RqApprove (ar_ID a) \<and> is_admin u (members_of (ar_OrgID a) d) \<and>
        rows' = map (\<lambda>b. if ar_ID b = ar_ID a then approve serial b else b) rows"
    then show thesis using approved by (elim exE conjE)
  next
    assume "\<exists>a. a \<in> set rows \<and> rq = RqReject (ar_ID a) \<and> is_admin u (members_of (ar_OrgID a) d) \<and>
        rows' = map (\<lambda>b. if ar_ID b = ar_ID a then reject b else b) rows"
    then show thesis using rejected by (elim exE conjE)
  qed
qed

lemma authorised_approvals:
  assumes "authorised_agent_change u rq (org_tabs w) (agent_rows w) rows'" and "i \<in> approved_in rows'"
  shows "i \<in> approved_in (agent_rows w) \<or> approves (GAgent u rq) i w"
  using assms(1)
proof (cases rule: authorised_agent_cases)
  case (rejected a)
  then have "approved_in rows' \<subseteq> approved_in (agent_rows w)" by (auto intro!: approved_map split: if_splits)
  then show ?thesis using assms(2) by blast
qed (use assms(2) in \<open>auto simp: approved_in_def approves_def\<close>)

lemma authorised_ids:
  assumes "authorised_agent_change u rq d rows rows'" and "distinct (map ar_ID rows)"
  shows "distinct (map ar_ID rows')"
  using assms(1)
proof (cases rule: authorised_agent_cases)
  case (approved a serial)
  have "map ar_ID rows' = map ar_ID rows" unfolding approved(4) by (rule ids_map) simp
  then show ?thesis using assms(2) by simp
next
  case (rejected a)
  have "map ar_ID rows' = map ar_ID rows" unfolding rejected(2) by (rule ids_map) simp
  then show ?thesis using assms(2) by simp
qed (use assms(2) in auto)

lemma org_do_rows:
  assumes "org_do u rq w = (r, w')" and "distinct (map ar_ID (agent_rows w))"
  shows "approved_in (agent_rows w') \<subseteq> approved_in (agent_rows w) \<and> map ar_ID (agent_rows w') = map ar_ID (agent_rows w)"
proof (cases "\<exists>i. rq = RqDelete i")
  case True
  then obtain i where "org_do u (RqDelete i) w = (r, w')" using assms(1) by blast
  from this assms(2) show ?thesis by (cases rule: delete_request_cases) (auto simp: subsetD[OF approved_move])
next
  case False
  have "agent_rows w' = agent_rows w"
  proof (cases rq)
    case (RqCreate req)
    then show ?thesis using assms(1) OrgCreate_adds[of u req w r w'] by simp
  next
    case RqList
    then show ?thesis using assms(1) by (auto simp: OrgList_def call_list_orgs split: if_splits prod.splits sum.splits)
  next
    case (RqInvite i)
    with assms(1) have "OrgInvite u i w = (r, w')" by simp
    then show ?thesis unfolding OrgInvite_def
      by (cases rule: org_gate_cases) (auto dest: call_create_invite(2) split: prod.splits sum.splits)
  next
    case (RqAccept i req)
    then show ?thesis using assms(1)
      by (auto simp: OrgAcceptInvite_def call_get_invite(2) call_get_org(2) call_add_member(2) call_delete_invite(2)
          split: if_splits option.splits prod.splits sum.splits)
  next
    case (RqMembers i)
    with assms(1) have "OrgListMembers u i w = (r, w')" by simp
    then show ?thesis unfolding OrgListMembers_def by (cases rule: org_gate_cases) auto
  qed (use False in auto)
  then show ?thesis by simp
qed

lemma accept_orgs: "ot_orgs (org_tabs (snd (OrgAcceptInvite u i req w))) = ot_orgs (org_tabs w)"
proof -
  have 1: "on_orgs (sql_GetInviteByCode c) w1 = (r, w2) \<Longrightarrow> ot_orgs (org_tabs w2) = ot_orgs (org_tabs w1)" for c w1 r w2
    by (simp add: call_get_invite)
  have 2: "on_orgs (sql_org_Get c) w1 = (r, w2) \<Longrightarrow> ot_orgs (org_tabs w2) = ot_orgs (org_tabs w1)" for c w1 r w2
    by (simp add: call_get_org)
  have 3: "on_orgs (sql_AddMember n c x y) w1 = (r, w2) \<Longrightarrow> ot_orgs (org_tabs w2) = ot_orgs (org_tabs w1)" for n c x y w1 r w2
    using call_add_member(1)[of n c x y w1 r w2] by auto
  have 4: "ot_orgs (org_tabs (snd (on_orgs (sql_DeleteInvite c) w1))) = ot_orgs (org_tabs w1)" for c w1
    using call_delete_invite(1)[of c w1] by auto
  show ?thesis by (auto simp: OrgAcceptInvite_def 4 dest!: 1 2 3 split: option.split prod.split sum.split)
qed

lemma org_do_named:
  assumes "org_do u rq w = (r, w')" and "[] \<notin> og_ID ` set (ot_orgs (org_tabs w))" and "distinct (map ar_ID (agent_rows w))"
  shows "[] \<notin> og_ID ` set (ot_orgs (org_tabs w'))"
proof -
  have added: "org_added u d d' \<Longrightarrow> [] \<notin> og_ID ` set (ot_orgs d) \<Longrightarrow> [] \<notin> og_ID ` set (ot_orgs d')" for d d'
    by (auto simp: org_added_def)
  show ?thesis
  proof (cases rq)
    case (RqCreate req)
    then show ?thesis using assms(1,2) OrgCreate_adds[of u req w r w'] added by auto
  next
    case RqList
    then show ?thesis using assms(1,2) by (auto simp: OrgList_def call_list_orgs split: if_splits prod.splits sum.splits)
  next
    case (RqDelete i)
    with assms(1) have "org_do u (RqDelete i) w = (r, w')" by simp
    from this assms(3) show ?thesis
    proof (cases rule: delete_request_cases)
      case (passed d j S)
      then show ?thesis using added[OF passed(3) assms(2)] by (auto simp: without_org_def)
    qed (use assms(2) in simp)
  next
    case (RqInvite i)
    with assms(1) have "OrgInvite u i w = (r, w')" by simp
    then have "ot_orgs (org_tabs w') = ot_orgs (org_tabs w)" unfolding OrgInvite_def
      by (cases rule: org_gate_cases) (auto dest: call_create_invite(1) split: prod.splits sum.splits)
    then show ?thesis using assms(2) by simp
  next
    case (RqAccept i req)
    then show ?thesis using assms(1,2) accept_orgs[of u i req w] by simp
  next
    case (RqMembers i)
    with assms(1) have "OrgListMembers u i w = (r, w')" by simp
    then have "org_tabs w' = org_tabs w" unfolding OrgListMembers_def by (cases rule: org_gate_cases) auto
    then show ?thesis using assms(2) by simp
  qed
qed

lemma agent_do_registry:
  assumes "keeps_registry E" and "agents_do E u rq w = (r, w')" and "distinct (map ar_ID (agent_rows w))"
  shows "distinct (map ar_ID (agent_rows w')) \<and> org_tabs w' = org_tabs w \<and>
    (i \<in> approved_in (agent_rows w') \<longrightarrow> i \<in> approved_in (agent_rows w) \<or> approves (GAgent u rq) i w)"
proof (cases "\<exists>i. rq = RqArchive i")
  case True
  then obtain i where "AgentArchiveStatus E u i w = (r, w')" using assms(2) by auto
  then have "agent_rows w' = agent_rows w \<and> org_tabs w' = org_tabs w" unfolding AgentArchiveStatus_def
  proof (cases rule: agent_gate_cases)
    case (passed a w1)
    have "agent_rows (snd (send i c w1)) = agent_rows w1 \<and> org_tabs (snd (send i c w1)) = org_tabs w1"
      if "pe_commander E = Some send" for send c using assms(1) that by (simp add: keeps_registry_def)
    then show ?thesis using passed by (auto split: option.splits if_splits prod.splits) (metis snd_conv)+
  qed simp
  then show ?thesis using assms(3) by simp
next
  case False
  then have "\<forall>i. rq \<noteq> RqArchive i" by simp
  from agent_do_by_right[OF assms(2) this assms(3)] authorised_ids[OF _ assms(3)] authorised_approvals[of u rq w "agent_rows w'" i]
  show ?thesis by blast
qed

lemma OnConnect_registry:
  assumes "i \<noteq> []" and "distinct (map ar_ID (agent_rows w))"
  shows "distinct (map ar_ID (agent_rows (OnConnect_hook i w))) \<and> org_tabs (OnConnect_hook i w) = org_tabs w \<and>
    approved_in (agent_rows (OnConnect_hook i w)) \<subseteq> approved_in (agent_rows w) \<union> (if i \<in> ar_ID ` set (agent_rows w) then {} else {i})"
proof -
  obtain rg w1 where g: "on_agents (sql_agent_Get i) w = (rg, w1)" by fastforce
  note G = call_get_agent(1,2)[OF g]
  show ?thesis
  proof (cases rg)
    case (Inr a)
    let ?b = "a\<lparr>ar_Status := ''online'', ar_LastSeen := w_now w1\<rparr>"
    obtain ru w2 where u: "on_agents (sql_agent_Update ?b) w1 = (ru, w2)" by fastforce
    have "a \<in> set (agent_rows w1)" using find_key_Some[OF call_get_agent(5)[OF g Inr]] G by simp
    from write_back[OF u this] have "approved_in (agent_rows w2) \<subseteq> approved_in (agent_rows w) \<and>
        map ar_ID (agent_rows w2) = map ar_ID (agent_rows w) \<and> org_tabs w2 = org_tabs w" using G by simp
    moreover have "OnConnect_hook i w = w2" using g Inr u by (simp add: OnConnect_hook_def connect_read_def connect_write_def)
    ultimately show ?thesis using assms(2) by auto
  next
    case (Inl e)
    obtain ro w2 where l: "on_orgs sql_org_ListAll w1 = (ro, w2)" by fastforce
    have L: "org_tabs w2 = org_tabs w" "agent_rows w2 = agent_rows w"
      using l G by (auto simp: sql_org_ListAll_def elim!: on_orgs_cases sql_run_cases)
    let ?orgID = "case ro of Inr (g # _) \<Rightarrow> og_ID g | _ \<Rightarrow> []"
    let ?raw = "\<lparr>ar_ID = i, ar_OrgID = ?orgID, ar_Hostname = i, ar_MySQLVersion = [], ar_Status = ''online'',
              ar_LastSeen = w_now w2, ar_CreatedAt = w_now w2, ar_CertSerial = [], ar_RegistrationToken = [], ar_Approved = True\<rparr>"
    obtain rc w3 where c: "on_agents (sql_agent_Create (w_now w2) (w_rnd w2) ?raw) w2 = (rc, w3)" by fastforce
    have w: "OnConnect_hook i w = w3" using g Inl l c by (simp add: OnConnect_hook_def connect_read_def auto_register_def)
    have id: "ar_ID (complete_agent (w_now w2) (w_rnd w2) ?raw) = i" using assms(1) complete_agent_ID[of ?raw] by simp
    show ?thesis using call_create_agent(1)[OF c]
    proof (elim disjE conjE)
      assume "agent_rows w3 = agent_rows w2"
      then show ?thesis using w L assms(2) call_create_agent(2)[OF c] by auto
    next
      let ?full = "complete_agent (w_now w2) (w_rnd w2) ?raw"
      assume f: "ar_ID ?full \<notin> ar_ID ` set (agent_rows w2)" "agent_rows w3 = agent_rows w2 @ [?full]"
      have "approved_in (agent_rows w3) \<subseteq> insert i (approved_in (agent_rows w))"
        unfolding f(2) L using id by (auto simp: approved_in_def)
      then show ?thesis using w L assms(2) call_create_agent(2)[OF c] f id by simp
    qed
  qed
qed

lemma version_registry:
  "approved_in (agent_rows (version_answer j res w)) \<subseteq> approved_in (agent_rows w) \<and>
   map ar_ID (agent_rows (version_answer j res w)) = map ar_ID (agent_rows w) \<and> org_tabs (version_answer j res w) = org_tabs w"
proof -
  obtain rg w1 where g: "on_agents (sql_agent_Get j) w = (rg, w1)" by fastforce
  note G = call_get_agent(1,2)[OF g]
  have "approved_in (agent_rows w2) \<subseteq> approved_in (agent_rows w) \<and> map ar_ID (agent_rows w2) = map ar_ID (agent_rows w) \<and>
      org_tabs w2 = org_tabs w"
    if "rg = Inr a" "on_agents (sql_agent_Update (a\<lparr>ar_MySQLVersion := v\<rparr>)) w1 = (x, w2)" for a v x w2
    using write_back[OF that(2), of a] find_key_Some[OF call_get_agent(5)[OF g that(1)]] G by simp
  then show ?thesis using G g unfolding version_answer_def
    by (simp split: sum.split option.split prod.split) (metis eq_snd_iff)
qed

lemma OnDisconnect_registry:
  "approved_in (agent_rows (OnDisconnect_hook G j w)) \<subseteq> approved_in (agent_rows w) \<and>
   map ar_ID (agent_rows (OnDisconnect_hook G j w)) = map ar_ID (agent_rows w) \<and> org_tabs (OnDisconnect_hook G j w) = org_tabs w"
proof -
  obtain rg w1 where g: "on_agents (sql_agent_Get j) w = (rg, w1)" by fastforce
  note F = call_get_agent(1,2)[OF g]
  show ?thesis
  proof (cases rg)
    case (Inl e)
    then show ?thesis using g F by (simp add: OnDisconnect_hook_def HandleAgentDisconnect_def disconnect_registry)
  next
    case (Inr a)
    obtain x w2 where u: "on_agents (sql_agent_Update (a\<lparr>ar_Status := ''offline'', ar_LastSeen := w_now w1\<rparr>)) w1 = (x, w2)" by fastforce
    have "a \<in> set (agent_rows w1)" using find_key_Some[OF call_get_agent(5)[OF g Inr]] F by simp
    from write_back[OF u this] show ?thesis using g F u Inr
      by (simp add: OnDisconnect_hook_def HandleAgentDisconnect_def disconnect_registry)
  qed
qed

lemma registry_step:
  assumes "keeps_registry E" and "registry_ok w" and "c \<noteq> GConnect []"
  shows "registry_ok (registry_do E c w) \<and>
    (i \<in> approved_in (agent_rows (registry_do E c w)) \<longrightarrow> i \<in> approved_in (agent_rows w) \<or> approves c i w)"
proof (cases c)
  case (GOrg u rq)
  obtain r w' where o: "org_do u rq w = (r, w')" by fastforce
  have "distinct (map ar_ID (agent_rows w))" "[] \<notin> og_ID ` set (ot_orgs (org_tabs w))" using assms(2) by (simp_all add: registry_ok_def)
  from org_do_rows[OF o this(1)] org_do_named[OF o this(2,1)] this(1) show ?thesis
    by (simp add: GOrg o registry_ok_def) blast
next
  case (GAgent u rq)
  obtain r w' where o: "agents_do E u rq w = (r, w')" by fastforce
  from agent_do_registry[OF assms(1) o, of i] assms(2) show ?thesis by (auto simp: GAgent o registry_ok_def)
next
  case (GConnect j)
  then have "j \<noteq> []" using assms(3) by simp
  from OnConnect_registry[OF this, of w] assms(2) show ?thesis
    by (auto simp: GConnect registry_ok_def approves_def split: if_splits)
next
  case (GVersion j res)
  have "approved_in (agent_rows (version_answer j res w)) \<subseteq> approved_in (agent_rows w) \<and>
      map ar_ID (agent_rows (version_answer j res w)) = map ar_ID (agent_rows w) \<and> org_tabs (version_answer j res w) = org_tabs w"
    by (rule version_registry)
  then show ?thesis using assms(2) by (auto simp: GVersion registry_ok_def)
next
  case (GDisconnect j)
  have "approved_in (agent_rows (OnDisconnect_hook (pe_gtid E) j w)) \<subseteq> approved_in (agent_rows w) \<and>
      map ar_ID (agent_rows (OnDisconnect_hook (pe_gtid E) j w)) = map ar_ID (agent_rows w) \<and>
      org_tabs (OnDisconnect_hook (pe_gtid E) j w) = org_tabs w"
    by (rule OnDisconnect_registry)
  then show ?thesis using assms(2) by (auto simp: GDisconnect registry_ok_def)
next
  case GStart
  obtain ru w2 where m: "on_agents sql_agent_MarkAllOffline (snd (ReconcileOnStartup (pe_gtid E) w)) = (ru, w2)" by fastforce
  have "agent_rows w2 = agent_rows w \<or> agent_rows w2 = map (\<lambda>a. a\<lparr>ar_Status := ''offline''\<rparr>) (agent_rows w)" "org_tabs w2 = org_tabs w"
    using m by (auto simp: ReconcileOnStartup_def reconcile_registry sql_agent_MarkAllOffline_def sql_update_def
        elim!: on_agents_cases sql_run_cases)
  moreover have "approved_in (map (\<lambda>a. a\<lparr>ar_Status := ''offline''\<rparr>) (agent_rows w)) \<subseteq> approved_in (agent_rows w)"
    by (rule approved_map) simp
  moreover have "map ar_ID (map (\<lambda>a. a\<lparr>ar_Status := ''offline''\<rparr>) (agent_rows w)) = map ar_ID (agent_rows w)" by (rule ids_map) simp
  ultimately show ?thesis using assms(2) m by (auto simp: GStart server_start_def registry_ok_def comp_def)
qed

text \<open>
  C3. Approval needs an admin or a certificate. In every run of registry calls, whatever fails on the way, an agent that is
  approved in the end was approved by a request of somebody who was then an admin of the agent's organisation, or it was
  unknown to the server when it connected - or it had been approved before the run.
\<close>

theorem approval_needs_admin_or_certificate:
  assumes "keeps_registry E" and "registry_ok w" and "GConnect [] \<notin> set cs"
    and "i \<in> approved_in (agent_rows (fold (registry_do E) cs w))"
  shows "i \<in> approved_in (agent_rows w) \<or> (\<exists>cs1 c cs2. cs = cs1 @ c # cs2 \<and> approves c i (fold (registry_do E) cs1 w))"
proof -
  have run: "registry_ok (fold (registry_do E) cs w)" if "GConnect [] \<notin> set cs" for cs
    using that assms(1,2)
    by (induction cs rule: rev_induct) (use registry_step in \<open>fastforce+\<close>)
  show ?thesis using assms(3,4)
  proof (induction cs rule: rev_induct)
    case (snoc c cs)
    let ?w = "fold (registry_do E) cs w"
    from registry_step[OF assms(1) run, of cs c i] snoc.prems consider "i \<in> approved_in (agent_rows ?w)" | "approves c i ?w" by auto
    then show ?case
    proof cases
      case 1
      with snoc.IH snoc.prems(1) show ?thesis by (auto simp del: append_assoc) (metis append_Cons append_assoc)
    qed (use snoc.prems in auto)
  qed simp
qed

lemma approval_needs_admin_or_certificate_witness:
  "\<exists>cs1 c cs2. [GAgent ''u1'' (RqApprove ''ag1'')] = cs1 @ c # cs2 \<and> approves c ''ag1'' (fold (registry_do env0) cs1 ex_org_world)"
proof -
  have a: "approved_in (agent_rows ex_org_world) = {}" by (simp add: approved_in_def ex_org_world_def)
  have "map (\<lambda>a. (ar_ID a, ar_Approved a)) (agent_rows (registry_do env0 (GAgent ''u1'' (RqApprove ''ag1'')) ex_org_world)) = [(''ag1'', True)]"
    unfolding registry_do.simps agents_do.simps by code_simp
  then have b: "''ag1'' \<in> approved_in (agent_rows (fold (registry_do env0) [GAgent ''u1'' (RqApprove ''ag1'')] ex_org_world))"
    by (auto simp: approved_in_def map_eq_Cons_conv)
  have k: "keeps_registry env0" by (simp add: keeps_registry_def env0_def)
  have ok: "registry_ok ex_org_world" by (simp add: registry_ok_def ex_org_world_def)
  show ?thesis using approval_needs_admin_or_certificate[OF k ok _ b] unfolding a by simp
qed

subsection \<open>Calls that work against each other\<close>

text \<open>
  The operations of a deleted organisation keep its identity: they run on, and nobody can look at them, pause or cancel
  them any more.
\<close>

theorem deleted_org_strands_operations:
  assumes "org_do u (RqDelete i) w = (r, w')" and "ap_Status r = 200" and "distinct (map ar_ID (agent_rows w))"
    and "row_of (rq_OpID rq) (pt_ops (q_data (w_db w))) = Some row" and "row_OrgID row = i" and "acts_on_op rq c"
  shows "w_db w' = w_db w" "unchanged w' (pitr_do E c w')"
proof -
  have d: "w_db w' = w_db w \<and> members_of i (org_tabs w') = []" using assms(1,3)
  proof (cases rule: delete_request_cases)
    case (passed d j S)
    then show ?thesis using assms(2) by (simp add: without_org_def members_of_delete)
  qed (use assms(2) in simp)
  then show "w_db w' = w_db w" by simp
  have "\<forall>r. row_of (rq_OpID rq) (pt_ops (q_data (w_db w'))) = Some r \<longrightarrow> \<not> has_user (rq_UserID rq) (members_of (row_OrgID r) (org_tabs w'))"
    using d assms(4,5) by (simp add: has_user_iff)
  from denied_changes_nothing[OF assms(6) this] show "unchanged w' (pitr_do E c w')" by blast
qed

text \<open>
  \<open>OnConnect\<close> writes back the whole record that it read: an agent that is rejected in between is approved again.
\<close>

theorem stale_connect_undoes_rejection:
  assumes "q_fault (w_agents w) = (\<lambda>_. False)" and "ar_ID r = i" and "i \<in> ar_ID ` set (agent_rows w)"
  shows "find_key ar_ID i (agent_rows (connect_write r w)) = Some (r\<lparr>ar_Status := ''online'', ar_LastSeen := w_now w\<rparr>)"
proof -
  let ?r = "r\<lparr>ar_Status := ''online'', ar_LastSeen := w_now w\<rparr>"
  have "agent_rows (connect_write r w) = map (\<lambda>b. if ar_ID b = i then ?r else b) (agent_rows w)"
    using assms(1,2) by (simp add: connect_write_def on_agents_def sql_agent_Update_def sql_run_def sql_update_def)
  moreover have "find_key ar_ID i (map (\<lambda>b. if ar_ID b = i then ?r else b) rows) = Some ?r" if "i \<in> ar_ID ` set rows" for rows
    using that assms(2) by (induction rows) auto
  ultimately show ?thesis using assms(3) by simp
qed

text \<open>A rejected agent keeps its certificate: the next connection shows it as online.\<close>

lemma rejected_agent_shows_online:
  "map (\<lambda>a. (ar_Approved a, ar_Status a)) (agent_rows (OnConnect_hook ''ag1'' (snd (org_do ''u1'' RqList
     (snd (agents_do env0 ''u1'' (RqReject ''ag1'') ex_org_world)))))) = [(False, ''online'')]"
  unfolding agents_do.simps org_do.simps by code_simp

end
