(* ===== verification/Audit_Handler.thy ===== *)
theory Audit_Handler
  imports Org_Handler "HOL-Library.Multiset"
begin

text \<open>
  \<open>internal/server/audit\<close> (\<open>sqlite.go\<close>, \<open>handler.go\<close>): the SQLite store of the audit log, the contract it shares with the
  store in memory as the locale \<open>audit_store\<close>, and the two HTTP handlers, one of which writes CSV (\<open>encoding/csv\<close>).
\<close>

subsection \<open>The SQLite store\<close>

type_synonym audit_db = "AuditEntry list sqldb"

definition sql_audit_Append :: "time \<Rightarrow> AuditEntry \<Rightarrow> audit_db \<Rightarrow> (err + unit) \<times> audit_db" where
  "sql_audit_Append now entry db =
     (let e = (if time_is_zero (au_Timestamp entry) then entry\<lparr>au_Timestamp := now\<rparr> else entry) in
      sql_run (\<lambda>d. (Inr (), d @ [e])) db)"

text \<open>The conditions of the query, in the order in which it collects them.\<close>

definition where_clauses :: "AuditFilter \<Rightarrow> (AuditEntry \<Rightarrow> bool) list" where
  "where_clauses f =
     [\<lambda>e. au_OrgID e = af_OrgID f] @
     (if \<not> time_is_zero (af_From f) then [\<lambda>e. au_Timestamp e \<ge> af_From f] else []) @
     (if \<not> time_is_zero (af_To f) then [\<lambda>e. au_Timestamp e \<le> af_To f] else []) @
     (if af_Status f \<noteq> [] then [\<lambda>e. au_Status e = af_Status f] else []) @
     (if af_AgentID f \<noteq> [] then [\<lambda>e. au_AgentID e = af_AgentID f] else []) @
     (if af_OperationID f \<noteq> [] then [\<lambda>e. au_OperationID e = af_OperationID f] else [])"

text \<open>\<open>ORDER BY id DESC\<close>: the newest row first.\<close>

definition sql_audit_Query :: "AuditFilter \<Rightarrow> audit_db \<Rightarrow> (err + AuditEntry list) \<times> audit_db" where
  "sql_audit_Query f db =
     (if af_OrgID f = [] then (Inl (Err ''orgId filter is required'' []), db)
      else sql_run (\<lambda>d. (Inr (rev (filter (\<lambda>e. list_all (\<lambda>P. P e) (where_clauses f)) d)), d)) db)"

definition sql_audit_ListAll :: "audit_db \<Rightarrow> (err + AuditEntry list) \<times> audit_db" where
  "sql_audit_ListAll db = sql_run (\<lambda>d. (Inr d, d)) db"

text \<open>The store in memory, as a state.\<close>

definition mem_audit_Append :: "time \<Rightarrow> AuditEntry \<Rightarrow> AuditEntry list \<Rightarrow> (err + unit) \<times> AuditEntry list" where
  "mem_audit_Append now e es = (Inr (), audit_Append now e es)"

definition mem_audit_Query :: "AuditFilter \<Rightarrow> AuditEntry list \<Rightarrow> (err + AuditEntry list) \<times> AuditEntry list" where
  "mem_audit_Query f es = (audit_Query f es, es)"

subsection \<open>The contract\<close>

locale audit_store =
  fixes view :: "'s \<Rightarrow> AuditEntry list"
    and append :: "time \<Rightarrow> AuditEntry \<Rightarrow> 's \<Rightarrow> (err + unit) \<times> 's"
    and query :: "AuditFilter \<Rightarrow> 's \<Rightarrow> (err + AuditEntry list) \<times> 's"
  assumes append_ok: "append now e s = (Inr x, s') \<Longrightarrow> view s' = audit_Append now e (view s)"
    and append_err: "append now e s = (Inl y, s') \<Longrightarrow> view s' = view s"
    and query_view: "query f s = (r, s') \<Longrightarrow> view s' = view s"
    and query_ok: "query f s = (Inr rs, s') \<Longrightarrow> af_OrgID f \<noteq> [] \<and> mset rs = mset (filter (audit_match f) (view s))"
begin

lemma query_set: "query f s = (Inr rs, s') \<Longrightarrow> set rs = {e \<in> set (view s). audit_match f e}"
  using query_ok[of f s rs s'] by (metis mset_eq_setD set_filter)

lemma query_org: "query f s = (Inr rs, s') \<Longrightarrow> e \<in> set rs \<Longrightarrow> au_OrgID e = af_OrgID f"
  using query_set[of f s rs s'] by (auto simp: audit_match_def split: if_splits)

lemma appended_is_found:
  assumes "append now e s = (Inr x, s1)" and "query f s1 = (Inr rs, s2)"
    and "audit_match f (if time_is_zero (au_Timestamp e) then e\<lparr>au_Timestamp := now\<rparr> else e)"
  shows "(if time_is_zero (au_Timestamp e) then e\<lparr>au_Timestamp := now\<rparr> else e) \<in> set rs"
  using query_set[OF assms(2)] append_ok[OF assms(1)] assms(3) by (simp add: audit_Append_def)

end

lemma where_clauses_match: "list_all (\<lambda>P. P e) (where_clauses f) = audit_match f e"
  by (auto simp: where_clauses_def audit_match_def)

lemma sql_audit_Query_rev:
  "sql_audit_Query f db = (Inr rs, db') \<Longrightarrow> af_OrgID f \<noteq> [] \<and> rs = rev (filter (audit_match f) (q_data db)) \<and> q_data db' = q_data db"
  by (auto simp: sql_audit_Query_def where_clauses_match sql_run_def split: if_splits)

interpretation mem_audit: audit_store "\<lambda>es. es" mem_audit_Append mem_audit_Query
  by unfold_locales (auto simp: mem_audit_Append_def mem_audit_Query_def audit_Query_def split: if_splits)

interpretation sql_audit: audit_store q_data sql_audit_Append sql_audit_Query
proof unfold_locales
  fix f :: AuditFilter and s rs s'
  assume q: "sql_audit_Query f s = (Inr rs, s')"
  show "af_OrgID f \<noteq> [] \<and> mset rs = mset (filter (audit_match f) (q_data s))"
    using sql_audit_Query_rev[OF q] by simp
qed (auto simp: sql_audit_Append_def sql_audit_Query_def audit_Append_def sql_run_def Let_def split: if_splits)

text \<open>
  The stores answer a query with the same entries, the one in memory oldest first, SQLite newest first.
\<close>

lemma audit_queries_reversed:
  assumes "mem_audit_Query f (q_data db) = (Inr rs, es)" and "sql_audit_Query f db = (Inr rs', db')"
  shows "rs' = rev rs"
  using assms sql_audit_Query_rev[OF assms(2)] by (auto simp: mem_audit_Query_def audit_Query_def)

subsection \<open>CSV\<close>

text \<open>
  \<open>csv.Writer\<close> with its defaults. A field is quoted when it holds a separator, a quote or a line break, when it begins with a
  space (\<open>unicode.IsSpace\<close> of the first rune, here on its UTF-8 bytes), or when it is a backslash and a dot.
\<close>

definition first_space :: "string \<Rightarrow> bool" where
  "first_space s =
     (let b = map (of_char :: char \<Rightarrow> nat) (take 3 s) in
      (case b of
         x # xs \<Rightarrow>
           (9 \<le> x \<and> x \<le> 13) \<or> x = 32 \<or>
           (x = 0xC2 \<and> (take 1 xs = [0x85] \<or> take 1 xs = [0xA0])) \<or>
           b = [0xE1, 0x9A, 0x80] \<or> b = [0xE2, 0x81, 0x9F] \<or> b = [0xE3, 0x80, 0x80] \<or>
           (\<exists>y\<in>set ([0x80..<0x8B] @ [0xA8, 0xA9, 0xAF]). b = [0xE2, 0x80, y])
       | [] \<Rightarrow> False))"

abbreviation quote_char :: char where "quote_char \<equiv> CHR 0x22"
abbreviation newline :: char where "newline \<equiv> CHR 0x0A"

definition fieldNeedsQuotes :: "string \<Rightarrow> bool" where
  "fieldNeedsQuotes field =
     (if field = [] then False
      else if field = [CHR 0x5C, CHR ''.''] then True
      else if list_ex (\<lambda>c. c = newline \<or> c = CHR 0x0D \<or> c = quote_char \<or> c = CHR '','') field then True
      else first_space field)"

definition csv_field :: "string \<Rightarrow> string" where
  "csv_field field =
     (if fieldNeedsQuotes field then [quote_char] @ replace_char quote_char [quote_char, quote_char] field @ [quote_char] else field)"

definition csv_Write :: "string list \<Rightarrow> string" where
  "csv_Write record = str_join (map csv_field record) '','' @ [newline]"

subsection \<open>The handlers\<close>

record audit_request =
  aq_UserID :: string
  aq_OrgID :: string
  aq_From :: string
  aq_To :: string
  aq_Status :: string
  aq_AgentID :: string
  aq_OperationID :: string

text \<open>The handler's stores: that of the organisations, and any audit store.\<close>

record 's audit_server =
  as_orgs :: org_db
  as_audit :: 's

type_synonym 's audit_query = "AuditFilter \<Rightarrow> 's \<Rightarrow> (err + AuditEntry list) \<times> 's"

definition audit_gate :: "audit_request \<Rightarrow> ('s audit_server \<Rightarrow> 'b api_resp \<times> 's audit_server) \<Rightarrow>
    's audit_server \<Rightarrow> 'b api_resp \<times> 's audit_server" where
  "audit_gate rq k s =
     (if aq_UserID rq = [] then (api_msg 401 ''not authenticated'', s)
      else if aq_OrgID rq = [] then (api_msg 400 ''org_id query parameter is required'', s)
      else (case sql_ListMembers (aq_OrgID rq) (as_orgs s) of
              (Inl _, os) \<Rightarrow> (api_msg 404 ''organisation not found'', s\<lparr>as_orgs := os\<rparr>)
            | (Inr members, os) \<Rightarrow>
                (if \<not> is_member (aq_UserID rq) members
                 then (api_msg 403 ''not a member of this organisation'', s\<lparr>as_orgs := os\<rparr>)
                 else k (s\<lparr>as_orgs := os\<rparr>))))"

definition audit_filter :: "audit_request \<Rightarrow> time \<Rightarrow> time \<Rightarrow> AuditFilter" where
  "audit_filter rq from_t to_t =
     \<lparr>af_OrgID = aq_OrgID rq, af_OperationID = aq_OperationID rq, af_From = from_t, af_To = to_t,
      af_Status = aq_Status rq, af_AgentID = aq_AgentID rq\<rparr>"

text \<open>A time bound: zero when it is not given, \<open>None\<close> when it does not parse.\<close>

definition audit_bound :: "string \<Rightarrow> time option" where
  "audit_bound s = (if s = [] then Some zero_time else parse_rfc3339 s)"

definition run_query :: "'s audit_query \<Rightarrow> AuditFilter \<Rightarrow> (AuditEntry list \<Rightarrow> 'b api_resp) \<Rightarrow> 's audit_server \<Rightarrow> 'b api_resp \<times> 's audit_server" where
  "run_query query f k s =
     (case query f (as_audit s) of
        (Inl e, a) \<Rightarrow> (api_error 500 e, s\<lparr>as_audit := a\<rparr>)
      | (Inr entries, a) \<Rightarrow> (k entries, s\<lparr>as_audit := a\<rparr>))"

definition AuditQuery :: "'s audit_query \<Rightarrow> audit_request \<Rightarrow> 's audit_server \<Rightarrow> AuditEntry list api_resp \<times> 's audit_server" where
  "AuditQuery query rq =
     audit_gate rq (\<lambda>s.
       case audit_bound (aq_From rq) of
         None \<Rightarrow> (api_msg 400 ''invalid from timestamp, use ISO8601/RFC3339'', s)
       | Some from_t \<Rightarrow>
           (case audit_bound (aq_To rq) of
              None \<Rightarrow> (api_msg 400 ''invalid to timestamp, use ISO8601/RFC3339'', s)
            | Some to_t \<Rightarrow> run_query query (audit_filter rq from_t to_t) (api_ok 200) s))"

text \<open>The header row, in UTF-8, and the row of an entry.\<close>

definition csv_header :: "string list" where
  "csv_header = [
     [CHR 0xE6, CHR 0x93, CHR 0x8D, CHR 0xE4, CHR 0xBD, CHR 0x9C, CHR 0x49, CHR 0x44],
     [CHR 0xE6, CHR 0x93, CHR 0x8D, CHR 0xE4, CHR 0xBD, CHR 0x9C, CHR 0xE4, CHR 0xBA, CHR 0xBA],
     [CHR 0xE6, CHR 0x97, CHR 0xB6, CHR 0xE9, CHR 0x97, CHR 0xB4],
     [CHR 0xE7, CHR 0xBB, CHR 0x84, CHR 0xE7, CHR 0xBB, CHR 0x87, CHR 0x49, CHR 0x44],
     [CHR 0xE5, CHR 0xAE, CHR 0x9E, CHR 0xE4, CHR 0xBE, CHR 0x8B, CHR 0x49, CHR 0x44],
     [CHR 0xE7, CHR 0x9B, CHR 0xAE, CHR 0xE6, CHR 0xA0, CHR 0x87, CHR 0xE8, CHR 0xA1, CHR 0xA8],
     [CHR 0xE6, CHR 0x81, CHR 0xA2, CHR 0xE5, CHR 0xA4, CHR 0x8D, CHR 0xE6, CHR 0x97, CHR 0xB6, CHR 0xE9, CHR 0x97, CHR 0xB4],
     [CHR 0xE5, CHR 0xBD, CHR 0xB1, CHR 0xE5, CHR 0x93, CHR 0x8D, CHR 0xE8, CHR 0xA1, CHR 0x8C, CHR 0xE6, CHR 0x95, CHR 0xB0],
     [CHR 0xE7, CHR 0x8A, CHR 0xB6, CHR 0xE6, CHR 0x80, CHR 0x81],
     [CHR 0xE9, CHR 0x94, CHR 0x99, CHR 0xE8, CHR 0xAF, CHR 0xAF, CHR 0xE8, CHR 0xAF, CHR 0xA6, CHR 0xE6, CHR 0x83, CHR 0x85]
  ]"

definition entry_row :: "AuditEntry \<Rightarrow> string list" where
  "entry_row e = [au_OperationID e, au_Operator e, format_rfc3339 (au_Timestamp e), au_OrgID e, au_AgentID e,
     au_TargetTable e, format_rfc3339 (au_RecoveryTime e), show_int (au_RowsAffected e), au_Status e, au_ErrorDetails e]"

definition csv_export :: "AuditEntry list \<Rightarrow> string" where
  "csv_export entries = csv_Write csv_header @ concat (map (\<lambda>e. csv_Write (entry_row e)) entries)"

definition lenient_bound :: "string \<Rightarrow> time" where
  "lenient_bound s = (case audit_bound s of None \<Rightarrow> zero_time | Some t \<Rightarrow> t)"

definition AuditExport :: "'s audit_query \<Rightarrow> audit_request \<Rightarrow> 's audit_server \<Rightarrow> string api_resp \<times> 's audit_server" where
  "AuditExport query rq =
     audit_gate rq (\<lambda>s.
       run_query query (audit_filter rq (lenient_bound (aq_From rq)) (lenient_bound (aq_To rq)))
         (\<lambda>entries. api_ok 200 (csv_export entries)) s)"

text \<open>\<open>List\<close> is \<open>Query\<close>.\<close>

definition AuditList :: "'s audit_query \<Rightarrow> audit_request \<Rightarrow> 's audit_server \<Rightarrow> AuditEntry list api_resp \<times> 's audit_server" where
  "AuditList = AuditQuery"

end
