(* ===== verification/Audit_Props.thy ===== *)
theory Audit_Props
  imports Audit_Handler
begin

text \<open>
  The audit log as its readers see it: which entries a query answers, and that the exported CSV, read back by the rules of
  RFC 4180, gives the fields of exactly these entries.
\<close>

subsection \<open>Reading CSV\<close>

text \<open>A reader of RFC 4180: the field and the row read so far in reverse, and where in a field it is.\<close>

datatype csv_mode = FieldStart | Bare | Quoted | QuoteSeen

fun csv_read :: "csv_mode \<Rightarrow> string \<Rightarrow> string list \<Rightarrow> string \<Rightarrow> string list list option" where
  "csv_read m f r [] = (if m = FieldStart \<and> r = [] then Some [] else None)"
| "csv_read Quoted f r (c # cs) = (if c = quote_char then csv_read QuoteSeen f r cs else csv_read Quoted (c # f) r cs)"
| "csv_read m f r (c # cs) =
     (if c = CHR '','' then csv_read FieldStart [] (rev f # r) cs
      else if c = newline then map_option (Cons (rev (rev f # r))) (csv_read FieldStart [] [] cs)
      else if c = quote_char then
        (case m of FieldStart \<Rightarrow> csv_read Quoted [] r cs | QuoteSeen \<Rightarrow> csv_read Quoted (c # f) r cs | _ \<Rightarrow> None)
      else if m = QuoteSeen then None
      else csv_read Bare (c # f) r cs)"

definition csv_parse :: "string \<Rightarrow> string list list option" where
  "csv_parse s = csv_read FieldStart [] [] s"

lemma csv_parse_examples:
  "csv_parse (csv_Write [''a,b'', [], '' c'', [quote_char]] @ csv_Write [[CHR 0x0A], ''d'']) =
     Some [[''a,b'', [], '' c'', [quote_char]], [[CHR 0x0A], ''d'']]"
  by code_simp

text \<open>The end of a field, after a bare or a quoted text.\<close>

definition field_end :: "string \<Rightarrow> string list \<Rightarrow> string \<Rightarrow> string list list option" where
  "field_end f r cs =
     (case cs of
        c # cs' \<Rightarrow>
          (if c = CHR '','' then csv_read FieldStart [] (f # r) cs'
           else if c = newline then map_option (Cons (rev (f # r))) (csv_read FieldStart [] [] cs')
           else None)
      | [] \<Rightarrow> None)"

definition ends_field :: "string \<Rightarrow> bool" where
  "ends_field cs \<longleftrightarrow> (\<exists>cs'. cs = CHR '','' # cs' \<or> cs = newline # cs')"

lemma read_quoted:
  "csv_read Quoted f r (replace_char quote_char [quote_char, quote_char] s @ cs) = csv_read Quoted (rev s @ f) r cs"
  by (induction s arbitrary: f) auto

lemma read_field_end:
  "ends_field cs \<Longrightarrow> m \<noteq> Quoted \<Longrightarrow> csv_read m f r cs = field_end (rev f) r cs"
  by (cases m) (auto simp: ends_field_def field_end_def)

lemma read_bare:
  assumes "\<forall>c\<in>set s. c \<noteq> newline \<and> c \<noteq> quote_char \<and> c \<noteq> CHR '',''" and "m = FieldStart \<or> m = Bare" and "s \<noteq> []"
  shows "csv_read m f r (s @ cs) = csv_read Bare (rev s @ f) r cs"
  using assms
proof (induction s arbitrary: m f)
  case (Cons c s)
  have c: "c \<noteq> newline" "c \<noteq> quote_char" "c \<noteq> CHR '',''" and s: "\<forall>c\<in>set s. c \<noteq> newline \<and> c \<noteq> quote_char \<and> c \<noteq> CHR '',''"
    using Cons.prems(1) by simp_all
  from Cons.prems(2) have step: "csv_read m f r ((c # s) @ cs) = csv_read Bare (c # f) r (s @ cs)"
    by (elim disjE) (simp_all add: c)
  show ?case
  proof (cases "s = []")
    case False
    from Cons.IH[OF s _ this, of Bare "c # f"] show ?thesis unfolding step by simp
  qed (use step in simp)
qed simp

lemma bare_chars: "\<not> fieldNeedsQuotes s \<Longrightarrow> \<forall>c\<in>set s. c \<noteq> newline \<and> c \<noteq> quote_char \<and> c \<noteq> CHR '',''"
  by (auto simp: fieldNeedsQuotes_def list_ex_iff split: if_splits)

lemma read_field:
  assumes "ends_field cs"
  shows "csv_read FieldStart [] r (csv_field s @ cs) = field_end s r cs"
proof (cases "fieldNeedsQuotes s")
  case True
  then have "csv_read FieldStart [] r (csv_field s @ cs) = csv_read QuoteSeen (rev s) r cs"
    by (simp add: csv_field_def read_quoted)
  then show ?thesis using read_field_end[OF assms, of QuoteSeen "rev s" r] by simp
next
  case False
  then have c: "csv_field s = s" by (simp add: csv_field_def)
  show ?thesis
  proof (cases "s = []")
    case True
    then show ?thesis using read_field_end[OF assms, of FieldStart "[]" r] c by simp
  next
    case ne: False
    show ?thesis unfolding c using read_bare[OF bare_chars[OF False] _ ne, of FieldStart "[]" r cs]
        read_field_end[OF assms, of Bare "rev s" r] by simp
  qed
qed

lemma read_record:
  "fs \<noteq> [] \<Longrightarrow> csv_read FieldStart [] r (csv_Write fs @ cs) =
     map_option (Cons (rev r @ fs)) (csv_read FieldStart [] [] cs)"
proof (induction fs arbitrary: r)
  case (Cons f fs)
  show ?case
  proof (cases fs)
    case Nil
    have "ends_field (newline # cs)" by (simp add: ends_field_def)
    from read_field[OF this, of r f] show ?thesis by (simp add: csv_Write_def Nil field_end_def)
  next
    case (Cons g gs)
    have e: "ends_field (CHR '','' # csv_Write fs @ cs)" by (simp add: ends_field_def)
    have "csv_Write (f # fs) @ cs = csv_field f @ CHR '','' # csv_Write fs @ cs" by (simp add: csv_Write_def Cons)
    then show ?thesis using read_field[OF e, of r f] Cons.IH[of "f # r"] Cons by (simp add: field_end_def)
  qed
qed simp

lemma csv_parse_writes:
  "\<forall>fs\<in>set rows. fs \<noteq> [] \<Longrightarrow> csv_parse (concat (map csv_Write rows)) = Some rows"
  unfolding csv_parse_def by (induction rows) (simp_all add: read_record)

subsection \<open>The handlers\<close>



definition ex_audit_entry :: "string \<Rightarrow> string \<Rightarrow> AuditEntry" where
  "ex_audit_entry o_id details = \<lparr>au_OperationID = ''op1'', au_Operator = ''u1'', au_Timestamp = 1709222399000000000, au_OrgID = o_id,
     au_AgentID = ''ag1'', au_TargetTable = ''a.b, a.c'', au_RecoveryTime = 0, au_RowsAffected = 3, au_Status = ''done'',
     au_ErrorDetails = details\<rparr>"

definition ex_audit_server :: "audit_db audit_server" where
  "ex_audit_server = \<lparr>
     as_orgs = \<lparr>q_data = \<lparr>ot_orgs = [\<lparr>og_ID = ''acme'', og_Name = ''Acme'', og_CreatedAt = 1\<rparr>],
                         ot_members = [\<lparr>mb_UserID = ''u1'', mb_OrgID = ''acme'', mb_Role = ''admin'', mb_JoinedAt = 1\<rparr>],
                         ot_invites = []\<rparr>, q_clock = 0, q_fault = (\<lambda>_. False)\<rparr>,
     as_audit = \<lparr>q_data = [ex_audit_entry ''acme'' [], ex_audit_entry ''other'' [], ex_audit_entry ''acme'' [quote_char, newline]],
                 q_clock = 0, q_fault = (\<lambda>_. False)\<rparr>\<rparr>"

definition ex_audit_request :: audit_request where
  "ex_audit_request = \<lparr>aq_UserID = ''u1'', aq_OrgID = ''acme'', aq_From = ''2024-02-29T00:00:00Z'', aq_To = [], aq_Status = [],
     aq_AgentID = ''ag1'', aq_OperationID = []\<rparr>"

lemma ex_audit_answer:
  "ap_Body (fst (AuditQuery sql_audit_Query ex_audit_request ex_audit_server)) =
     Inr [ex_audit_entry ''acme'' [quote_char, newline], ex_audit_entry ''acme'' []]"
  by code_simp


text \<open>
  C36. The export is the query: whatever the store, when a query is answered the export of the same request is answered too, and
  its CSV text, read by the rules of RFC 4180, is the header and the fields of the entries of the query, in their order.
\<close>

theorem export_reads_back_the_query:
  assumes "AuditQuery query rq s = (r, s')" and "ap_Body r = Inr es"
  shows "\<exists>text. AuditExport query rq s = (api_ok 200 text, s') \<and> csv_parse text = Some (csv_header # map entry_row es)"
proof -
  have parse: "csv_parse (csv_export es) = Some (csv_header # map entry_row es)"
    using csv_parse_writes[of "csv_header # map entry_row es"]
    by (simp add: csv_export_def csv_header_def entry_row_def comp_def)
  have "AuditExport query rq s = (api_ok 200 (csv_export es), s')"
  proof (cases "audit_bound (aq_From rq) = None \<or> audit_bound (aq_To rq) = None")
    case True
    then show ?thesis using assms
      by (auto simp: AuditQuery_def audit_gate_def api_defs run_query_def split: if_splits sum.splits prod.splits option.splits)
  next
    case False
    then show ?thesis using assms
      by (auto simp: AuditQuery_def AuditExport_def audit_gate_def api_defs run_query_def lenient_bound_def
          split: if_splits sum.splits prod.splits)
  qed
  with parse show ?thesis by blast
qed

lemma export_reads_back_the_query_witness:
  "\<exists>text. fst (AuditExport sql_audit_Query ex_audit_request ex_audit_server) = api_ok 200 text \<and>
     csv_parse text = Some (csv_header # map entry_row [ex_audit_entry ''acme'' [quote_char, newline], ex_audit_entry ''acme'' []])"
  using export_reads_back_the_query[OF prod.collapse[symmetric] ex_audit_answer] by force

text \<open>A time bound that does not parse: the query refuses it, the export leaves it out and answers with more than was asked for.\<close>

lemma export_ignores_bad_bounds:
  "ap_Status (fst (AuditQuery sql_audit_Query (ex_audit_request\<lparr>aq_From := ''2030-13-01''\<rparr>) ex_audit_server)) = 400"
  "AuditExport sql_audit_Query (ex_audit_request\<lparr>aq_From := ''2030-13-01''\<rparr>) s =
   AuditExport sql_audit_Query (ex_audit_request\<lparr>aq_From := []\<rparr>) s"
proof -
  show "ap_Status (fst (AuditQuery sql_audit_Query (ex_audit_request\<lparr>aq_From := ''2030-13-01''\<rparr>) ex_audit_server)) = 400" by code_simp
  have "lenient_bound ''2030-13-01'' = lenient_bound []" by code_simp
  then show "AuditExport sql_audit_Query (ex_audit_request\<lparr>aq_From := ''2030-13-01''\<rparr>) s =
      AuditExport sql_audit_Query (ex_audit_request\<lparr>aq_From := []\<rparr>) s"
    by (simp add: AuditExport_def audit_gate_def ex_audit_request_def audit_filter_def split: sum.split prod.split)
qed

end
