(* ===== verification/Auth.thy ===== *)
theory Auth
  imports Org_Handler
begin

text \<open>
  \<open>internal/server/auth\<close>: users in memory and in SQLite with their contract as the locale \<open>user_store\<close>, tokens
  (\<open>jwt.go\<close>), the middleware that turns a token into the user of a request, and the three public handlers. The JWT library
  and bcrypt are parameters (\<open>crypto_lib\<close>). E-mail addresses are taken to be ASCII: lower case is that of its letters.
\<close>

subsection \<open>Users\<close>

record User =
  us_ID :: string
  us_Email :: string
  us_HashedPassword :: string
  us_CreatedAt :: time

definition generateID :: "string \<Rightarrow> string" where
  "generateID rnd = hex_encode rnd"

definition email_taken :: "string \<Rightarrow> err" where
  "email_taken e = Err ''user with email %s already exists'' [e]"

definition user_not_found :: "string \<Rightarrow> err" where
  "user_not_found x = Err ''user not found: %s'' [x]"

definition complete_user :: "time \<Rightarrow> string \<Rightarrow> User \<Rightarrow> User" where
  "complete_user now rnd u0 =
     (let u1 = (if us_ID u0 = [] then u0\<lparr>us_ID := generateID rnd\<rparr> else u0) in
      if time_is_zero (us_CreatedAt u1) then u1\<lparr>us_CreatedAt := now\<rparr> else u1)"

record mem_users =
  mu_byID :: "string \<rightharpoonup> User"
  mu_byEmail :: "string \<rightharpoonup> User"

definition mem_user_Create :: "time \<Rightarrow> string \<Rightarrow> User \<Rightarrow> mem_users \<Rightarrow> (err + User) \<times> mem_users" where
  "mem_user_Create now rnd u0 s =
     (if mu_byEmail s (us_Email u0) \<noteq> None then (Inl (email_taken (us_Email u0)), s)
      else (let u = complete_user now rnd u0 in
            (Inr u, s\<lparr>mu_byID := (mu_byID s)(us_ID u \<mapsto> u), mu_byEmail := (mu_byEmail s)(us_Email u \<mapsto> u)\<rparr>)))"

definition mem_user_GetByID :: "string \<Rightarrow> mem_users \<Rightarrow> (err + User) \<times> mem_users" where
  "mem_user_GetByID i s = ((case mu_byID s i of None \<Rightarrow> Inl (user_not_found i) | Some u \<Rightarrow> Inr u), s)"

definition mem_user_GetByEmail :: "string \<Rightarrow> mem_users \<Rightarrow> (err + User) \<times> mem_users" where
  "mem_user_GetByEmail e s = ((case mu_byEmail s e of None \<Rightarrow> Inl (user_not_found e) | Some u \<Rightarrow> Inr u), s)"

type_synonym user_db = "User list sqldb"

text \<open>\<open>SELECT 1 FROM users WHERE email = ?\<close>: whether there is such a row.\<close>

definition sql_email_exists :: "string \<Rightarrow> user_db \<Rightarrow> (err + bool) \<times> user_db" where
  "sql_email_exists e db = sql_run (\<lambda>d. (Inr (find_key us_Email e d \<noteq> None), d)) db"

text \<open>Two columns are unique: the key and the e-mail address.\<close>

definition sql_user_insert :: "User \<Rightarrow> user_db \<Rightarrow> (err + unit) \<times> user_db" where
  "sql_user_insert u db =
     sql_run (\<lambda>d. if us_Email u \<in> us_Email ` set d then (Inl sql_constraint, d) else sql_insert us_ID u d) db"

definition sql_user_Create :: "time \<Rightarrow> string \<Rightarrow> User \<Rightarrow> user_db \<Rightarrow> (err + User) \<times> user_db" where
  "sql_user_Create now rnd u0 db =
     (case sql_email_exists (us_Email u0) db of
        (Inl e, db1) \<Rightarrow> (Inl e, db1)
      | (Inr True, db1) \<Rightarrow> (Inl (email_taken (us_Email u0)), db1)
      | (Inr False, db1) \<Rightarrow>
          (let u = complete_user now rnd u0 in
           case sql_user_insert u db1 of
             (Inr _, db2) \<Rightarrow> (Inr u, db2)
           | (Inl e, db2) \<Rightarrow>
               (case sql_email_exists (us_Email u0) db2 of
                  (Inr True, db3) \<Rightarrow> (Inl (email_taken (us_Email u0)), db3)
                | (_, db3) \<Rightarrow> (Inl e, db3))))"

definition getBy :: "(User \<Rightarrow> string) \<Rightarrow> string \<Rightarrow> user_db \<Rightarrow> (err + User) \<times> user_db" where
  "getBy column x db =
     sql_run (\<lambda>d. (case find_key column x d of None \<Rightarrow> Inl (user_not_found x) | Some u \<Rightarrow> Inr u, d)) db"

definition sql_user_GetByID :: "string \<Rightarrow> user_db \<Rightarrow> (err + User) \<times> user_db" where
  "sql_user_GetByID = getBy us_ID"

definition sql_user_GetByEmail :: "string \<Rightarrow> user_db \<Rightarrow> (err + User) \<times> user_db" where
  "sql_user_GetByEmail = getBy us_Email"

text \<open>The interface, as the handlers get it.\<close>

record 's UserStore =
  ui_Create :: "time \<Rightarrow> string \<Rightarrow> User \<Rightarrow> 's \<Rightarrow> (err + User) \<times> 's"
  ui_GetByID :: "string \<Rightarrow> 's \<Rightarrow> (err + User) \<times> 's"
  ui_GetByEmail :: "string \<Rightarrow> 's \<Rightarrow> (err + User) \<times> 's"

definition mem_UserStore :: "mem_users UserStore" where
  "mem_UserStore = \<lparr>ui_Create = mem_user_Create, ui_GetByID = mem_user_GetByID, ui_GetByEmail = mem_user_GetByEmail\<rparr>"

definition sql_UserStore :: "user_db UserStore" where
  "sql_UserStore = \<lparr>ui_Create = sql_user_Create, ui_GetByID = sql_user_GetByID, ui_GetByEmail = sql_user_GetByEmail\<rparr>"

subsection \<open>Tokens\<close>

text \<open>
  The claims of a token: the fields of \<open>Claims\<close> and of \<open>jwt.RegisteredClaims\<close> as its JSON text holds them, empty when it
  does not; times in seconds. \<open>cl_ID\<close> is the claim \<open>jti\<close>.
\<close>

record claims =
  cl_UserID :: string
  cl_Email :: string
  cl_Subject :: string
  cl_ID :: string
  cl_Issuer :: string
  cl_ExpiresAt :: int
  cl_IssuedAt :: int

text \<open>
  The libraries: signing with a method and a key; parsing with a function from the method to the key, at a time; hashing a
  password with cost and salt; comparing a hash with a password.
\<close>

record crypto_lib =
  jwt_sign :: "string \<Rightarrow> claims \<Rightarrow> string \<Rightarrow> err + string"
  jwt_parse :: "string \<Rightarrow> (string \<Rightarrow> err + string) \<Rightarrow> time \<Rightarrow> err + claims"
  pw_Generate :: "string \<Rightarrow> nat \<Rightarrow> string \<Rightarrow> err + string"
  pw_Compare :: "string \<Rightarrow> string \<Rightarrow> err option"

definition AccessTokenDuration :: int where
  "AccessTokenDuration = 24 * 3600 * 1000000000"

definition RefreshTokenDuration :: int where
  "RefreshTokenDuration = 7 * 24 * 3600 * 1000000000"

definition BcryptCost :: nat where
  "BcryptCost = 12"

text \<open>\<open>jwt.NewNumericDate\<close> truncates to seconds.\<close>

definition numeric_date :: "time \<Rightarrow> int" where
  "numeric_date t = t div 1000000000"

definition CreateToken :: "crypto_lib \<Rightarrow> string \<Rightarrow> string \<Rightarrow> string \<Rightarrow> time \<Rightarrow> err + string" where
  "CreateToken L userID email secret now =
     jwt_sign L ''HS256'' \<lparr>cl_UserID = userID, cl_Email = email, cl_Subject = [], cl_ID = [], cl_Issuer = ''mysql-pitr'',
       cl_ExpiresAt = numeric_date (now + AccessTokenDuration), cl_IssuedAt = numeric_date now\<rparr> secret"

definition CreateRefreshToken :: "crypto_lib \<Rightarrow> string \<Rightarrow> string \<Rightarrow> time \<Rightarrow> err + string" where
  "CreateRefreshToken L userID secret now =
     jwt_sign L ''HS256'' \<lparr>cl_UserID = [], cl_Email = [], cl_Subject = userID, cl_ID = ''refresh'', cl_Issuer = ''mysql-pitr'',
       cl_ExpiresAt = numeric_date (now + RefreshTokenDuration), cl_IssuedAt = numeric_date now\<rparr> secret"

text \<open>The function that both validations give to the parser: only HMAC methods get the key.\<close>

definition hmac_key :: "string \<Rightarrow> string \<Rightarrow> err + string" where
  "hmac_key secret alg =
     (if alg \<in> {''HS256'', ''HS384'', ''HS512''} then Inr secret else Inl (Err ''unexpected signing method: %v'' [alg]))"

definition ValidateToken :: "crypto_lib \<Rightarrow> string \<Rightarrow> string \<Rightarrow> time \<Rightarrow> err + claims" where
  "ValidateToken L token secret now =
     (case jwt_parse L token (hmac_key secret) now of Inl e \<Rightarrow> Inl (Wrap ''validate token: %w'' [] e) | Inr c \<Rightarrow> Inr c)"

definition ValidateRefreshToken :: "crypto_lib \<Rightarrow> string \<Rightarrow> string \<Rightarrow> time \<Rightarrow> err + string" where
  "ValidateRefreshToken L token secret now =
     (case jwt_parse L token (hmac_key secret) now of
        Inl e \<Rightarrow> Inl (Wrap ''validate refresh token: %w'' [] e)
      | Inr c \<Rightarrow> (if cl_ID c \<noteq> ''refresh'' then Inl (Err ''token is not a refresh token'' []) else Inr (cl_Subject c)))"

subsection \<open>The middleware\<close>

definition lower_char :: "char \<Rightarrow> char" where
  "lower_char c = (if CHR ''A'' \<le> c \<and> c \<le> CHR ''Z'' then char_of ((of_char c :: nat) + 32) else c)"

definition str_lower :: "string \<Rightarrow> string" where
  "str_lower = map lower_char"

text \<open>\<open>strings.SplitN(s, " ", 2)\<close>: the two parts, if there is a space.\<close>

fun split_space :: "string \<Rightarrow> (string \<times> string) option" where
  "split_space [] = None"
| "split_space (c # s) = (if c = CHR '' '' then Some ([], s) else map_option (apfst (Cons c)) (split_space s))"

text \<open>The refusal, or the claims that the next handler finds in its context.\<close>

definition AuthMiddleware :: "crypto_lib \<Rightarrow> string \<Rightarrow> time \<Rightarrow> string \<Rightarrow> 'b api_resp + claims" where
  "AuthMiddleware L secret now authHeader =
     (if authHeader = [] then Inl (api_msg 401 ''missing Authorization header'')
      else (case split_space authHeader of
              None \<Rightarrow> Inl (api_msg 401 ''invalid Authorization header format'')
            | Some (scheme, token) \<Rightarrow>
                (if str_lower scheme \<noteq> ''bearer'' then Inl (api_msg 401 ''invalid Authorization header format'')
                 else (case ValidateToken L token secret now of
                         Inl _ \<Rightarrow> Inl (api_msg 401 ''invalid or expired token'')
                       | Inr c \<Rightarrow> Inr c))))"

subsection \<open>The handlers\<close>

record auth_config =
  ah_lib :: crypto_lib
  ah_secret :: string

text \<open>An e-mail address and a password as a request carries them, normalised.\<close>

definition normalEmail :: "string \<Rightarrow> string" where
  "normalEmail email = trim_space (str_lower email)"

definition credentials :: "(string \<times> string) option \<Rightarrow> 'b api_resp + string \<times> string" where
  "credentials body =
     (case body of
        None \<Rightarrow> Inl (api_msg 400 ''invalid request body'')
      | Some (email, password) \<Rightarrow>
          (if normalEmail email = [] \<or> password = [] then Inl (api_msg 400 ''email and password are required'')
           else Inr (normalEmail email, password)))"

text \<open>\<open>salt\<close> and \<open>rnd\<close> are the random bytes of bcrypt and of a new identity.\<close>

definition AuthRegister :: "auth_config \<Rightarrow> 's UserStore \<Rightarrow> time \<Rightarrow> string \<Rightarrow> string \<Rightarrow> (string \<times> string) option \<Rightarrow> 's \<Rightarrow>
    (string \<times> User) api_resp \<times> 's" where
  "AuthRegister A U now salt rnd body s =
     (case credentials body of
        Inl r \<Rightarrow> (r, s)
      | Inr (email, password) \<Rightarrow>
          (case pw_Generate (ah_lib A) password BcryptCost salt of
             Inl _ \<Rightarrow> (api_msg 500 ''failed to hash password'', s)
           | Inr h \<Rightarrow>
               (case ui_Create U now rnd \<lparr>us_ID = [], us_Email = email, us_HashedPassword = h, us_CreatedAt = zero_time\<rparr> s of
                  (Inl e, s1) \<Rightarrow> (api_error 409 e, s1)
                | (Inr user, s1) \<Rightarrow>
                    (case CreateToken (ah_lib A) (us_ID user) (us_Email user) (ah_secret A) now of
                       Inl _ \<Rightarrow> (api_msg 500 ''failed to create token'', s1)
                     | Inr token \<Rightarrow> (api_ok 201 (token, user), s1)))))"

record login_response =
  lr_Token :: string
  lr_RefreshToken :: string
  lr_User :: User

definition AuthLogin :: "auth_config \<Rightarrow> 's UserStore \<Rightarrow> time \<Rightarrow> (string \<times> string) option \<Rightarrow> 's \<Rightarrow> login_response api_resp \<times> 's" where
  "AuthLogin A U now body s =
     (case credentials body of
        Inl r \<Rightarrow> (r, s)
      | Inr (email, password) \<Rightarrow>
          (case ui_GetByEmail U email s of
             (Inl _, s1) \<Rightarrow> (api_msg 401 ''invalid email or password'', s1)
           | (Inr user, s1) \<Rightarrow>
               (case pw_Compare (ah_lib A) (us_HashedPassword user) password of
                  Some _ \<Rightarrow> (api_msg 401 ''invalid email or password'', s1)
                | None \<Rightarrow>
                    (case CreateToken (ah_lib A) (us_ID user) (us_Email user) (ah_secret A) now of
                       Inl _ \<Rightarrow> (api_msg 500 ''failed to create token'', s1)
                     | Inr token \<Rightarrow>
                         (case CreateRefreshToken (ah_lib A) (us_ID user) (ah_secret A) now of
                            Inl _ \<Rightarrow> (api_msg 500 ''failed to create refresh token'', s1)
                          | Inr refreshToken \<Rightarrow>
                              (api_ok 200 \<lparr>lr_Token = token, lr_RefreshToken = refreshToken, lr_User = user\<rparr>, s1))))))"

definition AuthRefresh :: "auth_config \<Rightarrow> 's UserStore \<Rightarrow> time \<Rightarrow> string option \<Rightarrow> 's \<Rightarrow> string api_resp \<times> 's" where
  "AuthRefresh A U now body s =
     (case body of
        None \<Rightarrow> (api_msg 400 ''invalid request body'', s)
      | Some refreshToken \<Rightarrow>
          (if refreshToken = [] then (api_msg 400 ''refreshToken is required'', s)
           else (case ValidateRefreshToken (ah_lib A) refreshToken (ah_secret A) now of
                   Inl _ \<Rightarrow> (api_msg 401 ''invalid or expired refresh token'', s)
                 | Inr userID \<Rightarrow>
                     (case ui_GetByID U userID s of
                        (Inl _, s1) \<Rightarrow> (api_msg 401 ''user not found'', s1)
                      | (Inr user, s1) \<Rightarrow>
                          (case CreateToken (ah_lib A) (us_ID user) (us_Email user) (ah_secret A) now of
                             Inl _ \<Rightarrow> (api_msg 500 ''failed to create token'', s1)
                           | Inr token \<Rightarrow> (api_ok 200 token, s1))))))"

end
