(* ===== verification/Field_Text.thy ===== *)
theory Field_Text
  imports Prelude
begin

text \<open>
  A text form of lists of strings and of integers that reads back, for the libraries with which the properties over a
  parameter are instantiated: every field has its length in front, in unary.
\<close>

definition put_field :: "string \<Rightarrow> string" where
  "put_field s = replicate (length s) (CHR ''x'') @ CHR ''.'' # s"

definition get_field :: "string \<Rightarrow> string \<times> string" where
  "get_field s = (let n = length (takeWhile (\<lambda>c. c = CHR ''x'') s); rest = drop (Suc n) s in (take n rest, drop n rest))"

lemma get_put_field [simp]: "get_field (put_field s @ t) = (s, t)"
proof -
  have "takeWhile (\<lambda>c. c = CHR ''x'') (replicate n (CHR ''x'') @ CHR ''.'' # u) = replicate n (CHR ''x'')" for n u
    by (induction n) auto
  then show ?thesis by (simp add: get_field_def put_field_def)
qed

definition put_fields :: "string list \<Rightarrow> string" where
  "put_fields fs = concat (map put_field fs)"

fun get_fields :: "nat \<Rightarrow> string \<Rightarrow> string list" where
  "get_fields 0 s = []"
| "get_fields (Suc n) s = (case get_field s of (f, t) \<Rightarrow> f # get_fields n t)"

lemma get_fields_put [simp]: "get_fields (length fs) (put_fields fs) = fs"
  by (induction fs) (simp_all add: put_fields_def)

lemma get_fields_put': "n = length fs \<Longrightarrow> get_fields n (put_fields fs) = fs"
  by simp

definition put_int :: "int \<Rightarrow> string" where
  "put_int i = (if i < 0 then CHR ''-'' else CHR ''+'') # replicate (nat \<bar>i\<bar>) (CHR ''1'')"

fun get_int :: "string \<Rightarrow> int" where
  "get_int [] = 0"
| "get_int (c # s) = (if c = CHR ''-'' then - int (length s) else int (length s))"

lemma get_put_int [simp]: "get_int (put_int i) = i"
  by (simp add: put_int_def)

end
