(* ===== verification/Auth_Props.thy ===== *)
theory Auth_Props
  imports Auth Org_Access Agent_Handler Field_Text
begin

text \<open>
  Accounts and tokens: the contract of the user stores, what registering and logging in give, and that access tokens and
  refresh tokens keep to their use.
\<close>

subsection \<open>The contract of a user store\<close>

lemma complete_user_frame [simp]:
  "us_Email (complete_user now rnd u) = us_Email u" "us_HashedPassword (complete_user now rnd u) = us_HashedPassword u"
  by (simp_all add: complete_user_def Let_def)

locale user_store =
  fixes U :: "'s UserStore"
    and byEmail :: "'s \<Rightarrow> string \<rightharpoonup> User"
    and byID :: "'s \<Rightarrow> string \<rightharpoonup> User"
  assumes create_ok: "ui_Create U now rnd u0 s = (Inr u, s') \<Longrightarrow>
      byEmail s (us_Email u0) = None \<and> u = complete_user now rnd u0 \<and>
      byEmail s' = (byEmail s)(us_Email u0 \<mapsto> u) \<and> byID s' = (byID s)(us_ID u \<mapsto> u)"
    and create_err: "ui_Create U now rnd u0 s = (Inl e, s') \<Longrightarrow> byEmail s' = byEmail s \<and> byID s' = byID s"
    and get_email: "ui_GetByEmail U m s = (r, s') \<Longrightarrow>
      byEmail s' = byEmail s \<and> byID s' = byID s \<and> (\<forall>u. r = Inr u \<longrightarrow> byEmail s m = Some u)"
    and get_id: "ui_GetByID U i s = (r, s') \<Longrightarrow>
      byEmail s' = byEmail s \<and> byID s' = byID s \<and> (\<forall>u. r = Inr u \<longrightarrow> byID s i = Some u)"
begin

lemma register_account:
  assumes "AuthRegister A U now salt rnd (Some (m, p)) s = (r, s')" and "ap_Body r = Inr (token, user)"
  shows "byEmail s (normalEmail m) = None \<and> byEmail s' = (byEmail s)(normalEmail m \<mapsto> user) \<and> us_Email user = normalEmail m \<and>
    pw_Generate (ah_lib A) p BcryptCost salt = Inr (us_HashedPassword user) \<and> normalEmail m \<noteq> [] \<and> p \<noteq> []"
  using assms unfolding AuthRegister_def
  by (auto simp: credentials_def api_defs dest!: create_ok split: if_splits sum.splits prod.splits)

lemma register_keeps_accounts:
  assumes "AuthRegister A U now salt rnd body s = (r, s')" and "byEmail s m = Some u"
  shows "byEmail s' m = Some u"
  using assms unfolding AuthRegister_def
  by (auto dest!: create_ok create_err split: if_splits sum.splits prod.splits)

lemma login_account:
  assumes "AuthLogin A U now body s = (r, s')" and "ap_Body r = Inr resp"
  shows "\<exists>m p. credentials body = (Inr (m, p) :: login_response api_resp + _) \<and> byEmail s m = Some (lr_User resp) \<and>
    pw_Compare (ah_lib A) (us_HashedPassword (lr_User resp)) p = None \<and>
    CreateToken (ah_lib A) (us_ID (lr_User resp)) (us_Email (lr_User resp)) (ah_secret A) now = Inr (lr_Token resp)"
  using assms unfolding AuthLogin_def
  by (auto simp: api_defs credentials_def dest!: get_email split: if_splits sum.splits prod.splits option.splits)

text \<open>An unknown address, a wrong password and a failing store are refused with the same words.\<close>

lemma login_refusals_alike:
  assumes "credentials body = (Inr (m, p) :: login_response api_resp + _)"
    and "byEmail s m = None \<or> (\<exists>u. byEmail s m = Some u \<and> pw_Compare (ah_lib A) (us_HashedPassword u) p \<noteq> None)"
  shows "fst (AuthLogin A U now body s) = api_msg 401 ''invalid email or password''"
  using assms unfolding AuthLogin_def
  by (auto dest!: get_email split: sum.split prod.split option.split)

end

interpretation mem_users: user_store mem_UserStore mu_byEmail mu_byID
  by unfold_locales
    (auto simp: mem_UserStore_def mem_user_Create_def mem_user_GetByEmail_def mem_user_GetByID_def Let_def
      split: if_splits option.splits)



lemma email_exists_data:
  "sql_email_exists e db = (r, db') \<Longrightarrow> q_data db' = q_data db \<and> (r = Inr False \<longrightarrow> find_key us_Email e (q_data db) = None)"
  by (auto simp: sql_email_exists_def sql_run_def split: if_splits)

lemma user_insert_data:
  "sql_user_insert u db = (Inr x, db') \<Longrightarrow> us_ID u \<notin> us_ID ` set (q_data db) \<and> q_data db' = q_data db @ [u]"
  "sql_user_insert u db = (Inl e, db') \<Longrightarrow> q_data db' = q_data db"
  by (auto simp: sql_user_insert_def sql_insert_def sql_run_def split: if_splits)

lemma sql_user_Create_data:
  assumes "sql_user_Create now rnd u0 db = (r, db')"
  shows "(\<exists>e. r = Inl e \<and> q_data db' = q_data db) \<or>
    (r = Inr (complete_user now rnd u0) \<and> find_key us_Email (us_Email u0) (q_data db) = None \<and>
      us_ID (complete_user now rnd u0) \<notin> us_ID ` set (q_data db) \<and> q_data db' = q_data db @ [complete_user now rnd u0])"
  using assms unfolding sql_user_Create_def Let_def
  by (auto dest!: email_exists_data user_insert_data split: prod.splits sum.splits bool.splits)


subsection \<open>Logging in\<close>

text \<open>
  What the code relies on: a token signed with HS256 parses with the same key to its claims until it expires, and not after;
  signing with HMAC does not fail; the hash of a password accepts that password.
\<close>

definition crypto_ok :: "crypto_lib \<Rightarrow> bool" where
  "crypto_ok L \<longleftrightarrow>
     (\<forall>c k t kf now. jwt_sign L ''HS256'' c k = Inr t \<longrightarrow> kf ''HS256'' = Inr k \<longrightarrow>
        (if now < cl_ExpiresAt c * 1000000000 then jwt_parse L t kf now = Inr c else (\<exists>e. jwt_parse L t kf now = Inl e))) \<and>
     (\<forall>c k. \<exists>t. jwt_sign L ''HS256'' c k = Inr t) \<and>
     (\<forall>p n salt h. pw_Generate L p n salt = Inr h \<longrightarrow> pw_Compare L h p = None)"

lemma crypto_parse:
  assumes "crypto_ok L" and "jwt_sign L ''HS256'' c k = Inr t"
  shows "now < cl_ExpiresAt c * 1000000000 \<Longrightarrow> jwt_parse L t (hmac_key k) now = Inr c"
    "cl_ExpiresAt c * 1000000000 \<le> now \<Longrightarrow> \<exists>e. jwt_parse L t (hmac_key k) now = Inl e"
proof -
  have "hmac_key k ''HS256'' = Inr k" by (simp add: hmac_key_def)
  then have "if now < cl_ExpiresAt c * 1000000000 then jwt_parse L t (hmac_key k) now = Inr c
      else (\<exists>e. jwt_parse L t (hmac_key k) now = Inl e)"
    using assms unfolding crypto_ok_def by blast
  then show "now < cl_ExpiresAt c * 1000000000 \<Longrightarrow> jwt_parse L t (hmac_key k) now = Inr c"
    "cl_ExpiresAt c * 1000000000 \<le> now \<Longrightarrow> \<exists>e. jwt_parse L t (hmac_key k) now = Inl e" by (auto split: if_splits)
qed

lemma split_space_at: "CHR '' '' \<notin> set a \<Longrightarrow> split_space (a @ '' '' @ b) = Some (a, b)"
  by (induction a) auto

lemma bearer_no_space: "str_lower scheme = ''bearer'' \<Longrightarrow> CHR '' '' \<notin> set scheme"
proof
  assume l: "str_lower scheme = ''bearer''" and s: "CHR '' '' \<in> set scheme"
  have "lower_char (CHR '' '') = CHR '' ''" by code_simp
  with imageI[OF s, of lower_char] have "CHR '' '' \<in> set (str_lower scheme)" by (simp add: str_lower_def)
  then show False unfolding l by simp
qed

lemma middleware_token:
  assumes "str_lower scheme = ''bearer''"
  shows "(AuthMiddleware L secret now (scheme @ '' '' @ token) :: 'b api_resp + claims) =
    (case jwt_parse L token (hmac_key secret) now of Inl e \<Rightarrow> Inl (api_msg 401 ''invalid or expired token'') | Inr c \<Rightarrow> Inr c)"
  using split_space_at[OF bearer_no_space[OF assms], of token] assms
  by (simp add: AuthMiddleware_def ValidateToken_def split: sum.split)



text \<open>
  A library for the witnesses: a token is the list of its claims and its key, as in \<open>Field_Text\<close>; a hash is the salt and
  the password.
\<close>

definition ex_fields :: "claims \<Rightarrow> string \<Rightarrow> string list" where
  "ex_fields c k = [k, cl_UserID c, cl_Email c, cl_Subject c, cl_ID c, cl_Issuer c, put_int (cl_ExpiresAt c), put_int (cl_IssuedAt c)]"

definition ex_claims :: "string list \<Rightarrow> claims" where
  "ex_claims fs = \<lparr>cl_UserID = fs ! 1, cl_Email = fs ! 2, cl_Subject = fs ! 3, cl_ID = fs ! 4, cl_Issuer = fs ! 5,
     cl_ExpiresAt = get_int (fs ! 6), cl_IssuedAt = get_int (fs ! 7)\<rparr>"

lemma ex_claims_fields [simp]: "ex_claims (ex_fields c k) = c"
  by (simp add: ex_claims_def ex_fields_def)

definition ex_parse :: "string \<Rightarrow> (string \<Rightarrow> err + string) \<Rightarrow> time \<Rightarrow> err + claims" where
  "ex_parse t kf now =
     (let fs = get_fields 8 t in
      case kf ''HS256'' of
        Inl e \<Rightarrow> Inl e
      | Inr k \<Rightarrow> (if t \<noteq> put_fields fs \<or> fs ! 0 \<noteq> k then Inl (Err ''signature is invalid'' [])
                  else if now < cl_ExpiresAt (ex_claims fs) * 1000000000 then Inr (ex_claims fs)
                  else Inl (Err ''token is expired'' [])))"

definition ex_crypto :: crypto_lib where
  "ex_crypto = \<lparr>jwt_sign = (\<lambda>_ c k. Inr (put_fields (ex_fields c k))), jwt_parse = ex_parse,
     pw_Generate = (\<lambda>p _ salt. Inr (put_fields [salt, p])),
     pw_Compare = (\<lambda>h p. if get_fields 2 h ! 1 = p then None else Some (Err ''mismatch'' []))\<rparr>"

lemma ex_crypto_ok: "crypto_ok ex_crypto"
proof -
  have "get_fields 8 (put_fields (ex_fields c k)) = ex_fields c k" for c k
    by (rule get_fields_put') (simp add: ex_fields_def)
  moreover have "ex_fields c k ! 0 = k" for c k by (simp add: ex_fields_def)
  moreover have "get_fields 2 (put_fields [s, p]) ! 1 = p" for s p
    by (subst get_fields_put') simp_all
  ultimately show ?thesis by (auto simp: crypto_ok_def ex_crypto_def ex_parse_def Let_def)
qed

definition ex_auth :: auth_config where
  "ex_auth = \<lparr>ah_lib = ex_crypto, ah_secret = ''secret''\<rparr>"

definition no_users :: user_db where
  "no_users = \<lparr>q_data = [], q_clock = 0, q_fault = (\<lambda>_. False)\<rparr>"




subsection \<open>What a token is good for\<close>

lemma org_do_anonymous: "ap_Status (fst (org_do [] rq w)) = 401 \<and> snd (org_do [] rq w) = w"
  by (cases rq) (simp_all add: OrgList_def OrgCreate_def OrgInvite_def OrgAcceptInvite_def OrgListMembers_def
      OrgDeleteWithAgentReassignment_def org_gate_def api_defs)

lemma agent_do_anonymous: "ap_Status (fst (agents_do E [] rq w)) = 401 \<and> snd (agents_do E [] rq w) = w"
  by (cases rq) (simp_all add: AgentRegister_def AgentList_def AgentApprove_def AgentReject_def AgentGet_def
      AgentArchiveStatus_def agent_gate_def api_defs)

text \<open>
  C26. Tokens keep to their use. A refresh token that the middleware lets through carries no user: whatever request it comes
  with, the organisation and agent handlers answer 401 and change nothing. An access token is never taken for a refresh
  token: asking for a new token with it is answered 400 or 401 and changes no account.
\<close>

theorem tokens_keep_to_their_use:
  assumes "crypto_ok (ah_lib A)"
    and "CreateRefreshToken (ah_lib A) u (ah_secret A) now = Inr refresh" and "str_lower scheme = ''bearer''"
    and "(AuthMiddleware (ah_lib A) (ah_secret A) t (scheme @ '' '' @ refresh) :: org_body api_resp + claims) = Inr c"
    and "CreateToken (ah_lib A) i e (ah_secret A) now = Inr access"
  shows "ap_Status (fst (org_do (cl_UserID c) orq w)) = 401 \<and> snd (org_do (cl_UserID c) orq w) = w \<and>
    ap_Status (fst (agents_do E (cl_UserID c) arq w)) = 401 \<and> snd (agents_do E (cl_UserID c) arq w) = w \<and>
    ap_Status (fst (AuthRefresh A U t (Some access) s)) \<in> {400, 401} \<and> snd (AuthRefresh A U t (Some access) s) = s"
proof -
  have "cl_UserID c = []"
    using assms(2,4) crypto_parse[OF assms(1), of _ "ah_secret A" refresh t]
    unfolding middleware_token[OF assms(3)] CreateRefreshToken_def
    by (cases "t < numeric_date (now + RefreshTokenDuration) * 1000000000") (fastforce split: sum.splits)+
  moreover have "ap_Status (fst (AuthRefresh A U t (Some access) s)) \<in> {400, 401} \<and> snd (AuthRefresh A U t (Some access) s) = s"
    using assms(5) crypto_parse[OF assms(1), of _ "ah_secret A" access t]
    unfolding CreateToken_def AuthRefresh_def ValidateRefreshToken_def
    by (cases "t < numeric_date (now + AccessTokenDuration) * 1000000000") (fastforce simp: api_defs split: sum.splits)+
  ultimately show ?thesis using org_do_anonymous agent_do_anonymous by simp
qed

theorem tokens_keep_to_their_use_witness:
  "\<exists>refresh c access. CreateRefreshToken ex_crypto ''r1'' ''secret'' 5 = Inr refresh \<and> CreateToken ex_crypto ''r1'' ''a@b.c'' ''secret'' 5 = Inr access \<and>
     (AuthMiddleware ex_crypto ''secret'' 7 (''Bearer'' @ '' '' @ refresh) :: org_body api_resp + claims) = Inr c \<and>
     ap_Status (fst (org_do (cl_UserID c) (RqCreate (Some ''acme'')) ex_org_world)) = 401 \<and>
     ap_Status (fst (AuthRefresh ex_auth sql_UserStore 7 (Some access) no_users)) \<in> {400, 401}"
proof -
  have b: "str_lower ''Bearer'' = ''bearer''" by code_simp
  have L: "crypto_ok (ah_lib ex_auth)" by (simp add: ex_auth_def ex_crypto_ok)
  let ?c = "\<lparr>cl_UserID = [], cl_Email = [], cl_Subject = ''r1'', cl_ID = ''refresh'', cl_Issuer = ''mysql-pitr'',
       cl_ExpiresAt = numeric_date (5 + RefreshTokenDuration), cl_IssuedAt = numeric_date 5\<rparr>"
  obtain refresh where sg: "jwt_sign (ah_lib ex_auth) ''HS256'' ?c ''secret'' = Inr refresh" by (simp add: ex_auth_def ex_crypto_def)
  then have cr: "CreateRefreshToken (ah_lib ex_auth) ''r1'' (ah_secret ex_auth) 5 = Inr refresh"
    by (simp add: CreateRefreshToken_def) (simp add: ex_auth_def)
  have "7 < cl_ExpiresAt ?c * 1000000000" by (simp add: numeric_date_def RefreshTokenDuration_def)
  from crypto_parse(1)[OF L sg this]
  have m: "(AuthMiddleware (ah_lib ex_auth) (ah_secret ex_auth) 7 (''Bearer'' @ '' '' @ refresh) :: org_body api_resp + claims) = Inr ?c"
    unfolding middleware_token[OF b] by (simp add: ex_auth_def)
  obtain access where a: "CreateToken (ah_lib ex_auth) ''r1'' ''a@b.c'' (ah_secret ex_auth) 5 = Inr access"
    by (simp add: CreateToken_def ex_auth_def ex_crypto_def)
  from tokens_keep_to_their_use[OF L cr b m a, where orq = "RqCreate (Some ''acme'')" and w = ex_org_world
      and U = sql_UserStore and s = no_users]
  show ?thesis using cr a m by (intro exI[of _ refresh] exI[of _ ?c] exI[of _ access]) (simp add: ex_auth_def)
qed

subsection \<open>The accounts\<close>

lemma lower_char_idem: "lower_char (lower_char c) = lower_char c"
proof (cases "CHR ''A'' \<le> c \<and> c \<le> CHR ''Z''")
  case True
  then have n: "65 \<le> (of_char c :: nat)" "(of_char c :: nat) \<le> 90" by (simp_all add: less_eq_char_def)
  then have "(of_char (char_of ((of_char c :: nat) + 32)) :: nat) = of_char c + 32" by (simp add: of_char_of)
  with n True show ?thesis by (simp add: lower_char_def less_eq_char_def)
next
  case False
  then have "lower_char c = c" by (auto simp: lower_char_def)
  then show ?thesis by simp
qed

lemma trim_fixed: "t = [] \<or> \<not> is_space (hd t) \<and> \<not> is_space (last t) \<Longrightarrow> trim_space t = t"
proof -
  assume t: "t = [] \<or> \<not> is_space (hd t) \<and> \<not> is_space (last t)"
  then have d: "dropWhile is_space t = t" by (cases t) auto
  from t have "dropWhile is_space (rev t) = rev t" by (cases t rule: rev_cases) auto
  with d show ?thesis by (simp add: trim_space_def)
qed

lemma trim_ends: "trim_space s = [] \<or> \<not> is_space (hd (trim_space s)) \<and> \<not> is_space (last (trim_space s))"
proof -
  define u where "u = dropWhile is_space s"
  define t where "t = trim_space s"
  have t: "t = rev (dropWhile is_space (rev u))" by (simp add: t_def trim_space_def u_def)
  have l: "\<not> is_space (last t)" if "t \<noteq> []" using that hd_dropWhile[of is_space "rev u"] by (simp add: t last_rev)
  have h: "\<not> is_space (hd t)" if "t \<noteq> []"
  proof -
    have u: "u = t @ rev (takeWhile is_space (rev u))" unfolding t
      by (metis rev_append rev_rev_ident takeWhile_dropWhile_id)
    have "u \<noteq> []" using that u by auto
    then have "\<not> is_space (hd u)" using hd_dropWhile[of is_space s] by (simp add: u_def)
    moreover have "hd u = hd t" using that by (subst u) simp
    ultimately show ?thesis by simp
  qed
  show ?thesis using l h unfolding t_def by blast
qed

lemma trim_subset: "set (trim_space s) \<subseteq> set s"
  by (auto simp: trim_space_def dest!: set_dropWhileD)

lemma normalEmail_idem: "normalEmail (normalEmail e) = normalEmail e"
proof -
  have "lower_char c = c" if "c \<in> set (trim_space (str_lower e))" for c
    using that trim_subset[of "str_lower e"] lower_char_idem by (auto simp: str_lower_def)
  then have "str_lower (normalEmail e) = normalEmail e" by (simp add: str_lower_def normalEmail_def map_idI)
  then show ?thesis using trim_fixed[OF trim_ends] by (simp add: normalEmail_def)
qed

lemma hex_encode_Nil: "hex_encode s = [] \<longleftrightarrow> s = []"
  by (cases s) (simp_all add: Let_def)

text \<open>The public requests, and what random bytes and clock give them: 16 bytes, and not the zero time.\<close>

datatype auth_call =
    CallRegister time string string "(string \<times> string) option"
  | CallLogin time "(string \<times> string) option"
  | CallRefresh time "string option"

fun auth_do :: "auth_config \<Rightarrow> 's UserStore \<Rightarrow> auth_call \<Rightarrow> 's \<Rightarrow> 's" where
  "auth_do A U (CallRegister now salt rnd body) s = snd (AuthRegister A U now salt rnd body s)"
| "auth_do A U (CallLogin now body) s = snd (AuthLogin A U now body s)"
| "auth_do A U (CallRefresh now body) s = snd (AuthRefresh A U now body s)"

fun call_inputs :: "auth_call \<Rightarrow> bool" where
  "call_inputs (CallRegister now salt rnd body) \<longleftrightarrow> length rnd = 16 \<and> \<not> time_is_zero now"
| "call_inputs _ = True"

definition account_ok :: "crypto_lib \<Rightarrow> User \<Rightarrow> bool" where
  "account_ok L u \<longleftrightarrow> us_ID u \<noteq> [] \<and> us_Email u \<noteq> [] \<and> normalEmail (us_Email u) = us_Email u \<and> \<not> time_is_zero (us_CreatedAt u) \<and>
     (\<exists>p salt. p \<noteq> [] \<and> pw_Generate L p BcryptCost salt = Inr (us_HashedPassword u))"

definition accounts_ok :: "crypto_lib \<Rightarrow> User list \<Rightarrow> bool" where
  "accounts_ok L us \<longleftrightarrow> distinct (map us_ID us) \<and> distinct (map us_Email us) \<and> (\<forall>u\<in>set us. account_ok L u)"

lemma get_data:
  "sql_user_GetByEmail m db = (r, db') \<Longrightarrow> q_data db' = q_data db" "sql_user_GetByID m db = (r, db') \<Longrightarrow> q_data db' = q_data db"
  by (auto simp: sql_user_GetByEmail_def sql_user_GetByID_def getBy_def sql_run_def split: if_splits)

lemma register_keeps_ok:
  assumes "AuthRegister A sql_UserStore now salt rnd body db = (r, db')" and "length rnd = 16" and "\<not> time_is_zero now"
    and "accounts_ok (ah_lib A) (q_data db)"
  shows "accounts_ok (ah_lib A) (q_data db')"
proof (cases "\<exists>m p h. body = Some (m, p) \<and> normalEmail m \<noteq> [] \<and> p \<noteq> [] \<and> pw_Generate (ah_lib A) p BcryptCost salt = Inr h")
  case True
  then obtain m p h where b: "body = Some (m, p)" "normalEmail m \<noteq> []" "p \<noteq> []" "pw_Generate (ah_lib A) p BcryptCost salt = Inr h"
    by blast
  let ?raw = "\<lparr>us_ID = [], us_Email = normalEmail m, us_HashedPassword = h, us_CreatedAt = zero_time\<rparr>"
  let ?new = "complete_user now rnd ?raw"
  obtain rc dc where c: "sql_user_Create now rnd ?raw db = (rc, dc)" by fastforce
  have "db' = dc" using assms(1) b c
    by (auto simp: AuthRegister_def credentials_def sql_UserStore_def split: sum.splits)
  moreover have "us_ID ?new \<noteq> []" "\<not> time_is_zero (us_CreatedAt ?new)" using assms(2,3)
    by (auto simp: complete_user_def Let_def generateID_def hex_encode_Nil)
  then have "account_ok (ah_lib A) ?new" using b by (auto simp: account_ok_def normalEmail_idem)
  ultimately show ?thesis using sql_user_Create_data[OF c] assms(4)
    by (auto simp: accounts_ok_def find_key_None)
next
  case False
  then have "db' = db" using assms(1)
    by (auto simp: AuthRegister_def credentials_def split: if_splits option.splits sum.splits)
  with assms(4) show ?thesis by simp
qed

lemma auth_do_keeps_ok:
  assumes "call_inputs c" and "accounts_ok (ah_lib A) (q_data db)"
  shows "accounts_ok (ah_lib A) (q_data (auth_do A sql_UserStore c db))"
proof (cases c)
  case (CallRegister now salt rnd body)
  with assms show ?thesis using register_keeps_ok[OF prod.collapse[symmetric]] by simp
next
  case (CallLogin now body)
  have "q_data (snd (AuthLogin A sql_UserStore now body db)) = q_data db"
    by (auto simp: AuthLogin_def sql_UserStore_def dest!: get_data split: sum.split prod.split option.split)
  with assms(2) show ?thesis by (simp add: CallLogin)
next
  case (CallRefresh now body)
  have "q_data (snd (AuthRefresh A sql_UserStore now body db)) = q_data db"
    by (auto simp: AuthRefresh_def sql_UserStore_def dest!: get_data split: sum.split prod.split option.split)
  with assms(2) show ?thesis by (simp add: CallRefresh)
qed

text \<open>
  C40. The table of accounts stays well formed. Whatever is posted to the public endpoints, in any order and whichever calls
  of the database fail: identities and e-mail addresses stay unique and not empty, every address is in its normal form, every
  account has a time of creation, and in place of a password it has a hash that bcrypt made of one at the configured cost.
\<close>

theorem accounts_stay_well_formed:
  assumes "accounts_ok (ah_lib A) (q_data db)" and "list_all call_inputs cs"
  shows "accounts_ok (ah_lib A) (q_data (fold (auth_do A sql_UserStore) cs db))"
  using assms by (induction cs arbitrary: db) (simp_all add: auth_do_keeps_ok)

theorem accounts_stay_well_formed_witness:
  "accounts_ok ex_crypto (q_data (fold (auth_do ex_auth sql_UserStore)
     [CallRegister 5 ''salt'' (replicate 16 (CHR ''r'')) (Some ('' A@b.C'', ''pw'')), CallLogin 6 (Some (''a@b.c'', ''pw''))] no_users))"
  using accounts_stay_well_formed[of ex_auth no_users
      "[CallRegister 5 ''salt'' (replicate 16 (CHR ''r'')) (Some ('' A@b.C'', ''pw'')), CallLogin 6 (Some (''a@b.c'', ''pw''))]"]
  by (simp add: accounts_ok_def no_users_def ex_auth_def time_is_zero_def zero_time_def)

end
