(* ===== verification/Ca.thy ===== *)
theory Ca
  imports Fs Hub "HOL-Library.Word"
begin

text \<open>
  \<open>internal/ws/ca\<close> (\<open>ca.go\<close>, \<open>storage.go\<close>): the certificate authority, its storage in memory and in a JSON file, and the
  contract of a storage as the locale \<open>cert_storage\<close>. Keys, certificates in DER and their PEM text are byte strings; the
  packages that make and read them (\<open>crypto/x509\<close>, \<open>crypto/ecdsa\<close>, \<open>encoding/pem\<close>, \<open>tls\<close>, \<open>net\<close>) are the parameter \<open>pki_lib\<close>.
\<close>

subsection \<open>Certificates and the libraries that handle them\<close>

datatype key_use = DigitalSignature | CertSign | CRLSign
datatype ext_use = ClientAuth | ServerAuth

text \<open>The fields of \<open>x509.Certificate\<close> that the templates set.\<close>

record certificate =
  ct_SerialNumber :: int
  ct_CommonName :: string
  ct_Organization :: "string list"
  ct_NotBefore :: time
  ct_NotAfter :: time
  ct_KeyUsage :: "key_use list"
  ct_ExtKeyUsage :: "ext_use list"
  ct_IsCA :: bool
  ct_DNSNames :: "string list"
  ct_IPAddresses :: "string list"

text \<open>A parsed PKCS#10 request: what \<open>CheckSignature\<close> returns, the public key and whether it is an ECDSA key.\<close>

record csr =
  cr_Signature :: "err option"
  cr_PublicKey :: string
  cr_IsECDSA :: bool

text \<open>\<open>tls.Certificate\<close>.\<close>

record tls_cert =
  tc_Certificate :: "string list"
  tc_PrivateKey :: string
  tc_Leaf :: "certificate option"

text \<open>
  Generating a key and drawing a number below a bound take the random bytes; \<open>pk_CreateCertificate\<close> takes template,
  parent, public key and signing key; \<open>pk_Decode\<close> gives the first PEM block, type and bytes.
\<close>

record pki_lib =
  pk_GenerateKey :: "string \<Rightarrow> err + string"
  pk_RandInt :: "int \<Rightarrow> string \<Rightarrow> err + int"
  pk_Public :: "string \<Rightarrow> string"
  pk_CreateCertificate :: "certificate \<Rightarrow> certificate \<Rightarrow> string \<Rightarrow> string \<Rightarrow> err + string"
  pk_ParseCertificate :: "string \<Rightarrow> err + certificate"
  pk_MarshalKey :: "string \<Rightarrow> err + string"
  pk_ParseKey :: "string \<Rightarrow> err + string"
  pk_Encode :: "string \<Rightarrow> string \<Rightarrow> string"
  pk_Decode :: "string \<Rightarrow> (string \<times> string) option"
  pk_ParseRequest :: "string \<Rightarrow> err + csr"
  pk_ParseIP :: "string \<Rightarrow> string option"
  pk_X509KeyPair :: "string \<Rightarrow> string \<Rightarrow> err + tls_cert"

subsection \<open>The interface of a storage\<close>

text \<open>\<open>LoadRootCA\<close>: certificate (\<open>None\<close>: nil) and key in PEM.\<close>

record 's CertStorage =
  cs_LoadRootCA :: "'s \<Rightarrow> (err + string option \<times> string) \<times> 's"
  cs_StoreRootCA :: "string \<Rightarrow> string \<Rightarrow> 's \<Rightarrow> err option \<times> 's"
  cs_IsRevoked :: "string \<Rightarrow> 's \<Rightarrow> (err + bool) \<times> 's"
  cs_AddRevoked :: "string \<Rightarrow> 's \<Rightarrow> err option \<times> 's"

subsection \<open>The authority\<close>

record 's CA =
  ca_storage :: 's
  ca_rootCert :: "certificate option"
  ca_rootKey :: "string option"
  ca_serial :: "64 word"
  ca_revoked :: "string \<rightharpoonup> bool"

definition RootValidity :: int where
  "RootValidity = 10 * 365 * 24 * 3600 * 1000000000"

definition CertValidity :: int where
  "CertValidity = 90 * 24 * 3600 * 1000000000"

definition NewCA :: "'s \<Rightarrow> 's CA" where
  "NewCA s = \<lparr>ca_storage = s, ca_rootCert = None, ca_rootKey = None, ca_serial = 0, ca_revoked = Map.empty\<rparr>"

definition an_hour :: int where
  "an_hour = 3600 * 1000000000"

definition root_template :: "int \<Rightarrow> time \<Rightarrow> certificate" where
  "root_template serial now =
     \<lparr>ct_SerialNumber = serial, ct_CommonName = ''Platform Internal CA'', ct_Organization = [''MySQL PITR Platform''],
      ct_NotBefore = now - an_hour, ct_NotAfter = now + RootValidity, ct_KeyUsage = [CertSign, CRLSign],
      ct_ExtKeyUsage = [], ct_IsCA = True, ct_DNSNames = [], ct_IPAddresses = []\<rparr>"

text \<open>\<open>loadRevoked\<close> does nothing.\<close>

definition loadRoot :: "pki_lib \<Rightarrow> string \<Rightarrow> string \<Rightarrow> 's CA \<Rightarrow> (err + tls_cert) \<times> 's CA" where
  "loadRoot L certPEM keyPEM ca =
     (case pk_Decode L certPEM of
        None \<Rightarrow> (Inl (Err ''ca: decode root cert PEM'' []), ca)
      | Some (_, certDER) \<Rightarrow>
          (case pk_Decode L keyPEM of
             None \<Rightarrow> (Inl (Err ''ca: decode root key PEM'' []), ca)
           | Some (_, keyDER) \<Rightarrow>
               (case pk_ParseCertificate L certDER of
                  Inl e \<Rightarrow> (Inl (Wrap ''ca: parse root cert: %w'' [] e), ca)
                | Inr parsed \<Rightarrow>
                    (case pk_ParseKey L keyDER of
                       Inl e \<Rightarrow> (Inl (Wrap ''ca: parse root key: %w'' [] e), ca)
                     | Inr key \<Rightarrow>
                         (Inr \<lparr>tc_Certificate = [certDER], tc_PrivateKey = key, tc_Leaf = Some parsed\<rparr>,
                          ca\<lparr>ca_rootCert := Some parsed, ca_rootKey := Some key\<rparr>)))))"

text \<open>The part of \<open>GenerateRoot\<close> after it found no root; \<open>r1\<close> and \<open>r2\<close> are the random bytes that key and serial take.\<close>

definition new_root :: "pki_lib \<Rightarrow> 's CertStorage \<Rightarrow> time \<Rightarrow> string \<Rightarrow> string \<Rightarrow> 's CA \<Rightarrow> (err + tls_cert) \<times> 's CA" where
  "new_root L S now r1 r2 ca =
     (case pk_GenerateKey L r1 of
        Inl e \<Rightarrow> (Inl (Wrap ''ca: generate root key: %w'' [] e), ca)
      | Inr key \<Rightarrow>
          (case pk_RandInt L (2 ^ 128) r2 of
             Inl e \<Rightarrow> (Inl (Wrap ''ca: generate root serial: %w'' [] e), ca)
           | Inr serial \<Rightarrow>
               (let template = root_template serial now in
                case pk_CreateCertificate L template template (pk_Public L key) key of
                  Inl e \<Rightarrow> (Inl (Wrap ''ca: create root cert: %w'' [] e), ca)
                | Inr der \<Rightarrow>
                    (case pk_MarshalKey L key of
                       Inl e \<Rightarrow> (Inl (Wrap ''ca: marshal root key: %w'' [] e), ca)
                     | Inr keyDER \<Rightarrow>
                         (case cs_StoreRootCA S (pk_Encode L ''CERTIFICATE'' der) (pk_Encode L ''EC PRIVATE KEY'' keyDER) (ca_storage ca) of
                            (Some e, s) \<Rightarrow> (Inl (Wrap ''ca: store root: %w'' [] e), ca\<lparr>ca_storage := s\<rparr>)
                          | (None, s) \<Rightarrow>
                              (case pk_ParseCertificate L der of
                                 Inl e \<Rightarrow> (Inl (Wrap ''ca: parse root cert: %w'' [] e), ca\<lparr>ca_storage := s\<rparr>)
                               | Inr parsed \<Rightarrow>
                                   (Inr \<lparr>tc_Certificate = [der], tc_PrivateKey = key, tc_Leaf = Some parsed\<rparr>,
                                    ca\<lparr>ca_storage := s, ca_rootCert := Some parsed, ca_rootKey := Some key\<rparr>)))))))"

definition GenerateRoot :: "pki_lib \<Rightarrow> 's CertStorage \<Rightarrow> time \<Rightarrow> string \<Rightarrow> string \<Rightarrow> 's CA \<Rightarrow> (err + tls_cert) \<times> 's CA" where
  "GenerateRoot L S now r1 r2 ca =
     (case cs_LoadRootCA S (ca_storage ca) of
        (Inr (Some certPEM, keyPEM), s) \<Rightarrow> loadRoot L certPEM keyPEM (ca\<lparr>ca_storage := s\<rparr>)
      | (_, s) \<Rightarrow> new_root L S now r1 r2 (ca\<lparr>ca_storage := s\<rparr>))"

definition root_missing :: err where
  "root_missing = Err ''ca: root not initialised; call GenerateRoot first'' []"

definition client_template :: "64 word \<Rightarrow> string \<Rightarrow> time \<Rightarrow> certificate" where
  "client_template serial agentID now =
     \<lparr>ct_SerialNumber = sint serial, ct_CommonName = agentID, ct_Organization = [''MySQL PITR Agent''],
      ct_NotBefore = now - an_hour, ct_NotAfter = now + CertValidity, ct_KeyUsage = [DigitalSignature],
      ct_ExtKeyUsage = [ClientAuth], ct_IsCA = False, ct_DNSNames = [], ct_IPAddresses = []\<rparr>"

definition SignCSR :: "pki_lib \<Rightarrow> string \<Rightarrow> string \<Rightarrow> time \<Rightarrow> 's CA \<Rightarrow> (err + string) \<times> 's CA" where
  "SignCSR L csrPEM agentID now ca =
     (case (ca_rootCert ca, ca_rootKey ca) of
        (Some rootCert, Some rootKey) \<Rightarrow>
          (case pk_Decode L csrPEM of
             None \<Rightarrow> (Inl (Err ''ca: invalid CSR PEM'' []), ca)
           | Some (type, bytes) \<Rightarrow>
               (if type \<noteq> ''CERTIFICATE REQUEST'' then (Inl (Err ''ca: invalid CSR PEM'' []), ca)
                else (case pk_ParseRequest L bytes of
                        Inl e \<Rightarrow> (Inl (Wrap ''ca: parse CSR: %w'' [] e), ca)
                      | Inr req \<Rightarrow>
                          (case cr_Signature req of
                             Some e \<Rightarrow> (Inl (Wrap ''ca: CSR signature validation failed: %w'' [] e), ca)
                           | None \<Rightarrow>
                               (if \<not> cr_IsECDSA req then (Inl (Err ''ca: CSR public key must be ECDSA'' []), ca)
                                else (let serial = ca_serial ca + 1; ca1 = ca\<lparr>ca_serial := serial\<rparr> in
                                      case pk_CreateCertificate L (client_template serial agentID now) rootCert (cr_PublicKey req) rootKey of
                                        Inl e \<Rightarrow> (Inl (Wrap ''ca: sign CSR: %w'' [] e), ca1)
                                      | Inr der \<Rightarrow> (Inr (pk_Encode L ''CERTIFICATE'' der), ca1)))))))
      | _ \<Rightarrow> (Inl root_missing, ca))"

text \<open>The cache is set before the storage is asked to record the revocation.\<close>

definition Revoke :: "'s CertStorage \<Rightarrow> string \<Rightarrow> 's CA \<Rightarrow> err option \<times> 's CA" where
  "Revoke S serial ca =
     (let ca1 = ca\<lparr>ca_revoked := (ca_revoked ca)(serial \<mapsto> True)\<rparr> in
      case cs_AddRevoked S serial (ca_storage ca1) of
        (Some e, s) \<Rightarrow> (Some (Wrap ''ca: persist revocation: %w'' [] e), ca1\<lparr>ca_storage := s\<rparr>)
      | (None, s) \<Rightarrow> (None, ca1\<lparr>ca_storage := s\<rparr>))"

definition IsRevoked :: "'s CertStorage \<Rightarrow> string \<Rightarrow> 's CA \<Rightarrow> bool \<times> 's CA" where
  "IsRevoked S serial ca =
     (case ca_revoked ca serial of
        Some revoked \<Rightarrow> (revoked, ca)
      | None \<Rightarrow>
          (case cs_IsRevoked S serial (ca_storage ca) of
             (Inl _, s) \<Rightarrow> (False, ca\<lparr>ca_storage := s\<rparr>)
           | (Inr stored, s) \<Rightarrow> (stored, ca\<lparr>ca_storage := s, ca_revoked := (ca_revoked ca)(serial \<mapsto> stored)\<rparr>)))"

subsection \<open>The server's certificate\<close>

definition server_template :: "64 word \<Rightarrow> time \<Rightarrow> certificate" where
  "server_template serial now =
     \<lparr>ct_SerialNumber = sint serial, ct_CommonName = ''mysql-pitr-server'', ct_Organization = [''MySQL PITR Platform''],
      ct_NotBefore = now - an_hour, ct_NotAfter = now + CertValidity, ct_KeyUsage = [DigitalSignature],
      ct_ExtKeyUsage = [ServerAuth], ct_IsCA = False, ct_DNSNames = [], ct_IPAddresses = []\<rparr>"

fun add_hosts :: "pki_lib \<Rightarrow> string list \<Rightarrow> certificate \<Rightarrow> certificate" where
  "add_hosts L [] t = t"
| "add_hosts L (h # hs) t =
     (if h = [] then add_hosts L hs t
      else (case pk_ParseIP L h of
              Some ip \<Rightarrow> add_hosts L hs (t\<lparr>ct_IPAddresses := ct_IPAddresses t @ [ip]\<rparr>)
            | None \<Rightarrow> add_hosts L hs (t\<lparr>ct_DNSNames := ct_DNSNames t @ [h]\<rparr>)))"

definition SignServerCert :: "pki_lib \<Rightarrow> string list \<Rightarrow> time \<Rightarrow> string \<Rightarrow> 's CA \<Rightarrow> (err + tls_cert) \<times> 's CA" where
  "SignServerCert L hosts now rnd ca =
     (case (ca_rootCert ca, ca_rootKey ca) of
        (Some rootCert, Some rootKey) \<Rightarrow>
          (case pk_GenerateKey L rnd of
             Inl e \<Rightarrow> (Inl (Wrap ''ca: generate server key: %w'' [] e), ca)
           | Inr key \<Rightarrow>
               (let serial = ca_serial ca + 1; ca1 = ca\<lparr>ca_serial := serial\<rparr>;
                    t = add_hosts L hosts (server_template serial now);
                    t1 = (if ct_DNSNames t = [] \<and> ct_IPAddresses t = [] then t\<lparr>ct_DNSNames := [''localhost'']\<rparr> else t) in
                case pk_CreateCertificate L t1 rootCert (pk_Public L key) rootKey of
                  Inl e \<Rightarrow> (Inl (Wrap ''ca: sign server cert: %w'' [] e), ca1)
                | Inr der \<Rightarrow>
                    (case pk_MarshalKey L key of
                       Inl e \<Rightarrow> (Inl (Wrap ''ca: marshal server key: %w'' [] e), ca1)
                     | Inr keyDER \<Rightarrow>
                         (case pk_X509KeyPair L (pk_Encode L ''CERTIFICATE'' der) (pk_Encode L ''EC PRIVATE KEY'' keyDER) of
                            Inl e \<Rightarrow> (Inl (Wrap ''ca: load server keypair: %w'' [] e), ca1)
                          | Inr cert \<Rightarrow> (Inr cert, ca1)))))
      | _ \<Rightarrow> (Inl root_missing, ca))"

text \<open>The parts of \<open>tls.Config\<close> that are set: the kind of client authentication, the pool, the lowest version.\<close>

datatype client_auth = RequireAndVerifyClientCert

record tls_config =
  tl_ClientAuth :: client_auth
  tl_ClientCAs :: "certificate list"
  tl_MinVersion :: nat

definition ServerTLSConfig :: "'s CA \<Rightarrow> tls_config" where
  "ServerTLSConfig ca =
     \<lparr>tl_ClientAuth = RequireAndVerifyClientCert, tl_ClientCAs = (case ca_rootCert ca of None \<Rightarrow> [] | Some c \<Rightarrow> [c]),
      tl_MinVersion = 0x0303\<rparr>"

subsection \<open>Storage in memory\<close>

record MemStorage =
  ms_caCert :: "string option"
  ms_caKey :: string
  ms_revoked :: "string \<rightharpoonup> bool"

definition NewMemStorage :: MemStorage where
  "NewMemStorage = \<lparr>ms_caCert = None, ms_caKey = [], ms_revoked = Map.empty\<rparr>"

definition mem_LoadRootCA :: "MemStorage \<Rightarrow> (err + string option \<times> string) \<times> MemStorage" where
  "mem_LoadRootCA m =
     ((case ms_caCert m of None \<Rightarrow> Inl (Err ''mem: no root CA stored'' []) | Some c \<Rightarrow> Inr (Some c, ms_caKey m)), m)"

definition mem_StoreRootCA :: "string \<Rightarrow> string \<Rightarrow> MemStorage \<Rightarrow> err option \<times> MemStorage" where
  "mem_StoreRootCA certPEM keyPEM m = (None, m\<lparr>ms_caCert := Some certPEM, ms_caKey := keyPEM\<rparr>)"

definition mem_IsRevoked :: "string \<Rightarrow> MemStorage \<Rightarrow> (err + bool) \<times> MemStorage" where
  "mem_IsRevoked serial m = (Inr (case ms_revoked m serial of None \<Rightarrow> False | Some revoked \<Rightarrow> revoked), m)"

definition mem_AddRevoked :: "string \<Rightarrow> MemStorage \<Rightarrow> err option \<times> MemStorage" where
  "mem_AddRevoked serial m = (None, m\<lparr>ms_revoked := (ms_revoked m)(serial \<mapsto> True)\<rparr>)"

definition mem_storage :: "MemStorage CertStorage" where
  "mem_storage = \<lparr>cs_LoadRootCA = mem_LoadRootCA, cs_StoreRootCA = mem_StoreRootCA, cs_IsRevoked = mem_IsRevoked,
     cs_AddRevoked = mem_AddRevoked\<rparr>"

subsection \<open>Storage in a file\<close>

record fileStoreData =
  fd_CACert :: string
  fd_CAKey :: string
  fd_Revoked :: "string list"

type_synonym ca_dir = "fileStoreData json_file fsys"

definition no_data :: fileStoreData where
  "no_data = \<lparr>fd_CACert = [], fd_CAKey = [], fd_Revoked = []\<rparr>"

definition file_read :: "string \<Rightarrow> ca_dir \<Rightarrow> (err + fileStoreData) \<times> ca_dir" where
  "file_read path fs =
     (case os_ReadFile path fs of
        (Inl e, fs1) \<Rightarrow>
          (if e = os_ErrNotExist then (Inr no_data, fs1) else (Inl (Wrap ''file storage: read %s: %w'' [path] e), fs1))
      | (Inr Corrupt, fs1) \<Rightarrow> (Inl (Err ''file storage: parse %s: %w'' [path]), fs1)
      | (Inr (Json data), fs1) \<Rightarrow> (Inr data, fs1))"

definition file_write :: "string \<Rightarrow> fileStoreData \<Rightarrow> ca_dir \<Rightarrow> err option \<times> ca_dir" where
  "file_write path data fs =
     (case os_MkdirAll fs of
        (Some e, fs1) \<Rightarrow> (Some (Wrap ''file storage: create dir: %w'' [] e), fs1)
      | (None, fs1) \<Rightarrow>
          (let tmp = path @ ''.tmp'' in
           case os_WriteFile tmp (Json data) fs1 of
             (Some e, fs2) \<Rightarrow> (Some (Wrap ''file storage: write tmp: %w'' [] e), fs2)
           | (None, fs2) \<Rightarrow>
               (case os_Rename tmp path fs2 of
                  (Some e, fs3) \<Rightarrow> (Some (Wrap ''file storage: rename: %w'' [] e), snd (os_Remove tmp fs3))
                | (None, fs3) \<Rightarrow> (None, fs3))))"

definition file_LoadRootCA :: "string \<Rightarrow> ca_dir \<Rightarrow> (err + string option \<times> string) \<times> ca_dir" where
  "file_LoadRootCA path fs =
     (case file_read path fs of
        (Inl e, fs1) \<Rightarrow> (Inl e, fs1)
      | (Inr data, fs1) \<Rightarrow>
          (if fd_CACert data = [] then (Inl (Err ''file storage: no root CA stored at %s'' [path]), fs1)
           else (Inr (Some (fd_CACert data), fd_CAKey data), fs1)))"

definition file_StoreRootCA :: "string \<Rightarrow> string \<Rightarrow> string \<Rightarrow> ca_dir \<Rightarrow> err option \<times> ca_dir" where
  "file_StoreRootCA path certPEM keyPEM fs =
     (case file_read path fs of (r, fs1) \<Rightarrow>
        (let data = (case r of Inl _ \<Rightarrow> no_data | Inr d \<Rightarrow> d) in
         file_write path (data\<lparr>fd_CACert := certPEM, fd_CAKey := keyPEM\<rparr>) fs1))"

definition file_IsRevoked :: "string \<Rightarrow> string \<Rightarrow> ca_dir \<Rightarrow> (err + bool) \<times> ca_dir" where
  "file_IsRevoked path serial fs =
     (case file_read path fs of
        (Inl _, fs1) \<Rightarrow> (Inr False, fs1)
      | (Inr data, fs1) \<Rightarrow> (Inr (list_ex (\<lambda>r. r = serial) (fd_Revoked data)), fs1))"

definition file_AddRevoked :: "string \<Rightarrow> string \<Rightarrow> ca_dir \<Rightarrow> err option \<times> ca_dir" where
  "file_AddRevoked path serial fs =
     (case file_read path fs of (r, fs1) \<Rightarrow>
        (let data = (case r of Inl _ \<Rightarrow> no_data | Inr d \<Rightarrow> d) in
         if list_ex (\<lambda>r. r = serial) (fd_Revoked data) then (None, fs1)
         else file_write path (data\<lparr>fd_Revoked := sort (fd_Revoked data @ [serial])\<rparr>) fs1))"

definition file_storage :: "string \<Rightarrow> ca_dir CertStorage" where
  "file_storage path = \<lparr>cs_LoadRootCA = file_LoadRootCA path, cs_StoreRootCA = file_StoreRootCA path,
     cs_IsRevoked = file_IsRevoked path, cs_AddRevoked = file_AddRevoked path\<rparr>"

subsection \<open>In the hub\<close>

text \<open>The authority as the hub's \<open>CSRHandler\<close>, at one moment.\<close>

definition ca_handler :: "pki_lib \<Rightarrow> 's CertStorage \<Rightarrow> time \<Rightarrow> 's CA \<Rightarrow> csr_handler" where
  "ca_handler L S now ca =
     \<lparr>ch_SignCSR = (\<lambda>csrPEM agentID. fst (SignCSR L csrPEM agentID now ca)), ch_IsRevoked = (\<lambda>serial. fst (IsRevoked S serial ca))\<rparr>"

end
