(* ===== verification/Ca_Props.thy ===== *)
theory Ca_Props
  imports Ca Field_Text
begin

text \<open>
  The certificate authority over any storage that keeps the contract \<open>cert_storage\<close>: revocations and the root survive
  restarts, certificates name whom they are issued for; and what happens at a moment at which the storage cannot be read.
\<close>

subsection \<open>The contract of a storage\<close>

text \<open>
  \<open>root\<close> and \<open>revs\<close> are what the storage holds, \<open>readable\<close> whether a call now could read it. Without it a call may lose
  what is there; with it a call does what it answers, and a failing one nothing.
\<close>

locale cert_storage =
  fixes S :: "'s CertStorage"
    and readable :: "'s \<Rightarrow> bool"
    and root :: "'s \<Rightarrow> (string \<times> string) option"
    and revs :: "'s \<Rightarrow> string set"
  assumes load: "cs_LoadRootCA S s = (r, s') \<Longrightarrow> root s' = root s \<and> revs s' = revs s \<and>
      (readable s \<longrightarrow> (case root s of None \<Rightarrow> \<exists>e. r = Inl e | Some (c, k) \<Rightarrow> r = Inr (Some c, k)))"
    and store: "cs_StoreRootCA S c k s = (re, s') \<Longrightarrow> readable s \<Longrightarrow> c \<noteq> [] \<Longrightarrow>
      revs s' = revs s \<and> root s' = (if re = None then Some (c, k) else root s)"
    and is_revoked: "cs_IsRevoked S x s = (rb, s') \<Longrightarrow> root s' = root s \<and> revs s' = revs s \<and>
      (readable s \<longrightarrow> rb = Inr (x \<in> revs s))"
    and add_revoked: "cs_AddRevoked S x s = (re, s') \<Longrightarrow> readable s \<Longrightarrow>
      root s' = root s \<and> revs s' = (if re = None then insert x (revs s) else revs s)"

text \<open>The calls on an authority; \<open>CRestart\<close>: a new process on the same storage.\<close>

datatype ca_call =
    CGenerate time string string
  | CSign string string time
  | CServer "string list" time string
  | CRevoke string
  | CQuery string
  | CRestart

fun ca_do :: "pki_lib \<Rightarrow> 's CertStorage \<Rightarrow> ca_call \<Rightarrow> 's CA \<Rightarrow> 's CA" where
  "ca_do L S (CGenerate now r1 r2) ca = snd (GenerateRoot L S now r1 r2 ca)"
| "ca_do L S (CSign csr i now) ca = snd (SignCSR L csr i now ca)"
| "ca_do L S (CServer hosts now rnd) ca = snd (SignServerCert L hosts now rnd ca)"
| "ca_do L S (CRevoke x) ca = snd (Revoke S x ca)"
| "ca_do L S (CQuery x) ca = snd (IsRevoked S x ca)"
| "ca_do L S CRestart ca = NewCA (ca_storage ca)"

text \<open>Whether the storage can be read whenever a call reads it: \<open>GenerateRoot\<close> may read it twice.\<close>

definition reads_ok :: "('s \<Rightarrow> bool) \<Rightarrow> 's CertStorage \<Rightarrow> ca_call \<Rightarrow> 's CA \<Rightarrow> bool" where
  "reads_ok readable S c ca \<longleftrightarrow> readable (ca_storage ca) \<and>
     (case c of CGenerate _ _ _ \<Rightarrow> readable (snd (cs_LoadRootCA S (ca_storage ca))) | _ \<Rightarrow> True)"

fun ca_run :: "pki_lib \<Rightarrow> 's CertStorage \<Rightarrow> ca_call list \<Rightarrow> 's CA \<Rightarrow> 's CA" where
  "ca_run L S [] ca = ca"
| "ca_run L S (c # cs) ca = ca_run L S cs (ca_do L S c ca)"

fun run_reads_ok :: "pki_lib \<Rightarrow> ('s \<Rightarrow> bool) \<Rightarrow> 's CertStorage \<Rightarrow> ca_call list \<Rightarrow> 's CA \<Rightarrow> bool" where
  "run_reads_ok L readable S [] ca = True"
| "run_reads_ok L readable S (c # cs) ca \<longleftrightarrow> reads_ok readable S c ca \<and> run_reads_ok L readable S cs (ca_do L S c ca)"

text \<open>
  What the code relies on: PEM text reads back and is not empty; a certificate parses to its template (times to the second),
  a key to itself.
\<close>

definition whole_seconds :: "certificate \<Rightarrow> certificate" where
  "whole_seconds t = t\<lparr>ct_NotBefore := ct_NotBefore t div 1000000000 * 1000000000, ct_NotAfter := ct_NotAfter t div 1000000000 * 1000000000\<rparr>"

definition pki_ok :: "pki_lib \<Rightarrow> bool" where
  "pki_ok L \<longleftrightarrow>
     (\<forall>t b. pk_Encode L t b \<noteq> [] \<and> pk_Decode L (pk_Encode L t b) = Some (t, b)) \<and>
     (\<forall>t p pub key der. pk_CreateCertificate L t p pub key = Inr der \<longrightarrow> pk_ParseCertificate L der = Inr (whole_seconds t)) \<and>
     (\<forall>key der. pk_MarshalKey L key = Inr der \<longrightarrow> pk_ParseKey L der = Inr key)"

lemma sign_frame:
  "SignCSR L csr i now ca = (r, ca') \<Longrightarrow> ca_storage ca' = ca_storage ca \<and> ca_revoked ca' = ca_revoked ca"
  "SignServerCert L hosts now rnd ca = (rt, ca') \<Longrightarrow> ca_storage ca' = ca_storage ca \<and> ca_revoked ca' = ca_revoked ca"
  by (auto simp: SignCSR_def SignServerCert_def Let_def split: option.splits prod.splits sum.splits if_splits)

lemma loadRoot_frame:
  "loadRoot L c k ca = (r, ca') \<Longrightarrow> ca_storage ca' = ca_storage ca \<and> ca_revoked ca' = ca_revoked ca"
  by (auto simp: loadRoot_def split: option.splits prod.splits sum.splits)

context cert_storage
begin

lemma new_root_storage:
  assumes "new_root L S now r1 r2 ca = (r, ca')" and "readable (ca_storage ca)" and "pki_ok L"
  shows "revs (ca_storage ca') = revs (ca_storage ca) \<and> ca_revoked ca' = ca_revoked ca"
    "r = Inr c \<Longrightarrow> \<exists>p k. root (ca_storage ca') = Some (p, k) \<and> (\<forall>ca :: 's CA. fst (loadRoot L p k ca) = Inr c)"
  using assms unfolding new_root_def pki_ok_def
  by (auto simp: Let_def loadRoot_def dest!: store split: sum.splits prod.splits option.splits)

lemma GenerateRoot_storage:
  assumes "GenerateRoot L S now r1 r2 ca = (r, ca')" and "reads_ok readable S (CGenerate now r1 r2) ca" and "pki_ok L"
  shows "revs (ca_storage ca') = revs (ca_storage ca)" "ca_revoked ca' = ca_revoked ca"
    "root (ca_storage ca) = Some pk \<Longrightarrow> root (ca_storage ca') = Some pk \<and> r = fst (loadRoot L (fst pk) (snd pk) ca)"
    "r = Inr c \<Longrightarrow> \<exists>p k. root (ca_storage ca') = Some (p, k) \<and> (\<forall>ca :: 's CA. fst (loadRoot L p k ca) = Inr c)"
proof -
  obtain l s where l: "cs_LoadRootCA S (ca_storage ca) = (l, s)" by fastforce
  note ld = load[OF l]
  have rd: "readable (ca_storage ca)" "readable s" using assms(2) l by (auto simp: reads_ok_def)
  have fst_load: "fst (loadRoot L p k ca1) = fst (loadRoot L p k ca2)" for p k and ca1 ca2 :: "'s CA"
    by (simp add: loadRoot_def split: option.split sum.split prod.split)
  have "(revs (ca_storage ca') = revs (ca_storage ca) \<and> ca_revoked ca' = ca_revoked ca) \<and>
    (root (ca_storage ca) = Some pk \<longrightarrow> root (ca_storage ca') = Some pk \<and> r = fst (loadRoot L (fst pk) (snd pk) ca)) \<and>
    (r = Inr c \<longrightarrow> (\<exists>p k. root (ca_storage ca') = Some (p, k) \<and> (\<forall>ca :: 's CA. fst (loadRoot L p k ca) = Inr c)))"
  proof (cases "root (ca_storage ca)")
    case None
    with ld rd l assms(1) have "new_root L S now r1 r2 (ca\<lparr>ca_storage := s\<rparr>) = (r, ca')" by (auto simp: GenerateRoot_def)
    note n = new_root_storage[OF this _ assms(3), simplified, OF rd(2)]
    show ?thesis using n(1) n(2)[of c] ld None by simp
  next
    case (Some q)
    obtain p k where q: "q = (p, k)" by fastforce
    with Some ld rd l assms(1) have b: "loadRoot L p k (ca\<lparr>ca_storage := s\<rparr>) = (r, ca')" by (auto simp: GenerateRoot_def)
    have "fst (loadRoot L p k ca2) = r" for ca2 :: "'s CA" using b fst_load[of p k ca2 "ca\<lparr>ca_storage := s\<rparr>"] by simp
    with loadRoot_frame[OF b] ld Some q show ?thesis by auto
  qed
  then show "revs (ca_storage ca') = revs (ca_storage ca)" "ca_revoked ca' = ca_revoked ca"
    "root (ca_storage ca) = Some pk \<Longrightarrow> root (ca_storage ca') = Some pk \<and> r = fst (loadRoot L (fst pk) (snd pk) ca)"
    "r = Inr c \<Longrightarrow> \<exists>p k. root (ca_storage ca') = Some (p, k) \<and> (\<forall>ca :: 's CA. fst (loadRoot L p k ca) = Inr c)" by blast+
qed

text \<open>What a call keeps: the root, and that a serial is revoked in the storage and not cached as valid.\<close>

definition holds_revoked :: "string \<Rightarrow> 's CA \<Rightarrow> bool" where
  "holds_revoked x ca \<longleftrightarrow> x \<in> revs (ca_storage ca) \<and> ca_revoked ca x \<noteq> Some False"

lemma Revoke_ok:
  assumes "Revoke S x ca = (None, ca')" and "readable (ca_storage ca)"
  shows "holds_revoked x ca'"
  using assms by (auto simp: Revoke_def Let_def holds_revoked_def dest!: add_revoked split: prod.splits option.splits)

lemma IsRevoked_holds: "holds_revoked x ca \<Longrightarrow> readable (ca_storage ca) \<Longrightarrow> fst (IsRevoked S x ca)"
proof -
  assume h: "holds_revoked x ca" and rd: "readable (ca_storage ca)"
  obtain r s where q: "cs_IsRevoked S x (ca_storage ca) = (r, s)" by fastforce
  from is_revoked[OF q] rd h show ?thesis by (auto simp: IsRevoked_def q holds_revoked_def split: option.split)
qed

lemma ca_do_keeps:
  assumes "reads_ok readable S c ca" and "pki_ok L"
  shows "holds_revoked x ca \<Longrightarrow> holds_revoked x (ca_do L S c ca)"
    "root (ca_storage ca) = Some pk \<Longrightarrow> root (ca_storage (ca_do L S c ca)) = Some pk"
proof -
  have rd: "readable (ca_storage ca)" using assms(1) by (simp add: reads_ok_def)
  have "(holds_revoked x ca \<longrightarrow> holds_revoked x (ca_do L S c ca)) \<and>
    (root (ca_storage ca) = Some pk \<longrightarrow> root (ca_storage (ca_do L S c ca)) = Some pk)"
  proof (cases c)
    case (CGenerate now r1 r2)
    obtain r ca' where g: "GenerateRoot L S now r1 r2 ca = (r, ca')" by fastforce
    note gs = GenerateRoot_storage[OF g assms(1)[unfolded CGenerate] assms(2)]
    show ?thesis using gs(1,2) gs(3)[of pk] by (simp add: CGenerate g holds_revoked_def)
  next
    case (CSign csr i now)
    then show ?thesis using sign_frame(1)[of L csr i now ca] by (cases "SignCSR L csr i now ca") (simp add: holds_revoked_def)
  next
    case (CServer hosts now rnd)
    then show ?thesis using sign_frame(2)[of L hosts now rnd ca]
      by (cases "SignServerCert L hosts now rnd ca") (simp add: holds_revoked_def)
  next
    case (CRevoke y)
    obtain r s where a: "cs_AddRevoked S y (ca_storage ca) = (r, s)" by fastforce
    from add_revoked[OF a rd] show ?thesis
      by (simp add: CRevoke Revoke_def Let_def a holds_revoked_def split: option.split)
  next
    case (CQuery y)
    obtain r s where q: "cs_IsRevoked S y (ca_storage ca) = (r, s)" by fastforce
    from is_revoked[OF q] rd show ?thesis
      by (auto simp: CQuery IsRevoked_def q holds_revoked_def split: option.split)
  next
    case CRestart
    then show ?thesis by (simp add: NewCA_def holds_revoked_def)
  qed
  then show "holds_revoked x ca \<Longrightarrow> holds_revoked x (ca_do L S c ca)"
    "root (ca_storage ca) = Some pk \<Longrightarrow> root (ca_storage (ca_do L S c ca)) = Some pk" by simp_all
qed

lemma ca_run_keeps:
  assumes "run_reads_ok L readable S cs ca" and "pki_ok L"
  shows "holds_revoked x ca \<Longrightarrow> holds_revoked x (ca_run L S cs ca)"
    "root (ca_storage ca) = Some pk \<Longrightarrow> root (ca_storage (ca_run L S cs ca)) = Some pk"
proof -
  have "(holds_revoked x ca \<longrightarrow> holds_revoked x (ca_run L S cs ca)) \<and>
    (root (ca_storage ca) = Some pk \<longrightarrow> root (ca_storage (ca_run L S cs ca)) = Some pk)" using assms(1)
  proof (induction cs arbitrary: ca)
    case (Cons c cs)
    then have c: "reads_ok readable S c ca" and cs: "run_reads_ok L readable S cs (ca_do L S c ca)" by simp_all
    from ca_do_keeps[OF c assms(2)] Cons.IH[OF cs] show ?case unfolding ca_run.simps by blast
  qed simp
  then show "holds_revoked x ca \<Longrightarrow> holds_revoked x (ca_run L S cs ca)"
    "root (ca_storage ca) = Some pk \<Longrightarrow> root (ca_storage (ca_run L S cs ca)) = Some pk" by simp_all
qed

lemma revocation_survives:
  assumes "Revoke S x ca0 = (None, ca1)" and "readable (ca_storage ca0)" and "pki_ok L"
    and "run_reads_ok L readable S cs ca1" and "readable (ca_storage (ca_run L S cs ca1))"
  shows "fst (IsRevoked S x (ca_run L S cs ca1))"
  using assms Revoke_ok ca_run_keeps(1) IsRevoked_holds by blast

lemma root_survives:
  assumes "GenerateRoot L S now r1 r2 ca0 = (Inr c, ca1)" and "reads_ok readable S (CGenerate now r1 r2) ca0" and "pki_ok L"
    and "run_reads_ok L readable S cs ca1" and "reads_ok readable S (CGenerate now' r1' r2') (ca_run L S cs ca1)"
  shows "fst (GenerateRoot L S now' r1' r2' (ca_run L S cs ca1)) = Inr c"
proof -
  obtain p k where pk: "root (ca_storage ca1) = Some (p, k)" "\<And>ca. fst (loadRoot L p k (ca :: 's CA)) = Inr c"
    using GenerateRoot_storage(4)[OF assms(1-3) refl] by blast
  obtain r ca' where g: "GenerateRoot L S now' r1' r2' (ca_run L S cs ca1) = (r, ca')" by fastforce
  from GenerateRoot_storage(3)[OF g assms(5,3) ca_run_keeps(2)[OF assms(4,3) pk(1)]] show ?thesis by (simp add: g pk(2))
qed

end

subsection \<open>Both storages keep it\<close>

interpretation mem_ca: cert_storage mem_storage "\<lambda>_. True" "\<lambda>m. map_option (\<lambda>c. (c, ms_caKey m)) (ms_caCert m)" "\<lambda>m. {x. ms_revoked m x = Some True}"
  by unfold_locales (auto simp: mem_storage_def mem_LoadRootCA_def mem_StoreRootCA_def mem_IsRevoked_def mem_AddRevoked_def
      split: option.splits)

definition file_data :: "string \<Rightarrow> ca_dir \<Rightarrow> fileStoreData" where
  "file_data path fs = (case fs_files fs path of Some (Json d) \<Rightarrow> d | _ \<Rightarrow> no_data)"

definition file_root :: "string \<Rightarrow> ca_dir \<Rightarrow> (string \<times> string) option" where
  "file_root path fs = (let d = file_data path fs in if fd_CACert d = [] then None else Some (fd_CACert d, fd_CAKey d))"

definition file_revs :: "string \<Rightarrow> ca_dir \<Rightarrow> string set" where
  "file_revs path fs = set (fd_Revoked (file_data path fs))"

definition file_readable :: "string \<Rightarrow> ca_dir \<Rightarrow> bool" where
  "file_readable path fs = (case fst (file_read path fs) of Inl _ \<Rightarrow> False | Inr _ \<Rightarrow> True)"

lemma file_read_data:
  "file_read path fs = (r, fs') \<Longrightarrow> file_data path fs' = file_data path fs \<and> (file_readable path fs \<longrightarrow> r = Inr (file_data path fs))"
  by (auto simp: file_read_def file_readable_def file_data_def os_ReadFile_def io_error_def os_ErrNotExist_def
      split: option.splits json_file.splits sum.splits if_splits)

lemma file_write_data:
  assumes "file_write path d fs = (r, fs')"
  shows "file_data path fs' = (if r = None then d else file_data path fs)"
proof -
  have "path @ ''.tmp'' \<noteq> path" by simp
  then show ?thesis using assms unfolding file_write_def Let_def
    by (auto simp: file_data_def os_MkdirAll_def os_WriteFile_def os_Rename_def os_Remove_def split: prod.splits option.splits)
qed

interpretation file_ca: cert_storage "file_storage path" "file_readable path" "file_root path" "file_revs path"
proof unfold_locales
  fix x s r s'
  assume "cs_AddRevoked (file_storage path) x s = (r, s')" and rd: "file_readable path s"
  then show "file_root path s' = file_root path s \<and> file_revs path s' = (if r = None then insert x (file_revs path s) else file_revs path s)"
    by (auto simp: file_storage_def file_AddRevoked_def file_root_def file_revs_def Let_def list_ex_iff
        dest!: file_read_data file_write_data split: prod.splits sum.splits if_splits)
qed (auto simp: file_storage_def file_LoadRootCA_def file_StoreRootCA_def file_IsRevoked_def file_root_def file_revs_def Let_def
    list_ex_iff dest!: file_read_data file_write_data split: prod.splits sum.splits if_splits)

subsection \<open>A sound file can always be read\<close>

definition file_sound :: "string \<Rightarrow> ca_dir \<Rightarrow> bool" where
  "file_sound path fs \<longleftrightarrow> fs_fault fs = no_faults \<and> fs_files fs path \<noteq> Some Corrupt"

lemma file_sound_read: "file_sound path fs \<Longrightarrow> file_readable path fs"
  by (auto simp: file_sound_def file_readable_def file_read_def os_ReadFile_def no_faults_def split: option.split json_file.split)

lemma file_read_sound: "file_read path fs = (r, fs') \<Longrightarrow> file_sound path fs \<Longrightarrow> file_sound path fs'"
  by (auto simp: file_sound_def file_read_def os_ReadFile_def split: prod.splits sum.splits json_file.splits if_splits)

lemma file_write_sound:
  assumes "file_write path d fs = (r, fs')" and "file_sound path fs"
  shows "file_sound path fs' \<and> r = None"
  using assms
  by (auto simp: file_sound_def file_write_def Let_def os_MkdirAll_def os_WriteFile_def os_Rename_def no_faults_def[abs_def]
      split: prod.splits option.splits)

lemma file_calls_sound:
  assumes "file_sound path fs"
  shows "cs_LoadRootCA (file_storage path) fs = (r, fs') \<Longrightarrow> file_sound path fs'"
    "cs_StoreRootCA (file_storage path) c k fs = (rs, fs') \<Longrightarrow> file_sound path fs' \<and> rs = None"
    "cs_IsRevoked (file_storage path) x fs = (ri, fs') \<Longrightarrow> file_sound path fs'"
    "cs_AddRevoked (file_storage path) x fs = (ra, fs') \<Longrightarrow> file_sound path fs' \<and> ra = None"
proof -
  obtain d fs1 where r: "file_read path fs = (d, fs1)" by fastforce
  note s1 = file_read_sound[OF r assms]
  have w: "file_sound path fs2 \<and> rw = None" if "file_write path dd fs1 = (rw, fs2)" for dd fs2 rw
    using file_write_sound[OF that s1] .
  show "cs_LoadRootCA (file_storage path) fs = (r, fs') \<Longrightarrow> file_sound path fs'"
    "cs_IsRevoked (file_storage path) x fs = (ri, fs') \<Longrightarrow> file_sound path fs'"
    using s1 by (auto simp: file_storage_def file_LoadRootCA_def file_IsRevoked_def r split: sum.splits if_splits)
  show "cs_StoreRootCA (file_storage path) c k fs = (rs, fs') \<Longrightarrow> file_sound path fs' \<and> rs = None"
    using w by (simp add: file_storage_def file_StoreRootCA_def r)
  show "cs_AddRevoked (file_storage path) x fs = (ra, fs') \<Longrightarrow> file_sound path fs' \<and> ra = None"
    using w s1 by (auto simp: file_storage_def file_AddRevoked_def r Let_def split: if_splits)
qed

lemma new_root_sound:
  assumes "file_sound path (ca_storage ca)"
  shows "file_sound path (ca_storage (snd (new_root L (file_storage path) now r1 r2 ca)))"
proof -
  have st: "file_sound path (snd (cs_StoreRootCA (file_storage path) c k (ca_storage ca)))" for c k
    using file_calls_sound(2)[OF assms, of c k] by (cases "cs_StoreRootCA (file_storage path) c k (ca_storage ca)") auto
  have "file_sound path s" if "cs_StoreRootCA (file_storage path) c k (ca_storage ca) = (r, s)" for c k r s
    using st[of c k] that by simp
  with assms show ?thesis by (auto simp: new_root_def Let_def split: prod.split sum.split option.split)
qed

lemma ca_do_sound:
  assumes "file_sound path (ca_storage ca)"
  shows "reads_ok (file_readable path) (file_storage path) c ca" "file_sound path (ca_storage (ca_do L (file_storage path) c ca))"
proof -
  obtain r s where l: "cs_LoadRootCA (file_storage path) (ca_storage ca) = (r, s)" by fastforce
  note s = file_calls_sound(1)[OF assms l]
  show "reads_ok (file_readable path) (file_storage path) c ca"
    using s l assms by (simp add: reads_ok_def file_sound_read split: ca_call.split)
  show "file_sound path (ca_storage (ca_do L (file_storage path) c ca))"
  proof (cases c)
    case (CGenerate now r1 r2)
    let ?ca = "ca\<lparr>ca_storage := s\<rparr>"
    have a: "file_sound path (ca_storage (snd (loadRoot L p k ?ca)))" for p k
      using loadRoot_frame[of L p k ?ca] s by (cases "loadRoot L p k ?ca") simp
    have b: "file_sound path (ca_storage (snd (new_root L (file_storage path) now r1 r2 ?ca)))"
      by (rule new_root_sound) (simp add: s)
    show ?thesis
    proof (cases "\<exists>p k. r = Inr (Some p, k)")
      case True
      then obtain p k where "r = Inr (Some p, k)" by blast
      with a show ?thesis by (simp add: CGenerate GenerateRoot_def l)
    next
      case False
      then have "GenerateRoot L (file_storage path) now r1 r2 ca = new_root L (file_storage path) now r1 r2 ?ca"
        by (auto simp: GenerateRoot_def l split: sum.split option.split)
      with b show ?thesis by (simp add: CGenerate)
    qed
  next
    case (CSign csr i now)
    then show ?thesis using assms sign_frame(1)[OF prod.collapse[symmetric], of L csr i now ca] by simp
  next
    case (CServer hosts now rnd)
    then show ?thesis using assms sign_frame(2)[OF prod.collapse[symmetric], of L hosts now rnd ca] by simp
  next
    case (CRevoke y)
    obtain ra t where a: "cs_AddRevoked (file_storage path) y (ca_storage ca) = (ra, t)" by fastforce
    from file_calls_sound(4)[OF assms a] show ?thesis by (simp add: CRevoke Revoke_def Let_def a split: option.split)
  next
    case (CQuery y)
    obtain ri t where q: "cs_IsRevoked (file_storage path) y (ca_storage ca) = (ri, t)" by fastforce
    from file_calls_sound(3)[OF assms q] assms show ?thesis
      by (simp add: CQuery IsRevoked_def q split: option.split sum.split)
  next
    case CRestart
    then show ?thesis using assms by (simp add: NewCA_def)
  qed
qed

lemma sound_run:
  "file_sound path (ca_storage ca) \<Longrightarrow> run_reads_ok L (file_readable path) (file_storage path) cs ca \<and>
     file_sound path (ca_storage (ca_run L (file_storage path) cs ca))"
  by (induction cs arbitrary: ca) (simp_all add: ca_do_sound)

subsection \<open>What survives\<close>

text \<open>
  C37. The certificate authority survives restarts. When a root was made or loaded and a revocation was recorded without an
  error, then after any further calls and any number of restarts on the same file - whichever writes fail or are torn, as
  long as reading works - the serial is revoked, the hub turns a connection with it away, and the root is still the same.
\<close>

theorem authority_survives_restarts:
  assumes "pki_ok L" and "S = file_storage path"
    and "GenerateRoot L S now r1 r2 ca = (Inr c, ca0)" and "reads_ok (file_readable path) S (CGenerate now r1 r2) ca"
    and "Revoke S x ca0 = (None, ca1)" and "file_readable path (ca_storage ca0)"
    and "run_reads_ok L (file_readable path) S cs ca1" and "reads_ok (file_readable path) S (CGenerate now' r1' r2') (ca_run L S cs ca1)"
  shows "fst (IsRevoked S x (ca_run L S cs ca1)) \<and>
    HandleConnection \<lparr>he_csr = Some (ca_handler L S now' (ca_run L S cs ca1)), he_text = txt\<rparr> (Some ((cn, x) # rest)) t de h = h \<and>
    fst (GenerateRoot L S now' r1' r2' (ca_run L S cs ca1)) = Inr c"
proof -
  let ?ca = "ca_run L S cs ca1"
  have revoked: "fst (IsRevoked S x ?ca)"
    using file_ca.revocation_survives[OF assms(5)[unfolded assms(2)] assms(6,1)] assms(7,8) by (simp add: assms(2) reads_ok_def)
  have run: "ca_run L S (CRevoke x # cs) ca0 = ?ca" by (simp add: assms(5))
  have "run_reads_ok L (file_readable path) S (CRevoke x # cs) ca0" using assms(5,6,7) by (simp add: reads_ok_def)
  from file_ca.root_survives[OF assms(3,4)[unfolded assms(2)] assms(1) this[unfolded assms(2)], of now' r1' r2'] assms(8)
  have "fst (GenerateRoot L S now' r1' r2' ?ca) = Inr c" using run unfolding assms(2) by metis
  with revoked show ?thesis by (simp add: HandleConnection_def Let_def peer_revoked_def ca_handler_def)
qed

text \<open>
  A library for the witness: a certificate is the list of its fields, of which only those of a root or of an agent's
  certificate can be written; keys and their DER form are the same bytes, a request is a public key.
\<close>

definition ex_cert_read :: "string \<Rightarrow> err + certificate" where
  "ex_cert_read s =
     (let fs = get_fields 5 s;
          c = (if fs ! 0 = ''root'' then root_template (get_int (fs ! 1)) 0 else client_template 0 (fs ! 2) 0) in
      Inr (c\<lparr>ct_SerialNumber := get_int (fs ! 1), ct_NotBefore := get_int (fs ! 3), ct_NotAfter := get_int (fs ! 4)\<rparr>))"

definition ex_cert_write :: "certificate \<Rightarrow> err + string" where
  "ex_cert_write c =
     (let d = whole_seconds c;
          s = put_fields [if ct_IsCA c then ''root'' else ''agent'', put_int (ct_SerialNumber c), ct_CommonName c, put_int (ct_NotBefore d), put_int (ct_NotAfter d)] in
      if ex_cert_read s = Inr d then Inr s else Inl (Err ''x509: unsupported certificate'' []))"

definition ex_pki :: pki_lib where
  "ex_pki = \<lparr>pk_GenerateKey = Inr, pk_RandInt = (\<lambda>_ _. Inr 7), pk_Public = (\<lambda>k. k), pk_CreateCertificate = (\<lambda>t _ _ _. ex_cert_write t),
     pk_ParseCertificate = ex_cert_read, pk_MarshalKey = Inr, pk_ParseKey = Inr, pk_Encode = (\<lambda>t b. put_fields [t, b]),
     pk_Decode = (\<lambda>s. let fs = get_fields 2 s in if put_fields fs = s then Some (fs ! 0, fs ! 1) else None),
     pk_ParseRequest = (\<lambda>b. Inr \<lparr>cr_Signature = None, cr_PublicKey = b, cr_IsECDSA = True\<rparr>), pk_ParseIP = (\<lambda>_. None),
     pk_X509KeyPair = (\<lambda>c k. Inr \<lparr>tc_Certificate = [c], tc_PrivateKey = k, tc_Leaf = None\<rparr>)\<rparr>"

lemma get_two_fields: "get_fields 2 (put_fields [t, b]) = [t, b]"
  by (rule get_fields_put') simp

lemma ex_pki_ok: "pki_ok ex_pki"
  by (auto simp: pki_ok_def ex_pki_def get_two_fields ex_cert_write_def Let_def split: if_splits)
    (simp add: put_fields_def put_field_def)

lemma ex_cert_written:
  assumes "c = root_template n t \<or> c = client_template s i t"
  shows "\<exists>der. ex_cert_write c = Inr der"
proof -
  have g: "get_fields 5 (put_fields [k, a, b, d, e]) = [k, a, b, d, e]" for k a b d e by (rule get_fields_put') simp
  show ?thesis using assms
    by (auto simp: ex_cert_write_def ex_cert_read_def Let_def g whole_seconds_def root_template_def client_template_def)
qed

definition empty_dir :: ca_dir where
  "empty_dir = \<lparr>fs_files = Map.empty, fs_mtime = (\<lambda>_. 0), fs_clock = 0, fs_fault = no_faults, fs_now = 0\<rparr>"

lemma ex_root: "\<exists>c ca0. GenerateRoot ex_pki (file_storage ''ca.json'') 0 ''k'' ''s'' (NewCA empty_dir) = (Inr c, ca0) \<and>
    file_sound ''ca.json'' (ca_storage ca0)"
proof -
  let ?S = "file_storage ''ca.json''"
  have snd0: "file_sound ''ca.json'' (ca_storage (NewCA empty_dir))" by (simp add: file_sound_def NewCA_def empty_dir_def)
  have l: "cs_LoadRootCA ?S empty_dir = (Inl (Err ''file storage: no root CA stored at %s'' [''ca.json'']), fs_tick empty_dir)"
    by (simp add: file_storage_def file_LoadRootCA_def file_read_def os_ReadFile_def empty_dir_def no_faults_def no_data_def)
  obtain der where der: "ex_cert_write (root_template 7 0) = Inr der" using ex_cert_written by blast
  have t: "file_sound ''ca.json'' (fs_tick empty_dir)" by (simp add: file_sound_def empty_dir_def)
  have "snd (GenerateRoot ex_pki ?S 0 ''k'' ''s'' (NewCA empty_dir)) = ca0 \<Longrightarrow> file_sound ''ca.json'' (ca_storage ca0)" for ca0
    using ca_do_sound(2)[OF snd0, of ex_pki "CGenerate 0 ''k'' ''s''"] by simp
  moreover obtain fs where "cs_StoreRootCA ?S (pk_Encode ex_pki ''CERTIFICATE'' der) (pk_Encode ex_pki ''EC PRIVATE KEY'' ''k'') (fs_tick empty_dir) = (None, fs)"
    using file_calls_sound(2)[OF t] by (metis prod.collapse)
  ultimately show ?thesis
    by (simp add: GenerateRoot_def new_root_def NewCA_def l Let_def) (simp add: ex_pki_def der ex_cert_read_def Let_def)
qed

theorem authority_survives_restarts_witness:
  "\<exists>c ca0 ca1. GenerateRoot ex_pki (file_storage ''ca.json'') 0 ''k'' ''s'' (NewCA empty_dir) = (Inr c, ca0) \<and>
     Revoke (file_storage ''ca.json'') ''1'' ca0 = (None, ca1) \<and>
     fst (IsRevoked (file_storage ''ca.json'') ''1'' (ca_run ex_pki (file_storage ''ca.json'') [CQuery ''2'', CRestart] ca1)) \<and>
     fst (GenerateRoot ex_pki (file_storage ''ca.json'') 9 ''l'' ''t'' (ca_run ex_pki (file_storage ''ca.json'') [CQuery ''2'', CRestart] ca1)) = Inr c"
proof -
  let ?S = "file_storage ''ca.json''"
  obtain c ca0 where g: "GenerateRoot ex_pki ?S 0 ''k'' ''s'' (NewCA empty_dir) = (Inr c, ca0)"
    and s0: "file_sound ''ca.json'' (ca_storage ca0)" using ex_root by blast
  obtain r ca1 where v: "Revoke ?S ''1'' ca0 = (r, ca1)" by fastforce
  obtain ra fs where a: "cs_AddRevoked ?S ''1'' (ca_storage ca0) = (ra, fs)" by fastforce
  from v file_calls_sound(4)[OF s0 a] have r: "r = None" and s1: "file_sound ''ca.json'' (ca_storage ca1)"
    by (auto simp: Revoke_def Let_def a)
  have e: "file_sound ''ca.json'' (ca_storage (NewCA empty_dir))" by (simp add: file_sound_def NewCA_def empty_dir_def)
  note run = sound_run[OF s1, of ex_pki "[CQuery ''2'', CRestart]"]
  from authority_survives_restarts[OF ex_pki_ok refl g ca_do_sound(1)[OF e] v[unfolded r] file_sound_read[OF s0]
      conjunct1[OF run] ca_do_sound(1)[OF conjunct2[OF run]], where now' = 9 and r1' = "''l''" and r2' = "''t''"] g v r
  show ?thesis by (intro exI[of _ c] exI[of _ ca0] exI[of _ ca1]) simp
qed

subsection \<open>What a certificate says\<close>

lemma SignCSR_certificate:
  assumes "pki_ok L" and "SignCSR L csrPEM agentID now ca = (Inr pem, ca')"
  shows "\<exists>bytes req der. pk_Decode L csrPEM = Some (''CERTIFICATE REQUEST'', bytes) \<and> pk_ParseRequest L bytes = Inr req \<and>
    cr_Signature req = None \<and> cr_IsECDSA req \<and> pk_Decode L pem = Some (''CERTIFICATE'', der) \<and>
    pk_ParseCertificate L der = Inr (whole_seconds (client_template (ca_serial ca + 1) agentID now)) \<and>
    ca_serial ca' = ca_serial ca + 1"
  using assms by (auto simp: SignCSR_def pki_ok_def Let_def split: option.splits prod.splits sum.splits if_splits)

lemma client_certificate:
  "ct_CommonName (whole_seconds (client_template s i now)) = i"
  "ct_SerialNumber (whole_seconds (client_template s i now)) = sint s"
  "ct_ExtKeyUsage (whole_seconds (client_template s i now)) = [ClientAuth]"
  "\<not> ct_IsCA (whole_seconds (client_template s i now))"
  "ct_NotBefore (whole_seconds (client_template s i now)) \<le> now"
  "now < ct_NotAfter (whole_seconds (client_template s i now))"
  "ct_NotAfter (whole_seconds (client_template s i now)) \<le> now + CertValidity"
  by (simp_all add: whole_seconds_def client_template_def an_hour_def CertValidity_def)

text \<open>
  C11. An agent can only renew its own identity. When the hub, with the authority as its handler, answers a renewal command
  on a connection with success, the certificate in the answer parses to one that names the agent of this connection - so
  that a connection with it is that agent's again -, for client authentication only, no authority itself, valid now and for
  at most 90 days, and the request was signed with the key it asks for.
\<close>

theorem renewal_keeps_the_identity:
  assumes "pki_ok L" and "he_csr E = Some (ca_handler L S now ca)"
    and "hb_pumps h k = Some ac" and "cm_Type cmd = CmdCertRenewal" and "cm_Params cmd = PCsr csrPEM"
    and "hb_wire (pump_message E k (MsgCommand cmd) t h) = hb_wire h @ [(k, OutResponse resp)]" and "rs_Status resp = StatusOK"
  shows "\<exists>pem der cert bytes req. rs_Result resp = DFields [(''certificate'', DText pem)] \<and>
    pk_Decode L pem = Some (''CERTIFICATE'', der) \<and> pk_ParseCertificate L der = Inr cert \<and>
    (\<forall>serial rest. extractAgentID (Some ((ct_CommonName cert, serial) # rest)) = hc_agentID ac) \<and>
    ct_ExtKeyUsage cert = [ClientAuth] \<and> \<not> ct_IsCA cert \<and>
    ct_NotBefore cert \<le> now \<and> now < ct_NotAfter cert \<and> ct_NotAfter cert \<le> now + CertValidity \<and>
    pk_Decode L csrPEM = Some (''CERTIFICATE REQUEST'', bytes) \<and> pk_ParseRequest L bytes = Inr req \<and> cr_Signature req = None"
proof -
  obtain r ca' where sg: "SignCSR L csrPEM (hc_agentID ac) now ca = (r, ca')" by fastforce
  have "\<exists>pem. r = Inr pem \<and> rs_Result resp = DFields [(''certificate'', DText pem)]"
    using assms(3-7) sg
    by (cases r) (auto simp: pump_message_def handleCertRenewal_def sendResponse_def assms(2) ca_handler_def Let_def StatusOK_def StatusError_def)
  then obtain pem where pem: "r = Inr pem" "rs_Result resp = DFields [(''certificate'', DText pem)]" by blast
  from SignCSR_certificate[OF assms(1) sg[unfolded pem(1)]] pem(2) show ?thesis
    by (auto simp: client_certificate extractAgentID_def)
qed

definition ex_ca :: "MemStorage CA" where
  "ex_ca = (NewCA NewMemStorage)\<lparr>ca_rootCert := Some (root_template 7 0), ca_rootKey := Some ''k''\<rparr>"

definition ex_renewal :: Command where
  "ex_renewal = \<lparr>cm_Cmd = ''renew'', cm_Type = CmdCertRenewal, cm_Params = PCsr (put_fields [''CERTIFICATE REQUEST'', ''p''])\<rparr>"

definition ex_pump :: hub where
  "ex_pump = NewHub\<lparr>hb_pumps := [0 \<mapsto> \<lparr>hc_agentID = ''ag1'', hc_connectedAt = 0, hc_lastSeen = 0, hc_pending = []\<rparr>]\<rparr>"

theorem renewal_keeps_the_identity_witness:
  "\<exists>resp pem der cert.
     hb_wire (pump_message \<lparr>he_csr = Some (ca_handler ex_pki mem_storage 5 ex_ca), he_text = (\<lambda>_. [])\<rparr> 0 (MsgCommand ex_renewal) 6 ex_pump) =
       [(0, OutResponse resp)] \<and> rs_Result resp = DFields [(''certificate'', DText pem)] \<and>
     pk_Decode ex_pki pem = Some (''CERTIFICATE'', der) \<and> pk_ParseCertificate ex_pki der = Inr cert \<and> ct_CommonName cert = ''ag1''"
proof -
  let ?E = "\<lparr>he_csr = Some (ca_handler ex_pki mem_storage 5 ex_ca), he_text = (\<lambda>_. [])\<rparr>"
  let ?ac = "\<lparr>hc_agentID = ''ag1'', hc_connectedAt = 0, hc_lastSeen = 0, hc_pending = []\<rparr>"
  obtain der where der: "ex_cert_write (client_template 1 ''ag1'' 5) = Inr der" using ex_cert_written by blast
  have sg: "fst (SignCSR ex_pki (put_fields [''CERTIFICATE REQUEST'', ''p'']) ''ag1'' 5 ex_ca) = Inr (put_fields [''CERTIFICATE'', der])"
    by (simp add: SignCSR_def ex_ca_def NewCA_def ex_pki_def get_two_fields Let_def der)
  let ?resp = "\<lparr>rs_Cmd = ''renew'', rs_Status = StatusOK, rs_Result = DFields [(''certificate'', DText (put_fields [''CERTIFICATE'', der]))], rs_Error = []\<rparr>"
  have w: "hb_wire (pump_message ?E 0 (MsgCommand ex_renewal) 6 ex_pump) = [(0, OutResponse ?resp)]"
    by (simp add: pump_message_def handleCertRenewal_def sendResponse_def ex_renewal_def ex_pump_def NewHub_def ca_handler_def sg Let_def)
  have h: "he_csr ?E = Some (ca_handler ex_pki mem_storage 5 ex_ca)" "hb_pumps ex_pump 0 = Some ?ac"
    "cm_Type ex_renewal = CmdCertRenewal" "cm_Params ex_renewal = PCsr (put_fields [''CERTIFICATE REQUEST'', ''p''])"
    "hb_wire (pump_message ?E 0 (MsgCommand ex_renewal) 6 ex_pump) = hb_wire ex_pump @ [(0, OutResponse ?resp)]"
    "rs_Status ?resp = StatusOK" using w by (simp_all add: ex_pump_def ex_renewal_def NewHub_def)
  from renewal_keeps_the_identity[OF ex_pki_ok h] w show ?thesis by (auto simp: extractAgentID_def)
qed

text \<open>Within one process the serials of the issued certificates differ; each signing takes the next one.\<close>

lemma signing_counts:
  assumes "pki_ok L" and "SignCSR L csr i now ca = (Inr pem, ca')" and "sint (ca_serial ca) < 2 ^ 63 - 1"
  shows "sint (ca_serial ca') = sint (ca_serial ca) + 1"
proof -
  have "ca_serial ca' = ca_serial ca + 1" using SignCSR_certificate[OF assms(1,2)] by blast
  moreover have "- (2 ^ 63) \<le> sint (ca_serial ca)" using sint_ge[of "ca_serial ca"] by simp
  ultimately show ?thesis using assms(3) by (simp add: sint_word_ariths(1) signed_take_bit_int_eq_self)
qed

subsection \<open>What does not hold\<close>

text \<open>
  The counter starts again in every process: the first agent certificates of two processes have the same serial, so revoking
  one of them revokes the other.
\<close>

theorem serials_repeat_after_restart:
  assumes "pki_ok L"
    and "SignCSR L csr i now ((NewCA s)\<lparr>ca_rootCert := rc, ca_rootKey := rk\<rparr>) = (Inr pem, ca1)"
    and "SignCSR L csr' i' now' ((NewCA s')\<lparr>ca_rootCert := rc, ca_rootKey := rk\<rparr>) = (Inr pem', ca2)"
  shows "\<exists>der der' c c'. pk_Decode L pem = Some (''CERTIFICATE'', der) \<and> pk_Decode L pem' = Some (''CERTIFICATE'', der') \<and>
    pk_ParseCertificate L der = Inr c \<and> pk_ParseCertificate L der' = Inr c' \<and> ct_CommonName c = i \<and> ct_CommonName c' = i' \<and>
    ct_SerialNumber c = ct_SerialNumber c'"
  using SignCSR_certificate[OF assms(1,2)] SignCSR_certificate[OF assms(1,3)]
  by (auto simp: client_certificate NewCA_def)

text \<open>
  A moment at which the file cannot be read lifts a revocation for the rest of the process: the answer is cached.
\<close>

theorem unreadable_moment_lifts_revocation:
  assumes "ca_revoked ca x = None" and "\<not> file_readable path (ca_storage ca)"
    and "IsRevoked (file_storage path) x ca = (b, ca')"
  shows "\<not> b" "\<not> fst (IsRevoked (file_storage path) x (ca'\<lparr>ca_storage := s\<rparr>))"
  using assms
  by (auto simp: IsRevoked_def file_storage_def file_IsRevoked_def file_readable_def split: prod.splits sum.splits)

text \<open>Recording a revocation at such a moment writes a document without the root and without the other revocations.\<close>

theorem revoking_over_unreadable_file:
  assumes "\<not> file_readable path fs" and "file_AddRevoked path x fs = (None, fs')"
  shows "file_root path fs' = None" "file_revs path fs' = {x}"
proof -
  obtain e fs1 where r: "file_read path fs = (Inl e, fs1)"
    using assms(1) by (cases "file_read path fs") (auto simp: file_readable_def split: sum.splits)
  then have "file_write path (no_data\<lparr>fd_Revoked := [x]\<rparr>) fs1 = (None, fs')" using assms(2) by (simp add: file_AddRevoked_def no_data_def)
  from file_write_data[OF this] show "file_root path fs' = None" "file_revs path fs' = {x}"
    by (simp_all add: file_root_def file_revs_def no_data_def)
qed

text \<open>Signing does not ask whether anything is revoked: an agent that is connected when it is revoked can renew.\<close>

lemma signing_ignores_revocations:
  "fst (SignCSR L csr i now (ca\<lparr>ca_revoked := r\<rparr>)) = fst (SignCSR L csr i now ca)"
  by (simp add: SignCSR_def Let_def split: option.split prod.split sum.split)

end
