(* ===== verification/Config.thy ===== *)
theory Config
  imports Ca Connector Binlog_Types "HOL-Library.AList"
begin

text \<open>
  \<open>internal/config\<close> (\<open>config.go\<close>, \<open>crypto.go\<close>) and \<open>cmd/agent/config.go\<close>: the agent's configuration file, JSON text
  encrypted with AES-GCM under a key derived from a passphrase, in hexadecimal. The cipher and the key derivation, the JSON
  text of a \<open>Config\<close> and the MySQL driver's data source names are parameters.
\<close>

subsection \<open>encoding/hex\<close>

text \<open>\<open>hex.Decode\<close>: upper and lower case digits, in pairs.\<close>

definition hex_value :: "char \<Rightarrow> nat option" where
  "hex_value c =
     (let n = of_char c in
      if 48 \<le> n \<and> n \<le> 57 then Some (n - 48)
      else if 97 \<le> n \<and> n \<le> 102 then Some (n - 87)
      else if 65 \<le> n \<and> n \<le> 70 then Some (n - 55) else None)"

definition hex_invalid :: "char \<Rightarrow> err" where
  "hex_invalid c = Err ''encoding/hex: invalid byte: %#U'' [[c]]"

fun hex_decode :: "string \<Rightarrow> err + string" where
  "hex_decode [] = Inr []"
| "hex_decode [c] = (case hex_value c of None \<Rightarrow> Inl (hex_invalid c) | Some _ \<Rightarrow> Inl (Err ''encoding/hex: odd length hex string'' []))"
| "hex_decode (a # b # s) =
     (case hex_value a of
        None \<Rightarrow> Inl (hex_invalid a)
      | Some x \<Rightarrow>
          (case hex_value b of
             None \<Rightarrow> Inl (hex_invalid b)
           | Some y \<Rightarrow> (case hex_decode s of Inl e \<Rightarrow> Inl e | Inr t \<Rightarrow> Inr (char_of (16 * x + y) # t))))"

subsection \<open>Encryption\<close>

definition SaltLen :: nat where "SaltLen = 16"
definition NonceLen :: nat where "NonceLen = 12"
definition KeyLen :: nat where "KeyLen = 32"
definition PBKDF2Iterations :: nat where "PBKDF2Iterations = 100000"

text \<open>\<open>pbkdf2.Key\<close> with SHA-256 (passphrase, salt, iterations, length), the errors of \<open>aes.NewCipher\<close> and \<open>cipher.NewGCM\<close>, \<open>Seal\<close> and \<open>Open\<close>.\<close>

record aead_lib =
  al_pbkdf2 :: "string \<Rightarrow> string \<Rightarrow> nat \<Rightarrow> nat \<Rightarrow> string"
  al_NewCipher :: "string \<Rightarrow> err option"
  al_NewGCM :: "string \<Rightarrow> err option"
  al_Seal :: "string \<Rightarrow> string \<Rightarrow> string \<Rightarrow> string"
  al_Open :: "string \<Rightarrow> string \<Rightarrow> string \<Rightarrow> err + string"

definition deriveKey :: "aead_lib \<Rightarrow> string \<Rightarrow> string \<Rightarrow> string" where
  "deriveKey L passphrase salt = al_pbkdf2 L passphrase salt PBKDF2Iterations KeyLen"

text \<open>\<open>salt_r\<close> and \<open>nonce_r\<close> are what the random source gives.\<close>

definition Encrypt :: "aead_lib \<Rightarrow> err + string \<Rightarrow> err + string \<Rightarrow> string \<Rightarrow> string \<Rightarrow> err + string" where
  "Encrypt L salt_r nonce_r plaintext passphrase =
     (case salt_r of
        Inl e \<Rightarrow> Inl (Wrap ''config: generate salt: %w'' [] e)
      | Inr salt \<Rightarrow>
          (let key = deriveKey L passphrase salt in
           case al_NewCipher L key of
             Some e \<Rightarrow> Inl (Wrap ''config: new cipher: %w'' [] e)
           | None \<Rightarrow>
               (case al_NewGCM L key of
                  Some e \<Rightarrow> Inl (Wrap ''config: new GCM: %w'' [] e)
                | None \<Rightarrow>
                    (case nonce_r of
                       Inl e \<Rightarrow> Inl (Wrap ''config: generate nonce: %w'' [] e)
                     | Inr nonce \<Rightarrow> Inr (hex_encode (salt @ nonce @ al_Seal L key nonce plaintext))))))"

definition Decrypt :: "aead_lib \<Rightarrow> string \<Rightarrow> string \<Rightarrow> err + string" where
  "Decrypt L ciphertext passphrase =
     (case hex_decode ciphertext of
        Inl e \<Rightarrow> Inl (Wrap ''config: hex decode: %w'' [] e)
      | Inr raw \<Rightarrow>
          (if length raw < SaltLen + NonceLen
           then Inl (Err ''config: ciphertext too short: %d bytes'' [show_nat (length raw)])
           else (let salt = take SaltLen raw; nonce = take NonceLen (drop SaltLen raw); encData = drop (SaltLen + NonceLen) raw;
                     key = deriveKey L passphrase salt in
                 case al_NewCipher L key of
                   Some e \<Rightarrow> Inl (Wrap ''config: new cipher: %w'' [] e)
                 | None \<Rightarrow>
                     (case al_NewGCM L key of
                        Some e \<Rightarrow> Inl (Wrap ''config: new GCM: %w'' [] e)
                      | None \<Rightarrow>
                          (case al_Open L key nonce encData of
                             Inl e \<Rightarrow> Inl (Wrap ''config: decrypt: %w'' [] e)
                           | Inr plaintext \<Rightarrow> Inr plaintext)))))"

subsection \<open>The configuration\<close>

record MySQLConfig =
  mc_Host :: string
  mc_Port :: int
  mc_User :: string
  mc_Password :: string
  mc_Database :: string
  mc_Params :: "(string \<times> string) list"

record ServerConfig =
  sc_URL :: string
  sc_CertFile :: string
  sc_KeyFile :: string
  sc_CAFile :: string

record ArchiveConfig =
  rc_Dir :: string
  rc_ServerID :: nat
  rc_RetentionDays :: int

record Config =
  cf_MySQL :: MySQLConfig
  cf_Server :: ServerConfig
  cf_DataDir :: string
  cf_Archive :: "ArchiveConfig option"
  cf_BinlogDir :: string

definition cfg_host :: "string \<Rightarrow> string" where
  "cfg_host h = (if h = [] then ''127.0.0.1'' else h)"

definition cfg_port :: "int \<Rightarrow> int" where
  "cfg_port p = (if p = 0 then 3306 else p)"

definition BuildConnConfig :: "MySQLConfig \<Rightarrow> ConnConfig" where
  "BuildConnConfig m =
     \<lparr>cc_Host = cfg_host (mc_Host m), cc_Port = cfg_port (mc_Port m), cc_User = mc_User m, cc_Password = mc_Password m,
      cc_Database = mc_Database m, cc_Params = mc_Params m\<rparr>"

text \<open>\<open>mysql.Config\<close> of the driver: the fields that the code sets or reads.\<close>

record driver_config =
  dc_User :: string
  dc_Passwd :: string
  dc_Net :: string
  dc_Addr :: string
  dc_DBName :: string
  dc_Params :: "(string \<times> string) list"
  dc_TLSConfig :: string

definition BuildDSN :: "(driver_config \<Rightarrow> string) \<Rightarrow> MySQLConfig \<Rightarrow> string" where
  "BuildDSN formatDSN m =
     formatDSN \<lparr>dc_User = mc_User m, dc_Passwd = mc_Password m, dc_Net = ''tcp'',
       dc_Addr = cfg_host (mc_Host m) @ '':'' @ show_int (cfg_port (mc_Port m)),
       dc_DBName = mc_Database m, dc_Params = mc_Params m, dc_TLSConfig = []\<rparr>"

definition Validate :: "Config \<Rightarrow> err option" where
  "Validate c =
     (let errs = (if mc_User (cf_MySQL c) = [] then [''mysql.user is required''] else []) @
                 (if mc_Password (cf_MySQL c) = [] then [''mysql.password is required''] else []) @
                 (if mc_Database (cf_MySQL c) = [] then [''mysql.database is required''] else []) in
      if errs \<noteq> [] then Some (Err ''config validation failed: %s'' [str_join errs ''; '']) else None)"

text \<open>\<open>json.MarshalIndent\<close> and \<open>json.Unmarshal\<close> of a \<open>Config\<close>.\<close>

record json_lib =
  js_Marshal :: "Config \<Rightarrow> err + string"
  js_Unmarshal :: "string \<Rightarrow> err + Config"

definition LoadConfig :: "aead_lib \<Rightarrow> json_lib \<Rightarrow> string \<Rightarrow> string \<Rightarrow> string fsys \<Rightarrow> (err + Config) \<times> string fsys" where
  "LoadConfig L J path passphrase fs =
     (case os_ReadFile path fs of (r, fs1) \<Rightarrow>
        ((case r of
            Inl e \<Rightarrow> Inl (Wrap ''config: read file %s: %w'' [path] e)
          | Inr raw \<Rightarrow>
              (case Decrypt L raw passphrase of
                 Inl e \<Rightarrow> Inl (Wrap ''config: decrypt %s: %w'' [path] e)
               | Inr plaintext \<Rightarrow>
                   (case js_Unmarshal J plaintext of
                      Inl e \<Rightarrow> Inl (Wrap ''config: unmarshal %s: %w'' [path] e)
                    | Inr cfg \<Rightarrow> (case Validate cfg of Some e \<Rightarrow> Inl e | None \<Rightarrow> Inr cfg)))), fs1))"

definition SaveConfig :: "aead_lib \<Rightarrow> json_lib \<Rightarrow> err + string \<Rightarrow> err + string \<Rightarrow> string \<Rightarrow> string \<Rightarrow> Config \<Rightarrow> string fsys \<Rightarrow>
    err option \<times> string fsys" where
  "SaveConfig L J salt_r nonce_r path passphrase cfg fs =
     (case js_Marshal J cfg of
        Inl e \<Rightarrow> (Some (Wrap ''config: marshal: %w'' [] e), fs)
      | Inr data \<Rightarrow>
          (case Encrypt L salt_r nonce_r data passphrase of
             Inl e \<Rightarrow> (Some (Wrap ''config: encrypt: %w'' [] e), fs)
           | Inr encrypted \<Rightarrow>
               (case os_WriteFile path encrypted fs of
                  (Some e, fs1) \<Rightarrow> (Some (Wrap ''config: write %s: %w'' [path] e), fs1)
                | (None, fs1) \<Rightarrow> (None, fs1))))"

text \<open>
  \<open>fmt.Sscanf(s, "%d", &port)\<close>: blanks, a sign and digits; the port keeps its value when there are none or the number does
  not fit 64 bits.
\<close>

fun dec_digits :: "string \<Rightarrow> string" where
  "dec_digits [] = []"
| "dec_digits (c # s) = (if CHR ''0'' \<le> c \<and> c \<le> CHR ''9'' then c # dec_digits s else [])"

definition dec_value :: "string \<Rightarrow> int" where
  "dec_value s = foldl (\<lambda>n c. 10 * n + (int (of_char c) - 48)) 0 s"

definition scan_int :: "string \<Rightarrow> int \<Rightarrow> int" where
  "scan_int s port =
     (let t = dropWhile (\<lambda>c. c = CHR '' '' \<or> c = CHR 0x09) s;
          neg = (case t of c # _ \<Rightarrow> c = CHR ''-'' | [] \<Rightarrow> False);
          u = (case t of c # u \<Rightarrow> if c = CHR ''-'' \<or> c = CHR ''+'' then u else t | [] \<Rightarrow> []);
          ds = dec_digits u; n = (if neg then - dec_value ds else dec_value ds) in
      if ds = [] \<or> n < - (2 ^ 63) \<or> 2 ^ 63 \<le> n then port else n)"

definition addr_host_port :: "string \<Rightarrow> string \<times> int" where
  "addr_host_port addr =
     (if addr = [] then (''127.0.0.1'', 3306)
      else (case split_first (CHR '':'') addr of
              None \<Rightarrow> (addr, 3306)
            | Some (host, rest) \<Rightarrow> (host, scan_int rest 3306)))"

definition ParseDSNToConnConfig :: "(string \<Rightarrow> err + driver_config) \<Rightarrow> string \<Rightarrow> err + ConnConfig" where
  "ParseDSNToConnConfig parseDSN dsn =
     (case parseDSN dsn of
        Inl e \<Rightarrow> Inl (Wrap ''config: parse DSN: %w'' [] e)
      | Inr cfg \<Rightarrow>
          (case addr_host_port (dc_Addr cfg) of (host, port) \<Rightarrow>
             Inr \<lparr>cc_Host = host, cc_Port = port, cc_User = dc_User cfg, cc_Password = dc_Passwd cfg, cc_Database = dc_DBName cfg,
                  cc_Params = (if dc_TLSConfig cfg \<noteq> [] then AList.update ''tls'' (dc_TLSConfig cfg) (dc_Params cfg) else dc_Params cfg)\<rparr>))"

subsection \<open>agent config encrypt\<close>

definition config_encrypt :: "aead_lib \<Rightarrow> json_lib \<Rightarrow> err + string \<Rightarrow> err + string \<Rightarrow> string \<Rightarrow> string \<Rightarrow> string \<Rightarrow> string fsys \<Rightarrow>
    err option \<times> string fsys" where
  "config_encrypt L J salt_r nonce_r input output passphrase fs =
     (if input = [] then (Some (Err ''--input is required'' []), fs)
      else if output = [] then (Some (Err ''--output is required'' []), fs)
      else if passphrase = [] then (Some (Err ''--passphrase is required'' []), fs)
      else (case os_ReadFile input fs of
              (Inl e, fs1) \<Rightarrow> (Some (Wrap ''config encrypt: read input: %w'' [] e), fs1)
            | (Inr raw, fs1) \<Rightarrow>
                (case js_Unmarshal J raw of
                   Inl e \<Rightarrow> (Some (Wrap ''config encrypt: input is not a valid agent config: %w'' [] e), fs1)
                 | Inr cfg \<Rightarrow>
                     (case SaveConfig L J salt_r nonce_r output passphrase cfg fs1 of
                        (Some e, fs2) \<Rightarrow> (Some (Wrap ''config encrypt: %w'' [] e), fs2)
                      | (None, fs2) \<Rightarrow> (None, fs2)))))"

subsection \<open>agent serve\<close>

definition certCNFromFile :: "pki_lib \<Rightarrow> string \<Rightarrow> string fsys \<Rightarrow> (err + string) \<times> string fsys" where
  "certCNFromFile P certFile fs =
     (case os_ReadFile certFile fs of (r, fs1) \<Rightarrow>
        ((case r of
            Inl e \<Rightarrow> Inl (Wrap ''read client certificate: %w'' [] e)
          | Inr data \<Rightarrow>
              (case pk_Decode P data of
                 None \<Rightarrow> Inl (Err ''no PEM block in %s'' [certFile])
               | Some (_, bytes) \<Rightarrow>
                   (case pk_ParseCertificate P bytes of
                      Inl e \<Rightarrow> Inl (Wrap ''parse client certificate: %w'' [] e)
                    | Inr cert \<Rightarrow>
                        (if ct_CommonName cert = [] then Inl (Err ''client certificate has empty CommonName'' [])
                         else Inr (ct_CommonName cert))))), fs1))"

text \<open>The checks of the command before anything starts: the configuration and the identity of the agent.\<close>

definition serve_config :: "aead_lib \<Rightarrow> json_lib \<Rightarrow> pki_lib \<Rightarrow> string \<Rightarrow> string \<Rightarrow> string \<Rightarrow> string fsys \<Rightarrow>
    (err + Config \<times> string) \<times> string fsys" where
  "serve_config L J P configFile passphrase agentID fs =
     (if configFile = [] then (Inl (Err ''--config is required'' []), fs)
      else if passphrase = [] then (Inl (Err ''--passphrase is required'' []), fs)
      else (case LoadConfig L J configFile passphrase fs of
              (Inl e, fs1) \<Rightarrow> (Inl (Wrap ''serve: load config: %w'' [] e), fs1)
            | (Inr cfg, fs1) \<Rightarrow>
                (if sc_URL (cf_Server cfg) = [] then (Inl (Err ''serve: config field server.url is required'' []), fs1)
                 else if sc_CertFile (cf_Server cfg) = [] \<or> sc_KeyFile (cf_Server cfg) = [] \<or> sc_CAFile (cf_Server cfg) = []
                 then (Inl (Err ''serve: config fields server.cert_file, server.key_file, and server.ca_file are required'' []), fs1)
                 else if agentID \<noteq> [] then (Inr (cfg, agentID), fs1)
                 else (case certCNFromFile P (sc_CertFile (cf_Server cfg)) fs1 of
                         (Inl e, fs2) \<Rightarrow>
                           (Inl (Wrap ''serve: derive agent id from client certificate: %w (pass --agent-id explicitly)'' [] e), fs2)
                       | (Inr i, fs2) \<Rightarrow> (Inr (cfg, i), fs2)))))"

end
