(* ===== verification/Config_Props.thy ===== *)
theory Config_Props
  imports Config Field_Text Flashback
begin

text \<open>
  The configuration file: what is encrypted decrypts to itself, and only what was encrypted with the passphrase decrypts; a
  saved configuration loads; and where saving and loading disagree.
\<close>

subsection \<open>Hexadecimal\<close>

lemma value_of_digit: "n < 16 \<Longrightarrow> hex_value (digit_char n) = Some n"
proof -
  assume "n < 16"
  then have "n \<in> set [0..<16]" by simp
  moreover have "list_all (\<lambda>n. hex_value (digit_char n) = Some n) [0..<16]" by code_simp
  ultimately show ?thesis by (simp add: list_all_iff)
qed

lemma hex_value_bound: "hex_value c = Some n \<Longrightarrow> n < 16"
  by (auto simp: hex_value_def Let_def split: if_splits)

lemma decode_encoded [simp]: "hex_decode (hex_encode s) = Inr s"
proof (induction s)
  case (Cons c s)
  have n: "(of_char c :: nat) < 256" by simp
  then have "(of_char c :: nat) div 16 < 16" by linarith
  then have "hex_value (digit_char ((of_char c :: nat) div 16)) = Some (of_char c div 16)"
    "hex_value (digit_char ((of_char c :: nat) mod 16)) = Some (of_char c mod 16)" by (simp_all add: value_of_digit)
  then show ?case using Cons by (simp add: Let_def)
qed simp

text \<open>The spelling of the digits apart, decoding is undone by encoding.\<close>

definition hex_same :: "string \<Rightarrow> string \<Rightarrow> bool" where
  "hex_same a b \<longleftrightarrow> map hex_value a = map hex_value b"

lemma hex_encode_decode: "hex_decode s = Inr t \<Longrightarrow> hex_same s (hex_encode t)"
proof (induction s arbitrary: t rule: hex_decode.induct)
  case (3 a b s)
  then obtain x y u where h: "hex_value a = Some x" "hex_value b = Some y" "hex_decode s = Inr u" "t = char_of (16 * x + y) # u"
    by (auto split: option.splits sum.splits)
  note b = hex_value_bound[OF h(1)] hex_value_bound[OF h(2)]
  then have "(of_char (char_of (16 * x + y)) :: nat) = 16 * x + y" by (simp add: of_char_of)
  moreover have "(16 * x + y) div 16 = x" "(16 * x + y) mod 16 = y" using b by simp_all
  moreover have "hex_same s (hex_encode u)" using "3.IH"[OF h(1,2,3)] .
  ultimately show ?case using h(1,2,4) value_of_digit b by (simp add: hex_same_def Let_def)
qed (auto simp: hex_same_def split: option.splits)

subsection \<open>Encryption\<close>

text \<open>
  What the code relies on: keys of the derived length are accepted; \<open>Open\<close> inverts \<open>Seal\<close> under the same key and nonce, and
  what it accepts is what \<open>Seal\<close> writes (the tag is a function of key, nonce and text).
\<close>

definition aead_ok :: "aead_lib \<Rightarrow> bool" where
  "aead_ok L \<longleftrightarrow>
     (\<forall>p s. al_NewCipher L (deriveKey L p s) = None \<and> al_NewGCM L (deriveKey L p s) = None) \<and>
     (\<forall>k n t. al_Open L k n (al_Seal L k n t) = Inr t) \<and>
     (\<forall>k n c t. al_Open L k n c = Inr t \<longrightarrow> c = al_Seal L k n t)"

lemma Decrypt_Encrypt:
  assumes "aead_ok L" and "Encrypt L (Inr salt) (Inr nonce) plain pass = Inr c" and "length salt = SaltLen" and "length nonce = NonceLen"
  shows "Decrypt L c pass = Inr plain"
  using assms by (auto simp: Encrypt_def Decrypt_def Let_def aead_ok_def split: option.splits)

lemma Encrypt_total:
  "aead_ok L \<Longrightarrow> \<exists>c. Encrypt L (Inr salt) (Inr nonce) plain pass = Inr c"
  by (auto simp: Encrypt_def Let_def aead_ok_def)

lemma Decrypt_only_encrypted:
  assumes "aead_ok L" and "Decrypt L c pass = Inr plain"
  shows "\<exists>salt nonce c'. length salt = SaltLen \<and> length nonce = NonceLen \<and> hex_same c c' \<and>
    Encrypt L (Inr salt) (Inr nonce) plain pass = Inr c'"
proof -
  obtain raw where raw: "hex_decode c = Inr raw" "\<not> length raw < SaltLen + NonceLen"
    using assms(2) by (auto simp: Decrypt_def split: sum.splits if_splits)
  let ?salt = "take SaltLen raw"
  let ?nonce = "take NonceLen (drop SaltLen raw)"
  let ?data = "drop (SaltLen + NonceLen) raw"
  let ?key = "deriveKey L pass ?salt"
  have "al_Open L ?key ?nonce ?data = Inr plain"
    using assms(2) raw by (auto simp: Decrypt_def Let_def split: option.splits sum.splits)
  with assms(1) have d: "?data = al_Seal L ?key ?nonce plain" by (auto simp: aead_ok_def)
  have "raw = ?salt @ ?nonce @ ?data" by (metis append_take_drop_id drop_drop add.commute)
  with d have "hex_encode raw = hex_encode (?salt @ ?nonce @ al_Seal L ?key ?nonce plain)" by metis
  then have "Encrypt L (Inr ?salt) (Inr ?nonce) plain pass = Inr (hex_encode raw)"
    using assms(1) by (simp add: Encrypt_def Let_def aead_ok_def)
  moreover have "length ?salt = SaltLen" "length ?nonce = NonceLen" using raw(2) by simp_all
  ultimately show ?thesis using hex_encode_decode[OF raw(1)] by blast
qed

subsection \<open>Saving and loading\<close>

text \<open>The JSON text of a configuration reads back.\<close>

definition json_ok :: "json_lib \<Rightarrow> bool" where
  "json_ok J \<longleftrightarrow> (\<forall>c t. js_Marshal J c = Inr t \<longrightarrow> js_Unmarshal J t = Inr c)"

text \<open>
  A saved configuration loads. When \<open>SaveConfig\<close> succeeded and the file was not changed since, \<open>LoadConfig\<close> with the same
  passphrase gives exactly the saved configuration if it has the required fields, and their error otherwise.
\<close>

theorem saved_config_loads:
  assumes "aead_ok L" and "json_ok J" and "length salt = SaltLen" and "length nonce = NonceLen"
    and "SaveConfig L J (Inr salt) (Inr nonce) path pass cfg fs = (None, fs1)"
    and "fs_files fs2 path = fs_files fs1 path" and "healthy fs2"
  shows "fst (LoadConfig L J path pass fs2) = (case Validate cfg of None \<Rightarrow> Inr cfg | Some e \<Rightarrow> Inl e)"
proof -
  obtain data c where d: "js_Marshal J cfg = Inr data" "Encrypt L (Inr salt) (Inr nonce) data pass = Inr c"
    and w: "os_WriteFile path c fs = (None, fs1)"
    using assms(5) by (auto simp: SaveConfig_def split: sum.splits prod.splits option.splits)
  have "fs_files fs2 path = Some c" using os_WriteFile_ok[OF w] assms(6) by simp
  moreover have "js_Unmarshal J data = Inr cfg" using assms(2) d(1) by (simp add: json_ok_def)
  ultimately show ?thesis using Decrypt_Encrypt[OF assms(1) d(2) assms(3,4)]
    by (simp add: LoadConfig_def healthy_calls[OF assms(7)])
qed

text \<open>What loads has the required fields and came out of an encryption with this passphrase.\<close>

lemma loaded_config:
  assumes "aead_ok L" and "LoadConfig L J path pass fs = (Inr cfg, fs')"
  shows "mc_User (cf_MySQL cfg) \<noteq> []" "mc_Password (cf_MySQL cfg) \<noteq> []" "mc_Database (cf_MySQL cfg) \<noteq> []"
    "\<exists>raw plain salt nonce c. fs_files fs path = Some raw \<and> js_Unmarshal J plain = Inr cfg \<and>
       Encrypt L (Inr salt) (Inr nonce) plain pass = Inr c \<and> hex_same raw c"
proof -
  obtain raw plain where r: "fs_files fs path = Some raw" "Decrypt L raw pass = Inr plain" "js_Unmarshal J plain = Inr cfg" "Validate cfg = None"
    using assms(2) by (auto simp: LoadConfig_def os_ReadFile_def split: prod.splits sum.splits option.splits)
  then show "mc_User (cf_MySQL cfg) \<noteq> []" "mc_Password (cf_MySQL cfg) \<noteq> []" "mc_Database (cf_MySQL cfg) \<noteq> []"
    by (auto simp: Validate_def Let_def split: if_splits)
  show "\<exists>raw plain salt nonce c. fs_files fs path = Some raw \<and> js_Unmarshal J plain = Inr cfg \<and>
       Encrypt L (Inr salt) (Inr nonce) plain pass = Inr c \<and> hex_same raw c"
    using Decrypt_only_encrypted[OF assms(1) r(2)] r(1,3) by blast
qed

text \<open>
  \<open>agent config encrypt\<close> does not validate: it encrypts a configuration without a password, which no command loads.
\<close>

lemma encrypt_accepts_unloadable:
  assumes "aead_ok L" and "json_ok J" and "length salt = SaltLen" and "length nonce = NonceLen"
    and "config_encrypt L J (Inr salt) (Inr nonce) input output pass fs = (None, fs1)" and "healthy fs1"
    and "fs_files fs input = Some raw" and "js_Unmarshal J raw = Inr cfg" and "mc_Password (cf_MySQL cfg) = []"
  shows "\<exists>e. fst (LoadConfig L J output pass fs1) = Inl e"
proof -
  obtain fs0 where "SaveConfig L J (Inr salt) (Inr nonce) output pass cfg fs0 = (None, fs1)"
    using assms(5,7,8) by (auto simp: config_encrypt_def os_ReadFile_def split: if_splits prod.splits sum.splits option.splits)
  from saved_config_loads[OF assms(1-4) this refl assms(6)] assms(9) show ?thesis
    by (simp add: Validate_def Let_def)
qed

text \<open>The file is written in place: when the write fails, the old configuration is gone.\<close>

lemma failed_save_tears:
  assumes "js_Marshal J cfg = Inr data" and "Encrypt L salt_r nonce_r data pass = Inr c" and "fs_fault fs (fs_clock fs) = Some g"
  shows "fst (SaveConfig L J salt_r nonce_r path pass cfg fs) \<noteq> None"
    "fs_files (snd (SaveConfig L J salt_r nonce_r path pass cfg fs)) path = Some (g c)"
  using assms by (simp_all add: SaveConfig_def os_WriteFile_def)

text \<open>An IPv6 address is cut at its first colon.\<close>

lemma ipv6_address_is_cut: "addr_host_port ''[::1]:3307'' = (''['', 3306)"
  by code_simp

lemma ipv4_address: "addr_host_port ''10.0.0.7:3307'' = (''10.0.0.7'', 3307)"
  by code_simp

text \<open>The flashback command on an encrypted file connects to what the configuration says.\<close>

lemma flashback_uses_config:
  assumes "fe_LoadConfig E = (\<lambda>path pass. map_sum id (\<lambda>c. BuildConnConfig (cf_MySQL c)) (fst (LoadConfig L J path pass fs)))"
    and "resolveConnConfig E opts = Inr c" and "fo_ConfigFile opts \<noteq> []" and "aead_ok L"
  shows "\<exists>cfg. fst (LoadConfig L J (fo_ConfigFile opts) (fo_Passphrase opts) fs) = Inr cfg \<and> c = BuildConnConfig (cf_MySQL cfg) \<and>
    cc_User c \<noteq> [] \<and> cc_Password c \<noteq> [] \<and> cc_Port c \<noteq> 0 \<and> cc_Host c \<noteq> []"
proof -
  obtain cfg where cfg: "fst (LoadConfig L J (fo_ConfigFile opts) (fo_Passphrase opts) fs) = Inr cfg" "c = BuildConnConfig (cf_MySQL cfg)"
    using assms(1-3) by (cases "fst (LoadConfig L J (fo_ConfigFile opts) (fo_Passphrase opts) fs)") (auto simp: resolveConnConfig_def)
  then have "LoadConfig L J (fo_ConfigFile opts) (fo_Passphrase opts) fs = (Inr cfg, snd (LoadConfig L J (fo_ConfigFile opts) (fo_Passphrase opts) fs))"
    by (metis prod.collapse)
  note loaded_config(1,2)[OF assms(4) this]
  then show ?thesis using cfg by (auto simp: BuildConnConfig_def cfg_host_def cfg_port_def)
qed

end
