(* ===== verification/Migrate.thy ===== *)
theory Migrate
  imports Sql
begin

text \<open>
  \<open>internal/server/store/migrate.go\<close>: the schema of the server's database, built up by versioned scripts that run one
  transaction each. A database is its \<open>user_version\<close> and its tables; a table is its columns, its constraints and its rows,
  each a list of named values.
\<close>

subsection \<open>Databases and data definition\<close>

datatype sql_value = VNull | VText string | VInt int

text \<open>A column: its name, its declaration as written, whether it is \<open>NOT NULL\<close>, its \<open>DEFAULT\<close>.\<close>

record column =
  cn_Name :: string
  cn_Decl :: string
  cn_NotNull :: bool
  cn_Default :: "sql_value option"

record table =
  tb_Columns :: "column list"
  tb_Constraints :: "string list"
  tb_Rows :: "(string \<times> sql_value) list list"

record schema =
  sm_Version :: int
  sm_Tables :: "(string \<times> table) list"

definition default_value :: "column \<Rightarrow> sql_value" where
  "default_value c = (case cn_Default c of None \<Rightarrow> VNull | Some v \<Rightarrow> v)"

text \<open>\<open>CREATE TABLE IF NOT EXISTS\<close> and \<open>ALTER TABLE ... ADD COLUMN\<close>.\<close>

datatype ddl = CreateTable string "column list" "string list" | AddColumn string column

fun exec_ddl :: "ddl \<Rightarrow> (string \<times> table) list \<Rightarrow> err + (string \<times> table) list" where
  "exec_ddl (CreateTable n cs ks) ts =
     (if map_of ts n \<noteq> None then Inr ts else Inr (ts @ [(n, \<lparr>tb_Columns = cs, tb_Constraints = ks, tb_Rows = []\<rparr>)]))"
| "exec_ddl (AddColumn n c) ts =
     (case map_of ts n of
        None \<Rightarrow> Inl (Err ''no such table: %s'' [n])
      | Some t \<Rightarrow>
          (if list_ex (\<lambda>b. cn_Name b = cn_Name c) (tb_Columns t) then Inl (Err ''duplicate column name: %s'' [cn_Name c])
           else if cn_NotNull c \<and> cn_Default c = None
           then Inl (Err ''Cannot add a NOT NULL column with default value NULL'' [])
           else Inr (map (\<lambda>(m, u). (m, if m = n then u\<lparr>tb_Columns := tb_Columns u @ [c],
                  tb_Rows := map (\<lambda>r. r @ [(cn_Name c, default_value c)]) (tb_Rows u)\<rparr> else u)) ts)))"

fun exec_script :: "ddl list \<Rightarrow> (string \<times> table) list \<Rightarrow> err + (string \<times> table) list" where
  "exec_script [] ts = Inr ts"
| "exec_script (d # ds) ts = (case exec_ddl d ts of Inl e \<Rightarrow> Inl e | Inr ts1 \<Rightarrow> exec_script ds ts1)"

subsection \<open>The scripts\<close>

definition text_key :: "string \<Rightarrow> column" where
  "text_key n = \<lparr>cn_Name = n, cn_Decl = ''TEXT PRIMARY KEY'', cn_NotNull = False, cn_Default = None\<rparr>"

definition text_col :: "string \<Rightarrow> column" where
  "text_col n = \<lparr>cn_Name = n, cn_Decl = ''TEXT NOT NULL'', cn_NotNull = True, cn_Default = None\<rparr>"

definition text_default :: "string \<Rightarrow> string \<Rightarrow> column" where
  "text_default n v = \<lparr>cn_Name = n, cn_Decl = ''TEXT NOT NULL'', cn_NotNull = True, cn_Default = Some (VText v)\<rparr>"

definition int_col :: "string \<Rightarrow> column" where
  "int_col n = \<lparr>cn_Name = n, cn_Decl = ''INTEGER NOT NULL'', cn_NotNull = True, cn_Default = None\<rparr>"

definition int_default :: "string \<Rightarrow> column" where
  "int_default n = \<lparr>cn_Name = n, cn_Decl = ''INTEGER NOT NULL'', cn_NotNull = True, cn_Default = Some (VInt 0)\<rparr>"

definition schemaV1 :: "ddl list" where
  "schemaV1 = [
     CreateTable ''users''
       [text_key ''id'', \<lparr>cn_Name = ''email'', cn_Decl = ''TEXT NOT NULL UNIQUE'', cn_NotNull = True, cn_Default = None\<rparr>,
        text_col ''hashed_password'', text_col ''created_at''] [],
     CreateTable ''orgs'' [text_key ''id'', text_col ''name'', text_col ''created_at''] [],
     CreateTable ''members'' [text_col ''org_id'', text_col ''user_id'', text_col ''role''] [''PRIMARY KEY (org_id, user_id)''],
     CreateTable ''agents''
       [text_key ''id'', text_col ''org_id'', text_col ''name'', text_default ''host'' [], text_default ''mysql_version'' [],
        text_default ''status'' ''pending'', text_default ''cert_serial'' [], text_default ''last_seen'' [], text_col ''created_at''] [],
     CreateTable ''operations''
       [text_key ''id'', text_col ''org_id'', text_col ''agent_id'', text_col ''type'', text_col ''mode'', text_col ''filter'',
        text_default ''selected_tx_ids'' ''[]'', text_col ''status'', text_col ''created_by'', text_col ''created_at'',
        text_col ''updated_at''] [],
     CreateTable ''operation_txs''
       [text_col ''op_id'', int_col ''tx_index'', text_col ''tx_id'', text_default ''gtid'' [], int_default ''xid'',
        text_col ''commit_time'', text_default ''schema_name'' [], text_default ''tables'' [], int_default ''row_count'',
        int_default ''truncated'', text_default ''status'' ''previewed''] [''PRIMARY KEY (op_id, tx_index)''],
     CreateTable ''statements''
       [text_col ''op_id'', int_col ''tx_index'', int_col ''stmt_index'', text_col ''sql'', text_col ''tx_id'',
        int_default ''tx_order'', text_default ''warnings'' [], text_default ''status'' ''pending''] [''PRIMARY KEY (op_id, stmt_index)''],
     CreateTable ''checkpoints''
       [text_key ''op_id'', int_default ''last_statement'', int_default ''total'', text_default ''errors'' []] [],
     CreateTable ''archive_state''
       [text_key ''agent_id'', text_default ''last_file'' [], int_default ''last_pos'', text_default ''last_gtid'' [],
        text_col ''updated_at''] [],
     CreateTable ''audit_logs''
       [\<lparr>cn_Name = ''id'', cn_Decl = ''INTEGER PRIMARY KEY AUTOINCREMENT'', cn_NotNull = False, cn_Default = None\<rparr>,
        text_default ''op_id'' [], text_default ''operator'' [], text_col ''ts'', text_col ''org_id'', text_default ''agent_id'' [],
        text_default ''action'' [], text_default ''detail'' []] []]"

definition schemaV2 :: "ddl list" where
  "schemaV2 = [
     AddColumn ''members'' (text_default ''joined_at'' []),
     AddColumn ''agents'' (text_default ''registration_token'' []),
     AddColumn ''agents'' (int_default ''approved''),
     CreateTable ''invites'' [text_key ''code'', text_col ''org_id'', text_col ''created_by'', text_col ''created_at''] [],
     AddColumn ''audit_logs'' (text_default ''target_table'' []),
     AddColumn ''audit_logs'' (text_default ''recovery_time'' []),
     AddColumn ''audit_logs'' (int_default ''rows_affected''),
     AddColumn ''audit_logs'' (text_default ''status'' [])]"

definition schemaV3 :: "ddl list" where
  "schemaV3 = [AddColumn ''operations'' (text_default ''target_tables'' ''[]'')]"

definition schemaVersion :: int where
  "schemaVersion = 3"

definition migrations :: "int \<rightharpoonup> ddl list" where
  "migrations = [1 \<mapsto> schemaV1, 2 \<mapsto> schemaV2, 3 \<mapsto> schemaV3]"

subsection \<open>Migration\<close>

type_synonym schema_db = "schema sqldb"

text \<open>
  \<open>applyVersion\<close>: taking a connection, the script between \<open>BEGIN\<close> and \<open>COMMIT\<close>, and after an error the \<open>ROLLBACK\<close> on the
  same connection. An uncommitted transaction is not in the database.
\<close>

definition apply_failed :: "int \<Rightarrow> err \<Rightarrow> err" where
  "apply_failed v e = Wrap ''store: apply schema version %d: %w'' [show_int v] e"

definition applyVersion :: "int \<Rightarrow> ddl list \<Rightarrow> schema_db \<Rightarrow> err option \<times> schema_db" where
  "applyVersion v ddl db =
     (case sql_run (\<lambda>s. (Inr (), s)) db of
        (Inl e, db1) \<Rightarrow> (Some (apply_failed v e), db1)
      | (Inr _, db1) \<Rightarrow>
          (case sql_run (\<lambda>s. case exec_script ddl (sm_Tables s) of
                               Inl e \<Rightarrow> (Inl e, s)
                             | Inr ts \<Rightarrow> (Inr (), s\<lparr>sm_Tables := ts, sm_Version := v\<rparr>)) db1 of
             (Inl e, db2) \<Rightarrow> (Some (apply_failed v e), snd (sql_run (\<lambda>s. (Inr (), s)) db2))
           | (Inr _, db2) \<Rightarrow> (None, db2)))"

fun migrate_versions :: "int list \<Rightarrow> schema_db \<Rightarrow> err option \<times> schema_db" where
  "migrate_versions [] db = (None, db)"
| "migrate_versions (v # vs) db =
     (case migrations v of
        None \<Rightarrow> (Some (Err ''store: no migration for schema version %d'' [show_int v]), db)
      | Some ddl \<Rightarrow>
          (case applyVersion v ddl db of
             (Some e, db1) \<Rightarrow> (Some e, db1)
           | (None, db1) \<Rightarrow> migrate_versions vs db1))"

definition Migrate :: "schema_db \<Rightarrow> err option \<times> schema_db" where
  "Migrate db =
     (case sql_run (\<lambda>s. (Inr (sm_Version s), s)) db of
        (Inl e, db1) \<Rightarrow> (Some (Wrap ''store: read schema version: %w'' [] e), db1)
      | (Inr current, db1) \<Rightarrow> migrate_versions [current + 1..schemaVersion] db1)"

subsection \<open>What migration does\<close>

definition empty_tables :: "(string \<times> table) list" where
  "empty_tables = []"

text \<open>The layout of a database, and the one that each version has.\<close>

definition layout :: "(string \<times> table) list \<Rightarrow> (string \<times> column list \<times> string list) list" where
  "layout = map (\<lambda>(n, t). (n, tb_Columns t, tb_Constraints t))"

definition script_of :: "int \<Rightarrow> ddl list" where
  "script_of v = (case migrations v of None \<Rightarrow> [] | Some d \<Rightarrow> d)"

definition fresh_tables :: "int \<Rightarrow> (string \<times> table) list" where
  "fresh_tables v = (case exec_script (concat (map script_of [1..v])) [] of Inl _ \<Rightarrow> [] | Inr ts \<Rightarrow> ts)"

text \<open>Every row has a value for every column of its table, in their order.\<close>

definition rows_fit :: "(string \<times> table) list \<Rightarrow> bool" where
  "rows_fit ts \<longleftrightarrow> (\<forall>(n, t)\<in>set ts. \<forall>r\<in>set (tb_Rows t). map fst r = map cn_Name (tb_Columns t))"

definition has_version :: "int \<Rightarrow> schema \<Rightarrow> bool" where
  "has_version v s \<longleftrightarrow> sm_Version s = v \<and> layout (sm_Tables s) = layout (fresh_tables v) \<and> rows_fit (sm_Tables s)"

text \<open>Nothing is lost: every table is still there, with its rows in their order, each at most longer by new columns.\<close>

definition keeps_rows :: "(string \<times> table) list \<Rightarrow> (string \<times> table) list \<Rightarrow> bool" where
  "keeps_rows ts ts' \<longleftrightarrow>
     (\<forall>n t. map_of ts n = Some t \<longrightarrow> (\<exists>t'. map_of ts' n = Some t' \<and> list_all2 (\<lambda>r r'. \<exists>more. r' = r @ more) (tb_Rows t) (tb_Rows t')))"

lemma keeps_rows_refl: "keeps_rows ts ts"
proof -
  have "list_all2 (\<lambda>r r'. \<exists>more. r' = r @ more) rs rs" for rs :: "(string \<times> sql_value) list list"
    by (induction rs) auto
  then show ?thesis by (simp add: keeps_rows_def)
qed

lemma keeps_rows_trans: "keeps_rows a b \<Longrightarrow> keeps_rows b c \<Longrightarrow> keeps_rows a c"
proof -
  assume ab: "keeps_rows a b" and bc: "keeps_rows b c"
  have tr: "list_all2 (\<lambda>r r'. \<exists>more. r' = r @ more) x z"
    if "list_all2 (\<lambda>r r'. \<exists>more. r' = r @ more) x y" "list_all2 (\<lambda>r r'. \<exists>more. r' = r @ more) y z"
    for x y z :: "(string \<times> sql_value) list list"
    by (rule list_all2_trans[OF _ that]) auto
  show ?thesis unfolding keeps_rows_def
  proof (intro allI impI)
    fix n t assume "map_of a n = Some t"
    then obtain t1 where t1: "map_of b n = Some t1" "list_all2 (\<lambda>r r'. \<exists>more. r' = r @ more) (tb_Rows t) (tb_Rows t1)"
      using ab unfolding keeps_rows_def by blast
    then obtain t2 where "map_of c n = Some t2" "list_all2 (\<lambda>r r'. \<exists>more. r' = r @ more) (tb_Rows t1) (tb_Rows t2)"
      using bc unfolding keeps_rows_def by blast
    with tr[OF t1(2)] show "\<exists>t'. map_of c n = Some t' \<and> list_all2 (\<lambda>r r'. \<exists>more. r' = r @ more) (tb_Rows t) (tb_Rows t')" by blast
  qed
qed

text \<open>Whether a script succeeds, and the layout that it gives, depends on the layout alone.\<close>

lemma layout_map_of: "layout a = layout b \<Longrightarrow> map_of a n = None \<longleftrightarrow> map_of b n = None"
proof -
  assume l: "layout a = layout b"
  have "map fst (layout ts) = map fst ts" for ts by (induction ts) (auto simp: layout_def)
  with l have "map fst a = map fst b" by metis
  then have "fst ` set a = fst ` set b" by (metis set_map)
  then show ?thesis by (simp add: map_of_eq_None_iff)
qed

lemma layout_columns:
  "layout a = layout b \<Longrightarrow> map_of a n = Some t \<Longrightarrow> map_of b n = Some u \<Longrightarrow> tb_Columns t = tb_Columns u"
proof -
  have m: "map_of (layout ts) n = map_option (\<lambda>t. (tb_Columns t, tb_Constraints t)) (map_of ts n)" for ts
    by (induction ts) (auto simp: layout_def)
  assume "layout a = layout b" "map_of a n = Some t" "map_of b n = Some u"
  then show ?thesis using m[of a] m[of b] by simp
qed

lemma add_column_layout:
  "layout (map (\<lambda>(m, u). (m, if m = n then u\<lparr>tb_Columns := tb_Columns u @ [c], tb_Rows := f u\<rparr> else u)) ts) =
    map (\<lambda>(m, cs, ks). (m, if m = n then cs @ [c] else cs, ks)) (layout ts)"
  by (induction ts) (auto simp: layout_def)

lemma exec_ddl_layout:
  assumes "layout a = layout b" and "exec_ddl d b = Inr b'"
  shows "\<exists>a'. exec_ddl d a = Inr a' \<and> layout a' = layout b'"
proof (cases d)
  case (CreateTable n cs ks)
  then show ?thesis using assms layout_map_of[OF assms(1), of n] by (auto simp: layout_def)
next
  case (AddColumn n c)
  with assms(2) obtain u where u: "map_of b n = Some u" "\<not> list_ex (\<lambda>b. cn_Name b = cn_Name c) (tb_Columns u)"
    by (auto split: option.splits if_splits)
  then obtain t where t: "map_of a n = Some t" using layout_map_of[OF assms(1), of n] by (cases "map_of a n") auto
  from layout_columns[OF assms(1) t u(1)] u(2) have "\<not> list_ex (\<lambda>b. cn_Name b = cn_Name c) (tb_Columns t)" by simp
  with t u AddColumn assms show ?thesis by (auto simp: add_column_layout split: if_splits)
qed

lemma exec_script_layout:
  "layout a = layout b \<Longrightarrow> exec_script ds b = Inr b' \<Longrightarrow> \<exists>a'. exec_script ds a = Inr a' \<and> layout a' = layout b'"
proof (induction ds arbitrary: a b)
  case (Cons d ds)
  then obtain b1 where b1: "exec_ddl d b = Inr b1" "exec_script ds b1 = Inr b'" by (auto split: sum.splits)
  from exec_ddl_layout[OF Cons.prems(1) b1(1)] obtain a1 where a1: "exec_ddl d a = Inr a1" "layout a1 = layout b1" by blast
  from Cons.IH[OF a1(2) b1(2)] a1(1) show ?case by simp
qed simp

lemma exec_ddl_rows:
  assumes "exec_ddl d ts = Inr ts'" and "rows_fit ts"
  shows "rows_fit ts' \<and> keeps_rows ts ts'"
proof (cases d)
  case (CreateTable n cs ks)
  then have "rows_fit ts'" using assms by (fastforce simp: rows_fit_def split: if_splits)
  with CreateTable show ?thesis using assms keeps_rows_refl[of ts]
    by (auto simp: keeps_rows_def map_add_def split: if_splits option.splits)
next
  case (AddColumn n c)
  then obtain v where ts': "ts' = map (\<lambda>(m, u). (m, if m = n then u\<lparr>tb_Columns := tb_Columns u @ [c],
      tb_Rows := map (\<lambda>r. r @ [(cn_Name c, v)]) (tb_Rows u)\<rparr> else u)) ts"
    using assms(1) by (auto split: option.splits if_splits)
  have "map_of ts' k = map_option (\<lambda>u. if k = n then u\<lparr>tb_Columns := tb_Columns u @ [c],
      tb_Rows := map (\<lambda>r. r @ [(cn_Name c, v)]) (tb_Rows u)\<rparr> else u) (map_of ts k)" for k
    unfolding ts' by (induction ts) auto
  moreover have "list_all2 (\<lambda>r r'. \<exists>more. r' = r @ more) rs (map (\<lambda>r. r @ [(cn_Name c, v)]) rs)" for rs
    by (induction rs) auto
  moreover have "list_all2 (\<lambda>r r'. \<exists>more. r' = r @ more) rs rs" for rs :: "(string \<times> sql_value) list list"
    by (induction rs) auto
  ultimately have "keeps_rows ts ts'" by (auto simp: keeps_rows_def)
  moreover have "rows_fit ts'" using assms(2) unfolding ts' by (fastforce simp: rows_fit_def)
  ultimately show ?thesis by simp
qed

lemma exec_script_rows: "exec_script ds ts = Inr ts' \<Longrightarrow> rows_fit ts \<Longrightarrow> rows_fit ts' \<and> keeps_rows ts ts'"
proof (induction ds arbitrary: ts)
  case Nil
  then show ?case by (simp add: keeps_rows_refl)
next
  case (Cons d ds)
  then obtain ts1 where t1: "exec_ddl d ts = Inr ts1" "exec_script ds ts1 = Inr ts'" by (auto split: sum.splits)
  from exec_ddl_rows[OF t1(1) Cons.prems(2)] Cons.IH[OF t1(2)] keeps_rows_trans show ?case by blast
qed

lemma fresh_step:
  assumes "v \<in> {1, 2, 3}"
  shows "\<exists>ts. exec_script (script_of v) (fresh_tables (v - 1)) = Inr ts \<and> layout ts = layout (fresh_tables v)"
proof -
  have "list_all (\<lambda>v. case exec_script (script_of v) (fresh_tables (v - 1)) of Inl _ \<Rightarrow> False | Inr ts \<Rightarrow> layout ts = layout (fresh_tables v)) [1, 2, 3]"
    by code_simp
  then have "list_all (\<lambda>v. \<exists>ts. exec_script (script_of v) (fresh_tables (v - 1)) = Inr ts \<and> layout ts = layout (fresh_tables v)) [1, 2, 3]"
    by (auto split: sum.splits)
  with assms show ?thesis by (auto simp: list_all_iff)
qed

lemma script_upgrades:
  assumes "v \<in> {1, 2, 3}" and "has_version (v - 1) s"
  shows "\<exists>ts. exec_script (script_of v) (sm_Tables s) = Inr ts \<and> has_version v (s\<lparr>sm_Tables := ts, sm_Version := v\<rparr>) \<and>
    keeps_rows (sm_Tables s) ts"
proof -
  obtain fs where f: "exec_script (script_of v) (fresh_tables (v - 1)) = Inr fs" "layout fs = layout (fresh_tables v)"
    using fresh_step[OF assms(1)] by blast
  have "layout (sm_Tables s) = layout (fresh_tables (v - 1))" using assms(2) by (simp add: has_version_def)
  from exec_script_layout[OF this f(1)] obtain ts where ts: "exec_script (script_of v) (sm_Tables s) = Inr ts" "layout ts = layout fs"
    by blast
  moreover have "rows_fit (sm_Tables s)" using assms(2) by (simp add: has_version_def)
  ultimately show ?thesis using exec_script_rows[OF ts(1)] f(2) by (auto simp: has_version_def)
qed

lemma applyVersion_cases:
  assumes "applyVersion v (script_of v) db = (r, db')" and "v \<in> {1, 2, 3}" and "has_version (v - 1) (q_data db)"
  shows "if r = None then has_version v (q_data db') \<and> keeps_rows (sm_Tables (q_data db)) (sm_Tables (q_data db')) else q_data db' = q_data db"
    "q_fault db' = q_fault db" "q_fault db = (\<lambda>_. False) \<Longrightarrow> r = None"
proof -
  obtain ts where ts: "exec_script (script_of v) (sm_Tables (q_data db)) = Inr ts"
    "has_version v ((q_data db)\<lparr>sm_Tables := ts, sm_Version := v\<rparr>)" "keeps_rows (sm_Tables (q_data db)) ts"
    using script_upgrades[OF assms(2,3)] by blast
  show "if r = None then has_version v (q_data db') \<and> keeps_rows (sm_Tables (q_data db)) (sm_Tables (q_data db')) else q_data db' = q_data db"
    "q_fault db' = q_fault db" "q_fault db = (\<lambda>_. False) \<Longrightarrow> r = None"
    using assms(1) ts by (auto simp: applyVersion_def sql_run_def split: if_splits)
qed

lemma migrate_versions_cases:
  assumes "migrate_versions [v + 1..3] db = (r, db')" and "0 \<le> v" and "v \<le> 3" and "has_version v (q_data db)"
  shows "(\<exists>v'. v \<le> v' \<and> v' \<le> 3 \<and> has_version v' (q_data db') \<and> (r = None \<longrightarrow> v' = 3)) \<and>
    keeps_rows (sm_Tables (q_data db)) (sm_Tables (q_data db')) \<and> (q_fault db = (\<lambda>_. False) \<longrightarrow> r = None)"
  using assms
proof (induction "nat (3 - v)" arbitrary: v db)
  case 0
  then show ?case by (auto intro!: exI[of _ v] simp: keeps_rows_refl)
next
  case (Suc k)
  then have v: "v + 1 \<in> {1, 2, 3}" by auto
  then have m: "migrations (v + 1) = Some (script_of (v + 1))" by (auto simp: migrations_def script_of_def)
  have up: "[v + 1..3] = (v + 1) # [v + 1 + 1..3]" using Suc(2) by (simp add: upto_rec1)
  obtain ra da where a: "applyVersion (v + 1) (script_of (v + 1)) db = (ra, da)" by fastforce
  have hv: "has_version (v + 1 - 1) (q_data db)" using Suc(6) by simp
  note ac = applyVersion_cases[OF a v hv]
  show ?case
  proof (cases ra)
    case (Some e)
    with Suc(3) up m a have "r \<noteq> None" "db' = da" by auto
    with ac Some Suc(5,6) show ?thesis by (auto simp: keeps_rows_refl intro!: exI[of _ v])
  next
    case None
    with Suc(3) up m a have rest: "migrate_versions [v + 1 + 1..3] da = (r, db')" by simp
    have k: "k = nat (3 - (v + 1))" using Suc(2) by simp
    have "0 \<le> v + 1" "v + 1 \<le> 3" using Suc(2,4) by simp_all
    from Suc(1)[OF k rest this] ac None
    have ih: "(\<exists>v'. v + 1 \<le> v' \<and> v' \<le> 3 \<and> has_version v' (q_data db') \<and> (r = None \<longrightarrow> v' = 3)) \<and>
      keeps_rows (sm_Tables (q_data da)) (sm_Tables (q_data db')) \<and> (q_fault da = (\<lambda>_. False) \<longrightarrow> r = None)" by simp
    then obtain v' where "v + 1 \<le> v'" "v' \<le> 3" "has_version v' (q_data db')" "r = None \<longrightarrow> v' = 3" by blast
    moreover have "keeps_rows (sm_Tables (q_data db)) (sm_Tables (q_data db'))" using ih ac(1) None keeps_rows_trans by simp blast
    ultimately show ?thesis using ih ac(2) by (auto intro!: exI[of _ v'])
  qed
qed

text \<open>
  C24. Migration ends at a version and loses nothing. Started on a database that is new or that an earlier program left at
  any version, with any data in it, and whatever calls fail on the way, \<open>Migrate\<close> leaves the database exactly at a version -
  no script half applied - from which it can be run again; when it succeeds, which it does unless a call fails, the tables are
  those of a new database, column for column; every row is still there, its old values first, with a value for each new
  column.
\<close>

theorem migration_equals_fresh_install:
  assumes "Migrate db = (r, db')" and "has_version v (q_data db)" and "0 \<le> v" and "v \<le> 3"
  shows "(\<exists>v'. v \<le> v' \<and> v' \<le> 3 \<and> has_version v' (q_data db') \<and> (r = None \<longrightarrow> v' = 3)) \<and>
    keeps_rows (sm_Tables (q_data db)) (sm_Tables (q_data db')) \<and> (q_fault db = (\<lambda>_. False) \<longrightarrow> r = None)"
proof (cases "q_fault db (q_clock db)")
  case True
  with assms have "r \<noteq> None" "q_data db' = q_data db" by (auto simp: Migrate_def sql_run_def)
  with assms True show ?thesis by (auto simp: keeps_rows_refl intro!: exI[of _ v])
next
  case False
  let ?db = "db\<lparr>q_clock := Suc (q_clock db)\<rparr>"
  have "sm_Version (q_data db) = v" using assms(2) by (simp add: has_version_def)
  with False assms(1) have "migrate_versions [v + 1..3] ?db = (r, db')" by (simp add: Migrate_def sql_run_def schemaVersion_def)
  from migrate_versions_cases[OF this assms(3,4)] assms(2) show ?thesis by simp
qed

definition old_database :: schema_db where
  "old_database = \<lparr>q_data = \<lparr>sm_Version = 2, sm_Tables = map (\<lambda>(n, t). (n, if n = ''orgs''
       then t\<lparr>tb_Rows := [[(''id'', VText ''org1''), (''name'', VText ''acme''), (''created_at'', VText ''t'')]]\<rparr> else t)) (fresh_tables 2)\<rparr>,
     q_clock = 0, q_fault = (\<lambda>_. False)\<rparr>"

theorem migration_equals_fresh_install_witness:
  "fst (Migrate old_database) = None \<and> layout (sm_Tables (q_data (snd (Migrate old_database)))) = layout (fresh_tables 3) \<and>
   keeps_rows (sm_Tables (q_data old_database)) (sm_Tables (q_data (snd (Migrate old_database))))"
proof -
  have "sm_Version (q_data old_database) = 2 \<and> layout (sm_Tables (q_data old_database)) = layout (fresh_tables 2) \<and>
    list_all (\<lambda>(n, t). list_all (\<lambda>r. map fst r = map cn_Name (tb_Columns t)) (tb_Rows t)) (sm_Tables (q_data old_database))"
    by code_simp
  then have "has_version 2 (q_data old_database)" by (auto simp: has_version_def rows_fit_def list_all_iff)
  from migration_equals_fresh_install[OF prod.collapse[symmetric] this] show ?thesis
    by (auto simp: old_database_def has_version_def)
qed

end
