(* ===== verification/Agent_Answers.thy ===== *)
theory Agent_Answers
  imports Server Command_Trip
begin

text \<open>
  What the agent's handlers answer is what the server reads out of it: the archive state of \<open>CmdArchiveStatus\<close>, and the
  version of the MySQL server in the answer to \<open>CmdPreflight\<close>.
\<close>

text \<open>The archive state that a member sees is the one of the agent's archive loop, or no content before its first round.\<close>

theorem archive_state_travels:
  assumes "as_LastPos (ArchiveStatus a) < 2 ^ 32"
  shows "archive_answer E (Inr (Some (fst (handleArchiveStatus cmd a)))) =
    (if as_LastFile (ArchiveStatus a) = [] \<and> time_is_zero (as_UpdatedAt (ArchiveStatus a)) then api_ok 204 ABNoContent
     else api_ok 200 (ABArchive (ArchiveStatus a)))"
proof -
  have "int (as_LastPos (ArchiveStatus a)) < 2 ^ 32" using assms by (metis of_nat_less_iff of_nat_numeral of_nat_power)
  then have "decodeResult (rs_Result (fst (handleArchiveStatus cmd a))) = Some (ArchiveStatus a)"
    by (simp add: handleArchiveStatus_def okResp_def Let_def decode_fields_def field_text_def field_int_def)
  then show ?thesis
    by (simp add: archive_answer_def handleArchiveStatus_def okResp_def Let_def StatusOK_def StatusError_def)
qed

text \<open>The version that the record of an agent gets is the one that its MySQL server reports.\<close>

theorem version_travels:
  assumes "fst (handlePreflight E cmd a) = resp" and "rs_Status resp = StatusOK"
    and "Preflight \<lparr>mc_db = Some (ae_mysql E), mc_config = ae_connCfg E\<rparr> = Inr pf"
  shows "preflight_version (rs_Result resp) = (let v = de_text (ae_daemon E) (pr_Version pf) in if v = [] then None else Some v)"
  using assms
  by (auto simp: handlePreflight_def Let_def okResp_def errResp_def preflight_wire_def StatusOK_def StatusError_def
      split: option.splits sum.splits)

text \<open>Of a server whose version check failed there is none: the record keeps the version it has.\<close>

lemma failed_check_gives_no_version:
  assumes "Preflight \<lparr>mc_db = Some (ae_mysql E), mc_config = ae_connCfg E\<rparr> = Inr pf"
    and "pk_Status (checkVersion (ae_mysql E)) = PreflightFail"
  shows "pr_Version pf = no_message"
  using assms by (auto simp: Preflight_def Let_def split: option.splits sum.splits if_splits)

end
