(* ===== verification/Spec2Isabelle.thy ===== *)
theory Spec2Isabelle
  imports Binlog_Reader Binlog_Engine_Props Scan Reverse_Sem Executor_Props Checkpoint_Manager
    Archive_Props Collector_Props
    Store_Org_Props Store_Agent Pitr_Flow Pitr_Access Fk_Order Command_Trip End_To_End Undo_Order
    Server Audit_Props Auth_Props Ca_Props Config_Props Migrate Agent_Answers
begin

text \<open>
  \<^bold>\<open>mysql-pitr: point-in-time recovery of MySQL from row-based binlogs\<close>

  The program has two halves. The \<^emph>\<open>agent\<close> sits beside a MySQL server: it scans archived binlog files,
  groups row events into transactions, generates statements that undo them, and executes a selected list
  of statements in batches with checkpoints. The \<^emph>\<open>server\<close> keeps organisations, agents and operations in
  SQLite, hands scan and execute commands to the agent over a WebSocket, and follows the stream of events
  that comes back; an operation moves along a state machine from \<open>created\<close> to a terminal state.
  All paths below are relative to \<open>src/internal\<close>, except those under \<open>cmd\<close>, which is \<open>src/cmd\<close>.

  \<^bold>\<open>The agent's side\<close>

  \<^item> \<open>Binlog_Types\<close> (\<open>binlog/transaction.go\<close>, \<open>gtid.go\<close>, \<open>schema_fetcher.go\<close>): the data model. GTID sets, SHA-256 and
    the printing of arbitrary values are a parameter (\<open>gtid_lib\<close> and function arguments).
  \<^item> \<open>Binlog_Reader\<close> (\<open>binlog/reader.go\<close>): which files are scanned.
  \<^item> \<open>Binlog_Engine\<close>, \<open>Binlog_Engine_Props\<close> (\<open>binlog/engine.go\<close>, \<open>source.go\<close>): events to transactions. The parser's
    output is a list of deliveries; \<open>handleEvent\<close> steps a \<open>scan_state\<close> (the pending transaction, the table
    maps, the transactions sent so far). C1, C2.
  \<^item> \<open>Reverse\<close>, \<open>Reverse_Sem\<close> (\<open>reverse/generator.go\<close>): the generated text, and its meaning: a reader of the
    literals, a small syntax of statements with a printer, and their execution on multisets of rows. C7 - C9.
  \<^item> \<open>Scan\<close> (\<open>scan/scan.go\<close>): the stream of results of a scan; C18 rests on it.
  \<^item> \<open>Executor\<close>, \<open>Executor_Props\<close> (\<open>executor/*.go\<close>): batched execution over any database driver. The checkpoint
    store is an interface: the locale \<open>checkpoint_store\<close> holds its contract, the in-memory and the file store
    interpret it. C12, C13.
  \<^item> \<open>Fs\<close>, \<open>Checkpoint_Manager\<close> (\<open>checkpoint/manager.go\<close>): files whose every call can fail or tear, and the manager
    that writes checkpoints by temporary file and rename. C15.
  \<^item> \<open>Archive\<close>, \<open>Archive_Props\<close> (\<open>archive/archive.go\<close>): the writer that turns the replication stream into partial
    files and seals them. C33, C34.
  \<^item> \<open>In_Use_Flag\<close>, \<open>Collector\<close>, \<open>Collector_Props\<close> (\<open>collector/loop.go\<close>, \<open>state.go\<close>): the archive loop: filling gaps from
    the server's own files (with the CRC-32 repair of the in-use flag), following the stream one file at a
    time, recording where to go on. \<open>col_world\<close> holds the archive directory, the state file and the loop's memory,
    \<open>col_env\<close> answers what it asks of MySQL. C35, C38.
  \<^item> \<open>Daemon\<close> (\<open>daemon/*.go\<close>): scan and execute jobs, the registry of their contexts, and the stream events they send; the
    scan is \<open>Stream\<close> of \<open>Scan\<close>, the executor a parameter. \<open>Agent_Commands\<close> (\<open>ws/agent/dispatcher.go\<close>,
    \<open>cmd/agent/serve.go\<close>): the dispatcher and the command handlers. \<open>Agent_Props\<close>: C39, and that a cancel reaches
    the job it names.
  \<^item> \<open>Connector\<close>, \<open>Preflight\<close> (\<open>connector/mysql.go\<close>, \<open>types.go\<close>): what is asked of a MySQL server, over a record of its
    answers. \<open>Fk_Order\<close> (\<open>connector/fk.go\<close>): the topological sort of tables. C29.
  \<^item> \<open>Flashback\<close> (\<open>cmd/agent/flashback.go\<close>): the one-shot command, from its flags to the output. \<open>Undo_Order\<close>: in which order
    the statements of several transactions undo them. C25, C30.
  \<^item> \<open>Ws_Client\<close>, \<open>Ws_Client_Props\<close> (\<open>ws/agent/client.go\<close>, \<open>renewal.go\<close>): the agent's end of the connection, its backoff
    (with 64-bit arithmetic, panics as \<open>None\<close>) and the renewal of certificates. C5.
  \<^item> \<open>Config\<close>, \<open>Config_Props\<close> (\<open>config/*.go\<close>, \<open>cmd/agent/config.go\<close>, the checks of \<open>cmd/agent/serve.go\<close>): the encrypted
    configuration file, over any authenticated cipher (\<open>aead_lib\<close>): what is saved loads, and what loads was saved with the
    passphrase. \<open>Field_Text\<close>: a text form of lists with which the libraries that are parameters are instantiated.

  \<^bold>\<open>The server's side\<close>

  \<^item> \<open>Sql\<close>, \<open>Store_Org\<close>, \<open>Store_Org_Props\<close>, \<open>Store_Agent\<close> (\<open>server/org\<close>, \<open>server/agent\<close>, \<open>server/audit\<close>: \<open>store.go\<close>,
    \<open>sqlite.go\<close>): tables of rows with a driver that may fail at any call. The locale \<open>org_store\<close> is the interface
    \<open>OrgStore\<close>; both stores interpret it. C17. \<open>Migrate\<close> (\<open>server/store/migrate.go\<close>): the schema and its versions. C24.
  \<^item> \<open>Org_Handler\<close>, \<open>Org_Access\<close> (\<open>server/org/handler.go\<close>): the handlers of the organisations, with the reassignment of the
    agents of a deleted one. C4, C19. \<open>Agent_Handler\<close>, \<open>Agent_Access\<close> (\<open>server/agent/handler.go\<close>): those of the agents,
    and the hooks of the hub from \<open>server/server.go\<close>. C6.
  \<^item> \<open>Audit_Handler\<close>, \<open>Audit_Props\<close> (\<open>server/audit/sqlite.go\<close>, \<open>handler.go\<close>): both audit stores interpret \<open>audit_store\<close>; the
    query, and the export, read back by a reader of RFC 4180. C16, C36.
  \<^item> \<open>Auth\<close>, \<open>Auth_Props\<close> (\<open>server/auth/*.go\<close>): both user stores interpret \<open>user_store\<close>; tokens, the middleware and the
    handlers, over any library that signs and hashes (\<open>crypto_lib\<close>, \<open>crypto_ok\<close> what the code relies on). C14, C26, C40.
  \<^item> \<open>Hub\<close>, \<open>Hub_Props\<close> (\<open>ws/hub/*.go\<close>): the server's end of the connections. \<open>hub_step\<close> is the step relation of its
    goroutines, \<open>hub_reach\<close> what they reach; a call of \<open>SendToAgent\<close> is two steps around its wait. C32.
  \<^item> \<open>Ca\<close>, \<open>Ca_Props\<close> (\<open>ws/ca/*.go\<close>): the certificate authority over any library for X.509 (\<open>pki_lib\<close>); both storages
    interpret \<open>cert_storage\<close>. C11, C37.
  \<^item> \<open>Ws_Types\<close> (\<open>ws/types.go\<close>), \<open>Time_Format\<close>: commands, responses and events; RFC 3339 time stamps.
  \<^item> \<open>Pitr_State\<close> (\<open>server/pitr/state.go\<close>): the transition table, and \<open>op_move\<close>, the step relation it stands for.
  \<^item> \<open>Pitr_Store\<close> (\<open>server/pitr/store.go\<close>, \<open>model.go\<close>, \<open>server/store/checkpoint.go\<close>): the operation store.
  \<^item> \<open>Pitr_World\<close> (\<open>server/pitr/events.go\<close>, parts of \<open>handler.go\<close>): the state of the server (\<open>pworld\<close>: the stores, the
    previews, the event bus, the clock), staging, audit entries and transitions.
  \<^item> \<open>Pitr_Stream\<close>, \<open>Pitr_Handler\<close>, \<open>Pitr_Actions\<close> (\<open>server/pitr/handler.go\<close>): stream events and the HTTP handlers.
  \<^item> \<open>Pitr_Legal\<close>: the preorder of legal changes of the world and the lemma that every handler stays within it.
  \<^item> \<open>Pitr_Props\<close>, \<open>Pitr_Flow\<close>, \<open>Pitr_Races\<close>, \<open>Pitr_Access\<close>: the properties C21 - C23, C27 and C28 of the server, and what its
    races can do.
  \<^item> \<open>Server\<close> (\<open>server/server.go\<close>, \<open>router.go\<close>): all calls of the assembled server, \<open>server_do\<close>, on one world: what any
    sequence of them does to operations (C20) and to the approval of agents (C3).

  \<^bold>\<open>Both sides\<close>

  \<^item> \<open>Command_Trip\<close>: a command through hub, client and dispatcher and its answer back (C10). \<open>End_To_End\<close>: the events of a
    scan job delivered to the server give the preview of that scan, and what is selected from it is what the agent's
    executor gets (C18, C31). \<open>Agent_Answers\<close>: the archive state and the MySQL version that the server reads out of the
    agent's answers are those of the agent.

  \<^bold>\<open>Concurrency, time and failure\<close>

  Handlers run concurrently in the program. The model gives every handler its own snapshot of the operation
  and an explicit world; what others do while a command is under way is the parameter \<open>pe_send\<close> of the
  environment, which answers a command and may replace the world. Properties assume of it only that it moves
  the world legally, and some take it to be a particular racing event. Clocks, random bytes and I/O faults
  are fields of the state and universally quantified.

  \<^bold>\<open>Loops\<close>

  All loops are structural recursion on the list they walk, except: the batch loops of the executor and the connector
  (the number of statements left), the worklist of the topological sort (queue length and positive degrees), the digit
  and unit loops, and the archive loop \<open>syncLoop\<close>, which may run forever: \<open>sync_rounds\<close> takes the number of rounds as
  fuel and gives \<open>None\<close> when it is used up. C35 shows how many rounds are enough: one for each closed file and one more.

  \<^bold>\<open>Not modelled\<close>

  Sockets, TLS and timers (connecting, writing and reading are outcomes given to the steps), command line flags and process setup, static files and the web front end; the wording of log output. HTTP error bodies hold the error value. Events of different
  jobs of an agent are not interleaved: a job ends in one step, which keeps the order within an operation.
\<close>

end
